(* ===== verification/Gate_Prelude.thy ===== *)
theory Gate_Prelude
  imports Main "HOL-Library.Char_ord" "HOL-Library.List_Lexorder"
begin

text \<open>
  Shared vocabulary of the HarborGate development: results of fallible operations, the byte-level
  operations on UTF-8 strings that the Rust sources use (\<^verbatim>\<open>trim\<close>, \<^verbatim>\<open>strip_prefix\<close>,
  \<^verbatim>\<open>split_once\<close>, ASCII classes), unsigned saturating arithmetic, and the generic list lemmas the
  component theories use. A Rust \<^verbatim>\<open>String\<close> is the list of its UTF-8 bytes, so \<^verbatim>\<open>len()\<close> is
  \<open>length\<close> and a character beyond ASCII is several elements.
\<close>

named_theorems gate_simps \<open>evaluation rules of the model\<close>
named_theorems gate_defs \<open>definitions unfolded when an operation is analysed branch by branch\<close>

type_synonym instant = int \<comment> \<open>nanoseconds since the Unix epoch\<close>

section \<open>Results\<close>

text \<open>\<open>Inl\<close> is Rust's \<^verbatim>\<open>Err\<close>, \<open>Inr\<close> its \<^verbatim>\<open>Ok\<close>; \<open>rbind\<close> is the \<^verbatim>\<open>?\<close> operator.\<close>

fun rbind :: "'e + 'a \<Rightarrow> ('a \<Rightarrow> 'e + 'b) \<Rightarrow> 'e + 'b" where
  "rbind (Inl e) f = Inl e"
| "rbind (Inr x) f = f x"

definition ok_or :: "'e \<Rightarrow> 'a option \<Rightarrow> 'e + 'a" where
  "ok_or e x = (case x of None \<Rightarrow> Inl e | Some y \<Rightarrow> Inr y)"

definition guard_or :: "'e \<Rightarrow> bool \<Rightarrow> 'e + unit" where
  "guard_or e b = (if b then Inr () else Inl e)"

lemma rbind_eq_Inr [simp]: "rbind m f = Inr y \<longleftrightarrow> (\<exists>x. m = Inr x \<and> f x = Inr y)"
  by (cases m) auto

lemma rbind_eq_Inl: "rbind m f = Inl e \<longleftrightarrow> m = Inl e \<or> (\<exists>x. m = Inr x \<and> f x = Inl e)"
  by (cases m) auto

lemma rbind_cong [fundef_cong]:
  "m = m' \<Longrightarrow> (\<And>x. m' = Inr x \<Longrightarrow> f x = f' x) \<Longrightarrow> rbind m f = rbind m' f'"
  by (cases m') auto

lemma rbind_assoc: "rbind (rbind m f) g = rbind m (\<lambda>x. rbind (f x) g)"
  by (cases m) auto

lemma ok_or_simps [simp]: "ok_or e None = Inl e" "ok_or e (Some x) = Inr x"
  by (simp_all add: ok_or_def)

lemma ok_or_eq_Inr [simp]: "ok_or e x = Inr y \<longleftrightarrow> x = Some y"
  by (cases x) auto

lemma ok_or_eq_Inl [simp]: "ok_or e x = Inl e' \<longleftrightarrow> x = None \<and> e' = e"
  by (cases x) auto

lemma guard_or_simps [simp]: "guard_or e True = Inr ()" "guard_or e False = Inl e"
  by (simp_all add: guard_or_def)

lemma guard_or_eq_Inr [simp]: "guard_or e b = Inr u \<longleftrightarrow> b"
  by (simp add: guard_or_def)

lemma guard_or_eq_Inl [simp]: "guard_or e b = Inl e' \<longleftrightarrow> \<not> b \<and> e' = e"
  by (auto simp: guard_or_def)

fun isOk :: "'e + 'a \<Rightarrow> bool" where
  "isOk (Inl e) = False"
| "isOk (Inr x) = True"

section \<open>Bounded integers\<close>

definition u64_max :: nat where
  "u64_max = 18446744073709551615"

definition i64_max :: int where
  "i64_max = 9223372036854775807"

definition i64_min :: int where
  "i64_min = -9223372036854775808"

definition saturating_add :: "nat \<Rightarrow> nat \<Rightarrow> nat" where
  "saturating_add a b = min u64_max (a + b)"

lemma saturating_add_le_max [simp]: "saturating_add a b \<le> u64_max"
  by (simp add: saturating_add_def)

lemma saturating_add_ge: "a \<le> u64_max \<Longrightarrow> a \<le> saturating_add a b"
  by (simp add: saturating_add_def)

lemma saturating_add_exact: "a + b \<le> u64_max \<Longrightarrow> saturating_add a b = a + b"
  by (simp add: saturating_add_def)

section \<open>Bytes and UTF-8 strings\<close>

definition is_ascii_digit :: "char \<Rightarrow> bool" where
  "is_ascii_digit c \<longleftrightarrow> CHR ''0'' \<le> c \<and> c \<le> CHR ''9''"

definition is_ascii_lowercase :: "char \<Rightarrow> bool" where
  "is_ascii_lowercase c \<longleftrightarrow> CHR ''a'' \<le> c \<and> c \<le> CHR ''z''"

definition is_ascii_uppercase :: "char \<Rightarrow> bool" where
  "is_ascii_uppercase c \<longleftrightarrow> CHR ''A'' \<le> c \<and> c \<le> CHR ''Z''"

definition is_ascii_alphanumeric :: "char \<Rightarrow> bool" where
  "is_ascii_alphanumeric c \<longleftrightarrow> is_ascii_digit c \<or> is_ascii_lowercase c \<or> is_ascii_uppercase c"

definition is_ascii_hexdigit :: "char \<Rightarrow> bool" where
  "is_ascii_hexdigit c \<longleftrightarrow> is_ascii_digit c
     \<or> (CHR ''a'' \<le> c \<and> c \<le> CHR ''f'') \<or> (CHR ''A'' \<le> c \<and> c \<le> CHR ''F'')"

text \<open>A continuation byte of UTF-8: every other byte starts a character.\<close>

definition is_cont_byte :: "char \<Rightarrow> bool" where
  "is_cont_byte c \<longleftrightarrow> CHR 0x80 \<le> c \<and> c \<le> CHR 0xBF"

definition chars_count :: "string \<Rightarrow> nat" where
  "chars_count s = length (filter (\<lambda>c. \<not> is_cont_byte c) s)"

text \<open>The characters with the Unicode property White\_Space, encoded.\<close>

definition whitespace_seqs :: "string list" where
  "whitespace_seqs =
    [[CHR 0x09], [CHR 0x0A], [CHR 0x0B], [CHR 0x0C], [CHR 0x0D], [CHR 0x20],
     [CHR 0xC2, CHR 0x85], [CHR 0xC2, CHR 0xA0], [CHR 0xE1, CHR 0x9A, CHR 0x80],
     [CHR 0xE2, CHR 0x80, CHR 0x80], [CHR 0xE2, CHR 0x80, CHR 0x81],
     [CHR 0xE2, CHR 0x80, CHR 0x82], [CHR 0xE2, CHR 0x80, CHR 0x83],
     [CHR 0xE2, CHR 0x80, CHR 0x84], [CHR 0xE2, CHR 0x80, CHR 0x85],
     [CHR 0xE2, CHR 0x80, CHR 0x86], [CHR 0xE2, CHR 0x80, CHR 0x87],
     [CHR 0xE2, CHR 0x80, CHR 0x88], [CHR 0xE2, CHR 0x80, CHR 0x89],
     [CHR 0xE2, CHR 0x80, CHR 0x8A], [CHR 0xE2, CHR 0x80, CHR 0xA8],
     [CHR 0xE2, CHR 0x80, CHR 0xA9], [CHR 0xE2, CHR 0x80, CHR 0xAF],
     [CHR 0xE2, CHR 0x81, CHR 0x9F], [CHR 0xE3, CHR 0x80, CHR 0x80]]"

fun strip_prefix :: "string \<Rightarrow> string \<Rightarrow> string option" where
  "strip_prefix [] s = Some s"
| "strip_prefix (p # ps) [] = None"
| "strip_prefix (p # ps) (c # cs) = (if p = c then strip_prefix ps cs else None)"

fun strip_any :: "string list \<Rightarrow> string \<Rightarrow> string option" where
  "strip_any [] s = None"
| "strip_any (w # ws) s = (case strip_prefix w s of Some r \<Rightarrow> Some r | None \<Rightarrow> strip_any ws s)"

lemma strip_prefix_Some [simp]: "strip_prefix p s = Some r \<longleftrightarrow> s = p @ r"
  by (induction p s rule: strip_prefix.induct) auto

lemma strip_any_Some: "strip_any ws s = Some r \<Longrightarrow> \<exists>w \<in> set ws. s = w @ r"
  by (induction ws) (auto split: option.splits)

text \<open>
  \<open>strip_ws\<close> removes encoded whitespace characters from the front; the tables are arguments so
  that the same loop trims the end of the reversed byte string.
\<close>

function strip_ws :: "string list \<Rightarrow> string \<Rightarrow> string" where
  "strip_ws ws s = (case strip_any ws s of
      None \<Rightarrow> s
    | Some r \<Rightarrow> if length r < length s then strip_ws ws r else s)"
  by pat_completeness auto
termination
  by (relation "measure (\<lambda>(ws, s). length s)") auto

declare strip_ws.simps [simp del]

definition trim_start :: "string \<Rightarrow> string" where
  "trim_start s = strip_ws whitespace_seqs s"

definition trim_end :: "string \<Rightarrow> string" where
  "trim_end s = rev (strip_ws (map rev whitespace_seqs) (rev s))"

definition trim :: "string \<Rightarrow> string" where
  "trim s = trim_end (trim_start s)"

lemma strip_ws_suffix: "\<exists>p. s = p @ strip_ws ws s"
proof (induction ws s rule: strip_ws.induct)
  case (1 ws s)
  show ?case
  proof (cases "strip_any ws s")
    case None
    then show ?thesis by (simp add: strip_ws.simps)
  next
    case (Some r)
    obtain w where w: "s = w @ r" using strip_any_Some [OF Some] by auto
    show ?thesis
    proof (cases "length r < length s")
      case True
      with 1 [OF Some True] obtain p where "r = p @ strip_ws ws r" by auto
      with Some True w have "s = (w @ p) @ strip_ws ws s"
        by (subst strip_ws.simps) (simp)
      then show ?thesis by blast
    next
      case False
      with Some show ?thesis by (subst strip_ws.simps) simp
    qed
  qed
qed

lemma strip_any_hd: "strip_any ws (c # cs) = None"
  if "\<forall>w \<in> set ws. w \<noteq> [] \<and> hd w \<noteq> c"
  using that
proof (induction ws)
  case (Cons w ws)
  then show ?case by (cases w) auto
qed simp

lemma strip_ws_hd: "strip_ws ws (c # cs) = c # cs"
  if "\<forall>w \<in> set ws. w \<noteq> [] \<and> hd w \<noteq> c"
  using strip_any_hd [OF that] by (subst strip_ws.simps) simp

lemma strip_ws_Nil [simp]: "strip_ws ws [] = []"
  by (subst strip_ws.simps) (auto split: option.splits)

text \<open>The bytes that can begin, respectively end, an encoded whitespace character.\<close>

definition ws_bytes :: "char list" where
  "ws_bytes = [CHR 0x09, CHR 0x0A, CHR 0x0B, CHR 0x0C, CHR 0x0D, CHR 0x20,
     CHR 0xC2, CHR 0xE1, CHR 0xE2, CHR 0xE3,
     CHR 0x80, CHR 0x81, CHR 0x82, CHR 0x83, CHR 0x84, CHR 0x85, CHR 0x86, CHR 0x87,
     CHR 0x88, CHR 0x89, CHR 0x8A, CHR 0x9F, CHR 0xA0, CHR 0xA8, CHR 0xA9, CHR 0xAF]"

lemma ws_heads: "\<forall>w \<in> set whitespace_seqs. w \<noteq> [] \<and> hd w \<in> set ws_bytes"
  by (simp add: whitespace_seqs_def ws_bytes_def)

lemma ws_lasts: "\<forall>w \<in> set (map rev whitespace_seqs). w \<noteq> [] \<and> hd w \<in> set ws_bytes"
  by (simp add: whitespace_seqs_def ws_bytes_def)

lemma trim_Nil [simp]: "trim [] = []"
  by (simp add: trim_def trim_start_def trim_end_def)

lemma trim_id: "trim s = s" if "s \<noteq> []" "hd s \<notin> set ws_bytes" "last s \<notin> set ws_bytes"
proof -
  have "trim_start s = s"
    using that(1,2) ws_heads by (cases s) (auto simp: trim_start_def intro!: strip_ws_hd)
  moreover have "trim_end s = s"
  proof -
    from that(1) have ab: "s = butlast s @ [last s]" by simp
    have "\<forall>w \<in> set (map rev whitespace_seqs). w \<noteq> [] \<and> hd w \<noteq> last s"
      using ws_lasts that(3) by metis
    then have "strip_ws (map rev whitespace_seqs) (last s # rev (butlast s)) = last s # rev (butlast s)"
      by (rule strip_ws_hd)
    moreover have "rev s = last s # rev (butlast s)" by (subst ab) simp
    ultimately have "strip_ws (map rev whitespace_seqs) (rev s) = rev s" by (simp only:)
    then show ?thesis by (simp add: trim_end_def)
  qed
  ultimately show ?thesis by (simp add: trim_def)
qed

lemma set_trim: "set (trim s) \<subseteq> set s"
proof -
  obtain p where p: "s = p @ trim_start s"
    using strip_ws_suffix by (metis trim_start_def)
  obtain q where "rev (trim_start s) = q @ rev (trim_end (trim_start s))"
    using strip_ws_suffix by (metis rev_rev_ident trim_end_def)
  then have "set (trim_end (trim_start s)) \<subseteq> set (trim_start s)"
    by (metis Un_upper2 set_append set_rev)
  with p show ?thesis unfolding trim_def by (metis Un_iff set_append subset_iff)
qed

text \<open>\<^verbatim>\<open>split_once\<close> on a one-byte separator.\<close>

fun split_once :: "char \<Rightarrow> string \<Rightarrow> (string \<times> string) option" where
  "split_once d [] = None"
| "split_once d (c # cs) =
     (if c = d then Some ([], cs)
      else case split_once d cs of None \<Rightarrow> None | Some (a, b) \<Rightarrow> Some (c # a, b))"

lemma split_once_Some: "split_once d s = Some (a, b) \<Longrightarrow> s = a @ d # b \<and> d \<notin> set a"
  by (induction s arbitrary: a) (auto split: if_splits option.splits)

lemma split_once_None: "split_once d s = None \<longleftrightarrow> d \<notin> set s"
  by (induction s) (auto split: option.splits)

lemma split_once_append: "d \<notin> set a \<Longrightarrow> split_once d (a @ d # b) = Some (a, b)"
  by (induction a) auto

section \<open>Lists\<close>

lemma length_drop_diff: "n \<le> length xs \<Longrightarrow> length (drop (length xs - n) xs) = n"
  by simp

fun find_index_from :: "nat \<Rightarrow> ('a \<Rightarrow> bool) \<Rightarrow> 'a list \<Rightarrow> nat option" where
  "find_index_from i p [] = None"
| "find_index_from i p (x # xs) = (if p x then Some i else find_index_from (Suc i) p xs)"

text \<open>\<^verbatim>\<open>iter_mut().find(p)\<close> followed by an update of the element found.\<close>

fun update_first :: "('a \<Rightarrow> bool) \<Rightarrow> ('a \<Rightarrow> 'a) \<Rightarrow> 'a list \<Rightarrow> 'a list" where
  "update_first p f [] = []"
| "update_first p f (x # xs) = (if p x then f x # xs else x # update_first p f xs)"

lemma update_first_split:
  "find p xs = Some x \<Longrightarrow>
   \<exists>as bs. xs = as @ x # bs \<and> (\<forall>y \<in> set as. \<not> p y) \<and> p x \<and> update_first p f xs = as @ f x # bs"
proof (induction xs)
  case (Cons y ys)
  show ?case
  proof (cases "p y")
    case True
    with Cons.prems show ?thesis by (auto intro: exI [of _ "[]"])
  next
    case False
    with Cons obtain as bs where "ys = as @ x # bs" "\<forall>z \<in> set as. \<not> p z" "p x"
        "update_first p f ys = as @ f x # bs"
      by auto
    with False have "y # ys = (y # as) @ x # bs \<and> (\<forall>z \<in> set (y # as). \<not> p z) \<and> p x
        \<and> update_first p f (y # ys) = (y # as) @ f x # bs"
      by simp
    then show ?thesis by blast
  qed
qed simp

lemma find_Some_in: "find p xs = Some x \<Longrightarrow> x \<in> set xs \<and> p x"
  by (induction xs) (auto split: if_splits)

lemma find_None_all: "find p xs = None \<longleftrightarrow> (\<forall>x \<in> set xs. \<not> p x)"
  by (induction xs) auto

end
