(* ===== verification/Json_Value.thy ===== *)
theory Json_Value
  imports Gate_Prelude
begin

text \<open>
  The \<^verbatim>\<open>serde_json::Value\<close> the sources pass around. An object is \<^verbatim>\<open>serde_json::Map\<close>, a
  \<^verbatim>\<open>BTreeMap\<close> (the feature \<^verbatim>\<open>preserve_order\<close> is off): an association list ordered by key bytes.
  The same list type models the \<^verbatim>\<open>BTreeMap<String, Value>\<close> of the shared ledgers. An integer
  number is \<open>JInt\<close>, any other number keeps its text in \<open>JFloat\<close>.
\<close>

datatype json =
    JNull
  | JBool bool
  | JInt int
  | JFloat string
  | JStr string
  | JArr "json list"
  | JObj "(string \<times> json) list"

section \<open>Ordered maps\<close>

text \<open>
  \<open>oput\<close> is \<^verbatim>\<open>BTreeMap::insert\<close>, \<open>oget\<close> its \<^verbatim>\<open>get\<close>, \<open>odel\<close> its \<^verbatim>\<open>remove\<close>.
\<close>

fun oput :: "string \<Rightarrow> 'v \<Rightarrow> (string \<times> 'v) list \<Rightarrow> (string \<times> 'v) list" where
  "oput k v [] = [(k, v)]"
| "oput k v ((a, b) # m) =
     (if k < a then (k, v) # (a, b) # m
      else if k = a then (k, v) # m
      else (a, b) # oput k v m)"

definition oget :: "(string \<times> 'v) list \<Rightarrow> string \<Rightarrow> 'v option" where
  "oget m k = map_of m k"

definition odel :: "string \<Rightarrow> (string \<times> 'v) list \<Rightarrow> (string \<times> 'v) list" where
  "odel k m = filter (\<lambda>e. fst e \<noteq> k) m"

definition owf :: "(string \<times> 'v) list \<Rightarrow> bool" where
  "owf m \<longleftrightarrow> sorted (map fst m) \<and> distinct (map fst m)"

text \<open>The contract of an ordered map, and what its clients need of it.\<close>

locale ordered_map =
  fixes put :: "string \<Rightarrow> 'v \<Rightarrow> 'm \<Rightarrow> 'm"
    and get :: "'m \<Rightarrow> string \<Rightarrow> 'v option"
    and del :: "string \<Rightarrow> 'm \<Rightarrow> 'm"
    and wf :: "'m \<Rightarrow> bool"
  assumes get_put: "get (put k v m) k' = (if k' = k then Some v else get m k')"
    and get_del: "get (del k m) k' = (if k' = k then None else get m k')"
    and wf_put: "wf m \<Longrightarrow> wf (put k v m)"
    and wf_del: "wf m \<Longrightarrow> wf (del k m)"
    and extensional: "wf m \<Longrightarrow> wf m' \<Longrightarrow> (\<And>k. get m k = get m' k) \<Longrightarrow> m = m'"
begin

lemma put_put_same: "wf m \<Longrightarrow> put k w (put k v m) = put k w m"
  by (rule extensional) (auto simp: wf_put get_put)

lemma put_put_swap: "wf m \<Longrightarrow> k \<noteq> k' \<Longrightarrow> put k v (put k' w m) = put k' w (put k v m)"
  by (rule extensional) (auto simp: wf_put get_put)

lemma put_same_id: "wf m \<Longrightarrow> get m k = Some v \<Longrightarrow> put k v m = m"
  by (rule extensional) (auto simp: wf_put get_put)

lemma del_put_same: "wf m \<Longrightarrow> get m k = None \<Longrightarrow> del k (put k v m) = m"
  by (rule extensional) (auto simp: wf_put wf_del get_put get_del)

end

lemma set_keys_oput: "set (map fst (oput k v m)) = insert k (set (map fst m))"
  by (induction k v m rule: oput.induct) auto

lemma owf_oput: "owf m \<Longrightarrow> owf (oput k v m)"
proof (induction k v m rule: oput.induct)
  case (2 k v a b m)
  show ?case
  proof (cases "k < a")
    case True
    with 2 show ?thesis by (fastforce simp: owf_def)
  next
    case nlt: False
    show ?thesis
    proof (cases "k = a")
      case True
      with 2 show ?thesis by (auto simp: owf_def)
    next
      case False
      with nlt have "a < k" by simp
      from 2 nlt False have "owf (oput k v m)" by (auto simp: owf_def)
      with 2(2) nlt False \<open>a < k\<close> show ?thesis
        using set_keys_oput [of k v m] by (auto simp: owf_def image_iff)
    qed
  qed
qed (simp add: owf_def)

lemma oget_oput: "oget (oput k v m) k' = (if k' = k then Some v else oget m k')"
  by (induction k v m rule: oput.induct) (auto simp: oget_def)

lemma oget_odel: "oget (odel k m) k' = (if k' = k then None else oget m k')"
  by (induction m) (auto simp: oget_def odel_def)

lemma owf_odel: "owf m \<Longrightarrow> owf (odel k m)"
  by (auto simp: owf_def odel_def distinct_map_filter intro: sorted_filter)

lemma owf_graph: "distinct (map fst m) \<Longrightarrow> map (\<lambda>k. (k, the (oget m k))) (map fst m) = m"
  by (auto simp: oget_def map_of_is_SomeI intro!: map_idI)

lemma keys_oget: "set (map fst m) = {k. oget m k \<noteq> None}"
  by (auto simp: oget_def map_of_eq_None_iff)

lemma owf_ext:
  assumes wf: "owf m" "owf m'" and eq: "\<And>k. oget m k = oget m' k"
  shows "m = m'"
proof -
  have "set (map fst m) = set (map fst m')" by (simp only: keys_oget eq)
  then have keys: "map fst m = map fst m'"
    using wf by (intro sorted_distinct_set_unique) (simp_all add: owf_def)
  have "m = map (\<lambda>k. (k, the (oget m k))) (map fst m)"
    using wf(1) by (simp only: owf_def owf_graph)
  also have "\<dots> = map (\<lambda>k. (k, the (oget m' k))) (map fst m')"
    by (simp only: keys eq)
  also have "\<dots> = m'"
    using wf(2) by (simp only: owf_def owf_graph)
  finally show ?thesis .
qed

interpretation omap: ordered_map oput oget odel owf
  by unfold_locales (auto simp: oget_oput oget_odel owf_oput owf_odel intro: owf_ext)

lemmas oget_simps [simp] = omap.get_put omap.get_del

lemma oget_Nil [simp]: "oget [] k = None"
  by (simp add: oget_def)

lemma oget_Cons [simp]: "oget ((a, b) # m) k = (if k = a then Some b else oget m k)"
  by (simp add: oget_def)

text \<open>\<^verbatim>\<open>json!\<close> object literals and the fold of inserts they expand to.\<close>

fun oputs :: "(string \<times> 'v) list \<Rightarrow> (string \<times> 'v) list \<Rightarrow> (string \<times> 'v) list" where
  "oputs [] m = m"
| "oputs ((k, v) # kvs) m = oputs kvs (oput k v m)"

lemma owf_oputs: "owf m \<Longrightarrow> owf (oputs kvs m)"
  by (induction kvs m rule: oputs.induct) (auto simp: omap.wf_put)

definition jobj :: "(string \<times> json) list \<Rightarrow> json" where
  "jobj kvs = JObj (oputs kvs [])"

section \<open>Accessors\<close>

fun jget :: "json \<Rightarrow> string \<Rightarrow> json option" where
  "jget (JObj m) k = oget m k"
| "jget _ k = None"

text \<open>Indexing \<^verbatim>\<open>value["k"]\<close> for reading: a missing member reads as null.\<close>

definition jindex :: "json \<Rightarrow> string \<Rightarrow> json" where
  "jindex j k = (case jget j k of None \<Rightarrow> JNull | Some v \<Rightarrow> v)"

fun as_str :: "json \<Rightarrow> string option" where
  "as_str (JStr s) = Some s"
| "as_str _ = None"

fun as_bool :: "json \<Rightarrow> bool option" where
  "as_bool (JBool b) = Some b"
| "as_bool _ = None"

fun as_u64 :: "json \<Rightarrow> nat option" where
  "as_u64 (JInt i) = (if 0 \<le> i \<and> i \<le> int u64_max then Some (nat i) else None)"
| "as_u64 _ = None"

fun as_i64 :: "json \<Rightarrow> int option" where
  "as_i64 (JInt i) = (if i64_min \<le> i \<and> i \<le> i64_max then Some i else None)"
| "as_i64 _ = None"

fun as_array :: "json \<Rightarrow> json list option" where
  "as_array (JArr xs) = Some xs"
| "as_array _ = None"

fun as_object :: "json \<Rightarrow> (string \<times> json) list option" where
  "as_object (JObj m) = Some m"
| "as_object _ = None"

definition is_object :: "json \<Rightarrow> bool" where
  "is_object j \<longleftrightarrow> as_object j \<noteq> None"

definition is_array :: "json \<Rightarrow> bool" where
  "is_array j \<longleftrightarrow> as_array j \<noteq> None"

text \<open>\<^verbatim>\<open>v.get(k).and_then(Value::as_str)\<close> and its relatives.\<close>

definition get_str :: "json \<Rightarrow> string \<Rightarrow> string option" where
  "get_str j k = Option.bind (jget j k) as_str"

definition get_bool :: "json \<Rightarrow> string \<Rightarrow> bool option" where
  "get_bool j k = Option.bind (jget j k) as_bool"

definition get_u64 :: "json \<Rightarrow> string \<Rightarrow> nat option" where
  "get_u64 j k = Option.bind (jget j k) as_u64"

definition jstr_opt :: "string option \<Rightarrow> json" where
  "jstr_opt x = (case x of None \<Rightarrow> JNull | Some s \<Rightarrow> JStr s)"

lemma as_object_Some [simp]: "as_object j = Some m \<longleftrightarrow> j = JObj m"
  by (cases j) auto

lemma as_array_Some [simp]: "as_array j = Some xs \<longleftrightarrow> j = JArr xs"
  by (cases j) auto

lemma as_str_Some [simp]: "as_str j = Some s \<longleftrightarrow> j = JStr s"
  by (cases j) auto

lemma as_bool_Some [simp]: "as_bool j = Some b \<longleftrightarrow> j = JBool b"
  by (cases j) auto

lemma get_str_Some [simp]: "get_str j k = Some s \<longleftrightarrow> jget j k = Some (JStr s)"
  by (auto simp: get_str_def bind_eq_Some_conv)

lemma get_str_None [simp]: "get_str j k = None \<longleftrightarrow> (\<forall>s. jget j k \<noteq> Some (JStr s))"
  by (metis get_str_Some not_None_eq)

lemma get_bool_Some [simp]: "get_bool j k = Some b \<longleftrightarrow> jget j k = Some (JBool b)"
  by (auto simp: get_bool_def bind_eq_Some_conv)

lemma jget_Some_obj: "jget j k = Some v \<Longrightarrow> \<exists>m. j = JObj m \<and> oget m k = Some v"
  by (cases j) auto

lemma oget_oputs: "oget (oputs kvs m) k = (case map_of (rev kvs) k of Some v \<Rightarrow> Some v | None \<Rightarrow> oget m k)"
  by (induction kvs m rule: oputs.induct) (auto split: option.splits simp: map_add_def)

lemma jget_jobj: "jget (jobj kvs) k = map_of (rev kvs) k"
  by (simp add: jobj_def oget_oputs split: option.splits)

section \<open>Well-formed values\<close>

text \<open>
  The values the Rust type can hold: objects ordered and without duplicate keys, integers within
  the ranges of \<^verbatim>\<open>u64\<close> and \<^verbatim>\<open>i64\<close>, and floats by the canonical text \<open>ft\<close> accepts.
\<close>

fun jwf :: "(string \<Rightarrow> bool) \<Rightarrow> json \<Rightarrow> bool" where
  "jwf ft JNull = True"
| "jwf ft (JBool b) = True"
| "jwf ft (JInt i) = (i64_min \<le> i \<and> i \<le> int u64_max)"
| "jwf ft (JFloat s) = ft s"
| "jwf ft (JStr s) = True"
| "jwf ft (JArr xs) = (\<forall>x \<in> set xs. jwf ft x)"
| "jwf ft (JObj m) = (owf m \<and> (\<forall>v \<in> set (map snd m). jwf ft v))"

lemma snd_oput_subset: "set (map snd (oput k v m)) \<subseteq> insert v (set (map snd m))"
  by (induction k v m rule: oput.induct) auto

lemma jwf_oput [intro]: "jwf ft v \<Longrightarrow> jwf ft (JObj m) \<Longrightarrow> jwf ft (JObj (oput k v m))"
proof -
  assume v: "jwf ft v" and m: "jwf ft (JObj m)"
  then have "\<forall>x \<in> insert v (set (map snd m)). jwf ft x" by auto
  with snd_oput_subset [of k v m] have "\<forall>x \<in> set (map snd (oput k v m)). jwf ft x" by blast
  with m show ?thesis by (simp add: omap.wf_put)
qed

lemma jwf_odel [intro]: "jwf ft (JObj m) \<Longrightarrow> jwf ft (JObj (odel k m))"
  by (auto simp: omap.wf_del) (auto simp: odel_def)

lemma jwf_oget: "jwf ft (JObj m) \<Longrightarrow> oget m k = Some v \<Longrightarrow> jwf ft v"
  by (auto simp: oget_def dest!: map_of_SomeD)

lemma jwf_jget: "jwf ft j \<Longrightarrow> jget j k = Some v \<Longrightarrow> jwf ft v"
  by (cases j) (auto intro: jwf_oget simp del: jwf.simps)

lemma jwf_oputs: "\<forall>kv \<in> set kvs. jwf ft (snd kv) \<Longrightarrow> jwf ft (JObj m) \<Longrightarrow> jwf ft (JObj (oputs kvs m))"
proof (induction kvs m rule: oputs.induct)
  case (2 k v kvs m)
  then have "jwf ft (JObj (oput k v m))" by (intro jwf_oput) auto
  with 2 show ?case by simp
qed simp

lemma jwf_jobj: "\<forall>kv \<in> set kvs. jwf ft (snd kv) \<Longrightarrow> jwf ft (jobj kvs)"
  unfolding jobj_def by (rule jwf_oputs) (auto simp: owf_def)

text \<open>Nesting depth: serde\_json refuses to read more than 127 levels.\<close>

fun jdepth :: "json \<Rightarrow> nat" where
  "jdepth (JArr xs) = Suc (foldr max (map jdepth xs) 0)"
| "jdepth (JObj m) = Suc (foldr max (map (\<lambda>kv. jdepth (snd kv)) m) 0)"
| "jdepth _ = 0"

lemma foldr_max_less: "foldr max ns (0::nat) < n \<longleftrightarrow> 0 < n \<and> (\<forall>k \<in> set ns. k < n)"
  by (induction ns) auto

lemma jdepth_obj_le: "jdepth (JObj m) \<le> n \<longleftrightarrow> 0 < n \<and> (\<forall>v \<in> snd ` set m. jdepth v < n)"
  by (auto simp: Suc_le_eq foldr_max_less)

lemma jdepth_arr_le: "jdepth (JArr vs) \<le> n \<longleftrightarrow> 0 < n \<and> (\<forall>v \<in> set vs. jdepth v < n)"
  by (auto simp: Suc_le_eq foldr_max_less)

lemma jdepth_oput: "jdepth (JObj m) \<le> n \<Longrightarrow> jdepth v < n \<Longrightarrow> jdepth (JObj (oput k v m)) \<le> n"
  using snd_oput_subset [of k v m] unfolding jdepth_obj_le by fastforce

lemma jdepth_oputs:
  "jdepth (JObj m) \<le> n \<Longrightarrow> \<forall>kv \<in> set kvs. jdepth (snd kv) < n \<Longrightarrow> jdepth (JObj (oputs kvs m)) \<le> n"
  by (induction kvs m rule: oputs.induct) (auto intro!: jdepth_oput simp del: jdepth.simps)

lemma jwf_jstr_opt [simp]: "jwf ft (jstr_opt x)"
  by (cases x) (simp_all add: jstr_opt_def)

end
