(* ===== verification/Durable_State.thy ===== *)
theory Durable_State
  imports Gate_Prelude
begin

text \<open>
  The read-modify-write pattern shared by the session store, the Navi route directory and the
  device-session store: take an exclusive lock, load the whole state file, run an action that may
  fail, and replace the file only when the action asks for it. \<open>transact\<close> is that pattern; the
  locale \<open>durable_state\<close> is the contract of the file access below it, and its lemmas say that the
  pattern is atomic with respect to the logical content of the file.
\<close>

definition transact ::
  "('d \<Rightarrow> ('e + 's) \<times> 'd) \<Rightarrow> ('s \<Rightarrow> 'd \<Rightarrow> ('e + unit) \<times> 'd) \<Rightarrow>
   ('s \<Rightarrow> 'e + ('r \<times> 's option)) \<Rightarrow> 'd \<Rightarrow> ('e + 'r) \<times> 'd" where
  "transact load save act d = (case load d of
      (Inl e, d1) \<Rightarrow> (Inl e, d1)
    | (Inr s, d1) \<Rightarrow> (case act s of
          Inl e \<Rightarrow> (Inl e, d1)
        | Inr (r, None) \<Rightarrow> (Inr r, d1)
        | Inr (r, Some s') \<Rightarrow> (case save s' d1 of
              (Inl e, d2) \<Rightarrow> (Inl e, d2)
            | (Inr u, d2) \<Rightarrow> (Inr r, d2))))"

text \<open>
  \<open>durable_write\<close>: a successful save is visible to later loads, a failing one leaves the old
  content or the new one. \<open>durable_state\<close> adds that a failing save leaves the old content.
\<close>

locale durable_write =
  fixes view :: "'d \<Rightarrow> 's option"
    and load :: "'d \<Rightarrow> ('e + 's) \<times> 'd"
    and save :: "'s \<Rightarrow> 'd \<Rightarrow> ('e + unit) \<times> 'd"
    and storable :: "'s \<Rightarrow> bool"
  assumes load_ok: "load d = (Inr s, d') \<Longrightarrow> view d = Some s \<and> view d' = Some s"
    and load_err: "load d = (Inl e, d') \<Longrightarrow> view d' = view d"
    and save_ok: "save s d = (Inr u, d') \<Longrightarrow> storable s \<Longrightarrow> view d' = Some s"
    and save_either: "save s d = (Inl e, d') \<Longrightarrow> storable s \<Longrightarrow> view d' = view d \<or> view d' = Some s"
begin

lemma transact_ok_read:
  "transact load save act d = (Inr r, d') \<Longrightarrow>
   \<exists>s w. view d = Some s \<and> act s = Inr (r, w)"
  by (auto simp: transact_def dest: load_ok split: prod.splits sum.splits option.splits)

lemma transact_ok_view:
  assumes "transact load save act d = (Inr r, d')"
    and "\<And>s r s'. view d = Some s \<Longrightarrow> act s = Inr (r, Some s') \<Longrightarrow> storable s'"
  shows "\<exists>s w. view d = Some s \<and> act s = Inr (r, w)
           \<and> view d' = Some (case w of None \<Rightarrow> s | Some s' \<Rightarrow> s')"
  using assms by (fastforce simp: transact_def dest: load_ok save_ok
      split: prod.splits sum.splits option.splits)

text \<open>Whatever the outcome, the content afterwards is the old one or the one the action asked for.\<close>

lemma transact_view_cases:
  assumes "transact load save act d = (res, d')"
    and "\<And>s r s'. view d = Some s \<Longrightarrow> act s = Inr (r, Some s') \<Longrightarrow> storable s'"
  shows "view d' = view d \<or> (\<exists>s r s'. view d = Some s \<and> act s = Inr (r, Some s') \<and> view d' = Some s')"
  using assms by (fastforce simp: transact_def dest: load_ok load_err save_ok save_either
      split: prod.splits sum.splits option.splits)

text \<open>An invariant of the content that the action keeps is kept by the transaction.\<close>

lemma transact_invariant:
  assumes "view d = Some s0" "P s0"
    and "\<And>s r s'. P s \<Longrightarrow> act s = Inr (r, Some s') \<Longrightarrow> storable s' \<and> P s'"
  shows "\<exists>s. view (snd (transact load save act d)) = Some s \<and> P s"
proof -
  have st: "\<And>s r s'. view d = Some s \<Longrightarrow> act s = Inr (r, Some s') \<Longrightarrow> storable s'"
    using assms by (metis option.sel)
  obtain res d' where t: "transact load save act d = (res, d')" by fastforce
  from transact_view_cases [OF t st]
  have "view d' = Some s0 \<or> (\<exists>r s'. act s0 = Inr (r, Some s') \<and> view d' = Some s')"
    using assms(1) by simp
  then show ?thesis
  proof (elim disjE exE conjE)
    fix r s' assume "act s0 = Inr (r, Some s')" "view d' = Some s'"
    with assms(3) [OF assms(2)] t show ?thesis by simp
  qed (use t assms(2) in simp)
qed

end

locale durable_state = durable_write view load save storable
  for view :: "'d \<Rightarrow> 's option" and load :: "'d \<Rightarrow> ('e + 's) \<times> 'd"
    and save :: "'s \<Rightarrow> 'd \<Rightarrow> ('e + unit) \<times> 'd" and storable :: "'s \<Rightarrow> bool" +
  assumes save_err: "save s d = (Inl e, d') \<Longrightarrow> view d' = view d"
begin

lemma transact_err_view: "transact load save act d = (Inl e, d') \<Longrightarrow> view d' = view d"
  by (auto simp: transact_def dest!: load_ok load_err save_err
      split: prod.splits sum.splits option.splits)

end

end
