(* ===== verification/File_Store.thy ===== *)
theory File_Store
  imports Json_Value Durable_State
begin

text \<open>
  The file layer of \<^verbatim>\<open>src/store.rs\<close>: the session root as a map from file names to bytes, the
  crash-safe shared maps (\<^verbatim>\<open>_routes.json\<close>, \<^verbatim>\<open>_deliveries.json\<close>, \<^verbatim>\<open>_delivery_items.json\<close>) with
  their backup recovery, the per-chat session files with their bounded history, the route
  registry and the delivery records.

  Code outside the repository is the record \<open>gate_env\<close>: chrono's RFC 3339 parser and printers and
  its largest instant, serde\_json's parser and printer, and Unicode lower-casing. The outcome of
  each operating-system call is an input, \<open>io\<close>: \<open>False\<close> makes the call fail. The clock is read
  once per operation, \<open>now\<close>.
\<close>

section \<open>Environment\<close>

record gate_env =
  parse_rfc3339 :: "string \<Rightarrow> instant option"
  to_rfc3339 :: "instant \<Rightarrow> string"
  rfc3339_secs :: "instant \<Rightarrow> string"
  max_utc :: instant
  from_str :: "string \<Rightarrow> json option"
  to_vec_pretty :: "json \<Rightarrow> string"
  f64_text :: "string \<Rightarrow> bool"
  to_lowercase :: "string \<Rightarrow> string"

record io =
  io_mkdir :: bool
  io_rename :: bool
  io_read :: bool
  io_unlink :: bool
  io_write :: bool
  io_open :: bool
  io_lock :: bool

definition io_good :: io where
  "io_good = \<lparr>io_mkdir = True, io_rename = True, io_read = True, io_unlink = True,
     io_write = True, io_open = True, io_lock = True\<rparr>"

text \<open>
  Documented behaviour relied on: serde\_json returns well-formed values and reads back the
  well-formed values it prints, both up to its recursion limit, and chrono parses the instants it prints (to the nanosecond,
  respectively cut to whole seconds).
\<close>

definition serde_ok :: "gate_env \<Rightarrow> bool" where
  "serde_ok env \<longleftrightarrow>
     (\<forall>v. jwf (f64_text env) v \<and> jdepth v \<le> 127 \<longrightarrow> from_str env (to_vec_pretty env v) = Some v)
   \<and> (\<forall>s v. from_str env s = Some v \<longrightarrow> jwf (f64_text env) v \<and> jdepth v \<le> 127)"

definition chrono_ok :: "gate_env \<Rightarrow> bool" where
  "chrono_ok env \<longleftrightarrow>
     (\<forall>t. t \<le> max_utc env \<longrightarrow> parse_rfc3339 env (to_rfc3339 env t) = Some t)
   \<and> (\<forall>t. t \<le> max_utc env \<longrightarrow>
          parse_rfc3339 env (rfc3339_secs env t) = Some (t - t mod 1000000000))"

definition utc_now_iso :: "gate_env \<Rightarrow> instant \<Rightarrow> string" where
  "utc_now_iso env now = rfc3339_secs env now"

text \<open>An \<^verbatim>\<open>anyhow::Error\<close> by its outermost message, or a panic.\<close>

datatype store_error = Bail string | Panic string

type_synonym disk = "string \<rightharpoonup> string"
type_synonym jmap = "(string \<times> json) list"

text \<open>Assignment \<^verbatim>\<open>value["k"] = v\<close>: null becomes an object, another non-object panics.\<close>

fun jset :: "string \<Rightarrow> json \<Rightarrow> json \<Rightarrow> store_error + json" where
  "jset k v (JObj m) = Inr (JObj (oput k v m))"
| "jset k v JNull = Inr (JObj [(k, v)])"
| "jset k v _ = Inl (Panic ''cannot access key in JSON value'')"

section \<open>Shared maps\<close>

text \<open>\<^verbatim>\<open>Path::with_extension("bak")\<close> on a file name.\<close>

definition with_extension :: "string \<Rightarrow> string \<Rightarrow> string" where
  "with_extension ext f = (case split_once CHR ''.'' (rev f) of
      None \<Rightarrow> f @ ''.'' @ ext
    | Some (re, rs) \<Rightarrow> if rs = [] then f @ ''.'' @ ext else rev rs @ ''.'' @ ext)"

definition backup_path :: "string \<Rightarrow> string" where
  "backup_path f = with_extension ''bak'' f"

definition recover_backup :: "io \<Rightarrow> string \<Rightarrow> disk \<Rightarrow> (store_error + unit) \<times> disk" where
  "recover_backup io f d =
    (case (d f, d (backup_path f)) of
       (None, Some bytes) \<Rightarrow>
         if io_rename io then (Inr (), d(backup_path f := None, f := Some bytes))
         else (Inl (Bail (''failed to recover shared map backup '' @ backup_path f)), d)
     | _ \<Rightarrow> (Inr (), d))"

definition decode_shared_map :: "gate_env \<Rightarrow> string \<Rightarrow> string \<Rightarrow> store_error + jmap" where
  "decode_shared_map env f raw =
    rbind (ok_or (Bail (''shared map '' @ f @ '' contains invalid JSON'')) (from_str env raw))
      (\<lambda>payload. ok_or (Bail (''shared map '' @ f @ '' must be a JSON object'')) (as_object payload))"

definition load_shared_map_unlocked ::
  "gate_env \<Rightarrow> io \<Rightarrow> string \<Rightarrow> disk \<Rightarrow> (store_error + jmap) \<times> disk" where
  "load_shared_map_unlocked env io f d = (case recover_backup io f d of
      (Inl e, d1) \<Rightarrow> (Inl e, d1)
    | (Inr u, d1) \<Rightarrow> (case d1 f of
          None \<Rightarrow> (Inr [], d1)
        | Some raw \<Rightarrow>
            if io_read io then (decode_shared_map env f raw, d1)
            else (Inl (Bail (''failed to read shared map '' @ f)), d1)))"

definition write_json :: "gate_env \<Rightarrow> io \<Rightarrow> string \<Rightarrow> json \<Rightarrow> disk \<Rightarrow> (store_error + unit) \<times> disk" where
  "write_json env io f payload d =
    (if \<not> io_mkdir io then (Inl (Bail ''create_dir_all''), d)
     else if d f \<noteq> None \<and> d (backup_path f) \<noteq> None \<and> \<not> io_unlink io then
       (Inl (Bail (''failed to remove stale backup '' @ backup_path f)), d)
     else
       (let d1 = (if d f \<noteq> None \<and> d (backup_path f) \<noteq> None
                  then d(backup_path f := None) else d)
        in if io_write io then (Inr (), d1(f := Some (to_vec_pretty env payload)))
           else (Inl (Bail (''failed to atomically replace '' @ f)), d1)))"

definition write_shared_map_unlocked ::
  "gate_env \<Rightarrow> io \<Rightarrow> string \<Rightarrow> jmap \<Rightarrow> disk \<Rightarrow> (store_error + unit) \<times> disk" where
  "write_shared_map_unlocked env io f m d = write_json env io f (JObj m) d"

text \<open>
  The logical content of a shared map: what a load without operating-system failures returns.
\<close>

definition shared_view :: "gate_env \<Rightarrow> string \<Rightarrow> disk \<Rightarrow> jmap option" where
  "shared_view env f d = (case (case d f of Some raw \<Rightarrow> Some raw | None \<Rightarrow> d (backup_path f)) of
      None \<Rightarrow> Some []
    | Some raw \<Rightarrow> (case decode_shared_map env f raw of Inl e \<Rightarrow> None | Inr m \<Rightarrow> Some m))"

definition storable :: "gate_env \<Rightarrow> jmap \<Rightarrow> bool" where
  "storable env m \<longleftrightarrow> from_str env (to_vec_pretty env (JObj m)) = Some (JObj m)"

lemma storable_jwf:
  "serde_ok env \<Longrightarrow> jwf (f64_text env) (JObj m) \<Longrightarrow> jdepth (JObj m) \<le> 127 \<Longrightarrow> storable env m"
  by (simp only: serde_ok_def storable_def)

lemma shared_view_jwf:
  "serde_ok env \<Longrightarrow> shared_view env f d = Some m \<Longrightarrow> jwf (f64_text env) (JObj m)"
  by (auto simp: shared_view_def decode_shared_map_def serde_ok_def owf_def simp del: jwf.simps(7)
      split: option.splits sum.splits if_splits) (simp add: owf_def)

lemma shared_view_depth: "serde_ok env \<Longrightarrow> shared_view env f d = Some m \<Longrightarrow> jdepth (JObj m) \<le> 127"
  by (auto simp: shared_view_def decode_shared_map_def serde_ok_def simp del: jdepth.simps(2)
      split: option.splits sum.splits if_splits) simp

lemma backup_path_neq [simp]: "f = a @ ''.json'' \<Longrightarrow> a \<noteq> [] \<Longrightarrow> backup_path f = a @ ''.bak''"
  by (simp add: backup_path_def with_extension_def)

lemma recover_backup_view:
  "recover_backup io f d = (res, d1) \<Longrightarrow> shared_view env f d1 = shared_view env f d
     \<and> (res = Inr () \<longrightarrow> shared_view env f d = (case d1 f of None \<Rightarrow> Some []
          | Some raw \<Rightarrow> (case decode_shared_map env f raw of Inl e \<Rightarrow> None | Inr m \<Rightarrow> Some m)))"
  by (auto simp: recover_backup_def shared_view_def split: option.splits if_splits prod.splits)

lemma load_shared_ok:
  "load_shared_map_unlocked env io f d = (Inr m, d') \<Longrightarrow>
   shared_view env f d = Some m \<and> shared_view env f d' = Some m"
  using recover_backup_view [of io f d]
  by (fastforce simp: load_shared_map_unlocked_def split: prod.splits sum.splits option.splits if_splits)

lemma load_shared_err:
  "load_shared_map_unlocked env io f d = (Inl e, d') \<Longrightarrow> shared_view env f d' = shared_view env f d"
  using recover_backup_view [of io f d]
  by (fastforce simp: load_shared_map_unlocked_def split: prod.splits sum.splits option.splits if_splits)

lemma write_shared_ok:
  "backup_path f \<noteq> f \<Longrightarrow> write_shared_map_unlocked env io f m d = (Inr u, d') \<Longrightarrow> storable env m \<Longrightarrow>
   shared_view env f d' = Some m"
  by (auto simp: write_shared_map_unlocked_def write_json_def shared_view_def decode_shared_map_def
      storable_def Let_def split: if_splits)

lemma write_shared_err:
  "backup_path f \<noteq> f \<Longrightarrow> write_shared_map_unlocked env io f m d = (Inl e, d') \<Longrightarrow> shared_view env f d' = shared_view env f d"
  by (auto simp: write_shared_map_unlocked_def write_json_def shared_view_def Let_def
      split: if_splits option.splits)

lemma shared_map_durable:
  "backup_path f \<noteq> f \<Longrightarrow>
   durable_state (shared_view env f) (load_shared_map_unlocked env io f)
     (write_shared_map_unlocked env io f) (storable env)"
  by unfold_locales (auto dest: load_shared_ok load_shared_err write_shared_ok write_shared_err)

definition routes_file :: string where "routes_file = ''_routes.json''"
definition deliveries_file :: string where "deliveries_file = ''_deliveries.json''"
definition delivery_items_file :: string where "delivery_items_file = ''_delivery_items.json''"

lemma shared_files_backup [simp]:
  "backup_path routes_file = ''_routes.bak''"
  "backup_path deliveries_file = ''_deliveries.bak''"
  "backup_path delivery_items_file = ''_delivery_items.bak''"
  by (simp_all add: backup_path_def with_extension_def routes_file_def deliveries_file_def
      delivery_items_file_def)

interpretation routes: durable_state "shared_view env routes_file"
    "load_shared_map_unlocked env io routes_file"
    "write_shared_map_unlocked env io routes_file" "storable env" for env io
  by (rule shared_map_durable) (simp add: routes_file_def)

interpretation deliveries: durable_state "shared_view env deliveries_file"
    "load_shared_map_unlocked env io deliveries_file"
    "write_shared_map_unlocked env io deliveries_file" "storable env" for env io
  by (rule shared_map_durable) (simp add: deliveries_file_def)

interpretation ledger: durable_state "shared_view env delivery_items_file"
    "load_shared_map_unlocked env io delivery_items_file"
    "write_shared_map_unlocked env io delivery_items_file" "storable env" for env io
  by (rule shared_map_durable) (simp add: delivery_items_file_def)

end
