(* ===== verification/Delivery_Ledger.thy ===== *)
theory Delivery_Ledger
  imports File_Store
begin

text \<open>
  The delivery-item ledger of \<^verbatim>\<open>FileSessionStore\<close> (\<^verbatim>\<open>src/store.rs\<close>): claims with a fencing
  token and a lease on each item of an outbound delivery, the nested claim on the materialization
  of its attachment, the two delivery stages, completion, retry plans and the reconciliation of
  the attachment cache. The ledger is the JSON map \<^verbatim>\<open>_delivery_items.json\<close>; each operation is a
  function on that map (\<open>Some\<close> new map when the code writes it back) run by \<open>with_ledger\<close> under
  the file lock. The random claim token is an argument.
\<close>

section \<open>Leases\<close>

definition nanos :: int where
  "nanos = 1000000000"

definition legacy_lease_seconds :: int where
  "legacy_lease_seconds = 300"

definition claim_is_unexpired :: "string \<Rightarrow> gate_env \<Rightarrow> instant \<Rightarrow> json \<Rightarrow> store_error + bool" where
  "claim_is_unexpired pfx env now claim =
    rbind (ok_or (Bail (pfx @ ''updated_at is missing'')) (get_str claim ''updated_at'')) (\<lambda>s.
    rbind (ok_or (Bail (pfx @ ''updated_at is malformed'')) (parse_rfc3339 env s)) (\<lambda>updated_at.
    rbind (case jget claim ''claim_expires_at'' of
        Some (JStr v) \<Rightarrow> ok_or (Bail (pfx @ ''claim_expires_at is malformed'')) (parse_rfc3339 env v)
      | Some _ \<Rightarrow> Inl (Bail (pfx @ ''claim_expires_at is malformed''))
      | None \<Rightarrow>
          if updated_at + legacy_lease_seconds * nanos \<le> max_utc env
          then Inr (updated_at + legacy_lease_seconds * nanos)
          else Inl (Panic ''DateTime + TimeDelta overflowed'')) (\<lambda>expires_at.
    Inr (expires_at > now))))"

definition delivery_claim_is_unexpired :: "gate_env \<Rightarrow> instant \<Rightarrow> json \<Rightarrow> store_error + bool" where
  "delivery_claim_is_unexpired = claim_is_unexpired ''delivery claim lease ''"

definition nested_claim_is_unexpired :: "gate_env \<Rightarrow> instant \<Rightarrow> json \<Rightarrow> store_error + bool" where
  "nested_claim_is_unexpired = claim_is_unexpired ''nested delivery claim ''"

definition token_matches :: "json \<Rightarrow> string \<Rightarrow> bool" where
  "token_matches claim claim_token = (case get_str claim ''claim_token'' of
      None \<Rightarrow> False | Some stored \<Rightarrow> stored \<noteq> [] \<and> stored = claim_token)"

definition require_active_nested_claim ::
  "gate_env \<Rightarrow> instant \<Rightarrow> json \<Rightarrow> string \<Rightarrow> string \<Rightarrow> store_error + unit" where
  "require_active_nested_claim env now claim claim_token active_status =
    rbind (if get_str claim ''status'' = Some active_status \<and> token_matches claim claim_token
           then nested_claim_is_unexpired env now claim else Inr False)
      (\<lambda>active. guard_or (Bail ''stale nested delivery claim'') active)"

definition require_active_delivery_claim ::
  "gate_env \<Rightarrow> instant \<Rightarrow> json \<Rightarrow> string \<Rightarrow> store_error + unit" where
  "require_active_delivery_claim env now item claim_token =
    rbind (delivery_claim_is_unexpired env now item) (\<lambda>lease_is_unexpired.
      guard_or (Bail ''stale delivery item claim'')
        (get_str item ''status'' = Some ''sending'' \<and> token_matches item claim_token
         \<and> lease_is_unexpired))"

text \<open>
  \<^verbatim>\<open>TimeDelta::seconds\<close> panics beyond \<^verbatim>\<open>i64::MAX\<close> milliseconds, \<^verbatim>\<open>DateTime + TimeDelta\<close> beyond
  the largest instant.
\<close>

definition delivery_claim_expires_at :: "gate_env \<Rightarrow> instant \<Rightarrow> nat \<Rightarrow> store_error + string" where
  "delivery_claim_expires_at env now lease_seconds =
    (let seconds = (if int (max lease_seconds 1) \<le> i64_max then int (max lease_seconds 1) else i64_max)
     in if seconds > i64_max div 1000 then Inl (Panic ''TimeDelta::seconds out of bounds'')
        else if now + seconds * nanos \<le> max_utc env
        then Inr (to_rfc3339 env (now + seconds * nanos))
        else if now + 365000 * 86400 * nanos \<le> max_utc env
        then Inr (to_rfc3339 env (now + 365000 * 86400 * nanos))
        else Inl (Panic ''DateTime + TimeDelta overflowed''))"

section \<open>Items and stages\<close>

definition delivery_stage_value :: "gate_env \<Rightarrow> instant \<Rightarrow> json" where
  "delivery_stage_value env now = jobj
    [(''status'', JStr ''pending''), (''provider_media_id'', JNull),
     (''provider_media_state'', JNull), (''provider_client_id'', JNull),
     (''provider_message_id'', JNull), (''retryable'', JBool True), (''last_error'', JNull),
     (''updated_at'', JStr (utc_now_iso env now))]"

definition stages_value :: "gate_env \<Rightarrow> instant \<Rightarrow> json" where
  "stages_value env now = jobj
    [(''native'', delivery_stage_value env now), (''fallback'', delivery_stage_value env now)]"

text \<open>\<^verbatim>\<open>delivery_stage_object\<close> returns a mutable borrow; here the update is passed in.\<close>

definition delivery_stage_object ::
  "gate_env \<Rightarrow> instant \<Rightarrow> string \<Rightarrow> (jmap \<Rightarrow> jmap) \<Rightarrow> jmap \<Rightarrow> store_error + jmap" where
  "delivery_stage_object env now stage upd item =
    (if stage \<noteq> ''native'' \<and> stage \<noteq> ''fallback'' then Inl (Bail ''invalid delivery stage'')
     else
      rbind (ok_or (Bail ''delivery item stages are invalid'')
              (as_object (case oget item ''stages'' of Some v \<Rightarrow> v | None \<Rightarrow> JObj []))) (\<lambda>stages.
      rbind (ok_or (Bail ''delivery stage is invalid'')
              (as_object (case oget stages stage of Some v \<Rightarrow> v | None \<Rightarrow> delivery_stage_value env now)))
        (\<lambda>stage_item.
      Inr (oput ''stages'' (JObj (oput stage (JObj (upd stage_item)) stages)) item))))"

definition find_item :: "string \<Rightarrow> string \<Rightarrow> jmap \<Rightarrow> json option" where
  "find_item dk ik records =
    Option.bind (oget records dk) (\<lambda>record.
    Option.bind (jget record ''items'') (\<lambda>items.
    Option.bind (as_object items) (\<lambda>m. oget m ik)))"

text \<open>Writing through the borrow that \<open>find_item\<close> describes.\<close>

definition put_item :: "string \<Rightarrow> string \<Rightarrow> json \<Rightarrow> jmap \<Rightarrow> jmap" where
  "put_item dk ik item records = (case oget records dk of
      Some (JObj rm) \<Rightarrow> (case oget rm ''items'' of
          Some (JObj im) \<Rightarrow> oput dk (JObj (oput ''items'' (JObj (oput ik item im)) rm)) records
        | _ \<Rightarrow> records)
    | _ \<Rightarrow> records)"

section \<open>Claiming an item\<close>

record claim_request =
  cr_delivery_key :: string
  cr_request_fingerprint :: string
  cr_item_key :: string
  cr_artifact_id :: string
  cr_kind :: string
  cr_owner :: string
  cr_cache_path :: "string option"
  cr_lease_seconds :: nat

definition new_item :: "gate_env \<Rightarrow> instant \<Rightarrow> claim_request \<Rightarrow> json" where
  "new_item env now req = jobj
    [(''item_key'', JStr (cr_item_key req)),
     (''request_fingerprint'', JStr (cr_request_fingerprint req)),
     (''artifact_id'', JStr (cr_artifact_id req)), (''kind'', JStr (cr_kind req)),
     (''status'', JStr ''pending''), (''attempts'', JInt 0),
     (''provider_media_id'', JNull), (''provider_media_state'', JNull),
     (''provider_client_id'', JNull), (''provider_message_id'', JNull),
     (''stages'', stages_value env now), (''retryable'', JBool True), (''last_error'', JNull),
     (''owner'', JNull), (''claim_token'', JNull), (''claim_expires_at'', JNull),
     (''cache_path'', jstr_opt (cr_cache_path req)), (''updated_at'', JStr (utc_now_iso env now))]"

definition new_record :: "gate_env \<Rightarrow> instant \<Rightarrow> string \<Rightarrow> (string \<times> json) list \<Rightarrow> json" where
  "new_record env now fingerprint extra = jobj
    ([(''request_fingerprint'', JStr fingerprint)] @ extra @
     [(''items'', JObj []), (''updated_at'', JStr (utc_now_iso env now))])"

definition attempts_of :: "json \<Rightarrow> nat" where
  "attempts_of j = saturating_add (case get_u64 j ''attempts'' of Some n \<Rightarrow> n | None \<Rightarrow> 0) 1"

definition claimed_fields ::
  "gate_env \<Rightarrow> instant \<Rightarrow> string \<Rightarrow> claim_request \<Rightarrow> string \<Rightarrow> nat \<Rightarrow> (string \<times> json) list" where
  "claimed_fields env now token req expires attempts =
    [(''status'', JStr ''sending''), (''attempts'', JInt (int attempts)),
     (''owner'', JStr (cr_owner req)), (''claim_token'', JStr token),
     (''claim_expires_at'', JStr expires), (''cache_path'', jstr_opt (cr_cache_path req)),
     (''updated_at'', JStr (utc_now_iso env now))]"

definition bind_fingerprint :: "string \<Rightarrow> json \<Rightarrow> store_error + json" where
  "bind_fingerprint fingerprint item = (case get_str item ''request_fingerprint'' of
      Some existing \<Rightarrow> if existing \<noteq> fingerprint
        then Inl (Bail ''delivery item request fingerprint conflict'') else Inr item
    | None \<Rightarrow> rbind (ok_or (Bail ''delivery item ledger entry is invalid'') (as_object item))
        (\<lambda>m. Inr (JObj (oput ''request_fingerprint'' (JStr fingerprint) m))))"

definition item_terminal_failed :: "json \<Rightarrow> bool" where
  "item_terminal_failed item \<longleftrightarrow>
     get_str item ''status'' = Some ''failed'' \<and> get_bool item ''retryable'' = Some False"

definition claim_item ::
  "gate_env \<Rightarrow> instant \<Rightarrow> string \<Rightarrow> claim_request \<Rightarrow> json \<Rightarrow> store_error + (json \<times> json option)" where
  "claim_item env now token req item =
    (if get_str item ''status'' = Some ''succeeded'' then
       Inr (jobj [(''claim'', JStr ''succeeded''), (''item'', item)], None)
     else if item_terminal_failed item then
       Inr (jobj [(''claim'', JStr ''terminal_failed''), (''item'', item)], None)
     else
      rbind (if get_str item ''status'' = Some ''sending''
             then delivery_claim_is_unexpired env now item else Inr False) (\<lambda>busy.
      if busy then Inr (jobj [(''claim'', JStr ''busy''), (''item'', item)], None)
      else
        rbind (ok_or (Bail ''delivery item ledger entry is invalid'') (as_object item)) (\<lambda>m.
        rbind (delivery_claim_expires_at env now (cr_lease_seconds req)) (\<lambda>expires.
        let claimed = JObj (oputs (claimed_fields env now token req expires (attempts_of item)) m)
        in Inr (jobj [(''claim'', JStr ''claimed''), (''claim_token'', JStr token),
                 (''item'', claimed),
                 (''previous_cache_path'', jindex item ''cache_path'')], Some claimed)))))"

text \<open>\<^verbatim>\<open>records.entry(delivery_key).or_insert_with(...)\<close> and \<^verbatim>\<open>items.entry(item_key).or_insert_with(...)\<close>\<close>

definition claim_record :: "gate_env \<Rightarrow> instant \<Rightarrow> claim_request \<Rightarrow> jmap \<Rightarrow> json" where
  "claim_record env now req records = (case oget records (cr_delivery_key req) of
      Some r \<Rightarrow> r | None \<Rightarrow> new_record env now (cr_request_fingerprint req) [])"

definition claim_target :: "gate_env \<Rightarrow> instant \<Rightarrow> claim_request \<Rightarrow> jmap \<Rightarrow> json" where
  "claim_target env now req items = (case oget items (cr_item_key req) of
      Some i \<Rightarrow> i | None \<Rightarrow> new_item env now req)"

definition claim_delivery_item_records ::
  "gate_env \<Rightarrow> instant \<Rightarrow> string \<Rightarrow> claim_request \<Rightarrow> jmap \<Rightarrow> store_error + (json \<times> jmap option)" where
  "claim_delivery_item_records env now token req records =
    (let record = claim_record env now req records in
     rbind (guard_or (Bail ''delivery item request fingerprint conflict'')
        ((case get_str record ''request_fingerprint'' of Some s \<Rightarrow> s | None \<Rightarrow> [])
           = cr_request_fingerprint req)) (\<lambda>_.
     rbind (ok_or (Bail ''delivery item ledger is invalid'')
        (Option.bind (jget record ''items'') as_object)) (\<lambda>items.
     let item = claim_target env now req items in
     rbind (guard_or (Bail ''delivery item identity conflict'')
        (get_str item ''artifact_id'' = Some (cr_artifact_id req)
         \<and> get_str item ''kind'' = Some (cr_kind req))) (\<lambda>_.
     rbind (bind_fingerprint (cr_request_fingerprint req) item) (\<lambda>item.
     rbind (claim_item env now token req item) (\<lambda>(answer, claimed).
     case claimed of
       None \<Rightarrow> Inr (answer, None)
     | Some item' \<Rightarrow>
         rbind (jset ''items'' (JObj (oput (cr_item_key req) item' items)) record) (\<lambda>record.
         rbind (jset ''updated_at'' (JStr (utc_now_iso env now)) record) (\<lambda>record.
         Inr (answer, Some (oput (cr_delivery_key req) record records))))))))))"

section \<open>Planning a delivery\<close>

record plan_item =
  pi_item_key :: string
  pi_artifact_id :: string
  pi_kind :: string
  pi_planned_outbound :: json
  pi_materialization_required :: bool

definition materialization_value :: "gate_env \<Rightarrow> instant \<Rightarrow> bool \<Rightarrow> json" where
  "materialization_value env now required = jobj
    [(''status'', JStr (if required then ''pending'' else ''not_required'')), (''attempts'', JInt 0),
     (''retryable'', JBool required), (''last_error'', JNull), (''owner'', JNull),
     (''claim_token'', JNull), (''claim_expires_at'', JNull),
     (''updated_at'', JStr (utc_now_iso env now))]"

definition planned_item :: "gate_env \<Rightarrow> instant \<Rightarrow> string \<Rightarrow> plan_item \<Rightarrow> json" where
  "planned_item env now fingerprint planned = jobj
    [(''item_key'', JStr (pi_item_key planned)), (''request_fingerprint'', JStr fingerprint),
     (''artifact_id'', JStr (pi_artifact_id planned)), (''kind'', JStr (pi_kind planned)),
     (''planned_outbound'', pi_planned_outbound planned),
     (''materialization'', materialization_value env now (pi_materialization_required planned)),
     (''status'', JStr ''pending''), (''attempts'', JInt 0),
     (''provider_media_id'', JNull), (''provider_media_state'', JNull),
     (''provider_client_id'', JNull), (''provider_message_id'', JNull),
     (''stages'', stages_value env now), (''retryable'', JBool True), (''last_error'', JNull),
     (''owner'', JNull), (''claim_token'', JNull), (''claim_expires_at'', JNull),
     (''cache_path'', JNull), (''updated_at'', JStr (utc_now_iso env now))]"

definition jset_if_missing :: "string \<Rightarrow> json \<Rightarrow> json \<Rightarrow> store_error + json" where
  "jset_if_missing k v j = (if jget j k = None then jset k v j else Inr j)"

definition plan_one ::
  "gate_env \<Rightarrow> instant \<Rightarrow> string \<Rightarrow> plan_item \<Rightarrow> jmap \<Rightarrow> store_error + jmap" where
  "plan_one env now fingerprint planned items =
    (let item = (case oget items (pi_item_key planned) of Some i \<Rightarrow> i
                 | None \<Rightarrow> planned_item env now fingerprint planned) in
     rbind (guard_or (Bail ''delivery item identity conflict'')
        (get_str item ''artifact_id'' = Some (pi_artifact_id planned)
         \<and> get_str item ''kind'' = Some (pi_kind planned)
         \<and> get_str item ''request_fingerprint'' = Some fingerprint)) (\<lambda>_.
     rbind (jset_if_missing ''planned_outbound'' (pi_planned_outbound planned) item) (\<lambda>item.
     rbind (jset_if_missing ''materialization''
        (materialization_value env now (pi_materialization_required planned)) item) (\<lambda>item.
     Inr (oput (pi_item_key planned) item items)))))"

fun plan_all ::
  "gate_env \<Rightarrow> instant \<Rightarrow> string \<Rightarrow> plan_item list \<Rightarrow> jmap \<Rightarrow> store_error + jmap" where
  "plan_all env now fingerprint [] items = Inr items"
| "plan_all env now fingerprint (p # ps) items =
     rbind (plan_one env now fingerprint p items) (plan_all env now fingerprint ps)"

definition plan_record :: "gate_env \<Rightarrow> instant \<Rightarrow> string \<Rightarrow> string \<Rightarrow> json \<Rightarrow> jmap \<Rightarrow> json" where
  "plan_record env now delivery_key fingerprint planned_outbound records =
    (case oget records delivery_key of Some r \<Rightarrow> r
     | None \<Rightarrow> new_record env now fingerprint [(''planned_outbound'', planned_outbound)])"

definition persist_delivery_plan_records ::
  "gate_env \<Rightarrow> instant \<Rightarrow> string \<Rightarrow> string \<Rightarrow> json \<Rightarrow> plan_item list \<Rightarrow> jmap \<Rightarrow>
   store_error + (unit \<times> jmap option)" where
  "persist_delivery_plan_records env now delivery_key fingerprint planned_outbound planned_items records =
    (let record = plan_record env now delivery_key fingerprint planned_outbound records in
     rbind (guard_or (Bail ''delivery item request fingerprint conflict'')
        (get_str record ''request_fingerprint'' = Some fingerprint)) (\<lambda>_.
     rbind (jset_if_missing ''planned_outbound'' planned_outbound record) (\<lambda>record.
     rbind (ok_or (Bail ''delivery item ledger is invalid'')
        (Option.bind (jget record ''items'') as_object)) (\<lambda>items.
     rbind (plan_all env now fingerprint planned_items items) (\<lambda>items.
     rbind (jset ''items'' (JObj items) record) (\<lambda>record.
     rbind (jset ''updated_at'' (JStr (utc_now_iso env now)) record) (\<lambda>record.
     Inr ((), Some (oput delivery_key record records)))))))))"

section \<open>Materialization claims\<close>

definition materialization_claim ::
  "gate_env \<Rightarrow> instant \<Rightarrow> string \<Rightarrow> string \<Rightarrow> nat \<Rightarrow> json \<Rightarrow> store_error + (json \<times> json option)" where
  "materialization_claim env now token owner lease_seconds item =
    rbind (ok_or (Bail ''delivery materialization state is invalid'')
       (Option.bind (jget item ''materialization'') as_object)) (\<lambda>mat.
    let status = (case get_str (JObj mat) ''status'' of Some s \<Rightarrow> s | None \<Rightarrow> []) in
    if status = ''materialized'' \<or> status = ''not_required'' then
      Inr (jobj [(''claim'', JStr status), (''item'', item)], None)
    else if status = ''failed'' \<and> get_bool (JObj mat) ''retryable'' = Some False then
      Inr (jobj [(''claim'', JStr ''terminal_failed''), (''item'', item)], None)
    else
      rbind (if status = ''materializing'' then nested_claim_is_unexpired env now (JObj mat)
             else Inr False) (\<lambda>busy.
      if busy then Inr (jobj [(''claim'', JStr ''busy''), (''item'', item)], None)
      else
        rbind (delivery_claim_expires_at env now lease_seconds) (\<lambda>expires.
        rbind (jset ''materialization'' (JObj (oputs
           [(''status'', JStr ''materializing''),
            (''attempts'', JInt (int (attempts_of (JObj mat)))), (''owner'', JStr owner),
            (''claim_token'', JStr token), (''claim_expires_at'', JStr expires),
            (''updated_at'', JStr (utc_now_iso env now))] mat)) item) (\<lambda>claimed.
        Inr (jobj [(''claim'', JStr ''claimed''), (''claim_token'', JStr token),
               (''item'', claimed)], Some claimed)))))"

definition claim_delivery_materialization_records ::
  "gate_env \<Rightarrow> instant \<Rightarrow> string \<Rightarrow> string \<Rightarrow> string \<Rightarrow> string \<Rightarrow> nat \<Rightarrow> jmap \<Rightarrow>
   store_error + (json \<times> jmap option)" where
  "claim_delivery_materialization_records env now token delivery_key item_key owner lease_seconds records =
    rbind (ok_or (Bail ''delivery materialization item is missing'')
       (find_item delivery_key item_key records)) (\<lambda>item.
    rbind (materialization_claim env now token owner lease_seconds item) (\<lambda>(answer, claimed).
    Inr (answer, map_option (\<lambda>i. put_item delivery_key item_key i records) claimed)))"

record materialization_completion =
  mc_delivery_key :: string
  mc_item_key :: string
  mc_claim_token :: string
  mc_status :: string
  mc_materialized_outbound :: "json option"
  mc_cache_path :: "string option"
  mc_retryable :: bool
  mc_last_error :: "string option"

definition materialization_finished ::
  "gate_env \<Rightarrow> instant \<Rightarrow> materialization_completion \<Rightarrow> jmap \<Rightarrow> json \<Rightarrow> store_error + json" where
  "materialization_finished env now c mat item =
    (let mat' = JObj (oputs
        [(''status'', JStr (mc_status c)), (''retryable'', JBool (mc_retryable c)),
         (''last_error'', jstr_opt (mc_last_error c)), (''owner'', JNull), (''claim_token'', JNull),
         (''claim_expires_at'', JNull), (''updated_at'', JStr (utc_now_iso env now))] mat) in
     rbind (jset ''materialization'' mat' item) (\<lambda>item.
     rbind (case mc_materialized_outbound c of None \<Rightarrow> Inr item
        | Some v \<Rightarrow> jset ''materialized_outbound'' v item) (\<lambda>item.
     rbind (jset ''cache_path'' (jstr_opt (mc_cache_path c)) item) (\<lambda>item.
     rbind (jset ''status'' (JStr (if mc_status c = ''materialized'' then ''pending'' else ''failed'')) item)
       (\<lambda>item.
     rbind (jset ''retryable'' (JBool (mc_retryable c)) item) (\<lambda>item.
     rbind (jset ''last_error'' (jstr_opt (mc_last_error c)) item) (\<lambda>item.
     jset ''updated_at'' (JStr (utc_now_iso env now)) item)))))))"

definition finish_delivery_materialization_records ::
  "gate_env \<Rightarrow> instant \<Rightarrow> materialization_completion \<Rightarrow> jmap \<Rightarrow> store_error + (unit \<times> jmap option)" where
  "finish_delivery_materialization_records env now c records =
    rbind (ok_or (Bail ''delivery materialization item is missing'')
       (find_item (mc_delivery_key c) (mc_item_key c) records)) (\<lambda>item.
    rbind (ok_or (Bail ''delivery materialization state is invalid'')
       (Option.bind (jget item ''materialization'') as_object)) (\<lambda>mat.
    rbind (require_active_nested_claim env now (JObj mat) (mc_claim_token c) ''materializing'') (\<lambda>_.
    rbind (materialization_finished env now c mat item) (\<lambda>item.
    Inr ((), Some (put_item (mc_delivery_key c) (mc_item_key c) item records))))))"

section \<open>Uploads, stages and completion\<close>

text \<open>
  The three operations below locate the item, require the caller's claim to be active, borrow the
  item as an object and update it.
\<close>

definition with_active_item ::
  "gate_env \<Rightarrow> instant \<Rightarrow> string \<Rightarrow> string \<Rightarrow> string \<Rightarrow> (jmap \<Rightarrow> store_error + ('r \<times> jmap)) \<Rightarrow>
   jmap \<Rightarrow> store_error + ('r \<times> jmap option)" where
  "with_active_item env now dk ik token act records =
    rbind (ok_or (Bail ''delivery item claim is missing'') (find_item dk ik records)) (\<lambda>item.
    rbind (require_active_delivery_claim env now item token) (\<lambda>_.
    rbind (ok_or (Bail ''delivery item ledger entry is invalid'') (as_object item)) (\<lambda>m.
    rbind (act m) (\<lambda>(r, m').
    Inr (r, Some (put_item dk ik (JObj m') records))))))"

definition oput_opt :: "string \<Rightarrow> string option \<Rightarrow> jmap \<Rightarrow> jmap" where
  "oput_opt k x m = (case x of None \<Rightarrow> m | Some v \<Rightarrow> oput k (JStr v) m)"

record item_upload =
  iu_delivery_key :: string
  iu_item_key :: string
  iu_claim_token :: string
  iu_stage :: string
  iu_provider_media_id :: string
  iu_provider_media_state :: json
  iu_provider_client_id :: "string option"

definition record_delivery_item_upload_records ::
  "gate_env \<Rightarrow> instant \<Rightarrow> item_upload \<Rightarrow> jmap \<Rightarrow> store_error + (unit \<times> jmap option)" where
  "record_delivery_item_upload_records env now u =
    with_active_item env now (iu_delivery_key u) (iu_item_key u) (iu_claim_token u) (\<lambda>item.
      rbind (delivery_stage_object env now (iu_stage u) (oputs
         [(''status'', JStr ''prepared''), (''provider_media_id'', JStr (iu_provider_media_id u)),
          (''provider_media_state'', iu_provider_media_state u),
          (''provider_client_id'', jstr_opt (iu_provider_client_id u)),
          (''updated_at'', JStr (utc_now_iso env now))]) item) (\<lambda>item.
      Inr ((), oput ''updated_at'' (JStr (utc_now_iso env now))
        (oput_opt ''provider_client_id'' (iu_provider_client_id u)
          (oput ''provider_media_state'' (iu_provider_media_state u)
            (oput ''provider_media_id'' (JStr (iu_provider_media_id u)) item))))))"

record stage_completion =
  sc_delivery_key :: string
  sc_item_key :: string
  sc_claim_token :: string
  sc_stage :: string
  sc_status :: string
  sc_provider_media_id :: "string option"
  sc_provider_client_id :: "string option"
  sc_provider_message_id :: "string option"
  sc_retryable :: bool
  sc_last_error :: "string option"

definition finish_delivery_stage_records ::
  "gate_env \<Rightarrow> instant \<Rightarrow> stage_completion \<Rightarrow> jmap \<Rightarrow> store_error + (unit \<times> jmap option)" where
  "finish_delivery_stage_records env now c =
    with_active_item env now (sc_delivery_key c) (sc_item_key c) (sc_claim_token c) (\<lambda>item.
      rbind (delivery_stage_object env now (sc_stage c) (\<lambda>st.
         oputs [(''retryable'', JBool (sc_retryable c)), (''last_error'', jstr_opt (sc_last_error c)),
                (''updated_at'', JStr (utc_now_iso env now))]
           (oput_opt ''provider_message_id'' (sc_provider_message_id c)
             (oput_opt ''provider_client_id'' (sc_provider_client_id c)
               (oput_opt ''provider_media_id'' (sc_provider_media_id c)
                 (oput ''status'' (JStr (sc_status c)) st))))) item) (\<lambda>item.
      Inr ((), item)))"

record item_completion =
  ic_delivery_key :: string
  ic_item_key :: string
  ic_claim_token :: string
  ic_status :: string
  ic_provider_media_id :: "string option"
  ic_provider_client_id :: "string option"
  ic_provider_message_id :: "string option"
  ic_retryable :: bool
  ic_last_error :: "string option"
  ic_fallback_used :: bool

text \<open>\<^verbatim>\<open>get("cache_path").and_then(as_str).map(trim).filter(non-empty)\<close>\<close>

definition item_cache_path :: "json \<Rightarrow> string option" where
  "item_cache_path item = (case get_str item ''cache_path'' of
      None \<Rightarrow> None | Some s \<Rightarrow> if trim s = [] then None else Some (trim s))"

definition completed_item :: "gate_env \<Rightarrow> instant \<Rightarrow> item_completion \<Rightarrow> jmap \<Rightarrow> jmap" where
  "completed_item env now c item =
     oputs [(''retryable'', JBool (ic_retryable c)), (''last_error'', jstr_opt (ic_last_error c)),
            (''fallback_used'', JBool (ic_fallback_used c)), (''owner'', JNull),
            (''claim_expires_at'', JNull), (''updated_at'', JStr (utc_now_iso env now))]
       (oput_opt ''provider_message_id'' (ic_provider_message_id c)
         (oput_opt ''provider_client_id'' (ic_provider_client_id c)
           (oput_opt ''provider_media_id'' (ic_provider_media_id c)
             (oput ''status'' (JStr (ic_status c)) item))))"

definition finish_delivery_item_records ::
  "gate_env \<Rightarrow> instant \<Rightarrow> item_completion \<Rightarrow> jmap \<Rightarrow> store_error + (string option \<times> jmap option)" where
  "finish_delivery_item_records env now c =
    with_active_item env now (ic_delivery_key c) (ic_item_key c) (ic_claim_token c) (\<lambda>item.
      let item = completed_item env now c item in
      if ic_status c = ''succeeded'' \<or> \<not> ic_retryable c
      then Inr (item_cache_path (JObj item), oput ''cache_path'' JNull item)
      else Inr (None, item))"

section \<open>Retry plans and the attachment cache\<close>

definition record_items :: "json \<Rightarrow> json list" where
  "record_items record = (case Option.bind (jget record ''items'') as_object of
      None \<Rightarrow> [] | Some m \<Rightarrow> map snd m)"

definition status_in :: "string list \<Rightarrow> json \<Rightarrow> bool" where
  "status_in ss item = (case get_str item ''status'' of None \<Rightarrow> False | Some s \<Rightarrow> s \<in> set ss)"

definition record_retryable :: "json \<Rightarrow> bool" where
  "record_retryable record \<longleftrightarrow>
     \<not> (\<exists>item \<in> set (record_items record).
          status_in [''failed'', ''terminal_failed''] item \<and> get_bool item ''retryable'' = Some False)
   \<and> (\<exists>item \<in> set (record_items record).
          status_in [''pending'', ''sending'', ''failed''] item \<and> get_bool item ''retryable'' \<noteq> Some False)
   \<and> jget record ''planned_outbound'' \<noteq> None"

definition retry_plan :: "string \<Rightarrow> json \<Rightarrow> json" where
  "retry_plan delivery_key record = jobj
    [(''delivery_key'', JStr delivery_key),
     (''request_fingerprint'', jindex record ''request_fingerprint''),
     (''planned_outbound'', jindex record ''planned_outbound'')]"

definition retryable_delivery_plans_records :: "jmap \<Rightarrow> json list" where
  "retryable_delivery_plans_records records =
    map (\<lambda>(k, r). retry_plan k r) (filter (\<lambda>(k, r). record_retryable r) records)"

definition item_retryable_state :: "json \<Rightarrow> bool" where
  "item_retryable_state item \<longleftrightarrow>
     status_in [''pending'', ''sending'', ''failed''] item
   \<and> (case get_bool item ''retryable'' of Some b \<Rightarrow> b | None \<Rightarrow> True)"

definition all_items :: "jmap \<Rightarrow> json list" where
  "all_items records = concat (map (\<lambda>kr. record_items (snd kr)) records)"

definition retryable_delivery_cache_paths_records :: "jmap \<Rightarrow> string list" where
  "retryable_delivery_cache_paths_records records =
    List.map_filter item_cache_path (filter item_retryable_state (all_items records))"

record reconciliation =
  rc_retained :: "string list"
  rc_deleted :: "string list"
  rc_changed :: bool

text \<open>One round of the loop of \<^verbatim>\<open>reconcile_delivery_cache\<close>; \<open>ttl\<close> is in nanoseconds.\<close>

definition item_expired :: "gate_env \<Rightarrow> instant \<Rightarrow> int \<Rightarrow> json \<Rightarrow> bool" where
  "item_expired env now ttl item \<longleftrightarrow> item_retryable_state item
     \<and> (case Option.bind (get_str item ''updated_at'') (parse_rfc3339 env) of
          None \<Rightarrow> False | Some updated_at \<Rightarrow> now - updated_at > ttl)"

definition reconcile_item ::
  "gate_env \<Rightarrow> instant \<Rightarrow> int \<Rightarrow> json \<Rightarrow> json \<times> reconciliation" where
  "reconcile_item env now ttl item =
    (case (item_cache_path item, item) of
       (Some path, JObj m) \<Rightarrow>
         if item_retryable_state item \<and> \<not> item_expired env now ttl item then
           (if Option.bind (get_str item ''updated_at'') (parse_rfc3339 env) = None
            then (JObj (oput ''updated_at'' (JStr (to_rfc3339 env now)) m),
                  \<lparr>rc_retained = [path], rc_deleted = [], rc_changed = True\<rparr>)
            else (item, \<lparr>rc_retained = [path], rc_deleted = [], rc_changed = False\<rparr>))
         else
           (JObj (oput ''updated_at'' (JStr (to_rfc3339 env now))
              (oputs (if item_expired env now ttl item then
                  [(''status'', JStr ''expired''), (''retryable'', JBool False),
                   (''last_error'', JStr ''delivery cache expired''), (''owner'', JNull),
                   (''claim_expires_at'', JNull)] else [])
                (oput ''cache_path'' JNull m))),
            \<lparr>rc_retained = [], rc_deleted = [path], rc_changed = True\<rparr>)
     | _ \<Rightarrow> (item, \<lparr>rc_retained = [], rc_deleted = [], rc_changed = False\<rparr>))"

definition reconcile_join :: "reconciliation \<Rightarrow> reconciliation \<Rightarrow> reconciliation" where
  "reconcile_join a b = \<lparr>rc_retained = rc_retained a @ rc_retained b,
     rc_deleted = rc_deleted a @ rc_deleted b, rc_changed = (rc_changed a \<or> rc_changed b)\<rparr>"

definition reconcile_nothing :: reconciliation where
  "reconcile_nothing = \<lparr>rc_retained = [], rc_deleted = [], rc_changed = False\<rparr>"

fun reconcile_items :: "gate_env \<Rightarrow> instant \<Rightarrow> int \<Rightarrow> jmap \<Rightarrow> jmap \<times> reconciliation" where
  "reconcile_items env now ttl [] = ([], reconcile_nothing)"
| "reconcile_items env now ttl ((k, item) # rest) =
     (let (item', r) = reconcile_item env now ttl item;
          (rest', rs) = reconcile_items env now ttl rest
      in ((k, item') # rest', reconcile_join r rs))"

text \<open>\<^verbatim>\<open>values_mut\<close> over the items object of a record, in place.\<close>

definition reconcile_record ::
  "gate_env \<Rightarrow> instant \<Rightarrow> int \<Rightarrow> json \<Rightarrow> json \<times> reconciliation" where
  "reconcile_record env now ttl record = (case record of
      JObj rm \<Rightarrow> (case oget rm ''items'' of
          Some (JObj items) \<Rightarrow>
            (let (items', r) = reconcile_items env now ttl items
             in (JObj (oput ''items'' (JObj items') rm), r))
        | _ \<Rightarrow> (record, reconcile_nothing))
    | _ \<Rightarrow> (record, reconcile_nothing))"

fun reconcile_records :: "gate_env \<Rightarrow> instant \<Rightarrow> int \<Rightarrow> jmap \<Rightarrow> jmap \<times> reconciliation" where
  "reconcile_records env now ttl [] = ([], reconcile_nothing)"
| "reconcile_records env now ttl ((k, record) # rest) =
     (let (record', r) = reconcile_record env now ttl record;
          (rest', rs) = reconcile_records env now ttl rest
      in ((k, record') # rest', reconcile_join r rs))"

definition reconcile_delivery_cache_records ::
  "gate_env \<Rightarrow> instant \<Rightarrow> int \<Rightarrow> jmap \<Rightarrow> store_error + ((string list \<times> string list) \<times> jmap option)" where
  "reconcile_delivery_cache_records env now ttl records =
    (let (records', r) = reconcile_records env now ttl records
     in Inr ((rc_retained r, rc_deleted r), if rc_changed r then Some records' else None))"

section \<open>The operations on disk\<close>

definition delivery_items_lock_file :: string where
  "delivery_items_lock_file = ''_delivery_items.lock''"

definition with_ledger ::
  "gate_env \<Rightarrow> io \<Rightarrow> (jmap \<Rightarrow> store_error + ('r \<times> jmap option)) \<Rightarrow> disk \<Rightarrow> (store_error + 'r) \<times> disk" where
  "with_ledger env io act d =
    (if \<not> io_open io then (Inl (Bail ''failed to open delivery item lock''), d)
     else
      (let d1 = d(delivery_items_lock_file \<mapsto>
                    (case d delivery_items_lock_file of Some b \<Rightarrow> b | None \<Rightarrow> []))
       in if \<not> io_lock io then (Inl (Bail ''failed to acquire delivery item lock''), d1)
          else transact (load_shared_map_unlocked env io delivery_items_file)
                 (write_shared_map_unlocked env io delivery_items_file) act d1))"

definition claim_delivery_item ::
  "gate_env \<Rightarrow> io \<Rightarrow> instant \<Rightarrow> string \<Rightarrow> claim_request \<Rightarrow> disk \<Rightarrow> (store_error + json) \<times> disk" where
  "claim_delivery_item env io now token req =
     with_ledger env io (claim_delivery_item_records env now token req)"

definition persist_delivery_plan ::
  "gate_env \<Rightarrow> io \<Rightarrow> instant \<Rightarrow> string \<Rightarrow> string \<Rightarrow> json \<Rightarrow> plan_item list \<Rightarrow> disk \<Rightarrow>
   (store_error + unit) \<times> disk" where
  "persist_delivery_plan env io now dk fp planned items =
     with_ledger env io (persist_delivery_plan_records env now dk fp planned items)"

definition claim_delivery_materialization ::
  "gate_env \<Rightarrow> io \<Rightarrow> instant \<Rightarrow> string \<Rightarrow> string \<Rightarrow> string \<Rightarrow> string \<Rightarrow> nat \<Rightarrow> disk \<Rightarrow>
   (store_error + json) \<times> disk" where
  "claim_delivery_materialization env io now token dk ik owner lease =
     with_ledger env io (claim_delivery_materialization_records env now token dk ik owner lease)"

definition finish_delivery_materialization ::
  "gate_env \<Rightarrow> io \<Rightarrow> instant \<Rightarrow> materialization_completion \<Rightarrow> disk \<Rightarrow> (store_error + unit) \<times> disk" where
  "finish_delivery_materialization env io now c d =
     (if mc_status c \<noteq> ''materialized'' \<and> mc_status c \<noteq> ''failed''
      then (Inl (Bail ''invalid delivery materialization completion status''), d)
      else with_ledger env io (finish_delivery_materialization_records env now c) d)"

definition record_delivery_item_upload ::
  "gate_env \<Rightarrow> io \<Rightarrow> instant \<Rightarrow> item_upload \<Rightarrow> disk \<Rightarrow> (store_error + unit) \<times> disk" where
  "record_delivery_item_upload env io now u =
     with_ledger env io (record_delivery_item_upload_records env now u)"

definition finish_delivery_stage ::
  "gate_env \<Rightarrow> io \<Rightarrow> instant \<Rightarrow> stage_completion \<Rightarrow> disk \<Rightarrow> (store_error + unit) \<times> disk" where
  "finish_delivery_stage env io now c = with_ledger env io (finish_delivery_stage_records env now c)"

definition finish_delivery_item ::
  "gate_env \<Rightarrow> io \<Rightarrow> instant \<Rightarrow> item_completion \<Rightarrow> disk \<Rightarrow> (store_error + string option) \<times> disk" where
  "finish_delivery_item env io now c = with_ledger env io (finish_delivery_item_records env now c)"

definition retryable_delivery_plans ::
  "gate_env \<Rightarrow> io \<Rightarrow> disk \<Rightarrow> (store_error + json list) \<times> disk" where
  "retryable_delivery_plans env io =
     with_ledger env io (\<lambda>m. Inr (retryable_delivery_plans_records m, None))"

definition retryable_delivery_cache_paths ::
  "gate_env \<Rightarrow> io \<Rightarrow> disk \<Rightarrow> (store_error + string list) \<times> disk" where
  "retryable_delivery_cache_paths env io =
     with_ledger env io (\<lambda>m. Inr (retryable_delivery_cache_paths_records m, None))"

definition reconcile_delivery_cache ::
  "gate_env \<Rightarrow> io \<Rightarrow> instant \<Rightarrow> int \<Rightarrow> disk \<Rightarrow> (store_error + (string list \<times> string list)) \<times> disk" where
  "reconcile_delivery_cache env io now ttl =
     with_ledger env io (reconcile_delivery_cache_records env now ttl)"

end
