(* ===== verification/Delivery_Safety.thy ===== *)
theory Delivery_Safety
  imports Delivery_Ledger
begin

text \<open>
  What the ledger operations of \<open>Delivery_Ledger\<close> guarantee. \<open>item_step\<close> is the step relation one
  ledger operation induces on one item; \<open>ledger_step_item\<close> is the simulation: whatever the
  operation, each existing item takes an \<open>item_step\<close> or stays as it is. Fencing, mutual exclusion
  and the finality of a successful delivery are invariants of that relation, lifted to every
  sequence of operations.
\<close>

section \<open>Reading back what was written\<close>

lemma find_item_put_same:
  "find_item dk ik r = Some i \<Longrightarrow> find_item dk ik (put_item dk ik i' r) = Some i'"
  by (auto simp: find_item_def put_item_def bind_eq_Some_conv dest!: jget_Some_obj)

lemma find_item_put_other:
  "(dk, ik) \<noteq> (dk', ik') \<Longrightarrow> find_item dk ik (put_item dk' ik' i' r) = find_item dk ik r"
  by (auto simp: find_item_def put_item_def split: option.splits json.splits)

lemma find_item_oput:
  "find_item dk ik (oput dk' (JObj rm) r) =
     (if dk = dk' then Option.bind (oget rm ''items'') (\<lambda>items. Option.bind (as_object items) (\<lambda>m. oget m ik))
      else find_item dk ik r)"
  by (simp add: find_item_def)

lemma jget_JObj_oput [simp]: "jget (JObj (oput k v m)) k' = (if k' = k then Some v else oget m k')"
  by simp

lemma jset_Inr_cases: "jset k v j = Inr j' \<Longrightarrow> (\<exists>m. j = JObj m \<and> j' = JObj (oput k v m)) \<or> (j = JNull \<and> j' = JObj [(k, v)])"
  by (cases j) auto

lemma jget_jset: "jset k v j = Inr j' \<Longrightarrow> jget j' k' = (if k' = k then Some v else jget j k')"
  by (auto dest!: jset_Inr_cases)

lemma jget_jset_if_missing:
  "jset_if_missing k v j = Inr j' \<Longrightarrow>
   jget j' k' = (if k' = k then (case jget j k of Some w \<Rightarrow> Some w | None \<Rightarrow> Some v) else jget j k')"
  by (auto simp: jset_if_missing_def jget_jset split: if_splits option.splits)

lemma get_str_cong: "jget j k = jget j' k \<Longrightarrow> get_str j k = get_str j' k"
  by (simp add: get_str_def)

lemma get_bool_cong: "jget j k = jget j' k \<Longrightarrow> get_bool j k = get_bool j' k"
  by (simp add: get_bool_def)

section \<open>Fenced leases\<close>

text \<open>
  \<open>lease_held\<close>: the claim object grants an unexpired lease to this token. The locale is the
  contract that the claim on an item and the nested claim on its materialization share.
\<close>

definition lease_held ::
  "(gate_env \<Rightarrow> instant \<Rightarrow> json \<Rightarrow> store_error + bool) \<Rightarrow> string \<Rightarrow> gate_env \<Rightarrow> instant \<Rightarrow> json \<Rightarrow> string \<Rightarrow> bool" where
  "lease_held unexpired active_status env now claim token \<longleftrightarrow>
     get_str claim ''status'' = Some active_status \<and> token_matches claim token
     \<and> unexpired env now claim = Inr True"

abbreviation item_held :: "gate_env \<Rightarrow> instant \<Rightarrow> json \<Rightarrow> string \<Rightarrow> bool" where
  "item_held \<equiv> lease_held delivery_claim_is_unexpired ''sending''"

abbreviation materialization_held :: "gate_env \<Rightarrow> instant \<Rightarrow> json \<Rightarrow> string \<Rightarrow> bool" where
  "materialization_held env now item token \<equiv>
     (\<exists>mat. jget item ''materialization'' = Some mat
        \<and> lease_held nested_claim_is_unexpired ''materializing'' env now mat token)"

locale fenced_lease =
  fixes held :: "instant \<Rightarrow> 'st \<Rightarrow> string \<Rightarrow> bool"
    and acquire :: "instant \<Rightarrow> string \<Rightarrow> 'st \<Rightarrow> 'st option"
    and accepts :: "instant \<Rightarrow> 'st \<Rightarrow> string \<Rightarrow> bool"
  assumes held_unique: "held now s t \<Longrightarrow> held now' s t' \<Longrightarrow> t = t'"
    and acquire_excluded: "held now s t \<Longrightarrow> acquire now t' s = None"
    and acquire_fences: "acquire now t s = Some s' \<Longrightarrow> held now' s' t' \<Longrightarrow> t' = t"
    and accepts_held: "accepts now s t \<longleftrightarrow> held now s t"
begin

text \<open>Between two grants, a completion carries the token of the last one.\<close>

lemma stale_completion_refused:
  "acquire n1 t1 s0 = Some s1 \<Longrightarrow> acquire n2 t2 s1 = Some s2 \<Longrightarrow> t1 \<noteq> t2 \<Longrightarrow> \<not> accepts n3 s2 t1"
  by (metis accepts_held acquire_fences)

lemma second_grant_after_expiry:
  "acquire n1 t1 s0 = Some s1 \<Longrightarrow> acquire n2 t2 s1 = Some s2 \<Longrightarrow> \<not> accepts n2 s1 t1"
  by (metis accepts_held acquire_excluded option.distinct(1))

lemma accepted_blocks_acquire: "accepts now s t \<Longrightarrow> acquire now t' s = None"
  by (simp add: accepts_held acquire_excluded)

end

lemma token_matches_unique: "token_matches c t \<Longrightarrow> token_matches c t' \<Longrightarrow> t = t'"
  by (auto simp: token_matches_def split: option.splits)

lemma lease_held_unique: "lease_held u a env n c t \<Longrightarrow> lease_held u a env n' c t' \<Longrightarrow> t = t'"
  by (auto simp: lease_held_def dest: token_matches_unique)

lemma require_active_delivery_iff:
  "require_active_delivery_claim env now item token = Inr u \<longleftrightarrow> item_held env now item token"
  by (auto simp: require_active_delivery_claim_def lease_held_def)

lemma require_active_nested_iff:
  "require_active_nested_claim env now claim token a = Inr u \<longleftrightarrow>
   lease_held nested_claim_is_unexpired a env now claim token"
  by (auto simp: require_active_nested_claim_def lease_held_def split: if_splits)

definition acquire_item ::
  "gate_env \<Rightarrow> claim_request \<Rightarrow> instant \<Rightarrow> string \<Rightarrow> json \<Rightarrow> json option" where
  "acquire_item env req now token item =
     (case claim_item env now token req item of Inr (a, Some item') \<Rightarrow> Some item' | _ \<Rightarrow> None)"

definition acquire_materialization ::
  "gate_env \<Rightarrow> string \<Rightarrow> nat \<Rightarrow> instant \<Rightarrow> string \<Rightarrow> json \<Rightarrow> json option" where
  "acquire_materialization env owner lease now token item =
     (case materialization_claim env now token owner lease item of
        Inr (a, Some item') \<Rightarrow> Some item' | _ \<Rightarrow> None)"

lemma acquire_item_Some:
  "acquire_item env req now token item = Some item' \<longleftrightarrow>
   (\<exists>a. claim_item env now token req item = Inr (a, Some item'))"
  by (auto simp: acquire_item_def split: sum.splits prod.splits option.splits)

lemma acquire_materialization_Some:
  "acquire_materialization env owner lease now token item = Some item' \<longleftrightarrow>
   (\<exists>a. materialization_claim env now token owner lease item = Inr (a, Some item'))"
  by (auto simp: acquire_materialization_def split: sum.splits prod.splits option.splits)

text \<open>What a granted claim looks like: every other member of the item is kept.\<close>

lemma claim_item_granted:
  assumes "claim_item env now token req item = Inr (a, Some item')"
  shows "\<exists>m expires. item = JObj m \<and> delivery_claim_expires_at env now (cr_lease_seconds req) = Inr expires
     \<and> item' = JObj (oputs (claimed_fields env now token req expires (attempts_of item)) m)
     \<and> get_str item ''status'' \<noteq> Some ''succeeded'' \<and> \<not> item_terminal_failed item
     \<and> (get_str item ''status'' = Some ''sending'' \<longrightarrow> delivery_claim_is_unexpired env now item = Inr False)
     \<and> a = jobj [(''claim'', JStr ''claimed''), (''claim_token'', JStr token), (''item'', item'),
                 (''previous_cache_path'', jindex item ''cache_path'')]"
  using assms by (auto simp: claim_item_def Let_def split: if_splits)

lemma materialization_claim_granted:
  assumes "materialization_claim env now token owner lease item = Inr (a, Some item')"
  shows "\<exists>mat expires. jget item ''materialization'' = Some (JObj mat)
     \<and> delivery_claim_expires_at env now lease = Inr expires
     \<and> jset ''materialization'' (JObj (oputs
         [(''status'', JStr ''materializing''), (''attempts'', JInt (int (attempts_of (JObj mat)))),
          (''owner'', JStr owner), (''claim_token'', JStr token), (''claim_expires_at'', JStr expires),
          (''updated_at'', JStr (utc_now_iso env now))] mat)) item = Inr item'
     \<and> get_str (JObj mat) ''status'' \<noteq> Some ''materialized''
     \<and> get_str (JObj mat) ''status'' \<noteq> Some ''not_required''
     \<and> (get_str (JObj mat) ''status'' = Some ''materializing'' \<longrightarrow>
          nested_claim_is_unexpired env now (JObj mat) = Inr False)"
  using assms
  by (auto simp: materialization_claim_def Let_def bind_eq_Some_conv split: if_splits option.splits)

lemma claimed_token: "token_matches (JObj (oputs (claimed_fields env now token req ex n) m)) t \<Longrightarrow> t = token"
  by (auto simp: token_matches_def claimed_fields_def split: option.splits)

interpretation item_lease: fenced_lease "item_held env" "acquire_item env req"
    "\<lambda>now s t. require_active_delivery_claim env now s t = Inr ()" for env req
proof unfold_locales
  fix now s t now' t' assume "item_held env now s t" "item_held env now' s t'"
  then show "t = t'" by (rule lease_held_unique)
next
  fix now s t t' assume "item_held env now s t"
  then show "acquire_item env req now t' s = None"
    by (auto simp: acquire_item_def claim_item_def lease_held_def item_terminal_failed_def)
next
  fix now t s s' now' t' assume "acquire_item env req now t s = Some s'" "item_held env now' s' t'"
  then show "t' = t"
    by (auto simp: acquire_item_Some lease_held_def dest!: claim_item_granted claimed_token)
qed (simp add: require_active_delivery_iff)

definition accepts_materialization :: "gate_env \<Rightarrow> instant \<Rightarrow> json \<Rightarrow> string \<Rightarrow> bool" where
  "accepts_materialization env now item token \<longleftrightarrow> (\<exists>mat. jget item ''materialization'' = Some mat
     \<and> require_active_nested_claim env now mat token ''materializing'' = Inr ())"

interpretation materialization_lease: fenced_lease "materialization_held env"
    "acquire_materialization env owner lease" "accepts_materialization env" for env owner lease
proof unfold_locales
  fix now s t now' t' assume "materialization_held env now s t" "materialization_held env now' s t'"
  then show "t = t'" by (auto dest: lease_held_unique)
next
  fix now s t t' assume "materialization_held env now s t"
  then show "acquire_materialization env owner lease now t' s = None"
    by (cases "acquire_materialization env owner lease now t' s")
      (auto simp: acquire_materialization_Some lease_held_def dest!: materialization_claim_granted)
next
  fix now t s s' now' t'
  assume "acquire_materialization env owner lease now t s = Some s'" "materialization_held env now' s' t'"
  then show "t' = t"
    by (auto simp: acquire_materialization_Some lease_held_def token_matches_def jget_jset
        dest!: materialization_claim_granted split: option.splits)
qed (simp add: accepts_materialization_def require_active_nested_iff)

section \<open>Ledger operations as steps\<close>

datatype ledger_op =
    Claim string claim_request
  | Plan string string json "plan_item list"
  | ClaimMaterialization string string string string nat
  | FinishMaterialization materialization_completion
  | Upload item_upload
  | FinishStage stage_completion
  | FinishItem item_completion
  | Reconcile int

definition written :: "jmap \<Rightarrow> store_error + ('r \<times> jmap option) \<Rightarrow> jmap" where
  "written r res = (case res of Inr (a, Some r') \<Rightarrow> r' | _ \<Rightarrow> r)"

fun ledger_step :: "gate_env \<Rightarrow> instant \<Rightarrow> ledger_op \<Rightarrow> jmap \<Rightarrow> jmap" where
  "ledger_step env now (Claim token req) r = written r (claim_delivery_item_records env now token req r)"
| "ledger_step env now (Plan dk fp out items) r =
     written r (persist_delivery_plan_records env now dk fp out items r)"
| "ledger_step env now (ClaimMaterialization token dk ik owner lease) r =
     written r (claim_delivery_materialization_records env now token dk ik owner lease r)"
| "ledger_step env now (FinishMaterialization c) r =
     (if mc_status c \<noteq> ''materialized'' \<and> mc_status c \<noteq> ''failed'' then r
      else written r (finish_delivery_materialization_records env now c r))"
| "ledger_step env now (Upload u) r = written r (record_delivery_item_upload_records env now u r)"
| "ledger_step env now (FinishStage c) r = written r (finish_delivery_stage_records env now c r)"
| "ledger_step env now (FinishItem c) r = written r (finish_delivery_item_records env now c r)"
| "ledger_step env now (Reconcile ttl) r = written r (reconcile_delivery_cache_records env now ttl r)"

definition agree_except :: "string list \<Rightarrow> json \<Rightarrow> json \<Rightarrow> bool" where
  "agree_except ks i i' \<longleftrightarrow> (\<forall>k. k \<notin> set ks \<longrightarrow> jget i' k = jget i k)"

inductive item_step :: "gate_env \<Rightarrow> instant \<Rightarrow> ledger_op \<Rightarrow> json \<Rightarrow> json \<Rightarrow> bool" for env now where
  claimed: "bind_fingerprint (cr_request_fingerprint req) i = Inr i1 \<Longrightarrow>
     claim_item env now token req i1 = Inr (a, Some i') \<Longrightarrow> item_step env now (Claim token req) i i'"
| planned: "agree_except [''planned_outbound'', ''materialization''] i i' \<Longrightarrow>
     (\<And>m. jget i ''materialization'' = Some m \<Longrightarrow> jget i' ''materialization'' = Some m) \<Longrightarrow>
     item_step env now (Plan dk fp out items) i i'"
| materialization_claimed: "materialization_claim env now token owner lease i = Inr (a, Some i') \<Longrightarrow>
     item_step env now (ClaimMaterialization token dk ik owner lease) i i'"
| materialization_finished: "jget i ''materialization'' = Some (JObj mat) \<Longrightarrow>
     require_active_nested_claim env now (JObj mat) (mc_claim_token c) ''materializing'' = Inr () \<Longrightarrow>
     materialization_finished env now c mat i = Inr i' \<Longrightarrow>
     item_step env now (FinishMaterialization c) i i'"
| uploaded: "require_active_delivery_claim env now i (iu_claim_token u) = Inr () \<Longrightarrow>
     agree_except [''stages'', ''provider_media_id'', ''provider_media_state'', ''provider_client_id'',
       ''updated_at''] i i' \<Longrightarrow>
     jget i' ''updated_at'' = Some (JStr (utc_now_iso env now)) \<Longrightarrow>
     item_step env now (Upload u) i i'"
| stage_finished: "require_active_delivery_claim env now i (sc_claim_token c) = Inr () \<Longrightarrow>
     agree_except [''stages''] i i' \<Longrightarrow> item_step env now (FinishStage c) i i'"
| item_finished: "require_active_delivery_claim env now (JObj m) (ic_claim_token c) = Inr () \<Longrightarrow>
     m' = completed_item env now c m \<or> m' = oput ''cache_path'' JNull (completed_item env now c m) \<Longrightarrow>
     item_step env now (FinishItem c) (JObj m) (JObj m')"
| reconciled: "i' = fst (reconcile_item env now ttl i) \<Longrightarrow> item_step env now (Reconcile ttl) i i'"

inductive_cases item_step_claim: "item_step env now (Claim token req) i i'"
inductive_cases item_step_plan: "item_step env now (Plan dk fp out items) i i'"
inductive_cases item_step_reconcile: "item_step env now (Reconcile ttl) i i'"

text \<open>The simulation, operation by operation.\<close>

lemma claim_records_written:
  assumes "claim_delivery_item_records env now token req r = Inr (a, Some r')"
  shows "\<exists>rm items item item1 item'.
      claim_record env now req r = JObj rm
    \<and> oget rm ''items'' = Some (JObj items)
    \<and> item = claim_target env now req items
    \<and> get_str item ''artifact_id'' = Some (cr_artifact_id req) \<and> get_str item ''kind'' = Some (cr_kind req)
    \<and> bind_fingerprint (cr_request_fingerprint req) item = Inr item1
    \<and> claim_item env now token req item1 = Inr (a, Some item')
    \<and> r' = oput (cr_delivery_key req) (JObj (oput ''updated_at'' (JStr (utc_now_iso env now))
             (oput ''items'' (JObj (oput (cr_item_key req) item' items)) rm))) r"
  using assms
  by (auto simp: claim_delivery_item_records_def Let_def bind_eq_Some_conv
      dest!: jget_Some_obj split: option.splits)

lemma claim_step_item:
  assumes "find_item dk ik r = Some i"
  shows "\<exists>i'. find_item dk ik (ledger_step env now (Claim token req) r) = Some i'
     \<and> (i' = i \<or> item_step env now (Claim token req) i i')"
proof (cases "claim_delivery_item_records env now token req r")
  case (Inr p)
  show ?thesis
  proof (cases "snd p")
    case None
    with Inr assms show ?thesis by (cases p) (auto simp: written_def)
  next
    case (Some r')
    with Inr have c: "claim_delivery_item_records env now token req r = Inr (fst p, Some r')"
      by (cases p) auto
    from claim_records_written [OF c] obtain rm items item item1 item' where
      rm: "claim_record env now req r = JObj rm"
      and it: "oget rm ''items'' = Some (JObj items)"
      and item: "item = claim_target env now req items"
      and bf: "bind_fingerprint (cr_request_fingerprint req) item = Inr item1"
      and ci: "claim_item env now token req item1 = Inr (fst p, Some item')"
      and r': "r' = oput (cr_delivery_key req) (JObj (oput ''updated_at'' (JStr (utc_now_iso env now))
             (oput ''items'' (JObj (oput (cr_item_key req) item' items)) rm))) r"
      by blast
    have st: "ledger_step env now (Claim token req) r = r'" using c by (simp add: written_def)
    show ?thesis
    proof (cases "dk = cr_delivery_key req")
      case False
      with r' assms have "find_item dk ik r' = Some i" by (simp add: find_item_oput)
      with st show ?thesis by simp
    next
      case True
      with assms rm it have old: "oget items ik = Some i"
        by (auto simp: find_item_def claim_record_def bind_eq_Some_conv split: option.splits)
      show ?thesis
      proof (cases "ik = cr_item_key req")
        case ik: False
        with True r' old have "find_item dk ik r' = Some i" by (simp add: find_item_oput)
        with st show ?thesis by simp
      next
        case ik: True
        with True r' have "find_item dk ik r' = Some item'" by (simp add: find_item_oput)
        moreover from old ik item have "item = i" by (simp add: claim_target_def)
        ultimately show ?thesis using bf ci st by (auto intro: item_step.claimed)
      qed
    qed
  qed
qed (use assms in \<open>simp add: written_def\<close>)

lemma plan_one_keeps:
  assumes "plan_one env now fp p items = Inr items'" "oget items k = Some i"
  shows "\<exists>i'. oget items' k = Some i' \<and> agree_except [''planned_outbound'', ''materialization''] i i'
     \<and> (\<forall>m. jget i ''materialization'' = Some m \<longrightarrow> jget i' ''materialization'' = Some m)"
  using assms by (auto simp: plan_one_def Let_def agree_except_def jget_jset_if_missing split: if_splits)

lemma plan_all_keeps:
  "plan_all env now fp ps items = Inr items' \<Longrightarrow> oget items k = Some i \<Longrightarrow>
   \<exists>i'. oget items' k = Some i' \<and> agree_except [''planned_outbound'', ''materialization''] i i'
     \<and> (\<forall>m. jget i ''materialization'' = Some m \<longrightarrow> jget i' ''materialization'' = Some m)"
proof (induction ps arbitrary: items i)
  case (Cons p ps)
  from Cons.prems(1) obtain items1 where one: "plan_one env now fp p items = Inr items1"
    and rest: "plan_all env now fp ps items1 = Inr items'" by auto
  from plan_one_keeps [OF one Cons.prems(2)] obtain i1 where i1: "oget items1 k = Some i1"
      "agree_except [''planned_outbound'', ''materialization''] i i1"
      "\<forall>m. jget i ''materialization'' = Some m \<longrightarrow> jget i1 ''materialization'' = Some m" by blast
  from Cons.IH [OF rest i1(1)] i1 show ?case by (fastforce simp: agree_except_def)
qed (auto simp: agree_except_def)

lemma plan_step_item:
  assumes "find_item dk ik r = Some i"
  shows "\<exists>i'. find_item dk ik (ledger_step env now (Plan dk' fp out items) r) = Some i'
     \<and> (i' = i \<or> item_step env now (Plan dk' fp out items) i i')"
proof (cases "persist_delivery_plan_records env now dk' fp out items r")
  case (Inr p)
  from Inr obtain rec0 record1 items0 items1 record2 record3 where
    rec: "rec0 = plan_record env now dk' fp out r"
    and r1: "jset_if_missing ''planned_outbound'' out rec0 = Inr record1"
    and it: "jget record1 ''items'' = Some (JObj items0)"
    and pl: "plan_all env now fp items items0 = Inr items1"
    and r2: "jset ''items'' (JObj items1) record1 = Inr record2"
    and r3: "jset ''updated_at'' (JStr (utc_now_iso env now)) record2 = Inr record3"
    and p: "p = ((), Some (oput dk' record3 r))"
    by (auto simp: persist_delivery_plan_records_def Let_def bind_eq_Some_conv)
  have st: "ledger_step env now (Plan dk' fp out items) r = oput dk' record3 r"
    using Inr p by (simp add: written_def)
  show ?thesis
  proof (cases "dk = dk'")
    case False
    with st assms show ?thesis by (simp add: find_item_def)
  next
    case True
    with assms rec have "jget rec0 ''items'' = Some (JObj m) \<Longrightarrow> oget m ik = Some i" for m
      by (auto simp: find_item_def plan_record_def bind_eq_Some_conv)
    moreover have "jget record1 ''items'' = jget rec0 ''items''"
      using jget_jset_if_missing [OF r1] by simp
    ultimately have "oget items0 ik = Some i" using it by simp
    from plan_all_keeps [OF pl this] obtain i' where i': "oget items1 ik = Some i'"
      "agree_except [''planned_outbound'', ''materialization''] i i'"
      "\<forall>m. jget i ''materialization'' = Some m \<longrightarrow> jget i' ''materialization'' = Some m" by blast
    have "jget record3 ''items'' = Some (JObj items1)"
      using jget_jset [OF r3, of "''items''"] jget_jset [OF r2, of "''items''"] by simp
    with True st i' show ?thesis by (auto simp: find_item_def intro: item_step.planned)
  qed
qed (use assms in \<open>simp add: written_def\<close>)

lemma put_item_step:
  assumes "find_item dk ik r = Some i" "find_item dk' ik' r = Some j"
    and "(dk, ik) = (dk', ik') \<Longrightarrow> P i i'"
  shows "\<exists>k. find_item dk ik (put_item dk' ik' i' r) = Some k \<and> (k = i \<or> P i k)"
  using assms by (cases "(dk, ik) = (dk', ik')") (auto simp: find_item_put_same find_item_put_other)

lemma oput_opt_get [simp]:
  "oget (oput_opt k x m) k' = (if k' = k then (case x of None \<Rightarrow> oget m k | Some v \<Rightarrow> Some (JStr v)) else oget m k')"
  by (auto simp: oput_opt_def split: option.splits)

lemma materialization_claim_step_item:
  assumes "find_item dk ik r = Some i"
  shows "\<exists>i'. find_item dk ik (ledger_step env now (ClaimMaterialization token dk' ik' owner lease) r) = Some i'
     \<and> (i' = i \<or> item_step env now (ClaimMaterialization token dk' ik' owner lease) i i')"
proof (cases "claim_delivery_materialization_records env now token dk' ik' owner lease r")
  case (Inr p)
  then obtain j a c where j: "find_item dk' ik' r = Some j"
    and m: "materialization_claim env now token owner lease j = Inr (a, c)"
    and p: "p = (a, map_option (\<lambda>i. put_item dk' ik' i r) c)"
    by (auto simp: claim_delivery_materialization_records_def)
  show ?thesis
  proof (cases c)
    case None
    with Inr p assms show ?thesis by (simp add: written_def)
  next
    case (Some j')
    have "\<exists>k. find_item dk ik (put_item dk' ik' j' r) = Some k \<and>
        (k = i \<or> item_step env now (ClaimMaterialization token dk' ik' owner lease) i k)"
      using assms j m Some
      by (intro put_item_step) (auto intro: item_step.materialization_claimed)
    with Inr p Some show ?thesis by (simp add: written_def)
  qed
qed (use assms in \<open>simp add: written_def\<close>)

lemma materialization_finish_step_item:
  assumes "find_item dk ik r = Some i"
  shows "\<exists>i'. find_item dk ik (ledger_step env now (FinishMaterialization c) r) = Some i'
     \<and> (i' = i \<or> item_step env now (FinishMaterialization c) i i')"
proof (cases "finish_delivery_materialization_records env now c r")
  case (Inr p)
  then obtain j mat j' where j: "find_item (mc_delivery_key c) (mc_item_key c) r = Some j"
    and m: "jget j ''materialization'' = Some (JObj mat)"
    and act: "require_active_nested_claim env now (JObj mat) (mc_claim_token c) ''materializing'' = Inr ()"
    and fin: "materialization_finished env now c mat j = Inr j'"
    and p: "p = ((), Some (put_item (mc_delivery_key c) (mc_item_key c) j' r))"
    by (auto simp: finish_delivery_materialization_records_def bind_eq_Some_conv)
  have "\<exists>k. find_item dk ik (put_item (mc_delivery_key c) (mc_item_key c) j' r) = Some k \<and>
      (k = i \<or> item_step env now (FinishMaterialization c) i k)"
    using assms j m act fin
    by (intro put_item_step) (auto intro: item_step.materialization_finished)
  with Inr p assms show ?thesis by (simp add: written_def)
qed (use assms in \<open>simp add: written_def\<close>)

lemma with_active_item_written:
  assumes "with_active_item env now dk ik token act r = Inr (x, r')"
  shows "\<exists>m m'. find_item dk ik r = Some (JObj m)
     \<and> require_active_delivery_claim env now (JObj m) token = Inr ()
     \<and> act m = Inr (x, m') \<and> r' = Some (put_item dk ik (JObj m') r)"
  using assms by (auto simp: with_active_item_def)

lemma active_item_step:
  assumes "find_item dk ik r = Some i"
    and "\<And>m x m'. require_active_delivery_claim env now (JObj m) token = Inr () \<Longrightarrow>
           act m = Inr (x, m') \<Longrightarrow> item_step env now op (JObj m) (JObj m')"
  shows "\<exists>i'. find_item dk ik (written r (with_active_item env now dk' ik' token act r)) = Some i'
     \<and> (i' = i \<or> item_step env now op i i')"
proof (cases "with_active_item env now dk' ik' token act r")
  case (Inr p)
  then have "with_active_item env now dk' ik' token act r = Inr (fst p, snd p)" by simp
  from with_active_item_written [OF this] obtain m m' where
    m: "find_item dk' ik' r = Some (JObj m)"
    and act: "require_active_delivery_claim env now (JObj m) token = Inr ()" "act m = Inr (fst p, m')"
    and p: "snd p = Some (put_item dk' ik' (JObj m') r)" by blast
  have "\<exists>k. find_item dk ik (put_item dk' ik' (JObj m') r) = Some k \<and> (k = i \<or> item_step env now op i k)"
    using assms(1) m assms(2) [OF act] by (intro put_item_step) auto
  with Inr p show ?thesis by (cases p) (simp add: written_def)
qed (use assms in \<open>simp add: written_def\<close>)

lemma upload_step_item:
  assumes "find_item dk ik r = Some i"
  shows "\<exists>i'. find_item dk ik (ledger_step env now (Upload u) r) = Some i'
     \<and> (i' = i \<or> item_step env now (Upload u) i i')"
  unfolding ledger_step.simps record_delivery_item_upload_records_def
  by (rule active_item_step [OF assms])
    (auto simp: delivery_stage_object_def agree_except_def intro!: item_step.uploaded split: if_splits)

lemma stage_step_item:
  assumes "find_item dk ik r = Some i"
  shows "\<exists>i'. find_item dk ik (ledger_step env now (FinishStage c) r) = Some i'
     \<and> (i' = i \<or> item_step env now (FinishStage c) i i')"
  unfolding ledger_step.simps finish_delivery_stage_records_def
  by (rule active_item_step [OF assms])
    (auto simp: delivery_stage_object_def agree_except_def intro!: item_step.stage_finished split: if_splits)

lemma finish_step_item:
  assumes "find_item dk ik r = Some i"
  shows "\<exists>i'. find_item dk ik (ledger_step env now (FinishItem c) r) = Some i'
     \<and> (i' = i \<or> item_step env now (FinishItem c) i i')"
  unfolding ledger_step.simps finish_delivery_item_records_def
  by (rule active_item_step [OF assms])
    (auto simp: Let_def intro: item_step.item_finished split: if_splits)

lemma oget_reconcile_items:
  "oget (fst (reconcile_items env now ttl items)) k =
     map_option (\<lambda>i. fst (reconcile_item env now ttl i)) (oget items k)"
  by (induction items) (auto split: prod.splits)

lemma oget_reconcile_records:
  "oget (fst (reconcile_records env now ttl records)) k =
     map_option (\<lambda>i. fst (reconcile_record env now ttl i)) (oget records k)"
  by (induction records) (auto split: prod.splits)

lemma find_item_reconcile:
  "find_item dk ik (fst (reconcile_records env now ttl r)) =
     map_option (\<lambda>i. fst (reconcile_item env now ttl i)) (find_item dk ik r)"
proof (cases "oget r dk")
  case (Some rec0)
  then show ?thesis
    by (auto simp: find_item_def oget_reconcile_records reconcile_record_def oget_reconcile_items [symmetric]
        split: json.splits option.splits prod.splits)
qed (simp add: find_item_def oget_reconcile_records)

lemma reconcile_step_item:
  assumes "find_item dk ik r = Some i"
  shows "\<exists>i'. find_item dk ik (ledger_step env now (Reconcile ttl) r) = Some i'
     \<and> (i' = i \<or> item_step env now (Reconcile ttl) i i')"
proof -
  obtain r' rc where rr: "reconcile_records env now ttl r = (r', rc)" by fastforce
  with find_item_reconcile [of dk ik env now ttl r] assms
  have "find_item dk ik r' = Some (fst (reconcile_item env now ttl i))" by simp
  with rr assms show ?thesis
    by (auto simp: written_def reconcile_delivery_cache_records_def intro: item_step.reconciled)
qed

lemma ledger_step_item:
  assumes "find_item dk ik r = Some i"
  shows "\<exists>i'. find_item dk ik (ledger_step env now op r) = Some i' \<and> (i' = i \<or> item_step env now op i i')"
  by (cases op) (simp_all only: claim_step_item [OF assms] plan_step_item [OF assms]
      materialization_claim_step_item [OF assms] materialization_finish_step_item [OF assms]
      upload_step_item [OF assms] stage_step_item [OF assms] finish_step_item [OF assms]
      reconcile_step_item [OF assms])

section \<open>Invariants of one item\<close>

definition materialization_settled :: "json \<Rightarrow> bool" where
  "materialization_settled i \<longleftrightarrow> (\<exists>mat. jget i ''materialization'' = Some mat
     \<and> (jget mat ''status'' = Some (JStr ''materialized'') \<or> jget mat ''status'' = Some (JStr ''not_required'')))"

definition delivered :: "json \<Rightarrow> bool" where
  "delivered i \<longleftrightarrow> jget i ''status'' = Some (JStr ''succeeded'') \<and> materialization_settled i"

lemma settled_agree:
  "materialization_settled i \<Longrightarrow> jget i' ''materialization'' = jget i ''materialization'' \<Longrightarrow> materialization_settled i'"
  by (simp add: materialization_settled_def)

lemma bind_fingerprint_agree:
  "bind_fingerprint fp i = Inr i1 \<Longrightarrow> agree_except [''request_fingerprint''] i i1"
  by (auto simp: bind_fingerprint_def agree_except_def split: option.splits if_splits)

lemma claim_item_agree:
  "claim_item env now token req i = Inr (a, Some i') \<Longrightarrow>
   agree_except [''status'', ''attempts'', ''owner'', ''claim_token'', ''claim_expires_at'', ''cache_path'', ''updated_at''] i i'"
  by (auto simp: agree_except_def claimed_fields_def dest!: claim_item_granted)

lemma completed_item_agree:
  "agree_except [''status'', ''provider_media_id'', ''provider_client_id'', ''provider_message_id'', ''retryable'',
     ''last_error'', ''fallback_used'', ''owner'', ''claim_expires_at'', ''updated_at''] (JObj m)
     (JObj (completed_item env now c m))"
  by (auto simp: agree_except_def completed_item_def)

lemma reconcile_item_agree:
  "agree_except [''updated_at'', ''cache_path'', ''status'', ''retryable'', ''last_error'', ''owner'', ''claim_expires_at'']
     i (fst (reconcile_item env now ttl i))"
  by (auto simp: agree_except_def reconcile_item_def split: option.splits json.splits)

lemma reconcile_item_live:
  "\<not> item_expired env now ttl i \<Longrightarrow> agree_except [''updated_at'', ''cache_path''] i (fst (reconcile_item env now ttl i))"
  by (auto simp: agree_except_def reconcile_item_def split: option.splits json.splits)

lemma agreeD: "agree_except ks i i' \<Longrightarrow> k \<notin> set ks \<Longrightarrow> jget i' k = jget i k"
  by (simp add: agree_except_def)

lemma agree_mono: "agree_except ks i i' \<Longrightarrow> set ks \<subseteq> set ks' \<Longrightarrow> agree_except ks' i i'"
  by (auto simp: agree_except_def)

lemma settled_not_reclaimed:
  "materialization_settled i \<Longrightarrow> materialization_claim env now token owner lease i \<noteq> Inr (a, Some i')"
  by (auto simp: materialization_settled_def dest!: materialization_claim_granted)

lemma settled_not_finished:
  "materialization_settled i \<Longrightarrow> jget i ''materialization'' = Some mat \<Longrightarrow>
   require_active_nested_claim env now mat token ''materializing'' \<noteq> Inr u"
  by (auto simp: materialization_settled_def require_active_nested_iff lease_held_def)

text \<open>A settled materialization stays as it is.\<close>

lemma item_step_settled:
  "item_step env now op i i' \<Longrightarrow> materialization_settled i \<Longrightarrow>
   jget i' ''materialization'' = jget i ''materialization''"
proof (induction rule: item_step.induct)
  case (claimed req i i1 token a i')
  have "jget i' ''materialization'' = jget i1 ''materialization''"
    by (rule agreeD [OF claim_item_agree]) (use claimed in auto)
  also have "\<dots> = jget i ''materialization''"
    by (rule agreeD [OF bind_fingerprint_agree]) (use claimed in auto)
  finally show ?case .
next
  case (planned i i' dk fp out items)
  then show ?case by (auto simp: materialization_settled_def)
next
  case (item_finished m c m')
  have "jget (JObj (completed_item env now c m)) ''materialization'' = jget (JObj m) ''materialization''"
    by (rule agreeD [OF completed_item_agree]) simp
  with item_finished(2) show ?case by auto
next
  case (reconciled i' ttl i)
  then show ?case by (auto intro: agreeD [OF reconcile_item_agree])
next
  case (uploaded i u i')
  show ?case by (rule agreeD [OF uploaded(2)]) simp
next
  case (stage_finished i c i')
  show ?case by (rule agreeD [OF stage_finished(2)]) simp
qed (auto dest: settled_not_reclaimed settled_not_finished)

text \<open>A delivered item changes in bookkeeping only.\<close>

lemma delivered_not_active: "delivered i \<Longrightarrow> require_active_delivery_claim env now i token \<noteq> Inr u"
  by (auto simp: delivered_def require_active_delivery_iff lease_held_def)

lemma delivered_not_claimed: "delivered i \<Longrightarrow> claim_item env now token req i \<noteq> Inr (a, Some i')"
  by (auto simp: delivered_def dest!: claim_item_granted)

lemma delivered_not_expired: "delivered i \<Longrightarrow> \<not> item_expired env now ttl i"
  by (auto simp: delivered_def item_expired_def item_retryable_state_def status_in_def split: option.splits)

lemma delivered_agree:
  "delivered i \<Longrightarrow> agree_except ks i i' \<Longrightarrow> ''status'' \<notin> set ks \<Longrightarrow> ''materialization'' \<notin> set ks \<Longrightarrow> delivered i'"
  by (auto simp: delivered_def materialization_settled_def agree_except_def)

definition delivery_bookkeeping :: "string list" where
  "delivery_bookkeeping = [''planned_outbound'', ''updated_at'', ''cache_path'']"

lemma item_step_delivered:
  assumes "item_step env now op i i'" "delivered i"
  shows "delivered i' \<and> agree_except delivery_bookkeeping i i'"
  using assms
proof (cases rule: item_step.cases)
  case (claimed req i1 token a)
  have "delivered i1"
    by (rule delivered_agree [OF assms(2) bind_fingerprint_agree [OF claimed(2)]]) simp_all
  with claimed(3) show ?thesis using delivered_not_claimed by metis
next
  case (planned dk fp out items)
  then have "jget i' ''materialization'' = jget i ''materialization''"
    using assms by (auto simp: delivered_def materialization_settled_def)
  with planned have "agree_except [''planned_outbound''] i i'" by (auto simp: agree_except_def)
  with assms(2) show ?thesis
    by (auto elim!: delivered_agree agree_mono simp: delivery_bookkeeping_def)
next
  case (materialization_claimed token owner lease a dk ik)
  then show ?thesis using assms(2) settled_not_reclaimed by (auto simp: delivered_def)
next
  case (materialization_finished mat c)
  then show ?thesis using assms(2) settled_not_finished by (auto simp: delivered_def)
next
  case (reconciled ttl)
  then have "agree_except [''updated_at'', ''cache_path''] i i'"
    using delivered_not_expired [OF assms(2)] reconcile_item_live by simp
  with assms(2) show ?thesis
    by (auto elim!: delivered_agree agree_mono simp: delivery_bookkeeping_def)
qed (use assms(2) delivered_not_active in blast)+

section \<open>Runs\<close>

fun ledger_run :: "gate_env \<Rightarrow> (instant \<times> ledger_op) list \<Rightarrow> jmap \<Rightarrow> jmap" where
  "ledger_run env [] r = r"
| "ledger_run env ((now, op) # ops) r = ledger_run env ops (ledger_step env now op r)"

text \<open>An invariant of the item steps allowed in a run holds at its end.\<close>

lemma ledger_run_invariant:
  assumes step: "\<And>now op i i'. (now, op) \<in> set ops \<Longrightarrow> item_step env now op i i' \<Longrightarrow> P i \<Longrightarrow> P i'"
    and start: "find_item dk ik r = Some i" "P i"
  shows "\<exists>i'. find_item dk ik (ledger_run env ops r) = Some i' \<and> P i'"
  using assms
proof (induction ops arbitrary: r i)
  case (Cons x ops)
  obtain now op where x: "x = (now, op)" by fastforce
  from ledger_step_item [OF Cons.prems(2)] obtain i1 where
    i1: "find_item dk ik (ledger_step env now op r) = Some i1" "i1 = i \<or> item_step env now op i i1"
    by blast
  then have "P i1" using Cons.prems x by auto
  moreover have "\<And>now op i i'. (now, op) \<in> set ops \<Longrightarrow> item_step env now op i i' \<Longrightarrow> P i \<Longrightarrow> P i'"
    using Cons.prems(1) by (meson list.set_intros(2))
  ultimately have "\<exists>i'. find_item dk ik (ledger_run env ops (ledger_step env now op r)) = Some i' \<and> P i'"
    using i1(1) by (intro Cons.IH)
  with x show ?case by simp
qed auto

lemma delivered_run:
  assumes "find_item dk ik r = Some i" "delivered i"
  shows "\<exists>i'. find_item dk ik (ledger_run env ops r) = Some i' \<and> delivered i'
            \<and> agree_except delivery_bookkeeping i i'"
  by (rule ledger_run_invariant [where P = "\<lambda>j. delivered j \<and> agree_except delivery_bookkeeping i j"])
    (use assms item_step_delivered in \<open>auto simp: agree_except_def\<close>)

section \<open>The lease of a claim holder\<close>

text \<open>
  \<open>leased env t u0 e i\<close>: token \<open>t\<close> claims item \<open>i\<close> until instant \<open>e\<close>, the item was not touched
  before \<open>u0\<close>, and its materialization is settled (the gateway claims an item only then).
\<close>

definition leased :: "gate_env \<Rightarrow> string \<Rightarrow> instant \<Rightarrow> instant \<Rightarrow> json \<Rightarrow> bool" where
  "leased env t u0 e i \<longleftrightarrow>
     jget i ''status'' = Some (JStr ''sending'') \<and> jget i ''claim_token'' = Some (JStr t)
   \<and> (\<exists>s. jget i ''claim_expires_at'' = Some (JStr s) \<and> parse_rfc3339 env s = Some e)
   \<and> (\<exists>s u. jget i ''updated_at'' = Some (JStr s) \<and> parse_rfc3339 env s = Some u \<and> u0 \<le> u)
   \<and> materialization_settled i"

definition lease_window :: "gate_env \<Rightarrow> string \<Rightarrow> instant \<Rightarrow> instant \<Rightarrow> instant \<times> ledger_op \<Rightarrow> bool" where
  "lease_window env t u0 e x \<longleftrightarrow> u0 \<le> fst x \<and> fst x < e \<and> fst x \<le> max_utc env
     \<and> (case snd x of FinishItem c \<Rightarrow> ic_claim_token c \<noteq> t | Reconcile ttl \<Rightarrow> e - u0 \<le> ttl | _ \<Rightarrow> True)"

lemma leased_unexpired: "leased env t u0 e i \<Longrightarrow> delivery_claim_is_unexpired env n i = Inr (n < e)"
  by (auto simp: leased_def delivery_claim_is_unexpired_def claim_is_unexpired_def get_str_def)

lemma leased_held: "leased env t u0 e i \<Longrightarrow> t \<noteq> [] \<Longrightarrow> n < e \<Longrightarrow> item_held env n i t"
  by (auto simp: lease_held_def leased_unexpired token_matches_def leased_def get_str_def)

lemma leased_agree:
  assumes "leased env t u0 e i" "agree_except ks i i'"
    and "''status'' \<notin> set ks" "''claim_token'' \<notin> set ks" "''claim_expires_at'' \<notin> set ks"
    and "jget i' ''materialization'' = jget i ''materialization''"
    and "\<exists>s u. jget i' ''updated_at'' = Some (JStr s) \<and> parse_rfc3339 env s = Some u \<and> u0 \<le> u"
  shows "leased env t u0 e i'"
proof -
  have eqs: "jget i' ''status'' = jget i ''status''" "jget i' ''claim_token'' = jget i ''claim_token''"
    "jget i' ''claim_expires_at'' = jget i ''claim_expires_at''"
    by (rule agreeD [OF assms(2)], rule assms)+
  have "materialization_settled i'"
    using assms(1) by (intro settled_agree [OF _ assms(6)]) (simp add: leased_def)
  with assms(1,7) eqs show ?thesis by (simp add: leased_def)
qed

lemma leased_updated: "leased env t u0 e i \<Longrightarrow>
  \<exists>s u. jget i ''updated_at'' = Some (JStr s) \<and> parse_rfc3339 env s = Some u \<and> u0 \<le> u"
  by (simp add: leased_def)

lemma leased_not_claimed:
  "leased env t u0 e i \<Longrightarrow> n < e \<Longrightarrow> claim_item env n token req i \<noteq> Inr (a, Some i')"
  using leased_unexpired [of env t u0 e i n] by (auto simp: leased_def dest!: claim_item_granted)

lemma floor_seconds: "(u0 :: int) mod nanos = 0 \<Longrightarrow> u0 \<le> n \<Longrightarrow> u0 \<le> n - n mod 1000000000"
proof -
  assume a: "u0 mod nanos = 0" and le: "u0 \<le> n"
  have "u0 = u0 div nanos * nanos" using a by (metis add.right_neutral div_mult_mod_eq)
  also have "\<dots> \<le> n div nanos * nanos"
    using le by (intro mult_right_mono zdiv_mono1) (simp_all add: nanos_def)
  also have "\<dots> = n - n mod nanos" by (simp add: minus_mod_eq_div_mult)
  finally show ?thesis by (simp add: nanos_def)
qed

lemma reconcile_updated:
  "jget (fst (reconcile_item env now ttl i)) ''updated_at'' = jget i ''updated_at''
   \<or> jget (fst (reconcile_item env now ttl i)) ''updated_at'' = Some (JStr (to_rfc3339 env now))"
  by (auto simp: reconcile_item_def split: option.splits json.splits)

lemma leased_not_expired: "leased env t u0 e i \<Longrightarrow> n < e \<Longrightarrow> e - u0 \<le> ttl \<Longrightarrow> \<not> item_expired env n ttl i"
  by (auto simp: leased_def item_expired_def get_str_def)

lemma item_step_leased:
  assumes "item_step env n op i i'" "leased env t u0 e i" "t \<noteq> []"
    and "lease_window env t u0 e (n, op)" "chrono_ok env" "u0 mod nanos = 0"
  shows "leased env t u0 e i'"
proof -
  have n: "u0 \<le> n" "n < e" "n \<le> max_utc env" using assms(4) by (auto simp: lease_window_def)
  have mat: "jget i' ''materialization'' = jget i ''materialization''"
    using item_step_settled [OF assms(1)] assms(2) by (simp add: leased_def)
  have upd: "\<exists>s u. jget i ''updated_at'' = Some (JStr s) \<and> parse_rfc3339 env s = Some u \<and> u0 \<le> u"
    by (rule leased_updated [OF assms(2)])
  from assms(1) show ?thesis
  proof (cases rule: item_step.cases)
    case (claimed req i1 token a)
    have ag: "agree_except [''request_fingerprint''] i i1" by (rule bind_fingerprint_agree [OF claimed(2)])
    have "leased env t u0 e i1"
      by (rule leased_agree [OF assms(2) ag]) (use upd in \<open>simp_all add: agreeD [OF ag]\<close>)
    with claimed(3) n show ?thesis using leased_not_claimed by metis
  next
    case (planned dk fp out items)
    show ?thesis
      by (rule leased_agree [OF assms(2) planned(2)]) (use mat upd in \<open>simp_all add: agreeD [OF planned(2)]\<close>)
  next
    case (materialization_claimed token owner lease a dk ik)
    then show ?thesis using assms(2) settled_not_reclaimed by (auto simp: leased_def)
  next
    case (materialization_finished m c)
    then show ?thesis using assms(2) settled_not_finished by (auto simp: leased_def)
  next
    case (uploaded u)
    have "parse_rfc3339 env (utc_now_iso env n) = Some (n - n mod 1000000000)"
      using assms(5) n by (simp add: chrono_ok_def utc_now_iso_def)
    then show ?thesis
      using uploaded(4) floor_seconds [OF assms(6) n(1)]
      by (intro leased_agree [OF assms(2) uploaded(3)]) (use mat in auto)
  next
    case (stage_finished c)
    show ?thesis
      by (rule leased_agree [OF assms(2) stage_finished(3)])
        (use mat upd in \<open>simp_all add: agreeD [OF stage_finished(3)]\<close>)
  next
    case (item_finished m c m')
    then have "item_held env n i (ic_claim_token c)" by (simp add: require_active_delivery_iff)
    moreover have "item_held env n i t" by (rule leased_held [OF assms(2,3) n(2)])
    ultimately have "ic_claim_token c = t" by (rule lease_held_unique)
    with assms(4) item_finished show ?thesis by (simp add: lease_window_def)
  next
    case (reconciled ttl)
    have "e - u0 \<le> ttl" using assms(4) reconciled by (simp add: lease_window_def)
    then have live: "agree_except [''updated_at'', ''cache_path''] i i'"
      using leased_not_expired [OF assms(2) n(2)] reconcile_item_live reconciled by simp
    have "parse_rfc3339 env (to_rfc3339 env n) = Some n"
      using assms(5) n by (simp add: chrono_ok_def)
    then show ?thesis
      using reconcile_updated [of env n ttl i] reconciled n upd
      by (intro leased_agree [OF assms(2) live]) (use mat in auto)
  qed
qed

lemma leased_run:
  assumes "find_item dk ik r = Some i" "leased env t u0 e i" "t \<noteq> []"
    and "\<forall>x \<in> set ops. lease_window env t u0 e x" "chrono_ok env" "u0 mod nanos = 0"
  shows "\<exists>i'. find_item dk ik (ledger_run env ops r) = Some i' \<and> leased env t u0 e i'"
  by (rule ledger_run_invariant [where P = "leased env t u0 e", OF _ assms(1,2)])
    (meson item_step_leased assms(3-6))

text \<open>A granted claim is a lease for the requested time.\<close>

lemma expires_at_parses:
  assumes "delivery_claim_expires_at env now lease = Inr s" "chrono_ok env"
    and "now + int (max lease 1) * nanos \<le> max_utc env"
  shows "parse_rfc3339 env s = Some (now + int (max lease 1) * nanos)"
proof -
  have "int (max lease 1) \<le> i64_max div 1000"
  proof (rule ccontr)
    assume "\<not> int (max lease 1) \<le> i64_max div 1000"
    with assms(1) show False
      by (auto simp: delivery_claim_expires_at_def Let_def i64_max_def split: if_splits)
  qed
  then have "(if int (max lease 1) \<le> i64_max then int (max lease 1) else i64_max) = int (max lease 1)"
    by (simp add: i64_max_def)
  with assms show ?thesis
    by (auto simp: delivery_claim_expires_at_def Let_def chrono_ok_def split: if_splits)
qed

lemma claim_item_leases:
  assumes "claim_item env now token req i = Inr (a, Some i')" "chrono_ok env"
    and "now + int (max (cr_lease_seconds req) 1) * nanos \<le> max_utc env"
    and "materialization_settled i"
  shows "leased env token (now - now mod nanos) (now + int (max (cr_lease_seconds req) 1) * nanos) i'"
proof -
  from claim_item_granted [OF assms(1)] obtain m ex where i: "i = JObj m"
    and ex: "delivery_claim_expires_at env now (cr_lease_seconds req) = Inr ex"
    and i': "i' = JObj (oputs (claimed_fields env now token req ex (attempts_of i)) m)" by blast
  have "now \<le> max_utc env"
  proof -
    have "0 \<le> int (max (cr_lease_seconds req) 1) * nanos" by (simp add: nanos_def)
    with assms(3) show ?thesis by linarith
  qed
  then have "parse_rfc3339 env (utc_now_iso env now) = Some (now - now mod nanos)"
    using assms(2) by (simp add: chrono_ok_def utc_now_iso_def nanos_def)
  moreover have "materialization_settled i'"
    using assms(4) i i' by (auto simp: materialization_settled_def claimed_fields_def)
  ultimately show ?thesis
    using i' expires_at_parses [OF ex assms(2,3)] by (simp add: leased_def claimed_fields_def)
qed

lemma expiry_defined:
  assumes "now + 365000 * 86400 * nanos \<le> max_utc env"
  shows "(\<exists>s. delivery_claim_expires_at env now lease = Inr s) \<longleftrightarrow> lease \<le> 9223372036854775"
proof -
  have b: "(9223372036854775807 :: int) div 1000 = 9223372036854775" by simp
  consider "int (max lease 1) \<le> 9223372036854775" | "9223372036854775 < int (max lease 1)" by linarith
  then show ?thesis
  proof cases
    case 1
    then have "lease \<le> 9223372036854775" by linarith
    with 1 assms show ?thesis by (simp add: delivery_claim_expires_at_def Let_def i64_max_def b)
  next
    case 2
    then have "\<not> lease \<le> 9223372036854775" by linarith
    with 2 show ?thesis by (simp add: delivery_claim_expires_at_def Let_def i64_max_def b)
  qed
qed

lemma claim_item_active:
  assumes "claim_item env now token req i = Inr (a, Some i')" "chrono_ok env"
    and "now + int (max (cr_lease_seconds req) 1) * nanos \<le> max_utc env" "token \<noteq> []"
  shows "require_active_delivery_claim env n i' token = Inr () \<longleftrightarrow>
    n < now + int (max (cr_lease_seconds req) 1) * nanos"
proof -
  from claim_item_granted [OF assms(1)] obtain m ex where i: "i = JObj m"
    and ex: "delivery_claim_expires_at env now (cr_lease_seconds req) = Inr ex"
    and i': "i' = JObj (oputs (claimed_fields env now token req ex (attempts_of i)) m)" by blast
  have "now \<le> max_utc env"
  proof -
    have "0 \<le> int (max (cr_lease_seconds req) 1) * nanos" by (simp add: nanos_def)
    with assms(3) show ?thesis by linarith
  qed
  then have "parse_rfc3339 env (utc_now_iso env now) = Some (now - now mod nanos)"
    using assms(2) by (simp add: chrono_ok_def utc_now_iso_def nanos_def)
  then have "delivery_claim_is_unexpired env n i' = Inr (n < now + int (max (cr_lease_seconds req) 1) * nanos)"
    using expires_at_parses [OF ex assms(2,3)]
    by (simp add: i' delivery_claim_is_unexpired_def claim_is_unexpired_def claimed_fields_def get_str_def)
  with assms(4) show ?thesis
    by (auto simp: require_active_delivery_iff lease_held_def i' claimed_fields_def token_matches_def get_str_def)
qed

lemma claim_item_answer:
  assumes "claim_item env now token req i = Inr (a, Some i')"
  shows "jget a ''claim'' = Some (JStr ''claimed'')" "jget a ''claim_token'' = Some (JStr token)"
    "jget a ''item'' = Some i'" "jget i' ''attempts'' = Some (JInt (int (attempts_of i)))"
  using claim_item_granted [OF assms] by (auto simp: jobj_def claimed_fields_def)

lemma new_item_attempts: "get_u64 (new_item env now req) ''attempts'' = Some 0"
  by (simp add: new_item_def get_u64_def jobj_def u64_max_def)

lemma claim_record_find:
  "claim_record env now req r = JObj rm \<Longrightarrow> oget rm ''items'' = Some (JObj items) \<Longrightarrow>
   find_item (cr_delivery_key req) ik r = oget items ik"
  by (auto simp: claim_record_def find_item_def new_record_def jobj_def split: option.splits)

section \<open>Fenced tokens\<close>

text \<open>\<open>fenced t i\<close>: token \<open>t\<close> is not the one the item was last claimed with.\<close>

definition fenced :: "string \<Rightarrow> json \<Rightarrow> bool" where
  "fenced t i \<longleftrightarrow> jget i ''claim_token'' \<noteq> Some (JStr t)"

lemma fenced_inactive: "fenced t i \<Longrightarrow> require_active_delivery_claim env n i t \<noteq> Inr u"
  by (auto simp: fenced_def require_active_delivery_iff lease_held_def token_matches_def split: option.splits)

lemma fenced_agree: "fenced t i \<Longrightarrow> agree_except ks i i' \<Longrightarrow> ''claim_token'' \<notin> set ks \<Longrightarrow> fenced t i'"
  by (simp add: fenced_def agreeD)

lemma materialization_claim_agree:
  "materialization_claim env now token owner lease i = Inr (a, Some i') \<Longrightarrow> agree_except [''materialization''] i i'"
  by (auto simp: agree_except_def jget_jset dest!: materialization_claim_granted)

lemma materialization_finished_agree:
  assumes "materialization_finished env now c mat i = Inr i'"
  shows "agree_except [''materialization'', ''materialized_outbound'', ''cache_path'', ''status'', ''retryable'',
     ''last_error'', ''updated_at''] i i'"
  using assms
  by (auto simp: materialization_finished_def Let_def agree_except_def jget_jset split: option.splits)

lemma item_step_fenced:
  assumes "item_step env now op i i'" "fenced t i" "\<forall>req. op \<noteq> Claim t req"
  shows "fenced t i'"
  using assms(1)
proof (cases rule: item_step.cases)
  case (claimed req i1 token a)
  with assms(3) show ?thesis
    by (auto simp: fenced_def claimed_fields_def dest!: claim_item_granted)
next
  case (planned dk fp out items)
  show ?thesis by (rule fenced_agree [OF assms(2) planned(2)]) simp
next
  case (materialization_claimed token owner lease a dk ik)
  show ?thesis by (rule fenced_agree [OF assms(2) materialization_claim_agree]) (rule materialization_claimed, simp)
next
  case (materialization_finished mat c)
  show ?thesis by (rule fenced_agree [OF assms(2) materialization_finished_agree]) (rule materialization_finished, simp)
next
  case (uploaded u)
  show ?thesis by (rule fenced_agree [OF assms(2) uploaded(3)]) simp
next
  case (stage_finished c)
  show ?thesis by (rule fenced_agree [OF assms(2) stage_finished(3)]) simp
next
  case (item_finished m c m')
  then have "jget i' ''claim_token'' = jget i ''claim_token''"
    using agreeD [OF completed_item_agree [of m env now c], of "''claim_token''"] by auto
  with assms(2) show ?thesis by (simp add: fenced_def)
next
  case (reconciled ttl)
  show ?thesis
    unfolding reconciled by (rule fenced_agree [OF assms(2) reconcile_item_agree]) simp
qed

lemma fenced_run:
  assumes "find_item dk ik r = Some i" "fenced t i" "\<forall>x \<in> set ops. \<forall>req. snd x \<noteq> Claim t req"
  shows "\<exists>i'. find_item dk ik (ledger_run env ops r) = Some i' \<and> fenced t i'"
  by (rule ledger_run_invariant [where P = "fenced t", OF _ assms(1,2)])
    (use assms(3) item_step_fenced in fastforce)

lemma with_active_item_fenced:
  assumes "find_item dk ik r = Some i" "fenced t i"
  shows "\<exists>e. with_active_item env now dk ik t act r = Inl e"
proof (cases "with_active_item env now dk ik t act r")
  case (Inr p)
  then have "with_active_item env now dk ik t act r = Inr (fst p, snd p)" by simp
  from with_active_item_written [OF this] assms show ?thesis using fenced_inactive by auto
qed simp

section \<open>Failures on disk\<close>

lemma lock_file_view: "shared_view env delivery_items_file (d(delivery_items_lock_file := x)) = shared_view env delivery_items_file d"
proof -
  have "backup_path delivery_items_file \<noteq> delivery_items_lock_file"
    "delivery_items_file \<noteq> delivery_items_lock_file"
    by (simp_all add: delivery_items_lock_file_def) (simp add: delivery_items_file_def)
  then show ?thesis by (simp add: shared_view_def del: shared_files_backup split: option.split)
qed

lemma with_ledger_err:
  "with_ledger env io act d = (Inl e, d') \<Longrightarrow>
   shared_view env delivery_items_file d' = shared_view env delivery_items_file d"
  by (auto simp: with_ledger_def Let_def lock_file_view dest!: ledger.transact_err_view split: if_splits)

lemma with_ledger_ok:
  assumes "with_ledger env io act d = (Inr x, d')"
    and "\<And>r x r'. shared_view env delivery_items_file d = Some r \<Longrightarrow> act r = Inr (x, Some r') \<Longrightarrow> storable env r'"
  shows "\<exists>r w. shared_view env delivery_items_file d = Some r \<and> act r = Inr (x, w)
     \<and> shared_view env delivery_items_file d' = Some (case w of None \<Rightarrow> r | Some r' \<Rightarrow> r')"
proof -
  let ?d1 = "d(delivery_items_lock_file \<mapsto>
     (case d delivery_items_lock_file of Some b \<Rightarrow> b | None \<Rightarrow> []))"
  have t: "transact (load_shared_map_unlocked env io delivery_items_file)
      (write_shared_map_unlocked env io delivery_items_file) act ?d1 = (Inr x, d')"
    using assms(1) by (auto simp: with_ledger_def Let_def split: if_splits)
  have "\<exists>r w. shared_view env delivery_items_file ?d1 = Some r \<and> act r = Inr (x, w)
     \<and> shared_view env delivery_items_file d' = Some (case w of None \<Rightarrow> r | Some r' \<Rightarrow> r')"
    by (rule ledger.transact_ok_view [OF t]) (use assms(2) lock_file_view in metis)
  then show ?thesis by (simp add: lock_file_view)
qed

end
