(* ===== verification/Delivery_Wellformed.thy ===== *)
theory Delivery_Wellformed
  imports Delivery_Safety
begin

text \<open>
  The type invariant of the ledger: every operation maps a well-formed ledger to a well-formed one
  (ordered objects, integers in range), so what it writes can be read back. With it the operations
  on disk refine the operations on the ledger map.
\<close>

lemma jwf_jset: "jset k v j = Inr j' \<Longrightarrow> jwf ft v \<Longrightarrow> jwf ft j \<Longrightarrow> jwf ft j'"
  by (auto dest!: jset_Inr_cases simp del: jwf.simps(7) simp: jwf_oput) (simp add: owf_def)

lemma jwf_jset_if_missing: "jset_if_missing k v j = Inr j' \<Longrightarrow> jwf ft v \<Longrightarrow> jwf ft j \<Longrightarrow> jwf ft j'"
  by (auto simp: jset_if_missing_def simp del: jwf.simps(7) intro: jwf_jset split: if_splits)

lemma jwf_JObj_Nil [simp]: "jwf ft (JObj [])"
  by (simp add: owf_def)

lemma jwf_find_item: "jwf ft (JObj r) \<Longrightarrow> find_item dk ik r = Some i \<Longrightarrow> jwf ft i"
  by (auto simp: find_item_def bind_eq_Some_conv simp del: jwf.simps(7) dest: jwf_oget jwf_jget)

lemma jwf_put_item: "jwf ft (JObj r) \<Longrightarrow> jwf ft i \<Longrightarrow> jwf ft (JObj (put_item dk ik i r))"
  by (auto simp: put_item_def simp del: jwf.simps(7) intro!: jwf_oput dest: jwf_oget
      split: option.splits json.splits)

lemma attempts_jwf [simp]: "jwf ft (JInt (int (attempts_of j)))"
  by (simp add: attempts_of_def i64_min_def u64_max_def saturating_add_def)

lemma int_0_jwf [simp]: "jwf ft (JInt 0)"
  by (simp add: i64_min_def)

lemma jwf_oput_opt: "jwf ft (JObj m) \<Longrightarrow> jwf ft (JObj (oput_opt k x m))"
  by (auto simp: oput_opt_def simp del: jwf.simps(7) intro: jwf_oput split: option.splits)

lemma jwf_stage_value: "jwf ft (delivery_stage_value env now)"
  unfolding delivery_stage_value_def by (rule jwf_jobj) simp

lemma jwf_stages_value: "jwf ft (stages_value env now)"
  unfolding stages_value_def by (rule jwf_jobj) (simp add: jwf_stage_value)

lemma jwf_new_item: "jwf ft (new_item env now req)"
  unfolding new_item_def by (rule jwf_jobj) (simp add: jwf_stages_value del: jwf.simps(3))

lemma jwf_new_record: "\<forall>kv \<in> set extra. jwf ft (snd kv) \<Longrightarrow> jwf ft (new_record env now fp extra)"
  unfolding new_record_def by (rule jwf_jobj) (auto simp: owf_def)

lemma jwf_materialization_value: "jwf ft (materialization_value env now b)"
  unfolding materialization_value_def by (rule jwf_jobj) (simp del: jwf.simps(3))

lemma jwf_planned_item: "jwf ft (pi_planned_outbound p) \<Longrightarrow> jwf ft (planned_item env now fp p)"
  unfolding planned_item_def
  by (rule jwf_jobj) (simp add: jwf_stages_value jwf_materialization_value del: jwf.simps(3))

lemma jwf_bind_fingerprint: "bind_fingerprint fp i = Inr i1 \<Longrightarrow> jwf ft i \<Longrightarrow> jwf ft i1"
  by (auto simp: bind_fingerprint_def simp del: jwf.simps(7) intro!: jwf_oput
      split: option.splits if_splits)

lemma jwf_claim_item: "claim_item env now token req i = Inr (a, Some i') \<Longrightarrow> jwf ft i \<Longrightarrow> jwf ft i'"
  by (drule claim_item_granted)
    (auto simp: claimed_fields_def simp del: jwf.simps(3,7) oputs.simps intro!: jwf_oputs)

lemma jwf_claim_records:
  assumes "claim_delivery_item_records env now token req r = Inr (a, Some r')" "jwf ft (JObj r)"
  shows "jwf ft (JObj r')"
proof -
  from claim_records_written [OF assms(1)] obtain rm items item item1 item' where
    rm: "claim_record env now req r = JObj rm" and it: "oget rm ''items'' = Some (JObj items)"
    and item: "item = claim_target env now req items"
    and bf: "bind_fingerprint (cr_request_fingerprint req) item = Inr item1"
    and ci: "claim_item env now token req item1 = Inr (a, Some item')"
    and r': "r' = oput (cr_delivery_key req) (JObj (oput ''updated_at'' (JStr (utc_now_iso env now))
             (oput ''items'' (JObj (oput (cr_item_key req) item' items)) rm))) r"
    by blast
  have wrm: "jwf ft (JObj rm)"
  proof (cases "oget r (cr_delivery_key req)")
    case None
    with rm have "JObj rm = new_record env now (cr_request_fingerprint req) []"
      by (simp add: claim_record_def)
    then show ?thesis by (simp only:) (rule jwf_new_record, simp)
  qed (use assms(2) rm jwf_oget in \<open>fastforce simp: claim_record_def\<close>)
  then have wit: "jwf ft (JObj items)" using it by (rule jwf_oget)
  then have "jwf ft item"
    using item jwf_new_item by (auto simp: claim_target_def simp del: jwf.simps(7) dest: jwf_oget split: option.splits)
  then have "jwf ft item'" using bf ci jwf_bind_fingerprint jwf_claim_item by blast
  with wit wrm assms(2) show ?thesis unfolding r' by (intro jwf_oput) simp_all
qed

lemma jwf_plan_one:
  assumes "plan_one env now fp p items = Inr items'" "jwf ft (pi_planned_outbound p)" "jwf ft (JObj items)"
  shows "jwf ft (JObj items')"
proof -
  define item where "item = (case oget items (pi_item_key p) of Some i \<Rightarrow> i | None \<Rightarrow> planned_item env now fp p)"
  have w: "jwf ft item"
    using assms(2,3) jwf_planned_item by (cases "oget items (pi_item_key p)") (auto simp: item_def intro: jwf_oget)
  from assms(1) obtain item1 item2 where
    i1: "jset_if_missing ''planned_outbound'' (pi_planned_outbound p) item = Inr item1"
    and i2: "jset_if_missing ''materialization''
        (materialization_value env now (pi_materialization_required p)) item1 = Inr item2"
    and it: "items' = oput (pi_item_key p) item2 items"
    by (auto simp: plan_one_def Let_def item_def)
  have "jwf ft item1" by (rule jwf_jset_if_missing [OF i1 assms(2) w])
  then have "jwf ft item2" by (rule jwf_jset_if_missing [OF i2 jwf_materialization_value])
  with assms(3) show ?thesis unfolding it by (intro jwf_oput)
qed

lemma jwf_plan_all:
  "plan_all env now fp ps items = Inr items' \<Longrightarrow> \<forall>p \<in> set ps. jwf ft (pi_planned_outbound p) \<Longrightarrow>
   jwf ft (JObj items) \<Longrightarrow> jwf ft (JObj items')"
  by (induction ps arbitrary: items) (auto simp del: jwf.simps(7) dest: jwf_plan_one)

lemma jwf_plan_records:
  assumes "persist_delivery_plan_records env now dk fp out ps r = Inr (u, Some r')" "jwf ft (JObj r)"
    and "jwf ft out" "\<forall>p \<in> set ps. jwf ft (pi_planned_outbound p)"
  shows "jwf ft (JObj r')"
proof -
  from assms(1) obtain record1 items0 items1 record2 record3 where
    r1: "jset_if_missing ''planned_outbound'' out (plan_record env now dk fp out r) = Inr record1"
    and it: "jget record1 ''items'' = Some (JObj items0)"
    and pl: "plan_all env now fp ps items0 = Inr items1"
    and r2: "jset ''items'' (JObj items1) record1 = Inr record2"
    and r3: "jset ''updated_at'' (JStr (utc_now_iso env now)) record2 = Inr record3"
    and r': "r' = oput dk record3 r"
    by (auto simp: persist_delivery_plan_records_def Let_def bind_eq_Some_conv)
  have "jwf ft (plan_record env now dk fp out r)"
    using assms(2,3) jwf_new_record [of "[(''planned_outbound'', out)]" ft env now fp]
    by (auto simp: plan_record_def simp del: jwf.simps(7) dest: jwf_oget split: option.splits)
  then have w1: "jwf ft record1" by (rule jwf_jset_if_missing [OF r1 assms(3)])
  then have "jwf ft (JObj items1)" using pl assms(4) it by (blast intro: jwf_plan_all jwf_jget)
  then have "jwf ft record2" using r2 w1 jwf_jset by blast
  then have "jwf ft record3" using r3 jwf_jset by force
  with assms(2) show ?thesis unfolding r' by (intro jwf_oput)
qed

lemma jwf_materialization_claim:
  assumes "materialization_claim env now token owner lease i = Inr (a, Some i')" "jwf ft i"
  shows "jwf ft i'"
proof -
  from materialization_claim_granted [OF assms(1)] obtain mat ex where
    m: "jget i ''materialization'' = Some (JObj mat)"
    and s: "jset ''materialization'' (JObj (oputs
         [(''status'', JStr ''materializing''), (''attempts'', JInt (int (attempts_of (JObj mat)))),
          (''owner'', JStr owner), (''claim_token'', JStr token), (''claim_expires_at'', JStr ex),
          (''updated_at'', JStr (utc_now_iso env now))] mat)) i = Inr i'" by blast
  show ?thesis
    by (rule jwf_jset [OF s jwf_oputs assms(2)])
      (use jwf_jget [OF assms(2) m] in \<open>simp_all del: jwf.simps(3,7)\<close>)
qed

lemma jwf_materialization_finished:
  assumes "materialization_finished env now c mat i = Inr i'" "jwf ft i" "jwf ft (JObj mat)"
    and "\<forall>v. mc_materialized_outbound c = Some v \<longrightarrow> jwf ft v"
  shows "jwf ft i'"
proof -
  define mat' where "mat' = JObj (oputs
        [(''status'', JStr (mc_status c)), (''retryable'', JBool (mc_retryable c)),
         (''last_error'', jstr_opt (mc_last_error c)), (''owner'', JNull), (''claim_token'', JNull),
         (''claim_expires_at'', JNull), (''updated_at'', JStr (utc_now_iso env now))] mat)"
  have w: "jwf ft mat'"
    unfolding mat'_def by (rule jwf_oputs) (use assms(3) in \<open>simp_all del: jwf.simps(7)\<close>)
  from assms(1) obtain i1 i2 i3 i4 i5 i6 where
    s1: "jset ''materialization'' mat' i = Inr i1"
    and s2: "(case mc_materialized_outbound c of None \<Rightarrow> Inr i1
        | Some v \<Rightarrow> jset ''materialized_outbound'' v i1) = Inr i2"
    and s3: "jset ''cache_path'' (jstr_opt (mc_cache_path c)) i2 = Inr i3"
    and s4: "jset ''status'' (JStr (if mc_status c = ''materialized'' then ''pending'' else ''failed'')) i3 = Inr i4"
    and s5: "jset ''retryable'' (JBool (mc_retryable c)) i4 = Inr i5"
    and s6: "jset ''last_error'' (jstr_opt (mc_last_error c)) i5 = Inr i6"
    and s7: "jset ''updated_at'' (JStr (utc_now_iso env now)) i6 = Inr i'"
    by (auto simp only: materialization_finished_def Let_def mat'_def rbind_eq_Inr)
  have "jwf ft i1" by (rule jwf_jset [OF s1 w assms(2)])
  then have "jwf ft i2" using s2 assms(4) jwf_jset by (fastforce split: option.splits)
  then have "jwf ft i3" by (rule jwf_jset [OF s3 jwf_jstr_opt])
  then have "jwf ft i4" by (rule jwf_jset [OF s4, rotated]) simp
  then have "jwf ft i5" by (rule jwf_jset [OF s5, rotated]) simp
  then have "jwf ft i6" by (rule jwf_jset [OF s6 jwf_jstr_opt])
  then show ?thesis by (rule jwf_jset [OF s7, rotated]) simp
qed

lemma jwf_active_item:
  assumes "with_active_item env now dk ik token act r = Inr (x, Some r')" "jwf ft (JObj r)"
    and "\<And>m m'. act m = Inr (x, m') \<Longrightarrow> jwf ft (JObj m) \<Longrightarrow> jwf ft (JObj m')"
  shows "jwf ft (JObj r')"
proof -
  from with_active_item_written [OF assms(1)] obtain m m' where m: "find_item dk ik r = Some (JObj m)"
    and a: "act m = Inr (x, m')" and r': "r' = put_item dk ik (JObj m') r" by blast
  have "jwf ft (JObj m')" by (rule assms(3) [OF a jwf_find_item [OF assms(2) m]])
  with assms(2) show ?thesis unfolding r' by (rule jwf_put_item)
qed

lemma jwf_stage_object:
  assumes "delivery_stage_object env now stage upd m = Inr m'" "jwf ft (JObj m)"
    and "\<And>s. jwf ft (JObj s) \<Longrightarrow> jwf ft (JObj (upd s))"
  shows "jwf ft (JObj m')"
proof -
  from assms(1) obtain stages s where
    st: "as_object (case oget m ''stages'' of Some v \<Rightarrow> v | None \<Rightarrow> JObj []) = Some stages"
    and s: "as_object (case oget stages stage of Some v \<Rightarrow> v | None \<Rightarrow> delivery_stage_value env now) = Some s"
    and m': "m' = oput ''stages'' (JObj (oput stage (JObj (upd s)) stages)) m"
    by (auto simp: delivery_stage_object_def split: if_splits)
  have "jwf ft (JObj stages)"
    using st assms(2) jwf_oget by (cases "oget m ''stages''") (fastforce simp del: jwf.simps(7))+
  moreover from this have "jwf ft (JObj s)"
    using s jwf_oget jwf_stage_value [of ft env now]
    by (cases "oget stages stage") (fastforce simp del: jwf.simps(7))+
  ultimately show ?thesis using assms(2,3) unfolding m' by (intro jwf_oput) simp_all
qed

lemma jwf_upload:
  assumes "record_delivery_item_upload_records env now u r = Inr (x, Some r')" "jwf ft (JObj r)"
    and "jwf ft (iu_provider_media_state u)"
  shows "jwf ft (JObj r')"
  using assms(1) unfolding record_delivery_item_upload_records_def
proof (rule jwf_active_item [OF _ assms(2)])
  fix m m'
  assume w: "jwf ft (JObj m)" and "rbind (delivery_stage_object env now (iu_stage u) (oputs
         [(''status'', JStr ''prepared''), (''provider_media_id'', JStr (iu_provider_media_id u)),
          (''provider_media_state'', iu_provider_media_state u),
          (''provider_client_id'', jstr_opt (iu_provider_client_id u)),
          (''updated_at'', JStr (utc_now_iso env now))]) m) (\<lambda>item.
      Inr ((), oput ''updated_at'' (JStr (utc_now_iso env now))
        (oput_opt ''provider_client_id'' (iu_provider_client_id u)
          (oput ''provider_media_state'' (iu_provider_media_state u)
            (oput ''provider_media_id'' (JStr (iu_provider_media_id u)) item))))) = Inr (x, m')"
  then obtain m1 where s: "delivery_stage_object env now (iu_stage u) (oputs
         [(''status'', JStr ''prepared''), (''provider_media_id'', JStr (iu_provider_media_id u)),
          (''provider_media_state'', iu_provider_media_state u),
          (''provider_client_id'', jstr_opt (iu_provider_client_id u)),
          (''updated_at'', JStr (utc_now_iso env now))]) m = Inr m1"
    and m': "m' = oput ''updated_at'' (JStr (utc_now_iso env now))
        (oput_opt ''provider_client_id'' (iu_provider_client_id u)
          (oput ''provider_media_state'' (iu_provider_media_state u)
            (oput ''provider_media_id'' (JStr (iu_provider_media_id u)) m1)))" by auto
  have "jwf ft (JObj m1)"
    by (rule jwf_stage_object [OF s w], rule jwf_oputs) (use assms(3) in \<open>simp_all del: jwf.simps(7)\<close>)
  with assms(3) show "jwf ft (JObj m')" unfolding m' by (intro jwf_oput jwf_oput_opt) simp_all
qed

lemma jwf_finish_stage:
  assumes "finish_delivery_stage_records env now c r = Inr (x, Some r')" "jwf ft (JObj r)"
  shows "jwf ft (JObj r')"
  using assms(1) unfolding finish_delivery_stage_records_def
proof (rule jwf_active_item [OF _ assms(2)])
  fix m m'
  let ?upd = "\<lambda>st. oputs [(''retryable'', JBool (sc_retryable c)),
                (''last_error'', jstr_opt (sc_last_error c)),
                (''updated_at'', JStr (utc_now_iso env now))]
           (oput_opt ''provider_message_id'' (sc_provider_message_id c)
             (oput_opt ''provider_client_id'' (sc_provider_client_id c)
               (oput_opt ''provider_media_id'' (sc_provider_media_id c)
                 (oput ''status'' (JStr (sc_status c)) st))))"
  assume w: "jwf ft (JObj m)"
    and "rbind (delivery_stage_object env now (sc_stage c) ?upd m) (\<lambda>item. Inr ((), item)) = Inr (x, m')"
  then have s: "delivery_stage_object env now (sc_stage c) ?upd m = Inr m'" by auto
  show "jwf ft (JObj m')"
    by (rule jwf_stage_object [OF s w], rule jwf_oputs)
      (auto simp del: jwf.simps(7) intro!: jwf_oput_opt jwf_oput)
qed

lemma jwf_completed_item: "jwf ft (JObj m) \<Longrightarrow> jwf ft (JObj (completed_item env now c m))"
  unfolding completed_item_def
  by (rule jwf_oputs) (auto simp del: jwf.simps(7) intro!: jwf_oput_opt jwf_oput)

lemma jwf_finish_item:
  assumes "finish_delivery_item_records env now c r = Inr (x, Some r')" "jwf ft (JObj r)"
  shows "jwf ft (JObj r')"
  using assms(1) unfolding finish_delivery_item_records_def
  by (rule jwf_active_item [OF _ assms(2)])
    (auto simp: Let_def simp del: jwf.simps(7) intro!: jwf_oput jwf_completed_item split: if_splits)

lemma jwf_reconcile_item: "jwf ft i \<Longrightarrow> jwf ft (fst (reconcile_item env now ttl i))"
  by (auto simp: reconcile_item_def simp del: jwf.simps(7) intro!: jwf_oput jwf_oputs
      split: option.splits json.splits)

lemma reconcile_keys:
  "map fst (fst (reconcile_items env now ttl items)) = map fst items"
  "map fst (fst (reconcile_records env now ttl records)) = map fst records"
  by (induction items) (auto split: prod.splits, induction records, auto split: prod.splits)

lemma jwf_same_keys:
  "map fst m' = map fst m \<Longrightarrow> jwf ft (JObj m) \<Longrightarrow> \<forall>v \<in> snd ` set m'. jwf ft v \<Longrightarrow> jwf ft (JObj m')"
  by (auto simp: owf_def)

lemma jwf_reconcile_items: "jwf ft (JObj m) \<Longrightarrow> jwf ft (JObj (fst (reconcile_items env now ttl m)))"
proof (rule jwf_same_keys [OF reconcile_keys(1)])
  assume "jwf ft (JObj m)"
  then have "\<forall>v \<in> snd ` set m. jwf ft v" by auto
  then show "\<forall>v \<in> snd ` set (fst (reconcile_items env now ttl m)). jwf ft v"
    by (induction m) (auto simp: case_prod_beta Let_def jwf_reconcile_item simp del: jwf.simps)
qed

lemma jwf_reconcile_record: "jwf ft v \<Longrightarrow> jwf ft (fst (reconcile_record env now ttl v))"
  using jwf_reconcile_items [of ft _ env now ttl]
  by (auto simp: reconcile_record_def simp del: jwf.simps(7) intro!: jwf_oput dest: jwf_oget
      split: json.splits option.splits prod.splits) (metis fst_conv jwf_oget)

lemma jwf_reconcile_records: "jwf ft (JObj m) \<Longrightarrow> jwf ft (JObj (fst (reconcile_records env now ttl m)))"
proof (rule jwf_same_keys [OF reconcile_keys(2)])
  assume "jwf ft (JObj m)"
  then have "\<forall>v \<in> snd ` set m. jwf ft v" by auto
  then show "\<forall>v \<in> snd ` set (fst (reconcile_records env now ttl m)). jwf ft v"
    by (induction m) (auto simp: case_prod_beta Let_def jwf_reconcile_record simp del: jwf.simps)
qed

section \<open>The invariant\<close>

fun op_wf :: "(string \<Rightarrow> bool) \<Rightarrow> ledger_op \<Rightarrow> bool" where
  "op_wf ft (Plan dk fp out items) \<longleftrightarrow> jwf ft out \<and> list_all (\<lambda>p. jwf ft (pi_planned_outbound p)) items"
| "op_wf ft (FinishMaterialization c) \<longleftrightarrow>
     (case mc_materialized_outbound c of None \<Rightarrow> True | Some v \<Rightarrow> jwf ft v)"
| "op_wf ft (Upload u) \<longleftrightarrow> jwf ft (iu_provider_media_state u)"
| "op_wf ft _ \<longleftrightarrow> True"

lemma written_wf:
  "jwf ft (JObj r) \<Longrightarrow> (\<And>x r'. res = Inr (x, Some r') \<Longrightarrow> jwf ft (JObj r')) \<Longrightarrow> jwf ft (JObj (written r res))"
  by (auto simp: written_def simp del: jwf.simps(7) split: sum.splits option.splits)

lemma ledger_step_wf:
  assumes "jwf ft (JObj r)" "op_wf ft op"
  shows "jwf ft (JObj (ledger_step env now op r))"
proof (cases op)
  case (Claim token req)
  show ?thesis unfolding Claim ledger_step.simps
    by (rule written_wf) (auto simp del: jwf.simps(7) intro: assms(1) jwf_claim_records)
next
  case (Plan dk fp out items)
  show ?thesis unfolding Plan ledger_step.simps
    by (rule written_wf [OF assms(1)])
      (erule jwf_plan_records, use assms Plan in \<open>auto simp: list_all_iff simp del: jwf.simps(7)\<close>)
next
  case (ClaimMaterialization token dk ik owner lease)
  show ?thesis unfolding ClaimMaterialization ledger_step.simps
  proof (rule written_wf [OF assms(1)])
    fix x r'
    assume "claim_delivery_materialization_records env now token dk ik owner lease r = Inr (x, Some r')"
    then obtain i i' where f: "find_item dk ik r = Some i"
      and c: "materialization_claim env now token owner lease i = Inr (x, Some i')"
      and r': "r' = put_item dk ik i' r"
      by (auto simp: claim_delivery_materialization_records_def)
    have "jwf ft i'" by (rule jwf_materialization_claim [OF c jwf_find_item [OF assms(1) f]])
    with assms(1) show "jwf ft (JObj r')" unfolding r' by (rule jwf_put_item)
  qed
next
  case (FinishMaterialization c)
  have "jwf ft (JObj (written r (finish_delivery_materialization_records env now c r)))"
  proof (rule written_wf [OF assms(1)])
    fix x r' assume "finish_delivery_materialization_records env now c r = Inr (x, Some r')"
    then obtain i mat i' where f: "find_item (mc_delivery_key c) (mc_item_key c) r = Some i"
      and m: "jget i ''materialization'' = Some (JObj mat)"
      and fin: "materialization_finished env now c mat i = Inr i'"
      and r': "r' = put_item (mc_delivery_key c) (mc_item_key c) i' r"
      by (auto simp: finish_delivery_materialization_records_def bind_eq_Some_conv)
    have "jwf ft i" by (rule jwf_find_item [OF assms(1) f])
    then have "jwf ft i'"
      by (rule jwf_materialization_finished [OF fin _ jwf_jget [OF _ m]])
        (use assms(2) FinishMaterialization \<open>jwf ft i\<close> in auto)
    with assms(1) show "jwf ft (JObj r')" unfolding r' by (rule jwf_put_item)
  qed
  with FinishMaterialization assms(1) show ?thesis by (simp del: jwf.simps(7))
next
  case (Upload u)
  show ?thesis unfolding Upload ledger_step.simps
    by (rule written_wf [OF assms(1)]) (use assms Upload in \<open>auto simp del: jwf.simps(7) intro: jwf_upload\<close>)
next
  case (FinishStage c)
  show ?thesis unfolding FinishStage ledger_step.simps
    by (rule written_wf [OF assms(1)]) (rule jwf_finish_stage [OF _ assms(1)])
next
  case (FinishItem c)
  show ?thesis unfolding FinishItem ledger_step.simps
    by (rule written_wf [OF assms(1)]) (rule jwf_finish_item [OF _ assms(1)])
next
  case (Reconcile ttl)
  show ?thesis unfolding Reconcile ledger_step.simps
    by (rule written_wf [OF assms(1)])
      (use jwf_reconcile_records [OF assms(1), of env now ttl] in
        \<open>auto simp: reconcile_delivery_cache_records_def simp del: jwf.simps(7) split: prod.splits if_splits\<close>)
qed

section \<open>The ledger on disk\<close>

text \<open>One operation of \<^verbatim>\<open>FileSessionStore\<close> on the ledger file: did it succeed, and the disk after it.\<close>

definition outcome :: "(store_error + 'r) \<times> disk \<Rightarrow> bool \<times> disk" where
  "outcome res = (isOk (fst res), snd res)"

fun disk_step :: "gate_env \<Rightarrow> io \<Rightarrow> instant \<Rightarrow> ledger_op \<Rightarrow> disk \<Rightarrow> bool \<times> disk" where
  "disk_step env io now (Claim token req) d = outcome (claim_delivery_item env io now token req d)"
| "disk_step env io now (Plan dk fp out items) d =
     outcome (persist_delivery_plan env io now dk fp out items d)"
| "disk_step env io now (ClaimMaterialization token dk ik owner lease) d =
     outcome (claim_delivery_materialization env io now token dk ik owner lease d)"
| "disk_step env io now (FinishMaterialization c) d =
     outcome (finish_delivery_materialization env io now c d)"
| "disk_step env io now (Upload u) d = outcome (record_delivery_item_upload env io now u d)"
| "disk_step env io now (FinishStage c) d = outcome (finish_delivery_stage env io now c d)"
| "disk_step env io now (FinishItem c) d = outcome (finish_delivery_item env io now c d)"
| "disk_step env io now (Reconcile ttl) d = outcome (reconcile_delivery_cache env io now ttl d)"

abbreviation ledger_view :: "gate_env \<Rightarrow> disk \<Rightarrow> jmap option" where
  "ledger_view env d \<equiv> shared_view env delivery_items_file d"

lemma with_ledger_outcome:
  assumes "ledger_view env d = Some r" "storable env (written r (act r))"
  shows "ledger_view env (snd (outcome (with_ledger env io act d)))
     = Some (if fst (outcome (with_ledger env io act d)) then written r (act r) else r)"
proof (cases "with_ledger env io act d")
  case (Pair res d')
  show ?thesis
  proof (cases res)
    case (Inl e)
    with Pair assms(1) with_ledger_err show ?thesis by (fastforce simp: outcome_def)
  next
    case (Inr x)
    have "\<exists>r w. ledger_view env d = Some r \<and> act r = Inr (x, w)
        \<and> ledger_view env d' = Some (case w of None \<Rightarrow> r | Some r' \<Rightarrow> r')"
      by (rule with_ledger_ok [OF Pair [unfolded Inr]]) (use assms in \<open>auto simp: written_def\<close>)
    with Pair Inr assms(1) show ?thesis by (auto simp: outcome_def written_def split: option.splits)
  qed
qed

lemma disk_step_view:
  assumes "ledger_view env d = Some r" "storable env (ledger_step env now op r)"
  shows "ledger_view env (snd (disk_step env io now op d))
     = Some (if fst (disk_step env io now op d) then ledger_step env now op r else r)"
proof -
  note go = with_ledger_outcome [OF assms(1)]
  show ?thesis
  proof (cases op)
    case (FinishMaterialization c)
    show ?thesis
    proof (cases "mc_status c \<noteq> ''materialized'' \<and> mc_status c \<noteq> ''failed''")
      case True
      with FinishMaterialization assms(1) show ?thesis
        by (simp add: finish_delivery_materialization_def outcome_def)
    next
      case False
      with FinishMaterialization assms(2) show ?thesis
        by (simp only: disk_step.simps finish_delivery_materialization_def ledger_step.simps if_False go)
    qed
  qed (use assms(2) in \<open>simp_all only: disk_step.simps ledger_step.simps claim_delivery_item_def
      persist_delivery_plan_def claim_delivery_materialization_def record_delivery_item_upload_def
      finish_delivery_stage_def finish_delivery_item_def reconcile_delivery_cache_def go\<close>)
qed

text \<open>
  A run on disk, with the operations that succeeded. \<open>shallow_run\<close>: no step would write a value
  nested too deeply for serde\_json to read back.
\<close>

fun disk_run ::
  "gate_env \<Rightarrow> (io \<times> instant \<times> ledger_op) list \<Rightarrow> disk \<Rightarrow> (instant \<times> ledger_op) list \<times> disk" where
  "disk_run env [] d = ([], d)"
| "disk_run env ((io, now, op) # ops) d =
     (let (ok, d1) = disk_step env io now op d; (log, d2) = disk_run env ops d1
      in (if ok then (now, op) # log else log, d2))"

fun shallow_run :: "gate_env \<Rightarrow> (io \<times> instant \<times> ledger_op) list \<Rightarrow> disk \<Rightarrow> bool" where
  "shallow_run env [] d \<longleftrightarrow> True"
| "shallow_run env ((io, now, op) # ops) d \<longleftrightarrow>
     (case ledger_view env d of None \<Rightarrow> True | Some r \<Rightarrow> jdepth (JObj (ledger_step env now op r)) \<le> 127)
     \<and> shallow_run env ops (snd (disk_step env io now op d))"

lemma disk_step_refines:
  assumes "serde_ok env" "ledger_view env d = Some r" "op_wf (f64_text env) op"
    and "jdepth (JObj (ledger_step env now op r)) \<le> 127"
  shows "ledger_view env (snd (disk_step env io now op d))
     = Some (if fst (disk_step env io now op d) then ledger_step env now op r else r)"
  by (rule disk_step_view [OF assms(2) storable_jwf [OF assms(1) ledger_step_wf assms(4)]])
    (use shared_view_jwf [OF assms(1,2)] assms(3) in blast)+

lemma disk_run_view:
  assumes "serde_ok env" "ledger_view env d = Some r"
    and "\<forall>x \<in> set ops. op_wf (f64_text env) (snd (snd x))" "shallow_run env ops d"
  shows "ledger_view env (snd (disk_run env ops d)) = Some (ledger_run env (fst (disk_run env ops d)) r)"
  using assms(2-)
proof (induction ops arbitrary: d r)
  case (Cons x ops)
  obtain io now op where x: "x = (io, now, op)" by (cases x) auto
  obtain ok d1 where st: "disk_step env io now op d = (ok, d1)" by fastforce
  have "ledger_view env d1 = Some (if ok then ledger_step env now op r else r)"
    using disk_step_refines [OF assms(1) Cons.prems(1), of op now io] Cons.prems(2,3) x st
    by (simp add: Cons.prems(1))
  from Cons.IH [OF this] Cons.prems(2,3) x st show ?case by (auto simp: case_prod_beta Let_def)
qed simp

section \<open>Cache reconciliation\<close>

definition cache_paths :: "json list \<Rightarrow> string list" where
  "cache_paths = List.map_filter item_cache_path"

lemma cache_paths_simps [simp]:
  "cache_paths [] = []" "cache_paths (i # is) = (case item_cache_path i of None \<Rightarrow> cache_paths is | Some p \<Rightarrow> p # cache_paths is)"
  "cache_paths (xs @ ys) = cache_paths xs @ cache_paths ys"
  by (auto simp: cache_paths_def List.map_filter_def split: option.splits)

lemma item_cache_path_cong: "jget i ''cache_path'' = jget j ''cache_path'' \<Longrightarrow> item_cache_path i = item_cache_path j"
  by (simp add: item_cache_path_def get_str_def)

lemma item_cache_path_null [simp]: "oget m ''cache_path'' = Some JNull \<Longrightarrow> item_cache_path (JObj m) = None"
  by (simp add: item_cache_path_def get_str_def)

lemma item_cache_path_object: "item_cache_path i = Some p \<Longrightarrow> \<exists>m. i = JObj m"
  by (cases i) (auto simp: item_cache_path_def get_str_def)

lemma retryable_state_cong:
  "jget i ''status'' = jget j ''status'' \<Longrightarrow> jget i ''retryable'' = jget j ''retryable'' \<Longrightarrow>
   item_retryable_state i = item_retryable_state j"
  by (simp add: item_retryable_state_def status_in_def get_str_def get_bool_def)

text \<open>One item: its path is retained or deleted, and the item left behind names only a retained one.\<close>

lemma reconcile_item_paths:
  assumes "reconcile_item env now ttl i = (i', r)"
  shows "rc_retained r = cache_paths [i']" "set (rc_retained r) \<union> set (rc_deleted r) = set (cache_paths [i])"
    "item_cache_path i' \<noteq> None \<Longrightarrow> item_retryable_state i' \<and> \<not> item_expired env now ttl i"
proof -
  show "rc_retained r = cache_paths [i']"
    "set (rc_retained r) \<union> set (rc_deleted r) = set (cache_paths [i])"
    using assms item_cache_path_object [of i]
    by (auto simp: reconcile_item_def item_cache_path_def get_str_def split: option.splits json.splits if_splits)
  assume p: "item_cache_path i' \<noteq> None"
  then have "item_retryable_state i \<and> \<not> item_expired env now ttl i"
    using assms item_cache_path_object [of i]
    by (auto simp: reconcile_item_def split: option.splits json.splits if_splits)
  moreover have "item_retryable_state i' = item_retryable_state i"
    if "\<not> item_expired env now ttl i"
    using reconcile_item_live [OF that] assms agreeD by (intro retryable_state_cong) force+
  ultimately show "item_retryable_state i' \<and> \<not> item_expired env now ttl i" by blast
qed

lemma reconcile_items_paths:
  "reconcile_items env now ttl m = (m', r) \<Longrightarrow>
   rc_retained r = cache_paths (map snd m')
   \<and> set (rc_retained r) \<union> set (rc_deleted r) = set (cache_paths (map snd m))
   \<and> (\<forall>i \<in> snd ` set m'. item_cache_path i \<noteq> None \<longrightarrow> item_retryable_state i)"
proof (induction m arbitrary: m' r)
  case (Cons x m)
  obtain k i where x: "x = (k, i)" by fastforce
  obtain i' r1 where i': "reconcile_item env now ttl i = (i', r1)" by fastforce
  obtain m1 r2 where m1: "reconcile_items env now ttl m = (m1, r2)" by fastforce
  have eqs: "m' = (k, i') # m1" "r = reconcile_join r1 r2" using Cons.prems x i' m1 by auto
  note paths = reconcile_item_paths [OF i']
  have "cache_paths (map snd m') = cache_paths [i'] @ cache_paths (map snd m1)"
    "set (cache_paths (map snd (x # m))) = set (cache_paths [i]) \<union> set (cache_paths (map snd m))"
    by (auto simp: eqs x split: option.splits)
  with Cons.IH [OF m1] paths show ?case
    by (auto simp: eqs reconcile_join_def simp del: cache_paths_simps(2))
qed (simp add: reconcile_nothing_def)

lemma reconcile_record_paths:
  assumes "reconcile_record env now ttl rec0 = (rec', r)"
  shows "rc_retained r = cache_paths (record_items rec')
   \<and> set (rc_retained r) \<union> set (rc_deleted r) = set (cache_paths (record_items rec0))
   \<and> (\<forall>i \<in> set (record_items rec'). item_cache_path i \<noteq> None \<longrightarrow> item_retryable_state i)"
proof (cases "\<exists>rm items. rec0 = JObj rm \<and> oget rm ''items'' = Some (JObj items)")
  case True
  then obtain rm items where rm: "rec0 = JObj rm" "oget rm ''items'' = Some (JObj items)" by blast
  obtain m1 r1 where m1: "reconcile_items env now ttl items = (m1, r1)" by fastforce
  from assms rm m1 have "rec' = JObj (oput ''items'' (JObj m1) rm)" "r = r1"
    by (auto simp: reconcile_record_def)
  with reconcile_items_paths [OF m1] rm show ?thesis by (auto simp: record_items_def)
next
  case False
  with assms have "rec' = rec0" "r = reconcile_nothing"
    by (auto simp: reconcile_record_def split: json.splits option.splits)
  moreover have "record_items rec0 = []"
    using False by (cases rec0) (auto simp: record_items_def bind_eq_Some_conv split: option.splits)
  ultimately show ?thesis by (simp add: reconcile_nothing_def)
qed

lemma reconcile_records_paths:
  "reconcile_records env now ttl m = (m', r) \<Longrightarrow>
   rc_retained r = cache_paths (all_items m')
   \<and> set (rc_retained r) \<union> set (rc_deleted r) = set (cache_paths (all_items m))
   \<and> (\<forall>i \<in> set (all_items m'). item_cache_path i \<noteq> None \<longrightarrow> item_retryable_state i)"
proof (induction m arbitrary: m' r)
  case (Cons x m)
  obtain k i where x: "x = (k, i)" by fastforce
  obtain i' r1 where i': "reconcile_record env now ttl i = (i', r1)" by fastforce
  obtain m1 r2 where m1: "reconcile_records env now ttl m = (m1, r2)" by fastforce
  have eqs: "m' = (k, i') # m1" "r = reconcile_join r1 r2" using Cons.prems x i' m1 by auto
  with Cons.IH [OF m1] reconcile_record_paths [OF i'] show ?case
    by (auto simp: x reconcile_join_def all_items_def)
qed (simp add: reconcile_nothing_def all_items_def)

lemma cache_paths_filter:
  "\<forall>i \<in> set is. item_cache_path i \<noteq> None \<longrightarrow> P i \<Longrightarrow> cache_paths (filter P is) = cache_paths is"
  by (induction "is") (auto split: option.splits)

end
