(* ===== verification/Session_Store.thy ===== *)
theory Session_Store
  imports File_Store
begin

text \<open>
  The session, route and delivery-record operations of \<^verbatim>\<open>FileSessionStore\<close>
  (\<^verbatim>\<open>src/store.rs\<close>): per-chat session files holding metadata and a bounded conversation
  history, the route registry and the idempotency records of notification deliveries.
\<close>

section \<open>File names\<close>

definition slug_char :: "char \<Rightarrow> char" where
  "slug_char ch = (if is_ascii_lowercase ch \<or> is_ascii_digit ch
       \<or> ch \<in> {CHR ''.'', CHR ''_'', CHR ''-''} then ch else CHR ''_'')"

definition slug :: "gate_env \<Rightarrow> string \<Rightarrow> string" where
  "slug env value =
    (let txt = to_lowercase env (trim value);
         txt = (if txt = [] then ''unknown'' else txt)
     in map slug_char (filter (\<lambda>b. \<not> is_cont_byte b) txt))"

definition session_path :: "gate_env \<Rightarrow> string \<Rightarrow> string \<Rightarrow> string" where
  "session_path env platform chat_id = slug env platform @ ''__'' @ slug env chat_id @ ''.json''"

section \<open>Conversation turns\<close>

record conversation_turn =
  turn_role :: string
  turn_content :: string
  turn_timestamp :: string

text \<open>
  serde's derived deserialiser: from an object by field name (unknown fields ignored, the
  timestamp defaulted), or from an array by position with no element left over.
\<close>

fun turn_fields :: "string \<Rightarrow> json option \<Rightarrow> json option \<Rightarrow> json option \<Rightarrow> conversation_turn option" where
  "turn_fields dflt (Some (JStr r)) (Some (JStr c)) None =
     Some \<lparr>turn_role = r, turn_content = c, turn_timestamp = dflt\<rparr>"
| "turn_fields dflt (Some (JStr r)) (Some (JStr c)) (Some (JStr t)) =
     Some \<lparr>turn_role = r, turn_content = c, turn_timestamp = t\<rparr>"
| "turn_fields dflt _ _ _ = None"

fun turn_of_json :: "gate_env \<Rightarrow> instant \<Rightarrow> json \<Rightarrow> conversation_turn option" where
  "turn_of_json env now (JObj m) =
     turn_fields (utc_now_iso env now) (oget m ''role'') (oget m ''content'') (oget m ''timestamp'')"
| "turn_of_json env now (JArr [r, c]) = turn_fields (utc_now_iso env now) (Some r) (Some c) None"
| "turn_of_json env now (JArr [r, c, t]) = turn_fields (utc_now_iso env now) (Some r) (Some c) (Some t)"
| "turn_of_json env now _ = None"

definition turn_to_json :: "conversation_turn \<Rightarrow> json" where
  "turn_to_json t = jobj [(''role'', JStr (turn_role t)), (''content'', JStr (turn_content t)),
     (''timestamp'', JStr (turn_timestamp t))]"

section \<open>Session payloads\<close>

definition max_turns :: nat where
  "max_turns = 20"

definition normalize_payload :: "string \<Rightarrow> string \<Rightarrow> jmap \<Rightarrow> jmap" where
  "normalize_payload platform chat_id m =
    (let m = oput ''platform'' (case oget m ''platform'' of Some v \<Rightarrow> v | None \<Rightarrow> JStr platform) m;
         m = oput ''chat_id'' (case oget m ''chat_id'' of Some v \<Rightarrow> v | None \<Rightarrow> JStr chat_id) m;
         m = (case oget m ''metadata'' of Some (JObj x) \<Rightarrow> m | _ \<Rightarrow> oput ''metadata'' (JObj []) m)
     in (case oget m ''turns'' of Some (JArr x) \<Rightarrow> m | _ \<Rightarrow> oput ''turns'' (JArr []) m))"

definition empty_payload :: "string \<Rightarrow> string \<Rightarrow> jmap" where
  "empty_payload platform chat_id = oputs [(''platform'', JStr platform), (''chat_id'', JStr chat_id),
     (''metadata'', JObj []), (''turns'', JArr [])] []"

definition load_payload_unlocked ::
  "gate_env \<Rightarrow> io \<Rightarrow> string \<Rightarrow> string \<Rightarrow> disk \<Rightarrow> (store_error + jmap) \<times> disk" where
  "load_payload_unlocked env io platform chat_id d =
    ((case d (session_path env platform chat_id) of
        None \<Rightarrow> Inr (empty_payload platform chat_id)
      | Some raw \<Rightarrow>
          if io_read io then
            Inr (normalize_payload platform chat_id (case from_str env raw of Some (JObj m) \<Rightarrow> m | _ \<Rightarrow> []))
          else Inl (Bail (''failed to read session '' @ session_path env platform chat_id))), d)"

definition payload_turns :: "gate_env \<Rightarrow> instant \<Rightarrow> jmap \<Rightarrow> conversation_turn list" where
  "payload_turns env now m =
    List.map_filter (turn_of_json env now)
      (case oget m ''turns'' of Some (JArr xs) \<Rightarrow> xs | _ \<Rightarrow> [])"

definition load_history ::
  "gate_env \<Rightarrow> io \<Rightarrow> instant \<Rightarrow> string \<Rightarrow> string \<Rightarrow> disk \<Rightarrow> store_error + conversation_turn list" where
  "load_history env io now platform chat_id d =
    rbind (fst (load_payload_unlocked env io platform chat_id d)) (\<lambda>m. Inr (payload_turns env now m))"

definition load_metadata ::
  "gate_env \<Rightarrow> io \<Rightarrow> string \<Rightarrow> string \<Rightarrow> disk \<Rightarrow> store_error + jmap" where
  "load_metadata env io platform chat_id d =
    rbind (fst (load_payload_unlocked env io platform chat_id d))
      (\<lambda>m. Inr (case oget m ''metadata'' of Some (JObj x) \<Rightarrow> x | _ \<Rightarrow> []))"

definition write_session ::
  "gate_env \<Rightarrow> io \<Rightarrow> string \<Rightarrow> string \<Rightarrow> jmap \<Rightarrow> disk \<Rightarrow> (store_error + unit) \<times> disk" where
  "write_session env io platform chat_id m d =
     write_json env io (session_path env platform chat_id) (JObj m) d"

definition metadata_update :: "string \<Rightarrow> string \<Rightarrow> jmap \<Rightarrow> jmap \<Rightarrow> jmap" where
  "metadata_update platform chat_id metadata m =
    (let m = oputs [(''platform'', JStr platform), (''chat_id'', JStr chat_id),
                    (''metadata'', JObj metadata)] m
     in (case oget m ''turns'' of Some (JArr x) \<Rightarrow> m | _ \<Rightarrow> oput ''turns'' (JArr []) m))"

definition set_metadata ::
  "gate_env \<Rightarrow> io \<Rightarrow> string \<Rightarrow> string \<Rightarrow> jmap \<Rightarrow> disk \<Rightarrow> (store_error + unit) \<times> disk" where
  "set_metadata env io platform chat_id metadata =
     transact (load_payload_unlocked env io platform chat_id) (write_session env io platform chat_id)
       (\<lambda>m. Inr ((), Some (metadata_update platform chat_id metadata m)))"

definition bounded_history :: "conversation_turn list \<Rightarrow> conversation_turn list" where
  "bounded_history history =
    (if max_turns > 0 \<and> length history > max_turns
     then drop (length history - max_turns) history else history)"

definition turns_update ::
  "gate_env \<Rightarrow> instant \<Rightarrow> string \<Rightarrow> string \<Rightarrow> conversation_turn list \<Rightarrow> jmap \<Rightarrow> jmap" where
  "turns_update env now platform chat_id turns m =
    (let history = bounded_history (payload_turns env now m @ turns);
         m = oputs [(''platform'', JStr platform), (''chat_id'', JStr chat_id),
                    (''turns'', JArr (map turn_to_json history))] m
     in (case oget m ''metadata'' of Some (JObj x) \<Rightarrow> m | _ \<Rightarrow> oput ''metadata'' (JObj []) m))"

definition append_turns ::
  "gate_env \<Rightarrow> io \<Rightarrow> instant \<Rightarrow> string \<Rightarrow> string \<Rightarrow> conversation_turn list \<Rightarrow> disk \<Rightarrow>
   (store_error + unit) \<times> disk" where
  "append_turns env io now platform chat_id turns =
     transact (load_payload_unlocked env io platform chat_id) (write_session env io platform chat_id)
       (\<lambda>m. Inr ((), Some (turns_update env now platform chat_id turns m)))"

section \<open>Routes and delivery records\<close>

definition register_route ::
  "gate_env \<Rightarrow> io \<Rightarrow> string \<Rightarrow> json \<Rightarrow> disk \<Rightarrow> (store_error + unit) \<times> disk" where
  "register_route env io route_key route d =
    (if trim route_key = [] then (Inl (Bail ''route_key is required''), d)
     else transact (load_shared_map_unlocked env io routes_file)
            (write_shared_map_unlocked env io routes_file)
            (\<lambda>m. Inr ((), Some (oput route_key route m))) d)"

definition resolve_route ::
  "gate_env \<Rightarrow> io \<Rightarrow> string \<Rightarrow> disk \<Rightarrow> (store_error + json option) \<times> disk" where
  "resolve_route env io route_key d =
    (if trim route_key = [] then (Inr None, d)
     else transact (load_shared_map_unlocked env io routes_file)
            (write_shared_map_unlocked env io routes_file)
            (\<lambda>m. Inr (oget m route_key, None)) d)"

definition load_delivery_record ::
  "gate_env \<Rightarrow> io \<Rightarrow> string \<Rightarrow> disk \<Rightarrow> (store_error + json option) \<times> disk" where
  "load_delivery_record env io idempotency_key d =
    (if trim idempotency_key = [] then (Inr None, d)
     else transact (load_shared_map_unlocked env io deliveries_file)
            (write_shared_map_unlocked env io deliveries_file)
            (\<lambda>m. Inr (oget m idempotency_key, None)) d)"

definition save_delivery_record ::
  "gate_env \<Rightarrow> io \<Rightarrow> string \<Rightarrow> string \<Rightarrow> json \<Rightarrow> json \<Rightarrow> disk \<Rightarrow> (store_error + unit) \<times> disk" where
  "save_delivery_record env io idempotency_key request_fingerprint response_payload classification d =
    (if trim idempotency_key = [] then (Inl (Bail ''idempotency_key is required''), d)
     else transact (load_shared_map_unlocked env io deliveries_file)
            (write_shared_map_unlocked env io deliveries_file)
            (\<lambda>m. Inr ((), Some (oput idempotency_key (jobj
                [(''request_fingerprint'', JStr request_fingerprint),
                 (''response_payload'', response_payload),
                 (''classification'', classification)]) m))) d)"

definition health_side :: "bool \<Rightarrow> json" where
  "health_side no_records = jobj [(''ready'', JBool no_records),
     (''health_state'', JStr (if no_records then ''unknown'' else ''ready''))]"

definition delivery_health :: "gate_env \<Rightarrow> io \<Rightarrow> disk \<Rightarrow> (store_error + json) \<times> disk" where
  "delivery_health env io =
     transact (load_shared_map_unlocked env io deliveries_file)
       (write_shared_map_unlocked env io deliveries_file)
       (\<lambda>m. Inr (jobj [(''record_count'', JInt (int (length m))),
          (''route_mode_counts'', JObj []), (''queue_state_counts'', JObj []),
          (''source_bound'', health_side (m = [])), (''proactive'', health_side (m = [])),
          (''unknown'', jobj [(''ready'', JBool False), (''health_state'', JStr ''unknown'')]),
          (''failure_class_counts'', JObj [])], None))"

section \<open>Where sessions are stored\<close>

lemma slug_safe: "c \<in> set (slug env v) \<Longrightarrow> slug_char c = c"
  by (auto simp: slug_def Let_def slug_char_def is_ascii_lowercase_def is_ascii_digit_def)

lemma slug_no_separator: "CHR ''/'' \<notin> set (slug env v)"
  using slug_safe [of "CHR ''/''" env v]
  by (auto simp: slug_char_def is_ascii_lowercase_def is_ascii_digit_def less_eq_char_def)

fun dunder :: "string \<Rightarrow> bool" where
  "dunder (a # b # s) = (a = CHR ''_'' \<and> b = CHR ''_'' \<or> dunder (b # s))"
| "dunder _ = False"

lemma dunder_mid: "dunder (p @ ''__'' @ c)"
  by (induction p rule: dunder.induct) auto

lemma session_path_dunder: "dunder (session_path env p c)"
  using dunder_mid [of "slug env p" "slug env c @ ''.json''"] by (simp add: session_path_def)

lemma session_backup: "backup_path (session_path env p c) = slug env p @ ''__'' @ slug env c @ ''.bak''"
  using backup_path_neq [of "session_path env p c" "slug env p @ ''__'' @ slug env c"]
  by (simp add: session_path_def)

lemma session_backup_dunder: "dunder (backup_path (session_path env p c))"
  using dunder_mid [of "slug env p" "slug env c @ ''.bak''"] by (simp add: session_backup)

lemma session_backup_neq: "backup_path (session_path env p c) \<noteq> session_path env p c"
  by (simp add: session_backup session_path_def)

definition shared_names :: "string list" where
  "shared_names = [routes_file, deliveries_file, delivery_items_file, backup_path routes_file,
     backup_path deliveries_file, backup_path delivery_items_file, ''_delivery_items.lock'']"

lemma shared_names_no_dunder: "f \<in> set shared_names \<Longrightarrow> \<not> dunder f"
  by (auto simp: shared_names_def routes_file_def deliveries_file_def delivery_items_file_def
      backup_path_def with_extension_def)

lemma write_json_frame:
  "write_json env io f v d = (r, d') \<Longrightarrow> g \<noteq> f \<Longrightarrow> g \<noteq> backup_path f \<Longrightarrow> d' g = d g"
  by (auto simp: write_json_def Let_def split: if_splits)

lemma session_transact_frame:
  assumes "transact (load_payload_unlocked env io p c) (write_session env io p c) act d = (r, d')"
    and "\<not> dunder g"
  shows "d' g = d g"
proof -
  have "g \<noteq> session_path env p c" "g \<noteq> backup_path (session_path env p c)"
    using assms(2) session_path_dunder session_backup_dunder by metis+
  with assms(1) show ?thesis
    by (auto simp: transact_def load_payload_unlocked_def write_session_def dest: write_json_frame
        split: prod.splits sum.splits option.splits if_splits)
qed

section \<open>Sessions as durable state\<close>

definition session_view :: "gate_env \<Rightarrow> string \<Rightarrow> string \<Rightarrow> disk \<Rightarrow> jmap option" where
  "session_view env p c d = Some (case d (session_path env p c) of
      None \<Rightarrow> empty_payload p c
    | Some raw \<Rightarrow> normalize_payload p c (case from_str env raw of Some (JObj m) \<Rightarrow> m | _ \<Rightarrow> []))"

definition session_storable :: "gate_env \<Rightarrow> string \<Rightarrow> string \<Rightarrow> jmap \<Rightarrow> bool" where
  "session_storable env p c m \<longleftrightarrow> storable env m \<and> normalize_payload p c m = m"

lemma load_payload_view:
  "load_payload_unlocked env io p c d = (res, d') \<Longrightarrow>
   d' = d \<and> (\<forall>m. res = Inr m \<longrightarrow> session_view env p c d = Some m)"
  by (auto simp: load_payload_unlocked_def session_view_def split: option.splits if_splits)

lemma write_session_ok:
  "write_session env io p c m d = (Inr u, d') \<Longrightarrow> session_storable env p c m \<Longrightarrow>
   session_view env p c d' = Some m"
  using session_backup_neq [of env p c]
  by (auto simp: write_session_def write_json_def Let_def session_view_def session_storable_def
      storable_def split: if_splits)

lemma write_session_err:
  "write_session env io p c m d = (Inl e, d') \<Longrightarrow> session_view env p c d' = session_view env p c d"
  using session_backup_neq [of env p c]
  by (auto simp: write_session_def write_json_def Let_def session_view_def split: if_splits)

interpretation session: durable_state "session_view env p c" "load_payload_unlocked env io p c"
    "write_session env io p c" "session_storable env p c" for env io p c
  by unfold_locales (auto dest: load_payload_view write_session_ok write_session_err)

lemma normalize_id:
  assumes "owf m" "oget m ''platform'' \<noteq> None" "oget m ''chat_id'' \<noteq> None"
    and "oget m ''metadata'' = Some (JObj x)" "oget m ''turns'' = Some (JArr y)"
  shows "normalize_payload p c m = m"
  using assms by (auto simp: normalize_payload_def omap.put_same_id)

lemma turn_roundtrip [simp]: "turn_of_json env now (turn_to_json t) = Some t"
  by (simp add: turn_to_json_def jobj_def)

lemma turns_roundtrip: "List.map_filter (turn_of_json env now) (map turn_to_json ts) = ts"
  by (induction ts) (simp_all add: List.map_filter_simps)

lemma bounded_history_spec: "bounded_history ts = rev (take 20 (rev ts))"
  by (simp add: bounded_history_def max_turns_def take_rev)

lemma payload_turns_update:
  "payload_turns env now' (turns_update env now p c ts m)
     = bounded_history (payload_turns env now m @ ts)"
  by (auto simp: turns_update_def Let_def payload_turns_def turns_roundtrip split: option.splits json.splits)

section \<open>What a session keeps\<close>

definition session_ok :: "gate_env \<Rightarrow> jmap \<Rightarrow> bool" where
  "session_ok env m \<longleftrightarrow> jwf (f64_text env) (JObj m) \<and> jdepth (JObj m) \<le> 127"

lemma session_ok_oput:
  "session_ok env m \<Longrightarrow> jwf (f64_text env) v \<Longrightarrow> jdepth v < 127 \<Longrightarrow> session_ok env (oput k v m)"
  unfolding session_ok_def by (auto intro: jdepth_oput jwf_oput simp del: jwf.simps jdepth.simps)

lemma session_ok_Nil: "session_ok env []"
  by (simp add: session_ok_def owf_def)

lemma session_ok_member: "session_ok env m \<Longrightarrow> oget m k = Some v \<Longrightarrow> jwf (f64_text env) v \<and> jdepth v < 127"
  by (auto simp: session_ok_def jdepth_obj_le oget_def image_iff simp del: jwf.simps jdepth.simps
      dest!: map_of_SomeD intro: jwf_oget) (auto simp: oget_def)

lemma session_ok_default:
  "session_ok env m \<Longrightarrow> session_ok env (oput k (case oget m k of Some v \<Rightarrow> v | None \<Rightarrow> JStr s) m)"
  by (cases "oget m k") (auto intro!: session_ok_oput dest: session_ok_member)

lemma session_ok_object:
  "session_ok env m \<Longrightarrow> session_ok env (case oget m k of Some (JObj x) \<Rightarrow> m | _ \<Rightarrow> oput k (JObj []) m)"
  by (auto split: option.splits json.splits intro!: session_ok_oput simp: owf_def)

lemma session_ok_array:
  "session_ok env m \<Longrightarrow> session_ok env (case oget m k of Some (JArr x) \<Rightarrow> m | _ \<Rightarrow> oput k (JArr []) m)"
  by (auto split: option.splits json.splits intro!: session_ok_oput)

lemma session_ok_normalize: "session_ok env m \<Longrightarrow> session_ok env (normalize_payload p c m)"
  unfolding normalize_payload_def Let_def
  by (intro session_ok_array session_ok_object session_ok_default)

lemma session_view_ok:
  assumes "serde_ok env" "session_view env p c d = Some m" shows "session_ok env m"
proof (cases "d (session_path env p c)")
  case None
  with assms(2) show ?thesis
    by (auto simp: session_view_def empty_payload_def session_ok_def owf_def)
next
  case (Some raw)
  have "session_ok env (case from_str env raw of Some (JObj m) \<Rightarrow> m | _ \<Rightarrow> [])"
    using assms(1) session_ok_Nil by (auto simp: session_ok_def serde_ok_def simp del: jwf.simps jdepth.simps
        split: option.splits json.splits)
  with assms(2) Some show ?thesis by (auto simp: session_view_def intro: session_ok_normalize)
qed

lemma turn_json_ok: "jwf ft (turn_to_json t)" "jdepth (turn_to_json t) \<le> 1"
  unfolding turn_to_json_def
  by (rule jwf_jobj, simp) (unfold jobj_def, rule jdepth_oputs, simp_all)

lemma turns_json_ok: "jwf ft (JArr (map turn_to_json ts))" "jdepth (JArr (map turn_to_json ts)) < 127"
proof -
  show "jwf ft (JArr (map turn_to_json ts))" by (simp add: turn_json_ok)
  have "jdepth (JArr (map turn_to_json ts)) \<le> 2"
    unfolding jdepth_arr_le using turn_json_ok(2) by (auto intro: le_imp_less_Suc simp: numeral_2_eq_2)
  then show "jdepth (JArr (map turn_to_json ts)) < 127" by linarith
qed

lemma turns_update_ok: "session_ok env m \<Longrightarrow> session_ok env (turns_update env now p c ts m)"
  unfolding turns_update_def Let_def oputs.simps
  by (intro session_ok_object session_ok_oput turns_json_ok) simp_all

lemma turns_update_shape:
  "oget (turns_update env now p c ts m) ''platform'' = Some (JStr p)"
  "oget (turns_update env now p c ts m) ''chat_id'' = Some (JStr c)"
  "\<exists>x. oget (turns_update env now p c ts m) ''metadata'' = Some (JObj x)"
  "\<exists>y. oget (turns_update env now p c ts m) ''turns'' = Some (JArr y)"
  by (auto simp: turns_update_def Let_def split: option.splits json.splits)

lemma session_storable_ok:
  assumes "serde_ok env" "session_ok env m" "oget m ''platform'' \<noteq> None" "oget m ''chat_id'' \<noteq> None"
    and "\<exists>x. oget m ''metadata'' = Some (JObj x)" "\<exists>y. oget m ''turns'' = Some (JArr y)"
  shows "session_storable env p c m"
proof -
  have "owf m" using assms(2) by (simp add: session_ok_def)
  with assms(3-6) have "normalize_payload p c m = m" by (auto intro: normalize_id)
  with assms(1,2) show ?thesis by (simp add: session_storable_def session_ok_def storable_jwf)
qed

lemma turns_update_storable:
  "serde_ok env \<Longrightarrow> session_ok env m \<Longrightarrow> session_storable env p c (turns_update env now p c ts m)"
  by (rule session_storable_ok) (simp_all add: turns_update_ok turns_update_shape)

lemma load_payload_good:
  "io_read io \<Longrightarrow> load_payload_unlocked env io p c d = (Inr (the (session_view env p c d)), d)"
  by (auto simp: load_payload_unlocked_def session_view_def split: option.splits)

lemma load_history_view:
  "load_history env io now p c d = Inr ts \<Longrightarrow>
   \<exists>m. session_view env p c d = Some m \<and> ts = payload_turns env now m"
  by (auto simp: load_history_def dest: load_payload_view split: prod.splits)
     (metis load_payload_view prod.collapse)

lemma append_turns_view:
  assumes "append_turns env io now p c ts d = (Inr (), d')" "serde_ok env"
  shows "\<exists>m. session_view env p c d = Some m
     \<and> session_view env p c d' = Some (turns_update env now p c ts m)"
proof -
  from session.transact_ok_view [OF assms(1) [unfolded append_turns_def]]
  have "\<exists>s w. session_view env p c d = Some s
     \<and> Inr ((), Some (turns_update env now p c ts s)) = (Inr ((), w) :: store_error + unit \<times> jmap option)
     \<and> session_view env p c d' = Some (case w of None \<Rightarrow> s | Some s' \<Rightarrow> s')"
    using turns_update_storable [OF assms(2)] session_view_ok [OF assms(2)] by fastforce
  then show ?thesis by auto
qed

end
