(* ===== verification/Model_Env.thy ===== *)
theory Model_Env
  imports Session_Store
begin

text \<open>
  A concrete environment: an executable printer and parser for JSON values (prefix code) and for
  instants (decimal nanoseconds). It satisfies the hypotheses \<open>serde_ok\<close> and \<open>chrono_ok\<close> that the
  theorems make on serde\_json and chrono, so those hypotheses are consistent and every theorem
  that uses them can be applied to concrete inputs.
\<close>

section \<open>Instants\<close>

fun digits :: "nat \<Rightarrow> string" where
  "digits n = (if n < 10 then [char_of (48 + n)] else digits (n div 10) @ [char_of (48 + n mod 10)])"

declare digits.simps [simp del]

definition undigits :: "string \<Rightarrow> nat" where
  "undigits s = foldl (\<lambda>a c. 10 * a + (of_char c - 48)) 0 s"

lemma undigits_digits [simp]: "undigits (digits n) = n"
proof (induction n rule: digits.induct)
  case (1 n)
  then show ?case
    by (cases "n < 10") (simp_all add: undigits_def digits.simps [of n])
qed

definition print_int :: "int \<Rightarrow> string" where
  "print_int i = (if i < 0 then CHR ''-'' # digits (nat (- i)) else CHR ''+'' # digits (nat i))"

fun scan_int :: "string \<Rightarrow> int option" where
  "scan_int (c # s) = (if c = CHR ''-'' then Some (- int (undigits s))
     else if c = CHR ''+'' then Some (int (undigits s)) else None)"
| "scan_int [] = None"

lemma scan_print_int [simp]: "scan_int (print_int i) = Some i"
  by (simp add: print_int_def)

section \<open>Values\<close>

fun print_str :: "string \<Rightarrow> string" where
  "print_str [] = ''.''"
| "print_str (c # s) = CHR ''c'' # c # print_str s"

fun scan_str :: "string \<Rightarrow> (string \<times> string) option" where
  "scan_str (a # s) = (if a = CHR ''.'' then Some ([], s) else (case s of
      [] \<Rightarrow> None | c # s' \<Rightarrow> map_option (\<lambda>(t, r). (c # t, r)) (scan_str s')))"
| "scan_str [] = None"

lemma scan_print_str [simp]: "scan_str (print_str s @ r) = Some (s, r)"
  by (induction s) simp_all

fun print_json :: "json \<Rightarrow> string" where
  "print_json JNull = ''n''"
| "print_json (JBool b) = (if b then ''t'' else ''f'')"
| "print_json (JInt i) = CHR ''i'' # print_str (print_int i)"
| "print_json (JFloat s) = CHR ''d'' # print_str s"
| "print_json (JStr s) = CHR ''s'' # print_str s"
| "print_json (JArr xs) = CHR ''['' # concat (map (\<lambda>v. CHR '','' # print_json v) xs) @ '']''"
| "print_json (JObj m) = CHR ''{'' #
     concat (map (\<lambda>kv. CHR '','' # print_str (fst kv) @ print_json (snd kv)) m) @ ''}''"

fun scan_json :: "nat \<Rightarrow> string \<Rightarrow> (json \<times> string) option"
and scan_list :: "nat \<Rightarrow> string \<Rightarrow> (json list \<times> string) option"
and scan_members :: "nat \<Rightarrow> string \<Rightarrow> ((string \<times> json) list \<times> string) option" where
  "scan_json (Suc n) (c # s) =
    (if c = CHR ''n'' then Some (JNull, s) else if c = CHR ''t'' then Some (JBool True, s)
     else if c = CHR ''f'' then Some (JBool False, s)
     else if c = CHR ''i'' then Option.bind (scan_str s) (\<lambda>(t, r).
       map_option (\<lambda>i. (JInt i, r)) (scan_int t))
     else if c = CHR ''d'' then map_option (\<lambda>(t, r). (JFloat t, r)) (scan_str s)
     else if c = CHR ''s'' then map_option (\<lambda>(t, r). (JStr t, r)) (scan_str s)
     else if c = CHR ''['' then map_option (\<lambda>(t, r). (JArr t, r)) (scan_list n s)
     else if c = CHR ''{'' then map_option (\<lambda>(t, r). (JObj t, r)) (scan_members n s)
     else None)"
| "scan_json _ _ = None"
| "scan_list (Suc n) (c # s) =
    (if c = CHR '']'' then Some ([], s) else
      Option.bind (scan_json n s) (\<lambda>(v, r). map_option (\<lambda>(vs, r'). (v # vs, r')) (scan_list n r)))"
| "scan_list _ _ = None"
| "scan_members (Suc n) (c # s) =
    (if c = CHR ''}'' then Some ([], s) else Option.bind (scan_str s) (\<lambda>(k, r0).
      Option.bind (scan_json n r0) (\<lambda>(v, r).
        map_option (\<lambda>(vs, r'). ((k, v) # vs, r')) (scan_members n r))))"
| "scan_members _ _ = None"

lemma print_str_length [simp]: "0 < length (print_str s)"
  by (cases s) simp_all

lemma scan_list_print:
  assumes "\<And>v n r. v \<in> set vs \<Longrightarrow> length (print_json v) < n \<Longrightarrow> scan_json n (print_json v @ r) = Some (v, r)"
    and "length (concat (map (\<lambda>v. CHR '','' # print_json v) vs)) < n"
  shows "scan_list n (concat (map (\<lambda>v. CHR '','' # print_json v) vs) @ CHR '']'' # r) = Some (vs, r)"
  using assms
proof (induction vs arbitrary: n)
  case (Cons v vs)
  then obtain n' where "n = Suc n'" by (cases n) auto
  with Cons show ?case by simp
qed (case_tac n, simp_all)

lemma scan_members_print:
  assumes "\<And>kv n r. kv \<in> set m \<Longrightarrow> length (print_json (snd kv)) < n \<Longrightarrow>
      scan_json n (print_json (snd kv) @ r) = Some (snd kv, r)"
    and "length (concat (map (\<lambda>kv. CHR '','' # print_str (fst kv) @ print_json (snd kv)) m)) < n"
  shows "scan_members n (concat (map (\<lambda>kv. CHR '','' # print_str (fst kv) @ print_json (snd kv)) m)
           @ CHR ''}'' # r) = Some (m, r)"
  using assms
proof (induction m arbitrary: n)
  case (Cons kv m)
  then obtain n' where "n = Suc n'" by (cases n) auto
  with Cons.prems Cons.IH [of n'] Cons.prems(1) [of kv n'] show ?case by (cases kv) simp
qed (case_tac n, simp_all)

lemma scan_print_json: "length (print_json v) < n \<Longrightarrow> scan_json n (print_json v @ r) = Some (v, r)"
proof (induction v arbitrary: n r rule: print_json.induct)
  case (6 xs)
  then obtain n' where n: "n = Suc n'" by (cases n) auto
  have "scan_list n' (concat (map (\<lambda>v. CHR '','' # print_json v) xs) @ CHR '']'' # r) = Some (xs, r)"
    by (rule scan_list_print) (use 6 n in auto)
  with n show ?case by simp
next
  case (7 m)
  then obtain n' where n: "n = Suc n'" by (cases n) auto
  have "scan_members n' (concat (map (\<lambda>kv. CHR '','' # print_str (fst kv) @ print_json (snd kv)) m)
      @ CHR ''}'' # r) = Some (m, r)"
    by (rule scan_members_print) (use 7 n in auto)
  with n show ?case by simp
qed (case_tac n; simp)+

definition read_json :: "string \<Rightarrow> json option" where
  "read_json s = (case scan_json (Suc (length s)) s of
      Some (v, []) \<Rightarrow> if jwf (\<lambda>_. True) v \<and> jdepth v \<le> 127 then Some v else None | _ \<Rightarrow> None)"

section \<open>The environment\<close>

definition model_env :: gate_env where
  "model_env = \<lparr>parse_rfc3339 = scan_int, to_rfc3339 = print_int,
     rfc3339_secs = (\<lambda>t. print_int (t - t mod 1000000000)), max_utc = 8210266876799999999999,
     from_str = read_json, to_vec_pretty = print_json, f64_text = (\<lambda>_. True),
     to_lowercase = map (\<lambda>c. if is_ascii_uppercase c then char_of (of_char c + 32 :: nat) else c)\<rparr>"

lemma model_env_sel [simp]:
  "parse_rfc3339 model_env = scan_int" "to_rfc3339 model_env = print_int"
  "rfc3339_secs model_env t = print_int (t - t mod 1000000000)"
  "max_utc model_env = 8210266876799999999999"
  "f64_text model_env = (\<lambda>_. True)" "from_str model_env = read_json" "to_vec_pretty model_env = print_json"
  by (simp_all add: model_env_def)

lemma model_serde_ok: "serde_ok model_env"
proof -
  have "read_json (print_json v) = Some v" if "jwf (\<lambda>_. True) v" "jdepth v \<le> 127" for v
    using that scan_print_json [of v "Suc (length (print_json v))" "[]"] by (simp add: read_json_def)
  moreover have "read_json s = Some v \<Longrightarrow> jwf (\<lambda>_. True) v \<and> jdepth v \<le> 127" for s v
    by (auto simp: read_json_def split: option.splits list.splits if_splits)
  ultimately show ?thesis by (simp add: serde_ok_def)
qed

lemma model_chrono_ok: "chrono_ok model_env"
  by (simp add: chrono_ok_def)

end
