(* ===== verification/Store_Properties.thy ===== *)
theory Store_Properties
  imports Delivery_Wellformed Model_Env
begin

text \<open>
  The properties of the session store and the delivery ledger, each with a witness that applies it
  to a concrete ledger or disk in the environment \<open>model_env\<close>.
\<close>

section \<open>Concrete ledgers\<close>

definition demo_item :: "string \<Rightarrow> (string \<times> json) list \<Rightarrow> json" where
  "demo_item st extra = jobj ([(''item_key'', JStr ''i0''), (''request_fingerprint'', JStr ''fp''),
     (''artifact_id'', JStr ''art''), (''kind'', JStr ''image''), (''status'', JStr st),
     (''attempts'', JInt 0), (''retryable'', JBool True),
     (''materialization'', jobj [(''status'', JStr ''not_required'')]),
     (''cache_path'', JStr ''/c/a.png''), (''updated_at'', JStr (utc_now_iso model_env 0))] @ extra)"

definition demo_ledger :: "json \<Rightarrow> jmap" where
  "demo_ledger item = [(''d0'', JObj [(''items'', JObj [(''i0'', item)]),
     (''planned_outbound'', JObj []), (''request_fingerprint'', JStr ''fp'')])]"

definition demo_claim :: claim_request where
  "demo_claim = \<lparr>cr_delivery_key = ''d0'', cr_request_fingerprint = ''fp'', cr_item_key = ''i0'',
     cr_artifact_id = ''art'', cr_kind = ''image'', cr_owner = ''w'', cr_cache_path = None,
     cr_lease_seconds = 60\<rparr>"

definition demo_finish :: "string \<Rightarrow> item_completion" where
  "demo_finish t = \<lparr>ic_delivery_key = ''d0'', ic_item_key = ''i0'', ic_claim_token = t,
     ic_status = ''succeeded'', ic_provider_media_id = None, ic_provider_client_id = None,
     ic_provider_message_id = Some ''m1'', ic_retryable = False, ic_last_error = None,
     ic_fallback_used = False\<rparr>"

lemma find_demo [simp]: "find_item ''d0'' ''i0'' (demo_ledger i) = Some i"
  by (simp add: demo_ledger_def find_item_def oget_def)

section \<open>Delivery\<close>

text \<open>C1: a delivered item is final. Whatever sequence of ledger operations runs afterwards, with
  whatever tokens and at whatever times, the item is still there, still delivered, and differs from
  what it was at most in the retained plan, the cache path and the time of its last update: no
  operation sends it again.\<close>

theorem delivery_is_final:
  assumes "find_item dk ik r = Some i" "delivered i"
  shows "\<exists>i'. find_item dk ik (ledger_run env ops r) = Some i' \<and> delivered i'
    \<and> (\<forall>k. k \<notin> {''planned_outbound'', ''updated_at'', ''cache_path''} \<longrightarrow> jget i' k = jget i k)"
  using delivered_run [OF assms, of env ops] by (simp add: agree_except_def delivery_bookkeeping_def)

theorem delivery_is_final_witness:
  "delivered (demo_item ''succeeded'' []) \<and>
   (\<exists>i'. find_item ''d0'' ''i0'' (ledger_run model_env [(5, Claim ''t'' demo_claim), (6, Reconcile 1)]
       (demo_ledger (demo_item ''succeeded'' []))) = Some i' \<and> delivered i')"
proof
  show d: "delivered (demo_item ''succeeded'' [])"
    by (simp add: delivered_def demo_item_def materialization_settled_def jobj_def)
  show "\<exists>i'. find_item ''d0'' ''i0'' (ledger_run model_env [(5, Claim ''t'' demo_claim), (6, Reconcile 1)]
       (demo_ledger (demo_item ''succeeded'' []))) = Some i' \<and> delivered i'"
    using delivery_is_final [OF find_demo d] by blast
qed


lemma demo_leased:
  "leased model_env ''t1'' 0 60000000000 (demo_item ''sending'' [(''claim_token'', JStr ''t1''),
     (''claim_expires_at'', JStr (to_rfc3339 model_env 60000000000))])"
  by (simp add: leased_def demo_item_def jobj_def utc_now_iso_def materialization_settled_def)


text \<open>what a granted claim is. When \<^verbatim>\<open>claim_delivery_item\<close> grants an item, the ledger it writes
  holds the item in status \<open>sending\<close> under the caller's token, leased from now for the requested
  time (at least one second), with the attempt counter increased (saturating at the top of the
  64-bit range); it answers that token, and it leaves every other item of the ledger as it was.\<close>

theorem claim_grants_lease:
  assumes "claim_delivery_item_records env now token req r = Inr (a, Some r')"
    and "chrono_ok env" "now + int (max (cr_lease_seconds req) 1) * nanos \<le> max_utc env" "token \<noteq> []"
  shows "\<exists>i'. find_item (cr_delivery_key req) (cr_item_key req) r' = Some i'
    \<and> jget a ''claim'' = Some (JStr ''claimed'') \<and> jget a ''claim_token'' = Some (JStr token)
    \<and> jget a ''item'' = Some i'
    \<and> jget i' ''attempts'' = Some (JInt (int (min u64_max (Suc (case find_item (cr_delivery_key req) (cr_item_key req) r of
          None \<Rightarrow> 0 | Some i \<Rightarrow> (case get_u64 i ''attempts'' of None \<Rightarrow> 0 | Some k \<Rightarrow> k))))))
    \<and> (\<forall>n. require_active_delivery_claim env n i' token = Inr () \<longleftrightarrow>
          n < now + int (max (cr_lease_seconds req) 1) * nanos)
    \<and> (\<forall>dk ik. (dk, ik) \<noteq> (cr_delivery_key req, cr_item_key req) \<longrightarrow> find_item dk ik r' = find_item dk ik r)"
proof -
  from claim_records_written [OF assms(1)] obtain rm items item item1 i' where
    rm: "claim_record env now req r = JObj rm" and it: "oget rm ''items'' = Some (JObj items)"
    and item: "item = claim_target env now req items"
    and bf: "bind_fingerprint (cr_request_fingerprint req) item = Inr item1"
    and ci: "claim_item env now token req item1 = Inr (a, Some i')"
    and r': "r' = oput (cr_delivery_key req) (JObj (oput ''updated_at'' (JStr (utc_now_iso env now))
             (oput ''items'' (JObj (oput (cr_item_key req) i' items)) rm))) r"
    by blast
  have found: "find_item (cr_delivery_key req) (cr_item_key req) r' = Some i'"
    by (simp add: r' find_item_oput)
  have old: "find_item (cr_delivery_key req) ik r = oget items ik" for ik
    by (rule claim_record_find [OF rm it])
  have frame: "find_item dk ik r' = find_item dk ik r"
    if "(dk, ik) \<noteq> (cr_delivery_key req, cr_item_key req)" for dk ik
    using that old by (auto simp: r' find_item_oput)
  have "attempts_of item1 = attempts_of item"
    using agreeD [OF bind_fingerprint_agree [OF bf], of "''attempts''"] by (simp add: attempts_of_def get_u64_def)
  also have "\<dots> = min u64_max (Suc (case find_item (cr_delivery_key req) (cr_item_key req) r of
          None \<Rightarrow> 0 | Some i \<Rightarrow> (case get_u64 i ''attempts'' of None \<Rightarrow> 0 | Some k \<Rightarrow> k)))"
    by (auto simp: old item claim_target_def attempts_of_def saturating_add_def new_item_attempts split: option.splits)
  finally have att: "attempts_of item1 = \<dots>" .
  show ?thesis
    using found frame claim_item_answer [OF ci] claim_item_active [OF ci assms(2-4)] unfolding att by blast
qed

lemma demo_grants:
  "\<exists>a r'. claim_delivery_item_records model_env 0 t demo_claim (demo_ledger (demo_item ''pending'' [])) = Inr (a, Some r')"
  by (simp add: claim_delivery_item_records_def Let_def claim_record_def claim_target_def demo_ledger_def
      oget_def demo_claim_def demo_item_def jobj_def bind_fingerprint_def claim_item_def item_terminal_failed_def
      delivery_claim_expires_at_def nanos_def i64_max_def get_str_def)

theorem claim_grants_lease_witness:
  "\<exists>a r' i'. claim_delivery_item_records model_env 0 ''t1'' demo_claim
       (demo_ledger (demo_item ''pending'' [])) = Inr (a, Some r')
     \<and> find_item ''d0'' ''i0'' r' = Some i' \<and> jget a ''item'' = Some i'
     \<and> require_active_delivery_claim model_env 59999999999 i' ''t1'' = Inr ()
     \<and> require_active_delivery_claim model_env 60000000000 i' ''t1'' \<noteq> Inr ()"
proof -
  obtain a r' where c: "claim_delivery_item_records model_env 0 ''t1'' demo_claim
       (demo_ledger (demo_item ''pending'' [])) = Inr (a, Some r')" using demo_grants by blast
  from claim_grants_lease [OF c model_chrono_ok] show ?thesis
    using c by (fastforce simp: demo_claim_def nanos_def)
qed

text \<open>C10: fencing. Once an item is claimed under a token, every other token is stale for good:
  after any further sequence of operations that does not claim with the stale token again,
  recording an upload, finishing a stage and finishing the item under the stale token are refused
  and write nothing, even when the stale holder's own lease has not run out.\<close>

theorem stale_token_refused:
  assumes "claim_delivery_item_records env now token req r = Inr (a, Some r')" "stale \<noteq> token"
    and "\<forall>x \<in> set ops. \<forall>req. snd x \<noteq> Claim stale req"
    and "iu_delivery_key u = cr_delivery_key req" "iu_item_key u = cr_item_key req" "iu_claim_token u = stale"
    and "sc_delivery_key s = cr_delivery_key req" "sc_item_key s = cr_item_key req" "sc_claim_token s = stale"
    and "ic_delivery_key c = cr_delivery_key req" "ic_item_key c = cr_item_key req" "ic_claim_token c = stale"
  shows "\<exists>e1 e2 e3. record_delivery_item_upload_records env n u (ledger_run env ops r') = Inl e1
    \<and> finish_delivery_stage_records env n s (ledger_run env ops r') = Inl e2
    \<and> finish_delivery_item_records env n c (ledger_run env ops r') = Inl e3"
proof -
  from claim_records_written [OF assms(1)] obtain rm items item1 i' where
    ci: "claim_item env now token req item1 = Inr (a, Some i')"
    and r': "r' = oput (cr_delivery_key req) (JObj (oput ''updated_at'' (JStr (utc_now_iso env now))
             (oput ''items'' (JObj (oput (cr_item_key req) i' items)) rm))) r"
    by blast
  have found: "find_item (cr_delivery_key req) (cr_item_key req) r' = Some i'"
    by (simp add: r' find_item_oput)
  have "fenced stale i'"
    using claim_item_granted [OF ci] assms(2) by (auto simp: fenced_def claimed_fields_def)
  from fenced_run [OF found this assms(3)] obtain j where
    j: "find_item (cr_delivery_key req) (cr_item_key req) (ledger_run env ops r') = Some j" "fenced stale j"
    by blast
  show ?thesis
    unfolding record_delivery_item_upload_records_def finish_delivery_stage_records_def
      finish_delivery_item_records_def assms(4-12)
    by (simp only: ex_simps) (intro conjI with_active_item_fenced [OF j])
qed

theorem stale_token_refused_witness:
  "\<exists>a r'. claim_delivery_item_records model_env 0 ''t2'' demo_claim
       (demo_ledger (demo_item ''pending'' [])) = Inr (a, Some r')
     \<and> (\<exists>e. finish_delivery_item_records model_env 9 (demo_finish ''t1'')
          (ledger_run model_env [(3, Reconcile 1000)] r') = Inl e)"
proof -
  obtain a r' where c: "claim_delivery_item_records model_env 0 ''t2'' demo_claim
       (demo_ledger (demo_item ''pending'' [])) = Inr (a, Some r')" using demo_grants by blast
  define s :: stage_completion where "s = \<lparr>sc_delivery_key = ''d0'', sc_item_key = ''i0'',
     sc_claim_token = ''t1'', sc_stage = ''native'', sc_status = ''succeeded'', sc_provider_media_id = None,
     sc_provider_client_id = None, sc_provider_message_id = None, sc_retryable = True, sc_last_error = None\<rparr>"
  define u :: item_upload where "u = \<lparr>iu_delivery_key = ''d0'', iu_item_key = ''i0'', iu_claim_token = ''t1'',
     iu_stage = ''native'', iu_provider_media_id = ''m'', iu_provider_media_state = JNull,
     iu_provider_client_id = None\<rparr>"
  have "\<exists>e1 e2 e3. record_delivery_item_upload_records model_env 9 u (ledger_run model_env [(3, Reconcile 1000)] r') = Inl e1
    \<and> finish_delivery_stage_records model_env 9 s (ledger_run model_env [(3, Reconcile 1000)] r') = Inl e2
    \<and> finish_delivery_item_records model_env 9 (demo_finish ''t1'') (ledger_run model_env [(3, Reconcile 1000)] r') = Inl e3"
    by (rule stale_token_refused [OF c, where stale = "''t1''"])
      (simp_all add: demo_finish_def demo_claim_def s_def u_def)
  with c show ?thesis by blast
qed





text \<open>a delivery key is bound to one request. A claim that names an existing delivery with
  another request fingerprint, or an existing item with another artifact, kind or fingerprint, is
  refused as a conflict and writes nothing.\<close>


theorem claim_conflicts_refused:
  assumes "oget r (cr_delivery_key req) = Some rec0" "get_str rec0 ''request_fingerprint'' = Some fp"
    and "find_item (cr_delivery_key req) (cr_item_key req) r = Some i"
    and "fp \<noteq> cr_request_fingerprint req
       \<or> get_str i ''artifact_id'' \<noteq> Some (cr_artifact_id req) \<or> get_str i ''kind'' \<noteq> Some (cr_kind req)
       \<or> (\<exists>f. get_str i ''request_fingerprint'' = Some f \<and> f \<noteq> cr_request_fingerprint req)"
  shows "claim_delivery_item_records env now token req r
           \<in> {Inl (Bail ''delivery item request fingerprint conflict''),
              Inl (Bail ''delivery item identity conflict'')}
    \<and> (fp \<noteq> cr_request_fingerprint req \<longrightarrow> claim_delivery_item_records env now token req r
         = Inl (Bail ''delivery item request fingerprint conflict''))"
proof -
  from assms(1,3) obtain items where it: "jget rec0 ''items'' = Some (JObj items)" "oget items (cr_item_key req) = Some i"
    by (auto simp: find_item_def bind_eq_Some_conv)
  with assms(1,2,4) show ?thesis
    by (auto simp: claim_delivery_item_records_def claim_record_def claim_target_def Let_def guard_or_def
        bind_fingerprint_def ok_or_def get_str_def split: option.splits)
qed

theorem claim_conflicts_refused_witness:
  "claim_delivery_item_records model_env 0 ''t'' (demo_claim\<lparr>cr_request_fingerprint := ''other''\<rparr>)
     (demo_ledger (demo_item ''pending'' [])) = Inl (Bail ''delivery item request fingerprint conflict'')"
proof -
  have "oget (demo_ledger (demo_item ''pending'' [])) ''d0'' = Some (JObj [(''items'', JObj [(''i0'', demo_item ''pending'' [])]),
     (''planned_outbound'', JObj []), (''request_fingerprint'', JStr ''fp'')])"
    by (simp add: demo_ledger_def oget_def)
  from claim_conflicts_refused [of _ "demo_claim\<lparr>cr_request_fingerprint := ''other''\<rparr>", OF _ _ _, of _ _ "''fp''"]
    this show ?thesis by (simp add: demo_claim_def get_str_def oget_def)
qed

section \<open>The attachment cache\<close>

text \<open>cache reconciliation. Every cached attachment the ledger names is either retained or
  deleted; the ledger left behind names exactly the retained ones, each from an item that can
  still be retried, so a later round retains the same files and no item points to a deleted one.\<close>

theorem reconcile_partitions_cache:
  assumes "reconcile_delivery_cache_records env now ttl r = Inr ((retained, deleted), w)"
    and "r' = (case w of None \<Rightarrow> r | Some m \<Rightarrow> m)"
  shows "set retained \<union> set deleted = set (cache_paths (all_items r))
    \<and> (w \<noteq> None \<longrightarrow> retained = cache_paths (all_items r'))
    \<and> (w \<noteq> None \<longrightarrow> retryable_delivery_cache_paths_records r' = retained)"
proof -
  obtain m1 rc where m1: "reconcile_records env now ttl r = (m1, rc)" by fastforce
  note p = reconcile_records_paths [OF m1]
  have eqs: "retained = rc_retained rc" "deleted = rc_deleted rc" "w \<noteq> None \<Longrightarrow> r' = m1"
    using assms m1 by (auto simp: reconcile_delivery_cache_records_def split: if_splits)
  moreover have "retryable_delivery_cache_paths_records m1 = cache_paths (all_items m1)"
    using p cache_paths_filter [of "all_items m1" item_retryable_state]
    by (simp add: retryable_delivery_cache_paths_records_def cache_paths_def)
  ultimately show ?thesis using p by auto
qed

theorem reconcile_partitions_cache_witness:
  "\<exists>w. reconcile_delivery_cache_records model_env 100 5 (demo_ledger (demo_item ''pending'' []))
      = Inr (([], [''/c/a.png'']), w) \<and> w \<noteq> None
    \<and> retryable_delivery_cache_paths_records (case w of None \<Rightarrow> demo_ledger (demo_item ''pending'' []) | Some m \<Rightarrow> m) = []"
proof -
  have path: "item_cache_path (demo_item ''pending'' []) = Some ''/c/a.png''"
    by (simp add: item_cache_path_def demo_item_def jobj_def get_str_def trim_id ws_bytes_def)
  have "\<exists>m. demo_item ''pending'' [] = JObj m" by (simp add: demo_item_def jobj_def)
  then obtain m where m: "demo_item ''pending'' [] = JObj m" by blast
  have "item_expired model_env 100 5 (demo_item ''pending'' [])"
    by (simp add: item_expired_def item_retryable_state_def status_in_def demo_item_def jobj_def get_str_def
        get_bool_def utc_now_iso_def)
  then have "\<exists>w. reconcile_delivery_cache_records model_env 100 5 (demo_ledger (demo_item ''pending'' []))
      = Inr (([], [''/c/a.png'']), Some w)"
    using path m by (auto simp: reconcile_delivery_cache_records_def demo_ledger_def reconcile_record_def
        oget_def reconcile_item_def reconcile_join_def reconcile_nothing_def)
  then obtain w where w: "reconcile_delivery_cache_records model_env 100 5 (demo_ledger (demo_item ''pending'' []))
      = Inr (([], [''/c/a.png'']), Some w)" by blast
  from reconcile_partitions_cache [OF w refl] w show ?thesis by auto
qed

text \<open>when a lease can be granted. As long as the clock is more than 365,000 days before the end
  of chrono's range, an expiry is computed exactly for leases of at most 9,223,372,036,854,775
  seconds; beyond that \<^verbatim>\<open>delivery_claim_expires_at\<close> panics, although it carries a fallback for an
  expiry that does not fit.\<close>

theorem lease_expiry_range:
  assumes "now + 365000 * 86400 * nanos \<le> max_utc env"
  shows "(\<exists>s. delivery_claim_expires_at env now lease = Inr s) \<longleftrightarrow> lease \<le> 9223372036854775"
  by (rule expiry_defined [OF assms])

theorem lease_expiry_range_witness:
  "(\<exists>s. delivery_claim_expires_at model_env 0 9223372036854775 = Inr s)
   \<and> \<not> (\<exists>s. delivery_claim_expires_at model_env 0 9223372036854776 = Inr s)"
  using lease_expiry_range [of 0 model_env 9223372036854775] lease_expiry_range [of 0 model_env 9223372036854776]
  by (simp add: nanos_def)

section \<open>Sessions, routes and delivery records\<close>

text \<open>C13: conversation history. After a successful \<^verbatim>\<open>append_turns\<close>, loading the history of that chat
  gives the last twenty turns of the old history followed by the appended turns, in order, with
  role, content and timestamp unchanged.\<close>

theorem history_round_trip:
  assumes "serde_ok env" "load_history env io now p c d = Inr old"
    and "append_turns env io' now p c ts d = (Inr (), d')" "io_read io''"
  shows "load_history env io'' now' p c d' = Inr (rev (take 20 (rev (old @ ts))))"
proof -
  from append_turns_view [OF assms(3,1)] load_history_view [OF assms(2)] obtain m where
    m: "session_view env p c d = Some m" "old = payload_turns env now m"
    and d': "session_view env p c d' = Some (turns_update env now p c ts m)" by auto
  show ?thesis
    by (simp add: load_history_def load_payload_good [OF assms(4)] d' payload_turns_update m(2)
        bounded_history_spec)
qed

theorem history_round_trip_witness:
  "\<exists>d'. append_turns model_env io_good 0 ''wx'' ''u1'' [\<lparr>turn_role = ''user'', turn_content = ''hi'', turn_timestamp = ''t''\<rparr>]
       Map.empty = (Inr (), d')
     \<and> load_history model_env io_good 5 ''wx'' ''u1'' d'
         = Inr [\<lparr>turn_role = ''user'', turn_content = ''hi'', turn_timestamp = ''t''\<rparr>]"
proof -
  let ?t = "\<lparr>turn_role = ''user'', turn_content = ''hi'', turn_timestamp = ''t''\<rparr>"
  have "\<exists>d'. append_turns model_env io_good 0 ''wx'' ''u1'' [?t] Map.empty = (Inr (), d')"
    by (simp add: append_turns_def transact_def load_payload_unlocked_def write_session_def write_json_def io_good_def)
  then obtain d' where d': "append_turns model_env io_good 0 ''wx'' ''u1'' [?t] Map.empty = (Inr (), d')" by blast
  have "load_history model_env io_good 0 ''wx'' ''u1'' Map.empty = Inr []"
    by (simp add: load_history_def load_payload_unlocked_def payload_turns_def empty_payload_def List.map_filter_simps)
  from history_round_trip [OF model_serde_ok this d', of io_good 5] d' show ?thesis by (simp add: io_good_def)
qed

text \<open>C14: sessions are confined. Whatever platform and chat identifiers arrive, the session file name
  contains no path separator, and storing turns or metadata of a chat changes none of the shared
  files (routes, delivery records, delivery items, their backups and the lock).\<close>

theorem sessions_confined:
  assumes "append_turns env io now p c ts d = (res, d') \<or> set_metadata env io p c md d = (res, d')"
    and "f \<in> {''_routes.json'', ''_deliveries.json'', ''_delivery_items.json'', ''_routes.bak'',
           ''_deliveries.bak'', ''_delivery_items.bak'', ''_delivery_items.lock''}"
  shows "d' f = d f \<and> CHR ''/'' \<notin> set (session_path env p c)"
proof -
  have "f \<in> set shared_names"
    using assms(2) by (simp add: shared_names_def routes_file_def deliveries_file_def delivery_items_file_def
        backup_path_def with_extension_def)
  then have "\<not> dunder f" by (rule shared_names_no_dunder)
  with assms(1) have "d' f = d f"
    by (auto simp: append_turns_def set_metadata_def dest: session_transact_frame)
  moreover have "CHR ''/'' \<notin> set (session_path env p c)"
    using slug_no_separator by (simp add: session_path_def)
  ultimately show ?thesis by blast
qed

theorem sessions_confined_witness:
  "\<exists>d'. set_metadata model_env io_good ''../_routes'' ''x'' [] Map.empty = (Inr (), d')
     \<and> d' ''_routes.json'' = None"
proof -
  have "\<exists>d'. set_metadata model_env io_good ''../_routes'' ''x'' [] Map.empty = (Inr (), d')"
    by (simp add: set_metadata_def transact_def load_payload_unlocked_def write_session_def write_json_def io_good_def)
  then obtain d' where d': "set_metadata model_env io_good ''../_routes'' ''x'' [] Map.empty = (Inr (), d')" by blast
  from sessions_confined [OF disjI2 [OF d'], of "''_routes.json''"] d' show ?thesis by simp
qed

text \<open>route registry round trip. A route registered under a key that is not blank is the one
  resolved under that key afterwards, and every other key resolves as it did before.\<close>

theorem route_round_trip:
  assumes "serde_ok env" "shared_view env routes_file d = Some m"
    and "register_route env io key route d = (Inr (), d')"
    and "jwf (f64_text env) route" "jdepth route < 127"
    and "resolve_route env io' key' d' = (Inr res, d'')" "trim key' \<noteq> []"
  shows "trim key \<noteq> [] \<and> res = (if key' = key then Some route else oget m key')"
proof -
  have k: "trim key \<noteq> []" and t: "transact (load_shared_map_unlocked env io routes_file)
            (write_shared_map_unlocked env io routes_file)
            (\<lambda>m. Inr ((), Some (oput key route m))) d = (Inr (), d')"
    using assms(3) by (auto simp: register_route_def split: if_splits)
  have "storable env (oput key route m)"
    by (rule storable_jwf [OF assms(1)])
      (use shared_view_jwf [OF assms(1,2)] shared_view_depth [OF assms(1,2)] assms(4,5) in \<open>auto simp del: jwf.simps jdepth.simps intro: jdepth_oput\<close>)
  then have "\<And>s r s'. shared_view env routes_file d = Some s \<Longrightarrow>
      Inr ((), Some (oput key route s)) = (Inr (r, Some s') :: store_error + unit \<times> jmap option) \<Longrightarrow> storable env s'"
    using assms(2) by auto
  from routes.transact_ok_view [OF t this]
  have v: "shared_view env routes_file d' = Some (oput key route m)" using assms(2) by auto
  have "transact (load_shared_map_unlocked env io' routes_file)
            (write_shared_map_unlocked env io' routes_file)
            (\<lambda>m. Inr (oget m key', None)) d' = (Inr res, d'')"
    using assms(6,7) by (simp add: resolve_route_def)
  from routes.transact_ok_read [OF this] v k show ?thesis by auto
qed

theorem route_round_trip_witness:
  "\<exists>d' d''. register_route model_env io_good ''r1'' (JStr ''x'') Map.empty = (Inr (), d')
     \<and> resolve_route model_env io_good ''r1'' d' = (Inr (Some (JStr ''x'')), d'')"
proof -
  have k: "trim ''r1'' = ''r1''" by (simp add: trim_id ws_bytes_def)
  have "\<exists>d'. register_route model_env io_good ''r1'' (JStr ''x'') Map.empty = (Inr (), d')"
    by (simp add: register_route_def k transact_def load_shared_map_unlocked_def recover_backup_def
        write_shared_map_unlocked_def write_json_def io_good_def)
  then obtain d' where d': "register_route model_env io_good ''r1'' (JStr ''x'') Map.empty = (Inr (), d')" by blast
  have v: "shared_view model_env routes_file Map.empty = Some []" by (simp add: shared_view_def)
  have "storable model_env [(''r1'', JStr ''x'')]"
    by (rule storable_jwf [OF model_serde_ok]) (simp_all add: owf_def)
  with d' have "\<exists>res d''. resolve_route model_env io_good ''r1'' d' = (Inr res, d'')"
    by (auto simp: register_route_def resolve_route_def k transact_def load_shared_map_unlocked_def recover_backup_def
        write_shared_map_unlocked_def write_json_def io_good_def storable_def decode_shared_map_def)
  then obtain res d'' where r: "resolve_route model_env io_good ''r1'' d' = (Inr res, d'')" by blast
  from route_round_trip [OF model_serde_ok v d' _ _ r] d' r k show ?thesis by simp
qed

text \<open>The delivery health report. Whatever the stored delivery records are, the two channels it
  reports carry the flag \<open>ready\<close> exactly when their own \<open>health_state\<close> is not \<open>ready\<close>: the flag is
  the negation of the state beside it.\<close>

theorem delivery_health_flag_inverted:
  assumes "delivery_health env io d = (Inr report, d')" "ch \<in> {''source_bound'', ''proactive''}"
  shows "\<exists>side b. jget report ch = Some side \<and> get_bool side ''ready'' = Some b
    \<and> get_str side ''health_state'' = Some (if b then ''unknown'' else ''ready'')"
proof -
  from deliveries.transact_ok_read [OF assms(1) [unfolded delivery_health_def]] assms(2)
  show ?thesis by (auto simp: jobj_def health_side_def get_bool_def get_str_def)
qed

theorem delivery_health_flag_inverted_witness:
  "\<exists>report d'. delivery_health model_env io_good Map.empty = (Inr report, d')
     \<and> (\<exists>side b. jget report ''proactive'' = Some side \<and> get_bool side ''ready'' = Some b
         \<and> get_str side ''health_state'' = Some (if b then ''unknown'' else ''ready''))"
proof -
  have "\<exists>report d'. delivery_health model_env io_good Map.empty = (Inr report, d')"
    by (simp add: delivery_health_def transact_def load_shared_map_unlocked_def recover_backup_def io_good_def)
  then obtain report d' where r: "delivery_health model_env io_good Map.empty = (Inr report, d')" by blast
  from delivery_health_flag_inverted [OF r, of "''proactive''"] r show ?thesis by blast
qed

text \<open>An item that cache reconciliation has marked \<open>expired\<close> and not retryable is still granted to
  the next claim that names it: only status \<open>failed\<close> makes a claim terminal.\<close>

theorem expired_item_claimable:
  assumes "i = JObj m" "get_str i ''status'' = Some ''expired''" "get_bool i ''retryable'' = Some False"
    and "cr_lease_seconds req \<le> 9223372036854775" "now + 365000 * 86400 * nanos \<le> max_utc env"
  shows "\<exists>a i'. claim_item env now token req i = Inr (a, Some i') \<and> get_str i' ''status'' = Some ''sending''"
proof -
  obtain s where s: "delivery_claim_expires_at env now (cr_lease_seconds req) = Inr s"
    using expiry_defined [OF assms(5)] assms(4) by blast
  with assms(1-3) show ?thesis
    by (simp add: claim_item_def item_terminal_failed_def Let_def ok_or_def claimed_fields_def get_str_def)
qed

theorem expired_item_claimable_witness:
  "\<exists>a i'. claim_item model_env 7 ''t'' demo_claim (JObj [(''retryable'', JBool False), (''status'', JStr ''expired'')])
     = Inr (a, Some i') \<and> get_str i' ''status'' = Some ''sending''"
  by (rule expired_item_claimable [OF refl])
    (simp_all add: get_str_def get_bool_def oget_def demo_claim_def nanos_def)

text \<open>Different conversations can share a session file.\<close>

lemma session_paths_collide: "session_path model_env ''weixin'' ''a:b'' = session_path model_env ''weixin'' ''A_b''"
  by code_simp

end
