(* ===== verification/Device_Session.thy ===== *)
theory Device_Session
  imports File_Store "HOL-Library.Word"
begin

unbundle bit_operations_syntax

text \<open>
  \<^verbatim>\<open>src/device_session.rs\<close>: pairing codes issued for a camera, exchanged once for a device session,
  and the sessions that authenticate a device for that camera. Only hashes of codes and tokens are
  stored. Each operation is a function on the state (\<open>Some\<close> new state when the code persists it),
  run under the file lock by \<open>with_locked_state\<close>. SHA-256 and serde's derived codec of the state
  are parameters; random values and the clock are arguments.
\<close>

section \<open>State\<close>

datatype device_session_error = InvalidPairing | InvalidSession | CameraDenied | Unavailable string

record pairing_record =
  pairing_id :: string
  code_sha256 :: string
  pairing_camera :: string
  pairing_expires :: nat
  consumed_at :: "nat option"

record session_record =
  session_id :: string
  token_sha256 :: string
  session_camera :: string
  session_expires :: nat
  revoked_at :: "nat option"

record ds_state =
  pairings :: "pairing_record list"
  sessions :: "session_record list"

record issued_pairing =
  issued_code :: string
  issued_camera :: string
  issued_expires :: nat

record principal =
  principal_id :: string
  principal_camera :: string
  principal_expires :: nat

record exchanged =
  exchanged_token :: string
  exchanged_principal :: principal

record ds_env =
  sha256 :: "string \<Rightarrow> string"
  decode_state :: "string \<Rightarrow> ds_state option"
  encode_state :: "ds_state \<Rightarrow> string"

section \<open>Helpers\<close>

text \<open>\<^verbatim>\<open>char::is_control\<close>: C0 and DEL are one byte, C1 is \<open>C2 80\<close> to \<open>C2 9F\<close>.\<close>

fun has_control :: "string \<Rightarrow> bool" where
  "has_control (c # s) \<longleftrightarrow> c < CHR 0x20 \<or> c = CHR 0x7F
     \<or> (c = CHR 0xC2 \<and> (case s of [] \<Rightarrow> False | d # s' \<Rightarrow> CHR 0x80 \<le> d \<and> d \<le> CHR 0x9F))
     \<or> has_control s"
| "has_control [] \<longleftrightarrow> False"

definition validate_camera_id :: "string \<Rightarrow> device_session_error + string" where
  "validate_camera_id camera_id =
    (let camera_id = trim camera_id in
     if camera_id = [] \<or> length camera_id > 128 \<or> CHR ''/'' \<in> set camera_id \<or> has_control camera_id
     then Inl CameraDenied else Inr camera_id)"

definition byte :: "char \<Rightarrow> 8 word" where
  "byte c = word_of_nat (of_char c)"

definition constant_time_eq :: "8 word list \<Rightarrow> 8 word list \<Rightarrow> bool" where
  "constant_time_eq left right =
    (if length left \<noteq> length right then False
     else foldl (\<lambda>difference (l, r). difference OR (l XOR r)) 0 (zip left right) = 0)"

definition hash_eq :: "string \<Rightarrow> string \<Rightarrow> bool" where
  "hash_eq a b = constant_time_eq (map byte a) (map byte b)"

section \<open>Operations on the state\<close>

definition pairing_live :: "nat \<Rightarrow> pairing_record \<Rightarrow> bool" where
  "pairing_live now r \<longleftrightarrow> pairing_expires r > now \<and> consumed_at r = None"

definition session_live :: "nat \<Rightarrow> session_record \<Rightarrow> bool" where
  "session_live now r \<longleftrightarrow> session_expires r > now \<and> revoked_at r = None"

definition issue_pairing_state ::
  "ds_env \<Rightarrow> nat \<Rightarrow> string \<Rightarrow> string \<Rightarrow> string \<Rightarrow> nat \<Rightarrow> ds_state \<Rightarrow> ds_state" where
  "issue_pairing_state env now code pid camera expires_at st =
     st\<lparr>pairings := filter (pairing_live now) (pairings st) @
          [\<lparr>pairing_id = pid, code_sha256 = sha256 env code, pairing_camera = camera,
            pairing_expires = expires_at, consumed_at = None\<rparr>]\<rparr>"

definition pairing_matches :: "nat \<Rightarrow> string \<Rightarrow> pairing_record \<Rightarrow> bool" where
  "pairing_matches now code_hash r \<longleftrightarrow>
     consumed_at r = None \<and> pairing_expires r > now \<and> hash_eq (code_sha256 r) code_hash"

definition exchange_state ::
  "nat \<Rightarrow> string \<Rightarrow> string \<Rightarrow> string \<Rightarrow> nat \<Rightarrow> ds_state \<Rightarrow> device_session_error + (string \<times> ds_state)" where
  "exchange_state now code_hash token_hash sid expires_at st =
     rbind (ok_or InvalidPairing (find (pairing_matches now code_hash) (pairings st))) (\<lambda>pairing.
     Inr (pairing_camera pairing,
       \<lparr>pairings = update_first (pairing_matches now code_hash)
          (\<lambda>r. r\<lparr>consumed_at := Some now\<rparr>) (pairings st),
        sessions = filter (session_live now) (sessions st) @
          [\<lparr>session_id = sid, token_sha256 = token_hash, session_camera = pairing_camera pairing,
            session_expires = expires_at, revoked_at = None\<rparr>]\<rparr>))"

definition principal_of :: "session_record \<Rightarrow> principal" where
  "principal_of s = \<lparr>principal_id = ''harbornavi-device:'' @ session_id s,
     principal_camera = session_camera s, principal_expires = session_expires s\<rparr>"

definition session_matches :: "nat \<Rightarrow> string \<Rightarrow> session_record \<Rightarrow> bool" where
  "session_matches now token_hash r \<longleftrightarrow>
     revoked_at r = None \<and> session_expires r > now \<and> hash_eq (token_sha256 r) token_hash"

definition current_state :: "nat \<Rightarrow> string \<Rightarrow> ds_state \<Rightarrow> device_session_error + principal" where
  "current_state now token_hash st =
     rbind (ok_or InvalidSession (find (session_matches now token_hash) (sessions st)))
       (\<lambda>s. Inr (principal_of s))"

definition revocable :: "string \<Rightarrow> session_record \<Rightarrow> bool" where
  "revocable token_hash r \<longleftrightarrow> revoked_at r = None \<and> hash_eq (token_sha256 r) token_hash"

definition revoke_state :: "nat \<Rightarrow> string \<Rightarrow> ds_state \<Rightarrow> device_session_error + ds_state" where
  "revoke_state now token_hash st =
     rbind (ok_or InvalidSession (find (revocable token_hash) (sessions st))) (\<lambda>_.
     Inr (st\<lparr>sessions := update_first (revocable token_hash)
           (\<lambda>r. r\<lparr>revoked_at := Some now\<rparr>) (sessions st)\<rparr>))"

section \<open>Operations on disk\<close>

definition state_file :: string where
  "state_file = ''device-sessions.json''"

definition lock_file :: string where
  "lock_file = ''device-sessions.lock''"

record ds_io =
  ds_mkdir :: bool
  ds_chmod_dir :: bool
  ds_open :: bool
  ds_chmod_lock :: bool
  ds_lock :: bool
  ds_read :: bool
  ds_write :: bool
  ds_chmod_state :: bool

definition load_state :: "ds_env \<Rightarrow> ds_io \<Rightarrow> disk \<Rightarrow> (device_session_error + ds_state) \<times> disk" where
  "load_state env io d =
    ((case d state_file of
        None \<Rightarrow> Inr \<lparr>pairings = [], sessions = []\<rparr>
      | Some bytes \<Rightarrow>
          if ds_read io then ok_or (Unavailable ''malformed state'') (decode_state env bytes)
          else Inl (Unavailable ''read'')), d)"

definition persist_state ::
  "ds_env \<Rightarrow> ds_io \<Rightarrow> ds_state \<Rightarrow> disk \<Rightarrow> (device_session_error + unit) \<times> disk" where
  "persist_state env io st d =
    (if \<not> ds_write io then (Inl (Unavailable ''write''), d)
     else (if ds_chmod_state io then Inr () else Inl (Unavailable ''permissions''),
           d(state_file \<mapsto> encode_state env st)))"

text \<open>The prologue of \<^verbatim>\<open>with_locked_state\<close> and \<^verbatim>\<open>with_locked_state_read\<close> creates the lock file.\<close>

definition with_locked_state ::
  "ds_env \<Rightarrow> ds_io \<Rightarrow> (ds_state \<Rightarrow> device_session_error + ('r \<times> ds_state option)) \<Rightarrow> disk \<Rightarrow>
   (device_session_error + 'r) \<times> disk" where
  "with_locked_state env io act d =
    (if \<not> ds_mkdir io \<or> \<not> ds_chmod_dir io \<or> \<not> ds_open io then (Inl (Unavailable ''lock''), d)
     else
      (let d1 = d(lock_file \<mapsto> (case d lock_file of Some b \<Rightarrow> b | None \<Rightarrow> []))
       in if \<not> ds_chmod_lock io \<or> \<not> ds_lock io then (Inl (Unavailable ''lock''), d1)
          else transact (load_state env io) (persist_state env io) act d1))"

definition issue_pairing ::
  "ds_env \<Rightarrow> ds_io \<Rightarrow> nat \<Rightarrow> string \<Rightarrow> string \<Rightarrow> string \<Rightarrow> nat \<Rightarrow> disk \<Rightarrow>
   (device_session_error + issued_pairing) \<times> disk" where
  "issue_pairing env io now code pid camera_id ttl_seconds d =
    (case validate_camera_id camera_id of
       Inl e \<Rightarrow> (Inl e, d)
     | Inr camera \<Rightarrow>
         if \<not> (60 \<le> ttl_seconds \<and> ttl_seconds \<le> 1800)
         then (Inl (Unavailable ''pairing ttl must be between 60 and 1800 seconds''), d)
         else
          (let expires_at = saturating_add now ttl_seconds in
           with_locked_state env io (\<lambda>st.
             Inr (\<lparr>issued_code = code, issued_camera = camera, issued_expires = expires_at\<rparr>,
                  Some (issue_pairing_state env now code pid camera expires_at st))) d))"

definition exchange ::
  "ds_env \<Rightarrow> ds_io \<Rightarrow> nat \<Rightarrow> string \<Rightarrow> string \<Rightarrow> string \<Rightarrow> nat \<Rightarrow> disk \<Rightarrow>
   (device_session_error + exchanged) \<times> disk" where
  "exchange env io now token sid code session_ttl d =
    (if trim code = [] \<or> session_ttl = 0 then (Inl InvalidPairing, d)
     else
      (let expires_at = saturating_add now session_ttl in
       with_locked_state env io (\<lambda>st.
         rbind (exchange_state now (sha256 env (trim code)) (sha256 env token) sid expires_at st)
           (\<lambda>(camera, st').
         Inr (\<lparr>exchanged_token = token, exchanged_principal =
                 \<lparr>principal_id = ''harbornavi-device:'' @ sid, principal_camera = camera,
                  principal_expires = expires_at\<rparr>\<rparr>, Some st'))) d))"

definition current ::
  "ds_env \<Rightarrow> ds_io \<Rightarrow> nat \<Rightarrow> string \<Rightarrow> disk \<Rightarrow> (device_session_error + principal) \<times> disk" where
  "current env io now token d =
    (if trim token = [] then (Inl InvalidSession, d)
     else with_locked_state env io
       (\<lambda>st. rbind (current_state now (sha256 env (trim token)) st) (\<lambda>p. Inr (p, None))) d)"

definition authenticate ::
  "ds_env \<Rightarrow> ds_io \<Rightarrow> nat \<Rightarrow> string \<Rightarrow> string \<Rightarrow> disk \<Rightarrow> (device_session_error + principal) \<times> disk" where
  "authenticate env io now token camera_id d =
    (case validate_camera_id camera_id of
       Inl e \<Rightarrow> (Inl e, d)
     | Inr camera \<Rightarrow> (case current env io now token d of
          (Inl e, d') \<Rightarrow> (Inl e, d')
        | (Inr p, d') \<Rightarrow> (if principal_camera p \<noteq> camera then Inl CameraDenied else Inr p, d')))"

definition revoke ::
  "ds_env \<Rightarrow> ds_io \<Rightarrow> nat \<Rightarrow> string \<Rightarrow> disk \<Rightarrow> (device_session_error + unit) \<times> disk" where
  "revoke env io now token =
     with_locked_state env io (\<lambda>st.
       rbind (revoke_state now (sha256 env (trim token)) st) (\<lambda>st'. Inr ((), Some st')))"

section \<open>Comparing hashes\<close>

lemma byte_inj [simp]: "byte a = byte b \<longleftrightarrow> a = b"
proof
  assume "byte a = byte b"
  then have "(of_char a :: nat) mod 2 ^ 8 = of_char b mod 2 ^ 8"
    by (simp add: byte_def of_nat_eq_iff word_of_nat_eq_iff take_bit_eq_mod)
  moreover have "(of_char a :: nat) < 256" "(of_char b :: nat) < 256" by simp_all
  ultimately show "a = b" by simp
qed simp

lemma fold_difference_zero:
  "length l = length r \<Longrightarrow>
   foldl (\<lambda>d (l, r). d OR (l XOR r)) acc (zip l r) = 0 \<longleftrightarrow> acc = 0 \<and> l = (r :: 8 word list)"
proof (induction l r arbitrary: acc rule: list_induct2)
  case (Cons x xs y ys)
  have "acc OR (x XOR y) = 0 \<longleftrightarrow> acc = 0 \<and> x = y" by (auto simp: or_eq_0_iff) (metis xor.assoc xor.left_neutral xor.right_neutral xor_self_eq)
  with Cons.IH show ?case by auto
qed simp

lemma constant_time_eq_iff: "constant_time_eq l r \<longleftrightarrow> l = r"
  by (auto simp: constant_time_eq_def fold_difference_zero)

lemma hash_eq_iff [simp]: "hash_eq a b \<longleftrightarrow> a = b"
  using inj_map_eq_map [of byte a b] by (simp add: hash_eq_def constant_time_eq_iff inj_def)

section \<open>State runs\<close>

datatype ds_op =
    Issue string string string nat
  | Exchange string string string nat
  | Revoke string

text \<open>A refused operation leaves the state as it is.\<close>

fun ds_step :: "ds_env \<Rightarrow> nat \<Rightarrow> ds_op \<Rightarrow> ds_state \<Rightarrow> ds_state" where
  "ds_step env now (Issue code pid camera ttl) st =
     issue_pairing_state env now code pid camera (saturating_add now ttl) st"
| "ds_step env now (Exchange code token sid ttl) st =
     (case exchange_state now (sha256 env (trim code)) (sha256 env token) sid (saturating_add now ttl) st of
        Inl e \<Rightarrow> st | Inr (c, st') \<Rightarrow> st')"
| "ds_step env now (Revoke token) st =
     (case revoke_state now (sha256 env (trim token)) st of Inl e \<Rightarrow> st | Inr st' \<Rightarrow> st')"

fun ds_run :: "ds_env \<Rightarrow> (nat \<times> ds_op) list \<Rightarrow> ds_state \<Rightarrow> ds_state" where
  "ds_run env [] st = st"
| "ds_run env ((now, op) # ops) st = ds_run env ops (ds_step env now op st)"

lemma ds_run_invariant:
  assumes "\<And>now op st. (now, op) \<in> set ops \<Longrightarrow> P st \<Longrightarrow> P (ds_step env now op st)" "P st"
  shows "P (ds_run env ops st)"
  using assms
proof (induction ops arbitrary: st)
  case (Cons x ops)
  then show ?case by (cases x) simp
qed simp

section \<open>Pairing codes are used once\<close>

definition unconsumed :: "string \<Rightarrow> ds_state \<Rightarrow> bool" where
  "unconsumed h st \<longleftrightarrow> (\<exists>r \<in> set (pairings st). consumed_at r = None \<and> code_sha256 r = h)"

definition pairings_distinct :: "ds_state \<Rightarrow> bool" where
  "pairings_distinct st \<longleftrightarrow> distinct (map code_sha256 (filter (\<lambda>r. consumed_at r = None) (pairings st)))"

lemma exchange_state_Inr:
  assumes "exchange_state now h th sid ex st = Inr (camera, st')"
  shows "\<exists>p as bs. pairings st = as @ p # bs \<and> pairing_matches now h p \<and> camera = pairing_camera p
    \<and> pairings st' = as @ p\<lparr>consumed_at := Some now\<rparr> # bs
    \<and> sessions st' = filter (session_live now) (sessions st) @
        [\<lparr>session_id = sid, token_sha256 = th, session_camera = camera, session_expires = ex, revoked_at = None\<rparr>]"
proof -
  from assms obtain p where p: "find (pairing_matches now h) (pairings st) = Some p"
    by (auto simp: exchange_state_def)
  from update_first_split [OF p, of "\<lambda>r. r\<lparr>consumed_at := Some now\<rparr>"] obtain as bs where
    "pairings st = as @ p # bs" "pairing_matches now h p"
    "update_first (pairing_matches now h) (\<lambda>r. r\<lparr>consumed_at := Some now\<rparr>) (pairings st)
       = as @ p\<lparr>consumed_at := Some now\<rparr> # bs" by blast
  with p assms show ?thesis by (intro exI [of _ p] exI [of _ as] exI [of _ bs]) (auto simp: exchange_state_def)
qed

lemma exchange_state_Inl: "exchange_state now h th sid ex st = Inl e \<Longrightarrow> e = InvalidPairing"
  by (cases "find (pairing_matches now h) (pairings st)") (auto simp: exchange_state_def)

lemma not_unconsumed_refused: "\<not> unconsumed h st \<Longrightarrow> exchange_state now h th sid ex st = Inl InvalidPairing"
proof -
  assume "\<not> unconsumed h st"
  then have "find (pairing_matches now h) (pairings st) = None"
    by (auto simp: find_None_iff pairing_matches_def unconsumed_def)
  then show ?thesis by (simp add: exchange_state_def)
qed

lemma exchange_consumes:
  assumes "exchange_state now h th sid ex st = Inr (camera, st')" "pairings_distinct st"
  shows "\<not> unconsumed h st'"
proof -
  from exchange_state_Inr [OF assms(1)] obtain p as bs where
    p: "pairings st = as @ p # bs" "pairing_matches now h p" "pairings st' = as @ p\<lparr>consumed_at := Some now\<rparr> # bs"
    by blast
  have "\<forall>r \<in> set as \<union> set bs. consumed_at r = None \<longrightarrow> code_sha256 r \<noteq> h"
    using assms(2) p(1,2)
    by (simp add: pairings_distinct_def pairing_matches_def)
      (metis (mono_tags, lifting) Un_iff image_eqI mem_Collect_eq)
  with p(3) show ?thesis by (auto simp: unconsumed_def)
qed

lemma ds_step_consumed:
  assumes "\<not> unconsumed h st" "\<And>code pid cam ttl. op = Issue code pid cam ttl \<Longrightarrow> sha256 env code \<noteq> h"
  shows "\<not> unconsumed h (ds_step env now op st)"
  using assms
  by (cases op) (auto simp: unconsumed_def issue_pairing_state_def revoke_state_def
      dest!: exchange_state_Inr split: sum.splits)

lemma issue_distinct:
  assumes "pairings_distinct st" "\<not> unconsumed (sha256 env code) st"
  shows "pairings_distinct (issue_pairing_state env now code pid cam ex st)"
proof -
  have "distinct (map code_sha256 (filter (\<lambda>r. consumed_at r = None) (filter (pairing_live now) (pairings st))))"
    using distinct_map_filter [OF assms(1) [unfolded pairings_distinct_def], of "pairing_live now"]
    by (simp add: conj_commute)
  with assms(2) show ?thesis
    by (auto simp: pairings_distinct_def issue_pairing_state_def unconsumed_def)
qed

lemma exchange_distinct:
  assumes "exchange_state now h th sid ex st = Inr (camera, st')" "pairings_distinct st"
  shows "pairings_distinct st'"
  using exchange_state_Inr [OF assms(1)] assms(2)
  by (auto simp: pairings_distinct_def pairing_matches_def)

section \<open>The life of a session\<close>

abbreviation unrevoked :: "string \<Rightarrow> ds_state \<Rightarrow> session_record list" where
  "unrevoked th st \<equiv> filter (revocable th) (sessions st)"

lemma find_filter: "find P xs = (case filter P xs of [] \<Rightarrow> None | x # _ \<Rightarrow> Some x)"
  by (induction xs) auto

lemma current_state_filter:
  "current_state now th st = (case filter (\<lambda>r. session_expires r > now) (unrevoked th st) of
      [] \<Rightarrow> Inl InvalidSession | s # _ \<Rightarrow> Inr (principal_of s))"
proof -
  have "filter (session_matches now th) (sessions st)
      = filter (\<lambda>r. session_expires r > now) (unrevoked th st)"
    by (simp add: session_matches_def [abs_def] revocable_def conj_ac)
  then show ?thesis by (simp add: current_state_def find_filter split: list.splits)
qed

lemma revocable_other:
  "h \<noteq> th \<Longrightarrow> filter (revocable th) (update_first (revocable h) (\<lambda>r. r\<lparr>revoked_at := x\<rparr>) ss) = filter (revocable th) ss"
  by (induction ss) (auto simp: revocable_def)

lemma exchange_unrevoked:
  assumes "exchange_state now h th' sid ex st = Inr (camera, st')"
  shows "unrevoked th st' = filter (session_live now) (unrevoked th st) @ (if th' = th then
     [\<lparr>session_id = sid, token_sha256 = th, session_camera = camera, session_expires = ex, revoked_at = None\<rparr>]
     else [])"
proof -
  from exchange_state_Inr [OF assms]
  have "sessions st' = filter (session_live now) (sessions st) @
     [\<lparr>session_id = sid, token_sha256 = th', session_camera = camera, session_expires = ex, revoked_at = None\<rparr>]"
    by blast
  moreover have "filter (revocable th) (filter (session_live now) (sessions st))
      = filter (session_live now) (unrevoked th st)"
    by (simp add: conj_commute)
  ultimately show ?thesis by (simp add: revocable_def del: filter_filter)
qed

lemma filter_subset_singleton: "set xs \<subseteq> {s} \<Longrightarrow> set (filter P xs) \<subseteq> {s}"
  by auto

text \<open>No operation but a new exchange of the same token adds an unrevoked session for it.\<close>

lemma ds_step_unrevoked_subset:
  assumes "set (unrevoked th st) \<subseteq> A" "\<And>c t sid ttl. op = Exchange c t sid ttl \<Longrightarrow> sha256 env t \<noteq> th"
  shows "set (unrevoked th (ds_step env now op st)) \<subseteq> A"
proof (cases op)
  case (Issue code pid cam ttl)
  with assms show ?thesis by (simp add: issue_pairing_state_def)
next
  case (Exchange c t sid ttl)
  show ?thesis
  proof (cases "exchange_state now (sha256 env (trim c)) (sha256 env t) sid (saturating_add now ttl) st")
    case (Inr p)
    then obtain camera st' where p: "exchange_state now (sha256 env (trim c)) (sha256 env t) sid
        (saturating_add now ttl) st = Inr (camera, st')" by (cases p) auto
    have "unrevoked th st' = filter (session_live now) (unrevoked th st)"
      using assms(2) [OF Exchange] by (simp only: exchange_unrevoked [OF p]) simp
    then have "set (unrevoked th st') \<subseteq> set (unrevoked th st)" by auto
    with p Exchange assms(1) show ?thesis by simp
  qed (use Exchange assms(1) in simp)
next
  case (Revoke t)
  show ?thesis
  proof (cases "find (revocable (sha256 env (trim t))) (sessions st)")
    case (Some r)
    from update_first_split [OF this, of "\<lambda>r. r\<lparr>revoked_at := Some now\<rparr>"] Some Revoke assms(1) show ?thesis
      by (auto simp: revoke_state_def revocable_def)
  qed (use Revoke assms(1) in \<open>simp add: revoke_state_def\<close>)
qed

lemma ds_step_unrevoked_keeps:
  assumes "unrevoked th st = [s]" "now < session_expires s"
    and "\<And>c t sid ttl. op = Exchange c t sid ttl \<Longrightarrow> sha256 env t \<noteq> th"
    and "\<And>t. op = Revoke t \<Longrightarrow> sha256 env (trim t) \<noteq> th"
  shows "unrevoked th (ds_step env now op st) = [s]"
proof (cases op)
  case (Issue code pid cam ttl)
  with assms show ?thesis by (simp add: issue_pairing_state_def)
next
  case (Exchange c t sid ttl)
  have "revocable th s" using assms(1) by (metis (mono_tags, lifting) filter_eq_ConsD)
  then have "session_live now s" using assms(2) by (simp add: session_live_def revocable_def)
  with Exchange assms(1,3) show ?thesis by (auto simp: exchange_unrevoked simp del: filter_filter split: sum.splits)
next
  case (Revoke t)
  have neq: "sha256 env (trim t) \<noteq> th" by (rule assms(4) [OF Revoke])
  show ?thesis
  proof (cases "find (revocable (sha256 env (trim t))) (sessions st)")
    case (Some r)
    then have "revoke_state now (sha256 env (trim t)) st = Inr (st\<lparr>sessions :=
        update_first (revocable (sha256 env (trim t))) (\<lambda>r. r\<lparr>revoked_at := Some now\<rparr>) (sessions st)\<rparr>)"
      by (simp add: revoke_state_def)
    with Revoke assms(1) revocable_other [OF neq, of "Some now" "sessions st"] show ?thesis by simp
  qed (use Revoke assms(1) in \<open>simp add: revoke_state_def\<close>)
qed

lemma revoke_state_unrevoked:
  assumes "revoke_state now th st = Inr st'" "length (unrevoked th st) \<le> 1"
  shows "unrevoked th st' = []"
proof -
  from assms(1) obtain r where f: "find (revocable th) (sessions st) = Some r" by (auto simp: revoke_state_def)
  from update_first_split [OF f, of "\<lambda>r. r\<lparr>revoked_at := Some now\<rparr>"] obtain as bs where
    ab: "sessions st = as @ r # bs" "\<forall>y \<in> set as. \<not> revocable th y" "revocable th r"
    "sessions st' = as @ r\<lparr>revoked_at := Some now\<rparr> # bs"
    using assms(1) f by (auto simp: revoke_state_def)
  with assms(2) have "filter (revocable th) bs = []" by simp
  with ab show ?thesis by (simp add: revocable_def)
qed

section \<open>The state on disk\<close>

definition ds_view :: "ds_env \<Rightarrow> disk \<Rightarrow> ds_state option" where
  "ds_view env d = (case d state_file of
      None \<Rightarrow> Some \<lparr>pairings = [], sessions = []\<rparr> | Some bytes \<Rightarrow> decode_state env bytes)"

definition ds_storable :: "ds_env \<Rightarrow> ds_state \<Rightarrow> bool" where
  "ds_storable env st \<longleftrightarrow> decode_state env (encode_state env st) = Some st"

interpretation device: durable_write "ds_view env" "load_state env io" "persist_state env io" "ds_storable env"
  for env io
  by unfold_locales
    (auto simp: load_state_def persist_state_def ds_view_def ds_storable_def ok_or_def
      split: option.splits if_splits)

text \<open>
  Documented behaviour of serde's derived codec: it reads back what it writes, and every integer it
  reads fits the field's 64 bits.
\<close>

definition ds_bounded :: "ds_state \<Rightarrow> bool" where
  "ds_bounded st \<longleftrightarrow>
     (\<forall>r \<in> set (pairings st). pairing_expires r \<le> u64_max \<and> (\<forall>t. consumed_at r = Some t \<longrightarrow> t \<le> u64_max))
   \<and> (\<forall>r \<in> set (sessions st). session_expires r \<le> u64_max \<and> (\<forall>t. revoked_at r = Some t \<longrightarrow> t \<le> u64_max))"

definition ds_serde_ok :: "ds_env \<Rightarrow> bool" where
  "ds_serde_ok env \<longleftrightarrow> (\<forall>st. ds_bounded st \<longrightarrow> decode_state env (encode_state env st) = Some st)
     \<and> (\<forall>b st. decode_state env b = Some st \<longrightarrow> ds_bounded st)"

lemma ds_view_bounded: "ds_serde_ok env \<Longrightarrow> ds_view env d = Some st \<Longrightarrow> ds_bounded st"
  by (auto simp: ds_view_def ds_serde_ok_def ds_bounded_def split: option.splits)

lemma ds_storable_bounded: "ds_serde_ok env \<Longrightarrow> ds_bounded st \<Longrightarrow> ds_storable env st"
  by (simp add: ds_serde_ok_def ds_storable_def)

lemma lock_file_ds_view [simp]: "ds_view env (d(lock_file \<mapsto> x)) = ds_view env d"
  by (simp add: ds_view_def state_file_def lock_file_def)

lemma issue_bounded: "ds_bounded st \<Longrightarrow> ex \<le> u64_max \<Longrightarrow> ds_bounded (issue_pairing_state env now code pid cam ex st)"
  by (auto simp: ds_bounded_def issue_pairing_state_def)

lemma exchange_bounded:
  assumes "exchange_state now h th sid ex st = Inr (c, st')" "ds_bounded st" "now \<le> u64_max" "ex \<le> u64_max"
  shows "ds_bounded st'"
  using exchange_state_Inr [OF assms(1)] assms(2-4) by (auto simp: ds_bounded_def)

lemma revoke_bounded:
  assumes "revoke_state now th st = Inr st'" "ds_bounded st" "now \<le> u64_max" shows "ds_bounded st'"
proof -
  from assms(1) obtain r where f: "find (revocable th) (sessions st) = Some r" by (auto simp: revoke_state_def)
  from update_first_split [OF f, of "\<lambda>r. r\<lparr>revoked_at := Some now\<rparr>"] f assms show ?thesis
    by (auto simp: revoke_state_def ds_bounded_def)
qed

lemma with_locked_invariant:
  assumes "ds_view env d = Some st" "P st"
    and "\<And>s r s'. P s \<Longrightarrow> act s = Inr (r, Some s') \<Longrightarrow> ds_storable env s' \<and> P s'"
  shows "\<exists>st'. ds_view env (snd (with_locked_state env io act d)) = Some st' \<and> P st'"
proof -
  let ?d1 = "d(lock_file \<mapsto> (case d lock_file of Some b \<Rightarrow> b | None \<Rightarrow> []))"
  have "ds_view env ?d1 = Some st" using assms(1) by simp
  from device.transact_invariant [where P = P and act = act and io = io, OF this assms(2,3)]
  show ?thesis using assms(1,2) by (auto simp: with_locked_state_def Let_def)
qed

lemma with_locked_ok:
  assumes "with_locked_state env io act d = (Inr r, d')"
    and "\<And>s r s'. ds_view env d = Some s \<Longrightarrow> act s = Inr (r, Some s') \<Longrightarrow> ds_storable env s'"
  shows "\<exists>s w. ds_view env d = Some s \<and> act s = Inr (r, w)
    \<and> ds_view env d' = Some (case w of None \<Rightarrow> s | Some s' \<Rightarrow> s')"
proof -
  let ?d1 = "d(lock_file \<mapsto> (case d lock_file of Some b \<Rightarrow> b | None \<Rightarrow> []))"
  have t: "transact (load_state env io) (persist_state env io) act ?d1 = (Inr r, d')"
    using assms(1) by (auto simp: with_locked_state_def Let_def split: if_splits)
  have "\<exists>s w. ds_view env ?d1 = Some s \<and> act s = Inr (r, w)
    \<and> ds_view env d' = Some (case w of None \<Rightarrow> s | Some s' \<Rightarrow> s')"
    by (rule device.transact_ok_view [OF t]) (use assms(2) in simp)
  then show ?thesis by simp
qed

text \<open>Runs on disk: each operation of the store, with any operating-system failure.\<close>

fun ds_disk_step :: "ds_env \<Rightarrow> ds_io \<Rightarrow> nat \<Rightarrow> ds_op \<Rightarrow> disk \<Rightarrow> disk" where
  "ds_disk_step env io now (Issue code pid camera ttl) d = snd (issue_pairing env io now code pid camera ttl d)"
| "ds_disk_step env io now (Exchange code token sid ttl) d = snd (exchange env io now token sid code ttl d)"
| "ds_disk_step env io now (Revoke token) d = snd (revoke env io now token d)"

fun ds_disk_run :: "ds_env \<Rightarrow> (ds_io \<times> nat \<times> ds_op) list \<Rightarrow> disk \<Rightarrow> disk" where
  "ds_disk_run env [] d = d"
| "ds_disk_run env ((io, now, op) # ops) d = ds_disk_run env ops (ds_disk_step env io now op d)"

text \<open>
  A property that holds for an operation whatever camera it names, refused or not, carries over to
  the disk.
\<close>

fun rename_camera :: "string \<Rightarrow> ds_op \<Rightarrow> ds_op" where
  "rename_camera c (Issue code pid camera ttl) = Issue code pid c ttl"
| "rename_camera c op = op"

lemma ds_disk_step_invariant:
  assumes "ds_serde_ok env" "ds_view env d = Some st" "P st" "now \<le> u64_max"
    and step: "\<And>c st. P st \<Longrightarrow> P (ds_step env now (rename_camera c op) st)"
  shows "\<exists>st'. ds_view env (ds_disk_step env io now op d) = Some st' \<and> P st'"
proof -
  let ?P = "\<lambda>st. P st \<and> ds_bounded st"
  have st: "?P st" using assms(1-3) ds_view_bounded by blast
  have le: "saturating_add now ttl \<le> u64_max" for ttl by simp
  note go = with_locked_invariant [where P = ?P, OF assms(2) st]
  note ok = ds_storable_bounded [OF assms(1)]
  have "\<exists>st'. ds_view env (ds_disk_step env io now op d) = Some st' \<and> ?P st'"
  proof (cases op)
    case (Issue code pid camera ttl)
    have "\<exists>st'. ds_view env (snd (with_locked_state env io (\<lambda>st.
        Inr (\<lparr>issued_code = code, issued_camera = c, issued_expires = saturating_add now ttl\<rparr>,
          Some (issue_pairing_state env now code pid c (saturating_add now ttl) st))) d)) = Some st' \<and> ?P st'" for c
      by (rule go) (use step [of _ c] Issue ok issue_bounded le in \<open>auto simp: Let_def\<close>)
    with Issue st assms(2) show ?thesis by (auto simp: issue_pairing_def Let_def split: sum.splits)
  next
    case (Exchange code token sid ttl)
    have "\<exists>st'. ds_view env (snd (with_locked_state env io (\<lambda>st.
         rbind (exchange_state now (sha256 env (trim code)) (sha256 env token) sid (saturating_add now ttl) st)
           (\<lambda>(camera, st').
         Inr (\<lparr>exchanged_token = token, exchanged_principal =
                 \<lparr>principal_id = ''harbornavi-device:'' @ sid, principal_camera = camera,
                  principal_expires = saturating_add now ttl\<rparr>\<rparr>, Some st'))) d)) = Some st' \<and> ?P st'"
    proof (rule go)
      fix s r s' assume p: "P s \<and> ds_bounded s"
        and "rbind (exchange_state now (sha256 env (trim code)) (sha256 env token) sid (saturating_add now ttl) s)
           (\<lambda>(camera, st').
         Inr (\<lparr>exchanged_token = token, exchanged_principal =
                 \<lparr>principal_id = ''harbornavi-device:'' @ sid, principal_camera = camera,
                  principal_expires = saturating_add now ttl\<rparr>\<rparr>, Some st')) = Inr (r, Some s')"
      then obtain c where e: "exchange_state now (sha256 env (trim code)) (sha256 env token) sid
          (saturating_add now ttl) s = Inr (c, s')" by auto
      have "P s'" using step [of s "[]"] p Exchange e by simp
      moreover have "ds_bounded s'" by (rule exchange_bounded [OF e _ assms(4) le]) (use p in simp)
      ultimately show "ds_storable env s' \<and> ?P s'" using ok by simp
    qed
    with Exchange st assms(2) show ?thesis by (auto simp: exchange_def Let_def)
  next
    case (Revoke token)
    show ?thesis
      unfolding Revoke ds_disk_step.simps revoke_def
    proof (rule go)
      fix s r s' assume p: "P s \<and> ds_bounded s"
        and "rbind (revoke_state now (sha256 env (trim token)) s) (\<lambda>st'. Inr ((), Some st')) = Inr (r, Some s')"
      then have e: "revoke_state now (sha256 env (trim token)) s = Inr s'" by auto
      have "P s'" using step [of s "[]"] p Revoke e by simp
      moreover have "ds_bounded s'" by (rule revoke_bounded [OF e _ assms(4)]) (use p in simp)
      ultimately show "ds_storable env s' \<and> ?P s'" using ok by simp
    qed
  qed
  then show ?thesis by blast
qed

lemma ds_disk_run_invariant:
  assumes "ds_serde_ok env" "ds_view env d = Some st" "P st"
    and "\<And>io now op c st. (io, now, op) \<in> set ops \<Longrightarrow> P st \<Longrightarrow>
           now \<le> u64_max \<and> P (ds_step env now (rename_camera c op) st)"
  shows "\<exists>st'. ds_view env (ds_disk_run env ops d) = Some st' \<and> P st'"
  using assms(2-)
proof (induction ops arbitrary: d st)
  case (Cons x ops)
  obtain io now op where x: "x = (io, now, op)" by (cases x) auto
  have "now \<le> u64_max" using Cons.prems(2,3) x by (meson list.set_intros(1))
  moreover have "\<And>c st. P st \<Longrightarrow> P (ds_step env now (rename_camera c op) st)"
    using Cons.prems(3) x by (meson list.set_intros(1))
  ultimately obtain st1 where "ds_view env (ds_disk_step env io now op d) = Some st1" "P st1"
    using ds_disk_step_invariant [where P = P, OF assms(1) Cons.prems(1,2)] by blast
  then have "\<exists>st'. ds_view env (ds_disk_run env ops (ds_disk_step env io now op d)) = Some st' \<and> P st'"
    by (rule Cons.IH) (use Cons.prems(3) in \<open>meson list.set_intros(2)\<close>)
  with x show ?case by simp
qed auto

lemma exchange_ok:
  assumes "exchange env io now token sid code ttl d = (Inr x, d1)" "ds_serde_ok env" "now \<le> u64_max"
  shows "\<exists>st st1. ds_view env d = Some st \<and> ds_view env d1 = Some st1
    \<and> exchange_state now (sha256 env (trim code)) (sha256 env token) sid (saturating_add now ttl) st
        = Inr (principal_camera (exchanged_principal x), st1)
    \<and> exchanged_token x = token \<and> principal_id (exchanged_principal x) = ''harbornavi-device:'' @ sid
    \<and> principal_expires (exchanged_principal x) = saturating_add now ttl"
proof -
  let ?act = "\<lambda>st. rbind (exchange_state now (sha256 env (trim code)) (sha256 env token) sid (saturating_add now ttl) st)
           (\<lambda>(camera, st').
         Inr (\<lparr>exchanged_token = token, exchanged_principal =
                 \<lparr>principal_id = ''harbornavi-device:'' @ sid, principal_camera = camera,
                  principal_expires = saturating_add now ttl\<rparr>\<rparr>, Some st'))"
  have w: "with_locked_state env io ?act d = (Inr x, d1)"
    using assms(1) by (auto simp: exchange_def Let_def split: if_splits)
  have "\<exists>s w. ds_view env d = Some s \<and> ?act s = Inr (x, w)
    \<and> ds_view env d1 = Some (case w of None \<Rightarrow> s | Some s' \<Rightarrow> s')"
  proof (rule with_locked_ok [OF w])
    fix s r s' assume v: "ds_view env d = Some s" and "?act s = Inr (r, Some s')"
    then obtain c where "exchange_state now (sha256 env (trim code)) (sha256 env token) sid (saturating_add now ttl) s
        = Inr (c, s')" by auto
    then have "ds_bounded s'"
      by (rule exchange_bounded) (use ds_view_bounded [OF assms(2) v] assms(3) in auto)
    then show "ds_storable env s'" by (rule ds_storable_bounded [OF assms(2)])
  qed
  then show ?thesis by auto
qed

lemma exchange_refused:
  assumes "ds_view env d = Some st" "\<not> unconsumed (sha256 env (trim code)) st"
  shows "\<exists>e. fst (exchange env io now token sid code ttl d) = Inl e"
proof (cases "fst (exchange env io now token sid code ttl d)")
  case (Inr x)
  let ?act = "\<lambda>st. rbind (exchange_state now (sha256 env (trim code)) (sha256 env token) sid (saturating_add now ttl) st)
           (\<lambda>(camera, st').
         Inr (\<lparr>exchanged_token = token, exchanged_principal =
                 \<lparr>principal_id = ''harbornavi-device:'' @ sid, principal_camera = camera,
                  principal_expires = saturating_add now ttl\<rparr>\<rparr>, Some st'))"
  obtain d1 where e: "exchange env io now token sid code ttl d = (Inr x, d1)" using Inr by (metis prod.collapse)
  have "with_locked_state env io ?act d = (Inr x, d1)"
    using e by (auto simp: exchange_def Let_def split: if_splits)
  then have "transact (load_state env io) (persist_state env io) ?act
      (d(lock_file \<mapsto> (case d lock_file of Some b \<Rightarrow> b | None \<Rightarrow> []))) = (Inr x, d1)"
    by (auto simp: with_locked_state_def Let_def split: if_splits)
  from device.transact_ok_read [OF this] assms show ?thesis
    by (auto simp: not_unconsumed_refused)
qed simp

lemma current_outcome:
  assumes "ds_view env d = Some st" "trim token \<noteq> []"
  shows "fst (current env io now token d) = current_state now (sha256 env (trim token)) st
    \<or> (\<exists>s. fst (current env io now token d) = Inl (Unavailable s))"
proof -
  let ?d1 = "d(lock_file \<mapsto> (case d lock_file of Some b \<Rightarrow> b | None \<Rightarrow> []))"
  have "load_state env io ?d1 = (Inr st, ?d1) \<or> (\<exists>s. load_state env io ?d1 = (Inl (Unavailable s), ?d1))"
    using assms(1) by (auto simp: load_state_def ds_view_def state_file_def lock_file_def ok_or_def split: option.splits)
  then show ?thesis
    using assms(2)
    by (auto simp: current_def with_locked_state_def Let_def transact_def rbind_eq_Inl split: sum.splits)
qed

lemma current_good:
  assumes "ds_view env d = Some st" "trim token \<noteq> []"
    and "ds_mkdir io" "ds_chmod_dir io" "ds_open io" "ds_chmod_lock io" "ds_lock io" "ds_read io"
  shows "fst (current env io now token d) = current_state now (sha256 env (trim token)) st"
proof -
  let ?d1 = "d(lock_file \<mapsto> (case d lock_file of Some b \<Rightarrow> b | None \<Rightarrow> []))"
  have "load_state env io ?d1 = (Inr st, ?d1)"
    using assms(1,8) by (auto simp: load_state_def ds_view_def state_file_def lock_file_def ok_or_def split: option.splits)
  then show ?thesis
    using assms(2-7)
    by (auto simp: current_def with_locked_state_def Let_def transact_def rbind_eq_Inl split: sum.splits)
qed

section \<open>Tokens and codes over runs on disk\<close>

text \<open>
  \<open>spares_code\<close>: the operation does not issue a pairing whose code has this hash. \<open>spares_token\<close>:
  it neither hands out nor revokes a session whose token has this hash.
\<close>

fun spares_code :: "ds_env \<Rightarrow> string \<Rightarrow> ds_op \<Rightarrow> bool" where
  "spares_code env h (Issue c pid cam t) \<longleftrightarrow> sha256 env c \<noteq> h"
| "spares_code env h _ \<longleftrightarrow> True"

fun hands_out :: "ds_env \<Rightarrow> string \<Rightarrow> ds_op \<Rightarrow> bool" where
  "hands_out env h (Exchange c t sid ttl) \<longleftrightarrow> sha256 env t = h"
| "hands_out env h _ \<longleftrightarrow> False"

fun spares_token :: "ds_env \<Rightarrow> string \<Rightarrow> ds_op \<Rightarrow> bool" where
  "spares_token env h (Revoke t) \<longleftrightarrow> sha256 env (trim t) \<noteq> h"
| "spares_token env h op \<longleftrightarrow> \<not> hands_out env h op"

lemma rename_camera_spares [simp]:
  "spares_code env h (rename_camera c op) = spares_code env h op"
  "hands_out env h (rename_camera c op) = hands_out env h op"
  "spares_token env h (rename_camera c op) = spares_token env h op"
  by (cases op; simp)+

lemma consumed_disk_run:
  assumes "ds_serde_ok env" "ds_view env d = Some st" "\<not> unconsumed h st"
    and "\<forall>(io, now, op) \<in> set ops. now \<le> u64_max \<and> spares_code env h op"
  shows "\<exists>st'. ds_view env (ds_disk_run env ops d) = Some st' \<and> \<not> unconsumed h st'"
proof (rule ds_disk_run_invariant [where P = "\<lambda>s. \<not> unconsumed h s", OF assms(1-3)])
  fix io now op c s assume op: "(io, now, op) \<in> set ops" and s: "\<not> unconsumed h s"
  have "spares_code env h (rename_camera c op)" using op assms(4) by auto
  then have "\<not> unconsumed h (ds_step env now (rename_camera c op) s)"
    by (intro ds_step_consumed [OF s]) auto
  with op assms(4) show "now \<le> u64_max \<and> \<not> unconsumed h (ds_step env now (rename_camera c op) s)" by auto
qed

lemma unrevoked_disk_run:
  assumes "ds_serde_ok env" "ds_view env d = Some st" "set (unrevoked th st) \<subseteq> A"
    and "\<forall>(io, now, op) \<in> set ops. now \<le> u64_max \<and> \<not> hands_out env th op"
  shows "\<exists>st'. ds_view env (ds_disk_run env ops d) = Some st' \<and> set (unrevoked th st') \<subseteq> A"
proof (rule ds_disk_run_invariant [where P = "\<lambda>s. set (unrevoked th s) \<subseteq> A", OF assms(1-3)])
  fix io now op c s assume op: "(io, now, op) \<in> set ops" and s: "set (unrevoked th s) \<subseteq> A"
  have "\<not> hands_out env th (rename_camera c op)" using op assms(4) by auto
  then have "set (unrevoked th (ds_step env now (rename_camera c op) s)) \<subseteq> A"
    by (intro ds_step_unrevoked_subset [OF s]) auto
  with op assms(4) show "now \<le> u64_max \<and> set (unrevoked th (ds_step env now (rename_camera c op) s)) \<subseteq> A" by auto
qed

lemma session_disk_run:
  assumes "ds_serde_ok env" "ds_view env d = Some st" "unrevoked th st = [s]" "n \<le> u64_max"
    and "\<forall>(io, now, op) \<in> set ops. now \<le> n \<and> spares_token env th op"
  shows "\<exists>st'. ds_view env (ds_disk_run env ops d) = Some st'
    \<and> current_state n th st' = (if n < session_expires s then Inr (principal_of s) else Inl InvalidSession)"
proof (cases "n < session_expires s")
  case True
  have "\<exists>st'. ds_view env (ds_disk_run env ops d) = Some st' \<and> unrevoked th st' = [s]"
  proof (rule ds_disk_run_invariant [where P = "\<lambda>st. unrevoked th st = [s]", OF assms(1-3)])
    fix io now op c st assume op: "(io, now, op) \<in> set ops" and st: "unrevoked th st = [s]"
    have le: "now \<le> n" and sp: "spares_token env th (rename_camera c op)" using op assms(5) by auto
    have "unrevoked th (ds_step env now (rename_camera c op) st) = [s]"
      by (rule ds_step_unrevoked_keeps [OF st]) (use sp le True in auto)
    with le assms(4) show "now \<le> u64_max \<and> unrevoked th (ds_step env now (rename_camera c op) st) = [s]" by simp
  qed
  with True show ?thesis by (auto simp: current_state_filter simp del: filter_filter)
next
  case False
  have "\<not> hands_out env th op" if "spares_token env th op" for op using that by (cases op) auto
  then have "\<forall>(io, now, op) \<in> set ops. now \<le> u64_max \<and> \<not> hands_out env th op"
    using assms(4,5) by fastforce
  from unrevoked_disk_run [OF assms(1,2) _ this, of "{s}"] assms(3) obtain st' where
    st': "ds_view env (ds_disk_run env ops d) = Some st'" "set (unrevoked th st') \<subseteq> {s}"
    by (metis list.set subset_refl)
  then have "filter (\<lambda>r. session_expires r > n) (unrevoked th st') = []"
    using False by (auto simp del: filter_filter simp: filter_empty_conv)
  with False st'(1) show ?thesis by (auto simp: current_state_filter simp del: filter_filter)
qed

lemma revoke_ok:
  assumes "revoke env io now token d = (Inr (), d1)" "ds_serde_ok env" "now \<le> u64_max"
  shows "\<exists>st st1. ds_view env d = Some st \<and> ds_view env d1 = Some st1
    \<and> revoke_state now (sha256 env (trim token)) st = Inr st1"
proof -
  let ?act = "\<lambda>st. rbind (revoke_state now (sha256 env (trim token)) st) (\<lambda>st'. Inr ((), Some st'))"
  have "\<exists>s w. ds_view env d = Some s \<and> ?act s = Inr ((), w)
    \<and> ds_view env d1 = Some (case w of None \<Rightarrow> s | Some s' \<Rightarrow> s')"
  proof (rule with_locked_ok [OF assms(1) [unfolded revoke_def]])
    fix s r s' assume v: "ds_view env d = Some s" and "?act s = Inr (r, Some s')"
    then have "revoke_state now (sha256 env (trim token)) s = Inr s'" by auto
    then have "ds_bounded s'" by (rule revoke_bounded) (use ds_view_bounded [OF assms(2) v] assms(3) in auto)
    then show "ds_storable env s'" by (rule ds_storable_bounded [OF assms(2)])
  qed
  then show ?thesis by auto
qed

end
