(* ===== verification/Device_Properties.thy ===== *)
theory Device_Properties
  imports Device_Session Model_Env
begin

text \<open>
  The properties of device pairing and device sessions, each with a witness in a concrete
  environment.
\<close>

section \<open>A concrete environment\<close>

text \<open>A codec of states that reads back what it writes, and an injective stand-in for the hash.\<close>

definition opt_json :: "nat option \<Rightarrow> json" where
  "opt_json x = (case x of None \<Rightarrow> JNull | Some n \<Rightarrow> JInt (int n))"

fun nat_of_json :: "json \<Rightarrow> nat option" where
  "nat_of_json (JInt i) = (if 0 \<le> i \<and> i \<le> int u64_max then Some (nat i) else None)"
| "nat_of_json _ = None"

definition ds_print :: "ds_state \<Rightarrow> json" where
  "ds_print st = JArr
    [JArr (map (\<lambda>r. JArr [JStr (pairing_id r), JStr (code_sha256 r), JStr (pairing_camera r),
       JInt (int (pairing_expires r)), opt_json (consumed_at r)]) (pairings st)),
     JArr (map (\<lambda>r. JArr [JStr (session_id r), JStr (token_sha256 r), JStr (session_camera r),
       JInt (int (session_expires r)), opt_json (revoked_at r)]) (sessions st))]"

fun pairing_scan :: "json \<Rightarrow> pairing_record option" where
  "pairing_scan (JArr [JStr a, JStr b, JStr c, e, t]) = Option.bind (nat_of_json e) (\<lambda>e.
     Option.bind (if t = JNull then Some None else map_option Some (nat_of_json t)) (\<lambda>t.
     Some \<lparr>pairing_id = a, code_sha256 = b, pairing_camera = c, pairing_expires = e, consumed_at = t\<rparr>))"
| "pairing_scan _ = None"

fun session_scan :: "json \<Rightarrow> session_record option" where
  "session_scan (JArr [JStr a, JStr b, JStr c, e, t]) = Option.bind (nat_of_json e) (\<lambda>e.
     Option.bind (if t = JNull then Some None else map_option Some (nat_of_json t)) (\<lambda>t.
     Some \<lparr>session_id = a, token_sha256 = b, session_camera = c, session_expires = e, revoked_at = t\<rparr>))"
| "session_scan _ = None"

fun ds_scan :: "json \<Rightarrow> ds_state option" where
  "ds_scan (JArr [JArr ps, JArr ss]) =
    (if list_all (\<lambda>j. pairing_scan j \<noteq> None) ps \<and> list_all (\<lambda>j. session_scan j \<noteq> None) ss
     then Some \<lparr>pairings = List.map_filter pairing_scan ps, sessions = List.map_filter session_scan ss\<rparr>
     else None)"
| "ds_scan _ = None"

definition model_ds :: ds_env where
  "model_ds = \<lparr>sha256 = (\<lambda>s. CHR ''h'' # s),
     decode_state = (\<lambda>b. Option.bind (map_option fst (scan_json (Suc (length b)) b)) ds_scan),
     encode_state = (\<lambda>st. print_json (ds_print st))\<rparr>"

lemma nat_of_json_le: "nat_of_json j = Some n \<Longrightarrow> n \<le> u64_max"
  by (cases j) (auto split: if_splits)

lemma pairing_scan_print:
  assumes "pairing_expires r \<le> u64_max" "\<forall>t. consumed_at r = Some t \<longrightarrow> t \<le> u64_max"
  shows "pairing_scan (JArr [JStr (pairing_id r), JStr (code_sha256 r), JStr (pairing_camera r),
       JInt (int (pairing_expires r)), opt_json (consumed_at r)]) = Some r"
  using assms by (cases r) (auto simp: opt_json_def split: option.splits)

lemma session_scan_print:
  assumes "session_expires r \<le> u64_max" "\<forall>t. revoked_at r = Some t \<longrightarrow> t \<le> u64_max"
  shows "session_scan (JArr [JStr (session_id r), JStr (token_sha256 r), JStr (session_camera r),
       JInt (int (session_expires r)), opt_json (revoked_at r)]) = Some r"
  using assms by (cases r) (auto simp: opt_json_def split: option.splits)

lemma map_filter_Some: "\<forall>x \<in> set xs. f (g x) = Some x \<Longrightarrow> List.map_filter f (map g xs) = xs"
  by (induction xs) (simp_all add: List.map_filter_simps)

lemma ds_scan_print: "ds_bounded st \<Longrightarrow> ds_scan (ds_print st) = Some st"
  using pairing_scan_print session_scan_print
  by (cases st) (auto simp: ds_bounded_def ds_print_def list_all_iff intro!: map_filter_Some)

lemma pairing_scan_bounded:
  "pairing_scan j = Some r \<Longrightarrow> pairing_expires r \<le> u64_max \<and> (\<forall>t. consumed_at r = Some t \<longrightarrow> t \<le> u64_max)"
  by (induction j rule: pairing_scan.induct)
    (auto simp: bind_eq_Some_conv dest: nat_of_json_le split: if_splits)

lemma session_scan_bounded:
  "session_scan j = Some r \<Longrightarrow> session_expires r \<le> u64_max \<and> (\<forall>t. revoked_at r = Some t \<longrightarrow> t \<le> u64_max)"
  by (induction j rule: session_scan.induct)
    (auto simp: bind_eq_Some_conv dest: nat_of_json_le split: if_splits)

lemma ds_scan_bounded: "ds_scan j = Some st \<Longrightarrow> ds_bounded st"
  by (induction j rule: ds_scan.induct)
    (auto simp: ds_bounded_def List.map_filter_def split: if_splits,
      (meson pairing_scan_bounded session_scan_bounded)+)

lemma model_ds_ok: "ds_serde_ok model_ds"
proof -
  have "Option.bind (map_option fst (scan_json (Suc (length (print_json v))) (print_json v))) ds_scan = ds_scan v" for v
    using scan_print_json [of v "Suc (length (print_json v))" "[]"] by simp
  then show ?thesis
    by (auto simp: ds_serde_ok_def model_ds_def ds_scan_print bind_eq_Some_conv dest: ds_scan_bounded)
qed

definition ds_io_good :: ds_io where
  "ds_io_good = \<lparr>ds_mkdir = True, ds_chmod_dir = True, ds_open = True, ds_chmod_lock = True, ds_lock = True,
     ds_read = True, ds_write = True, ds_chmod_state = True\<rparr>"

definition demo_pairing :: pairing_record where
  "demo_pairing = \<lparr>pairing_id = ''p'', code_sha256 = ''hcode'', pairing_camera = ''cam1'',
     pairing_expires = 100, consumed_at = None\<rparr>"

definition demo_disk :: disk where
  "demo_disk = [state_file \<mapsto> encode_state model_ds \<lparr>pairings = [demo_pairing], sessions = []\<rparr>]"

lemma demo_view: "ds_view model_ds demo_disk = Some \<lparr>pairings = [demo_pairing], sessions = []\<rparr>"
  using model_ds_ok by (simp add: demo_disk_def ds_view_def ds_serde_ok_def ds_bounded_def demo_pairing_def u64_max_def)

lemma model_sha [simp]: "sha256 model_ds s = CHR ''h'' # s"
  by (simp add: model_ds_def)

lemma demo_trim [simp]: "trim ''code'' = ''code''" "trim ''tok'' = ''tok''" "trim ''cam1'' = ''cam1''"
  by (simp_all add: trim_id ws_bytes_def)

lemma demo_exchange:
  "\<exists>d1. exchange model_ds ds_io_good 50 ''tok'' ''s1'' ''code'' 10 demo_disk
     = (Inr \<lparr>exchanged_token = ''tok'', exchanged_principal = \<lparr>principal_id = ''harbornavi-device:s1'',
          principal_camera = ''cam1'', principal_expires = 60\<rparr>\<rparr>, d1)"
proof -
  have l: "load_state model_ds ds_io_good (demo_disk(lock_file \<mapsto> b))
      = (Inr \<lparr>pairings = [demo_pairing], sessions = []\<rparr>, demo_disk(lock_file \<mapsto> b))" for b
    using demo_view by (simp add: load_state_def ds_view_def lock_file_def state_file_def ds_io_good_def demo_disk_def)
  show ?thesis
    by (simp add: exchange_def with_locked_state_def ds_io_good_def transact_def l [unfolded ds_io_good_def] Let_def
        exchange_state_def pairing_matches_def demo_pairing_def saturating_add_def u64_max_def persist_state_def)
qed

section \<open>Properties\<close>

text \<open>C15: a pairing code works once. After a successful exchange of a pairing code, and after any
  further operations of the store on disk with any operating-system failures, provided no new
  pairing is issued with the same code hash, exchanging the code again (or any code with the same
  hash) fails, whoever asks and whenever.\<close>

theorem pairing_code_single_use:
  assumes "ds_serde_ok env" "ds_view env d = Some st" "pairings_distinct st" "now \<le> u64_max"
    and "exchange env io now token sid code ttl d = (Inr x, d1)"
    and "\<forall>(io, now, op) \<in> set ops. now \<le> u64_max \<and> spares_code env (sha256 env (trim code)) op"
    and "sha256 env (trim code') = sha256 env (trim code)"
  shows "\<exists>e. fst (exchange env io' now' token' sid' code' ttl' (ds_disk_run env ops d1)) = Inl e"
proof -
  from exchange_ok [OF assms(5,1,4)] assms(2) obtain st1 where v: "ds_view env d1 = Some st1"
    and e: "exchange_state now (sha256 env (trim code)) (sha256 env token) sid (saturating_add now ttl) st
        = Inr (principal_camera (exchanged_principal x), st1)" by auto
  from consumed_disk_run [OF assms(1) v exchange_consumes [OF e assms(3)] assms(6)]
  show ?thesis using exchange_refused assms(7) by metis
qed

theorem pairing_code_single_use_witness:
  "\<exists>x d1 e. exchange model_ds ds_io_good 50 ''tok'' ''s1'' ''code'' 10 demo_disk = (Inr x, d1)
     \<and> fst (exchange model_ds ds_io_good 51 ''tok2'' ''s2'' ''code'' 10
          (ds_disk_run model_ds [(ds_io_good, 50, Issue ''other'' ''p2'' ''cam1'' 60)] d1)) = Inl e"
proof -
  obtain x d1 where e: "exchange model_ds ds_io_good 50 ''tok'' ''s1'' ''code'' 10 demo_disk = (Inr x, d1)"
    using demo_exchange by blast
  have "\<exists>e. fst (exchange model_ds ds_io_good 51 ''tok2'' ''s2'' ''code'' 10
          (ds_disk_run model_ds [(ds_io_good, 50, Issue ''other'' ''p2'' ''cam1'' 60)] d1)) = Inl e"
    by (rule pairing_code_single_use [OF model_ds_ok demo_view _ _ e])
      (simp_all add: pairings_distinct_def u64_max_def)
  with e show ?thesis by blast
qed

text \<open>C16: the life and the scope of a device session. From a successful exchange on, after any
  further operations of the store on disk that neither revoke this token nor issue the same token
  again, with any operating-system failures in them and none later than \<open>n\<close>: at time \<open>n\<close>
  the token authenticates exactly for the camera of the exchanged pairing, and exactly until the
  expiry computed at the exchange; another camera is denied, and an expired session is invalid.\<close>

theorem session_life_and_scope:
  assumes "ds_serde_ok env" "ds_view env d = Some st" "now \<le> u64_max" "n \<le> u64_max"
    and "exchange env io now token sid code ttl d = (Inr x, d1)"
    and "trim token = token" "token \<noteq> []" "unrevoked (sha256 env token) st = []"
    and "\<forall>(io, now, op) \<in> set ops. now \<le> n \<and> spares_token env (sha256 env token) op"
    and "ds_mkdir io'" "ds_chmod_dir io'" "ds_open io'" "ds_chmod_lock io'" "ds_lock io'" "ds_read io'"
    and "validate_camera_id camera_id = Inr camera"
  shows "fst (authenticate env io' n token camera_id (ds_disk_run env ops d1)) =
    (if n \<ge> saturating_add now ttl then Inl InvalidSession
     else if camera = principal_camera (exchanged_principal x) then Inr (exchanged_principal x)
     else Inl CameraDenied)"
proof -
  let ?th = "sha256 env token"
  from exchange_ok [OF assms(5,1,3)] assms(2) obtain st1 where v: "ds_view env d1 = Some st1"
    and e: "exchange_state now (sha256 env (trim code)) ?th sid (saturating_add now ttl) st
        = Inr (principal_camera (exchanged_principal x), st1)"
    and x: "principal_id (exchanged_principal x) = ''harbornavi-device:'' @ sid"
      "principal_expires (exchanged_principal x) = saturating_add now ttl" by auto
  define s where "s = \<lparr>session_id = sid, token_sha256 = ?th, session_camera = principal_camera (exchanged_principal x),
     session_expires = saturating_add now ttl, revoked_at = None\<rparr>"
  have "unrevoked ?th st1 = [s]" using exchange_unrevoked [OF e, of ?th] assms(8) by (simp add: s_def)
  from session_disk_run [OF assms(1) v this assms(4,9)] obtain st2 where
    st2: "ds_view env (ds_disk_run env ops d1) = Some st2"
    "current_state n ?th st2 = (if n < session_expires s then Inr (principal_of s) else Inl InvalidSession)" by blast
  have "principal_of s = exchanged_principal x" "session_expires s = saturating_add now ttl"
    using x by (simp_all add: principal_of_def s_def)
  moreover have "fst (current env io' n token (ds_disk_run env ops d1)) = current_state n (sha256 env (trim token)) st2"
    by (rule current_good [OF st2(1) _ assms(10-15)]) (use assms(6,7) in simp)
  ultimately show ?thesis
    using st2(2) assms(6,16) by (cases "n < saturating_add now ttl") (auto simp: authenticate_def split: prod.splits sum.splits)
qed

theorem session_life_and_scope_witness:
  "\<exists>x d1. exchange model_ds ds_io_good 50 ''tok'' ''s1'' ''code'' 10 demo_disk = (Inr x, d1)
     \<and> fst (authenticate model_ds ds_io_good 59 ''tok'' ''cam1''
           (ds_disk_run model_ds [(ds_io_good, 55, Revoke ''other'')] d1)) = Inr (exchanged_principal x)
     \<and> fst (authenticate model_ds ds_io_good 60 ''tok'' ''cam1'' (ds_disk_run model_ds [] d1)) = Inl InvalidSession"
proof -
  obtain x d1 where e: "exchange model_ds ds_io_good 50 ''tok'' ''s1'' ''code'' 10 demo_disk = (Inr x, d1)"
    and c: "principal_camera (exchanged_principal x) = ''cam1''"
    using demo_exchange by fastforce
  have v: "validate_camera_id ''cam1'' = Inr ''cam1''" by (simp add: validate_camera_id_def less_char_def)
  have o: "trim ''other'' = ''other''" by (simp add: trim_id ws_bytes_def)
  have a: "fst (authenticate model_ds ds_io_good 59 ''tok'' ''cam1''
      (ds_disk_run model_ds [(ds_io_good, 55, Revoke ''other'')] d1)) =
    (if (59::nat) \<ge> saturating_add 50 10 then Inl InvalidSession
     else if ''cam1'' = principal_camera (exchanged_principal x) then Inr (exchanged_principal x)
     else Inl CameraDenied)"
    by (rule session_life_and_scope [OF model_ds_ok demo_view _ _ e _ _ _ _ _ _ _ _ _ _ v])
      (simp_all add: ds_io_good_def u64_max_def o)
  have b: "fst (authenticate model_ds ds_io_good 60 ''tok'' ''cam1'' (ds_disk_run model_ds [] d1)) =
    (if (60::nat) \<ge> saturating_add 50 10 then Inl InvalidSession
     else if ''cam1'' = principal_camera (exchanged_principal x) then Inr (exchanged_principal x)
     else Inl CameraDenied)"
    by (rule session_life_and_scope [OF model_ds_ok demo_view _ _ e _ _ _ _ _ _ _ _ _ _ v])
      (simp_all add: ds_io_good_def u64_max_def)
  from a b c e show ?thesis by (simp add: saturating_add_def u64_max_def)
qed

text \<open>C17: revocation is final. After a successful \<^verbatim>\<open>revoke\<close>, and after any further operations of the
  store on disk that do not hand out the same token again, the token is never a current session.\<close>

theorem revocation_is_final:
  assumes "ds_serde_ok env" "ds_view env d = Some st" "now \<le> u64_max"
    and "length (unrevoked (sha256 env (trim token)) st) \<le> 1"
    and "revoke env io now token d = (Inr (), d1)"
    and "\<forall>(io, now, op) \<in> set ops. now \<le> u64_max \<and> \<not> hands_out env (sha256 env (trim token)) op"
  shows "\<exists>e. fst (current env io' n token (ds_disk_run env ops d1)) = Inl e"
proof -
  let ?th = "sha256 env (trim token)"
  from revoke_ok [OF assms(5,1,3)] assms(2) obtain st1 where v: "ds_view env d1 = Some st1"
    and r: "revoke_state now ?th st = Inr st1" by auto
  have "set (unrevoked ?th st1) \<subseteq> {}"
    by (simp only: revoke_state_unrevoked [OF r assms(4)] list.set subset_refl)
  from unrevoked_disk_run [OF assms(1) v this assms(6)] obtain st2 where
    st2: "ds_view env (ds_disk_run env ops d1) = Some st2" "unrevoked ?th st2 = []"
    by (metis set_empty subset_empty)
  then have "current_state n ?th st2 = Inl InvalidSession" by (simp add: current_state_filter del: filter_filter)
  with current_outcome [OF st2(1), of token io' n] show ?thesis
    by (cases "trim token = []") (auto simp: current_def)
qed

definition demo_session :: session_record where
  "demo_session = \<lparr>session_id = ''s'', token_sha256 = ''htok'', session_camera = ''cam1'',
     session_expires = 100, revoked_at = None\<rparr>"

theorem revocation_is_final_witness:
  "\<exists>d1 e. revoke model_ds ds_io_good 50 ''tok'' [state_file \<mapsto> encode_state model_ds
         \<lparr>pairings = [], sessions = [demo_session]\<rparr>] = (Inr (), d1)
     \<and> fst (current model_ds ds_io_good 51 ''tok'' (ds_disk_run model_ds [] d1)) = Inl e"
proof -
  let ?st = "\<lparr>pairings = [], sessions = [demo_session]\<rparr>" and ?d = "[state_file \<mapsto> encode_state model_ds
         \<lparr>pairings = [], sessions = [demo_session]\<rparr>]"
  have dec: "decode_state model_ds (encode_state model_ds ?st) = Some ?st"
    using model_ds_ok by (simp add: ds_serde_ok_def ds_bounded_def demo_session_def u64_max_def)
  then have v: "ds_view model_ds ?d = Some ?st" by (simp add: ds_view_def)
  have "\<exists>d1. revoke model_ds ds_io_good 50 ''tok'' ?d = (Inr (), d1)"
    using dec by (simp add: revoke_def with_locked_state_def ds_io_good_def transact_def Let_def load_state_def
        state_file_def lock_file_def revoke_state_def revocable_def demo_session_def persist_state_def)
  then obtain d1 where r: "revoke model_ds ds_io_good 50 ''tok'' ?d = (Inr (), d1)" by blast
  from revocation_is_final [OF model_ds_ok v _ _ r, of "[]" ds_io_good 51] r show ?thesis
    by (auto simp: u64_max_def)
qed

text \<open>The constant-time comparison of hashes, which folds the exclusive or of all byte pairs into
  one byte, is equality of the byte strings.\<close>

theorem constant_time_eq_is_equality: "constant_time_eq left right \<longleftrightarrow> left = right"
  by (rule constant_time_eq_iff)

end
