(* ===== verification/Gate_Error.thy ===== *)
theory Gate_Error
  imports Json_Value
begin

text \<open>
  \<^verbatim>\<open>GatewayError\<close> of \<^verbatim>\<open>src/error.rs\<close>, the error of every request handler: an HTTP status, a code, a
  message, and what is attached to it on the way up.
\<close>

record gateway_error =
  err_status :: nat
  err_code :: string
  err_message :: string
  err_trace_id :: "string option"
  err_delivery_failure :: "json option"

definition gateway_error_new :: "nat \<Rightarrow> string \<Rightarrow> string \<Rightarrow> gateway_error" where
  "gateway_error_new status code message = \<lparr>err_status = status, err_code = code, err_message = message,
     err_trace_id = None, err_delivery_failure = None\<rparr>"

definition with_trace :: "string \<Rightarrow> gateway_error \<Rightarrow> gateway_error" where
  "with_trace trace_id e = (if trim trace_id \<noteq> [] then e\<lparr>err_trace_id := Some trace_id\<rparr> else e)"

definition with_delivery_failure :: "json \<Rightarrow> gateway_error \<Rightarrow> gateway_error" where
  "with_delivery_failure item e = e\<lparr>err_delivery_failure := Some item\<rparr>"

definition validation :: "string \<Rightarrow> gateway_error" where
  "validation message = gateway_error_new 422 ''VALIDATION_ERROR'' message"

definition infrastructure :: "string \<Rightarrow> gateway_error" where
  "infrastructure message = gateway_error_new 500 ''INFRASTRUCTURE_ERROR'' message"

definition response_payload :: "gateway_error \<Rightarrow> json" where
  "response_payload e = jobj [(''ok'', JBool False),
     (''error'', jobj [(''code'', JStr (err_code e)), (''message'', JStr (err_message e))]),
     (''trace_id'', JStr (case err_trace_id e of Some t \<Rightarrow> t | None \<Rightarrow> []))]"

text \<open>HTTP status classes.\<close>

definition is_success :: "nat \<Rightarrow> bool" where
  "is_success status \<longleftrightarrow> 200 \<le> status \<and> status < 300"

definition is_redirection :: "nat \<Rightarrow> bool" where
  "is_redirection status \<longleftrightarrow> 300 \<le> status \<and> status < 400"

definition is_server_error :: "nat \<Rightarrow> bool" where
  "is_server_error status \<longleftrightarrow> 500 \<le> status \<and> status < 600"

end
