(* ===== verification/Cloud_Relay.thy ===== *)
theory Cloud_Relay
  imports Gate_Error File_Store
begin

text \<open>
  \<^verbatim>\<open>src/cloud_relay.rs\<close>: the signed HTTP client through which the gate talks to a Navi device. One
  exchange posts a request and polls for its result under one deadline; the model runs the loop
  over the list of attempts that complete (their responses and times are inputs) and returns the
  outcome together with the methods it sent. URL parsing, serde\_json and the signer are
  parameters.
\<close>

section \<open>Constants and errors\<close>

definition max_response :: nat where "max_response = 74096"
definition auth_ttl :: int where "auth_ttl = 5000"
definition turn_ttl :: int where "turn_ttl = 180000"
definition media_ttl :: int where "media_ttl = 45000"

definition relay_unavailable :: gateway_error where
  "relay_unavailable = gateway_error_new 503 ''NAVI_RELAY_UNAVAILABLE'' ''Navi connection is temporarily unavailable''"

definition relay_invalid :: gateway_error where
  "relay_invalid = validation ''Invalid Navi relay request''"

definition relay_invalid_response :: gateway_error where
  "relay_invalid_response = gateway_error_new 502 ''NAVI_RELAY_INVALID_RESPONSE''
     ''Navi connection returned an invalid response''"

definition identity_changed :: gateway_error where
  "identity_changed = gateway_error_new 403 ''NAVI_IDENTITY_CHANGED''
     ''Navi identity permission changed; reconnect WhatsApp''"

section \<open>The client\<close>

text \<open>What \<^verbatim>\<open>url::Url\<close> reports of a parsed URL.\<close>

record url =
  url_scheme :: string
  url_host :: "string option"
  url_port :: "nat option"
  url_username :: string
  url_password :: "string option"
  url_path :: string
  url_query :: "string option"
  url_fragment :: "string option"

record relay_env =
  url_parse :: "string \<Rightarrow> url option"
  url_join :: "url \<Rightarrow> string \<Rightarrow> url option"
  from_slice :: "string \<Rightarrow> json option"
  to_vec :: "json \<Rightarrow> string"
  relay_rfc3339 :: "string \<Rightarrow> instant option"

record relay_client =
  expected_hub_identity :: "string option"
  relay_endpoint :: url
  relay_region :: string

definition valid_hub_id :: "string \<Rightarrow> bool" where
  "valid_hub_id hub \<longleftrightarrow> 3 \<le> length hub \<and> length hub \<le> 64
     \<and> list_all (\<lambda>b. is_ascii_alphanumeric b \<or> b = CHR ''_'' \<or> b = CHR ''-'') hub"

definition valid_identity :: "string \<Rightarrow> bool" where
  "valid_identity identity \<longleftrightarrow> length identity = 64 \<and> list_all is_ascii_hexdigit identity"

definition with_hub_identity :: "string \<Rightarrow> relay_client \<Rightarrow> gateway_error + relay_client" where
  "with_hub_identity identity client =
     (if \<not> valid_identity identity then Inl relay_invalid
      else Inr (client\<lparr>expected_hub_identity := Some identity\<rparr>))"

definition strip_suffix :: "string \<Rightarrow> string \<Rightarrow> string option" where
  "strip_suffix sfx s = map_option rev (strip_prefix (rev sfx) (rev s))"

definition host_suffix :: "string \<Rightarrow> string" where
  "host_suffix region = ''.execute-api.'' @ region @ ''.'' @
     (if strip_prefix ''cn-'' region \<noteq> None then ''amazonaws.com.cn'' else ''amazonaws.com'')"

definition relay_create :: "url \<Rightarrow> string \<Rightarrow> bool \<Rightarrow> gateway_error + relay_client" where
  "relay_create endpoint region http_built =
     (if http_built then Inr \<lparr>expected_hub_identity = None, relay_endpoint = endpoint, relay_region = region\<rparr>
      else Inl relay_unavailable)"

definition relay_new :: "relay_env \<Rightarrow> string \<Rightarrow> string \<Rightarrow> bool \<Rightarrow> gateway_error + relay_client" where
  "relay_new env ep region http_built =
    rbind (ok_or relay_invalid (url_parse env ep)) (\<lambda>u.
    let api_id = (case Option.bind (url_host u) (strip_suffix (host_suffix region)) of Some a \<Rightarrow> a | None \<Rightarrow> [])
    in if region = []
          \<or> \<not> list_all (\<lambda>b. is_ascii_lowercase b \<or> is_ascii_digit b \<or> b = CHR ''-'') region
          \<or> api_id = [] \<or> \<not> list_all (\<lambda>b. is_ascii_lowercase b \<or> is_ascii_digit b) api_id
          \<or> url_scheme u \<noteq> ''https'' \<or> url_port u \<noteq> None \<or> url_username u \<noteq> [] \<or> url_password u \<noteq> None
          \<or> url_path u \<noteq> ''/'' \<or> url_query u \<noteq> None \<or> url_fragment u \<noteq> None
       then Inl relay_invalid else relay_create u region http_built)"

section \<open>One signed request\<close>

text \<open>
  The answer of the credentials provider, of the signer and of the server; a chunk \<open>None\<close> is a
  failed read of the body.
\<close>

record relay_credentials =
  session_token :: "string option"
  cred_expiry :: "instant option"

record http_reply =
  reply_status :: nat
  reply_content_length :: "nat option"
  reply_chunks :: "string option list"

fun read_chunks :: "'e \<Rightarrow> 'e \<Rightarrow> nat \<Rightarrow> string \<Rightarrow> string option list \<Rightarrow> 'e + string" where
  "read_chunks failed too_long limit bytes [] = Inr bytes"
| "read_chunks failed too_long limit bytes (None # cs) = Inl failed"
| "read_chunks failed too_long limit bytes (Some chunk # cs) =
     (if length bytes + length chunk > limit then Inl too_long
      else read_chunks failed too_long limit (bytes @ chunk) cs)"

definition relay_request ::
  "relay_credentials option \<Rightarrow> instant \<Rightarrow> bool \<Rightarrow> http_reply option \<Rightarrow> gateway_error + (nat \<times> string)" where
  "relay_request credentials now signed reply =
    rbind (ok_or relay_unavailable credentials) (\<lambda>c.
    if (case session_token c of None \<Rightarrow> True | Some t \<Rightarrow> t = [])
       \<or> (case cred_expiry c of None \<Rightarrow> True | Some e \<Rightarrow> e \<le> now + 5000000000)
    then Inl relay_unavailable
    else if \<not> signed then Inl relay_unavailable
    else
     rbind (ok_or relay_unavailable reply) (\<lambda>r.
     if (case reply_content_length r of None \<Rightarrow> False | Some l \<Rightarrow> l > max_response)
     then Inl relay_invalid_response
     else if is_redirection (reply_status r) then Inr (reply_status r, [])
     else rbind (read_chunks relay_unavailable relay_invalid_response max_response [] (reply_chunks r))
            (\<lambda>bytes. Inr (reply_status r, bytes))))"

section \<open>The exchange loop\<close>

record relay_response =
  resp_hub_identity :: string
  resp_status :: nat
  resp_body :: json

datatype http_method = POST | GET

record loop_state =
  accepted :: bool
  cloud_deadline :: "int option"
  cloud_identity :: "string option"
  last_publish :: int

text \<open>
  One attempt: the instants (milliseconds) at which the round starts and at which the response is
  handled, the wall clock then, and what \<open>relay_request\<close> returned.
\<close>

record attempt =
  at_start :: int
  at_end :: int
  at_wall :: int
  at_response :: "gateway_error + (nat \<times> string)"

datatype poll_outcome = Retry loop_state | Return "gateway_error + relay_response"

definition publishes :: "loop_state \<Rightarrow> attempt \<Rightarrow> bool" where
  "publishes st a \<longleftrightarrow> \<not> accepted st \<or> at_start a - last_publish st \<ge> 2000"

definition complete_response :: "relay_env \<Rightarrow> string \<Rightarrow> json \<Rightarrow> gateway_error + relay_response" where
  "complete_response env identity payload =
    (let result = jindex payload ''result'' in
     if jindex payload ''status'' \<noteq> JStr ''complete'' \<or> jindex result ''status'' \<noteq> JStr ''complete''
     then Inl relay_unavailable
     else
      rbind (ok_or relay_unavailable (case as_u64 (jindex result ''httpStatus'') of
          None \<Rightarrow> None
        | Some code \<Rightarrow> if 200 \<le> code \<and> code \<le> 599 \<and> \<not> (300 \<le> code \<and> code < 400) then Some code else None))
        (\<lambda>code.
      rbind (ok_or relay_unavailable (jget result ''body'')) (\<lambda>body.
      if length (to_vec env body) > 70000 then Inl relay_unavailable
      else Inr \<lparr>resp_hub_identity = identity, resp_status = code, resp_body = body\<rparr>)))"

definition accept_payload ::
  "relay_env \<Rightarrow> string \<Rightarrow> bool \<Rightarrow> attempt \<Rightarrow> nat \<Rightarrow> json \<Rightarrow> loop_state \<Rightarrow> poll_outcome" where
  "accept_payload env rid publish a status payload st =
    (case (as_i64 (jindex payload ''deadlineUnixMs''), as_str (jindex payload ''hubIdentity'')) of
       (Some deadline, Some identity) \<Rightarrow>
         if \<not> valid_identity identity then Return (Inl relay_unavailable)
         else if cloud_identity st \<noteq> None \<and> cloud_identity st \<noteq> Some identity
         then Return (Inl relay_unavailable)
         else if jindex payload ''requestId'' \<noteq> JStr rid \<or> deadline \<le> at_wall a
              \<or> (cloud_deadline st \<noteq> None \<and> cloud_deadline st \<noteq> Some deadline)
         then Return (Inl relay_unavailable)
         else if status = 202 then
           (if jindex payload ''status'' \<noteq> JStr ''pending'' \<or> jget payload ''result'' \<noteq> None
            then Return (Inl relay_unavailable)
            else Retry (st\<lparr>accepted := True, cloud_deadline := Some deadline, cloud_identity := Some identity,
                   last_publish := if publish then at_end a else last_publish st\<rparr>))
         else Return (complete_response env identity payload)
     | _ \<Rightarrow> Return (Inl relay_unavailable))"

definition poll_step :: "relay_env \<Rightarrow> string \<Rightarrow> attempt \<Rightarrow> loop_state \<Rightarrow> poll_outcome" where
  "poll_step env rid a st = (case at_response a of
      Inl e \<Rightarrow> if err_code e = ''NAVI_RELAY_INVALID_RESPONSE'' then Return (Inl e) else Retry st
    | Inr (status, bytes) \<Rightarrow>
        if status = 429 \<or> is_server_error status then Retry st
        else if status = 409 \<and> (case from_slice env bytes of None \<Rightarrow> False
             | Some body \<Rightarrow> jindex (jindex body ''error'') ''code'' = JStr ''HUB_IDENTITY_CHANGED'')
        then Return (Inl identity_changed)
        else if status \<noteq> 200 \<and> status \<noteq> 202 then Return (Inl relay_unavailable)
        else (case from_slice env bytes of
            None \<Rightarrow> Return (Inl relay_unavailable)
          | Some payload \<Rightarrow> accept_payload env rid (publishes st a) a status payload st))"

text \<open>An attempt that has not completed by the deadline is cut off by \<^verbatim>\<open>timeout_at\<close>.\<close>

fun exchange_loop ::
  "relay_env \<Rightarrow> string \<Rightarrow> int \<Rightarrow> attempt list \<Rightarrow> loop_state \<Rightarrow>
   (gateway_error + relay_response) \<times> http_method list" where
  "exchange_loop env rid end_at [] st = (Inl relay_unavailable, [])"
| "exchange_loop env rid end_at (a # as) st =
     (if at_end a > end_at then (Inl relay_unavailable, [if publishes st a then POST else GET])
      else (case poll_step env rid a st of
          Return r \<Rightarrow> (r, [if publishes st a then POST else GET])
        | Retry st' \<Rightarrow> (let (r, ms) = exchange_loop env rid end_at as st'
                       in (r, (if publishes st a then POST else GET) # ms))))"

definition request_value :: "relay_client \<Rightarrow> string \<Rightarrow> string \<Rightarrow> json \<Rightarrow> int \<Rightarrow> json" where
  "request_value client rid operation body ttl =
    (let request = [(''requestId'', JStr rid), (''operation'', JStr operation), (''body'', body), (''ttlMs'', JInt ttl)]
     in jobj (case expected_hub_identity client of
          None \<Rightarrow> request | Some identity \<Rightarrow> request @ [(''hubIdentity'', JStr identity)]))"

text \<open>
  \<open>rid\<close> is the fresh request identifier, \<open>start\<close> the instant at which the deadline is set. The result
  carries the request body that every \<open>POST\<close> of the exchange sends.
\<close>

definition relay_exchange ::
  "relay_env \<Rightarrow> relay_client \<Rightarrow> string \<Rightarrow> string \<Rightarrow> string \<Rightarrow> json \<Rightarrow> int \<Rightarrow> int \<Rightarrow> attempt list \<Rightarrow>
   (gateway_error + relay_response) \<times> http_method list" where
  "relay_exchange env client rid hub operation body ttl start attempts =
    (if \<not> valid_hub_id hub \<or> \<not> is_object body then (Inl relay_invalid, [])
     else
      (let request_json = to_vec env (jobj [(''operation'', JStr operation), (''body'', body)]);
           encoded = to_vec env (request_value client rid operation body ttl) in
       if length request_json > 70000
          \<or> length (to_vec env (jobj [(''requestJson'', JStr request_json)])) + 1024 > 120000
       then (Inl relay_invalid, [])
       else if length encoded > max_response then (Inl relay_invalid, [])
       else if url_join env (relay_endpoint client) (''v1/internal/beacon-exchanges/'' @ hub) = None
            \<or> url_join env (relay_endpoint client) (''v1/internal/beacon-exchanges/'' @ hub @ ''/'' @ rid) = None
       then (Inl relay_invalid, [])
       else exchange_loop env rid (start + ttl) attempts
              \<lparr>accepted = False, cloud_deadline = None, cloud_identity = expected_hub_identity client,
               last_publish = start\<rparr>))"

section \<open>Operations of the client\<close>

text \<open>
  An operation is an exchange under its own name and time limit; \<open>run\<close> stands for the inputs of the
  exchange (request identifier, start, attempts).
\<close>

type_synonym exchange_inputs = "string \<times> int \<times> attempt list"

definition run_exchange ::
  "relay_env \<Rightarrow> relay_client \<Rightarrow> string \<Rightarrow> string \<Rightarrow> json \<Rightarrow> int \<Rightarrow> exchange_inputs \<Rightarrow>
   gateway_error + relay_response" where
  "run_exchange env client hub operation body ttl inputs = (case inputs of (rid, start, attempts) \<Rightarrow>
     fst (relay_exchange env client rid hub operation body ttl start attempts))"

definition binding_proof where
  "binding_proof env client hub body = run_exchange env client hub ''bindingProof'' body auth_ttl"

definition binding_route where
  "binding_route env client hub body = run_exchange env client hub ''bindingRoute'' body auth_ttl"

definition turn where
  "turn env client hub body inputs =
    (if jindex (jindex body ''conversation'') ''channel'' \<noteq> JStr ''whatsapp'' then Inl relay_invalid
     else run_exchange env client hub ''turn'' body turn_ttl inputs)"

definition authorize_delivery where
  "authorize_delivery env client hub body = run_exchange env client hub ''deliveryAuthorization'' body auth_ttl"

definition media_artifact where
  "media_artifact env client hub body inputs =
    (if expected_hub_identity client = None then Inl relay_invalid
     else run_exchange env client hub ''mediaArtifact'' body media_ttl inputs)"

definition notification_exchange ::
  "relay_env \<Rightarrow> relay_client \<Rightarrow> string \<Rightarrow> string \<Rightarrow> json \<Rightarrow> exchange_inputs \<Rightarrow> gateway_error + json" where
  "notification_exchange env client hub operation body inputs =
    (if expected_hub_identity client = None then Inl relay_invalid
     else
      rbind (run_exchange env client hub operation body 10000 inputs) (\<lambda>response.
      if \<not> is_success (resp_status response) then Inl relay_unavailable else Inr (resp_body response)))"

definition notification_outbox where
  "notification_outbox env client hub = notification_exchange env client hub ''notificationOutbox''"

definition notification_receipt where
  "notification_receipt env client hub = notification_exchange env client hub ''notificationReceipt''"

section \<open>Task credentials\<close>

record ecs_credentials =
  access_key_id :: string
  secret_access_key :: string
  ecs_token :: string
  ecs_expiry :: instant

definition ecs_new :: "relay_env \<Rightarrow> string \<Rightarrow> bool \<Rightarrow> gateway_error + url" where
  "ecs_new env relative http_built =
    (let cid = (case strip_prefix ''/v2/credentials/'' relative of Some i \<Rightarrow> i | None \<Rightarrow> []) in
     if cid = [] \<or> length cid > 128
        \<or> \<not> list_all (\<lambda>b. is_ascii_alphanumeric b \<or> b = CHR ''-'' \<or> b = CHR ''_'') cid
     then Inl relay_invalid
     else rbind (ok_or relay_invalid (url_parse env (''http://169.254.170.2'' @ relative))) (\<lambda>u.
       if http_built then Inr u else Inl relay_unavailable))"

definition from_ecs ::
  "relay_env \<Rightarrow> string option \<Rightarrow> string \<Rightarrow> string \<Rightarrow> bool \<Rightarrow> gateway_error + relay_client" where
  "from_ecs env relative_uri ep region http_built =
    rbind (ok_or relay_unavailable relative_uri) (\<lambda>relative.
    rbind (ecs_new env relative http_built) (\<lambda>_. relay_new env ep region http_built))"

definition nonempty_field :: "json \<Rightarrow> string \<Rightarrow> unit + string" where
  "nonempty_field value name = (case as_str (jindex value name) of
      None \<Rightarrow> Inl () | Some s \<Rightarrow> if s = [] then Inl () else Inr s)"

definition ecs_fetch :: "relay_env \<Rightarrow> instant \<Rightarrow> http_reply option \<Rightarrow> unit + ecs_credentials" where
  "ecs_fetch env now reply =
    rbind (ok_or () reply) (\<lambda>r.
    if reply_status r \<noteq> 200 then Inl ()
    else
     rbind (read_chunks () () 16384 [] (reply_chunks r)) (\<lambda>bytes.
     rbind (ok_or () (from_slice env bytes)) (\<lambda>v.
     rbind (nonempty_field v ''Expiration'') (\<lambda>s.
     rbind (ok_or () (relay_rfc3339 env s)) (\<lambda>expiry.
     if expiry \<le> now + 5000000000 then Inl ()
     else
      rbind (nonempty_field v ''AccessKeyId'') (\<lambda>key_id.
      rbind (nonempty_field v ''SecretAccessKey'') (\<lambda>secret.
      rbind (nonempty_field v ''Token'') (\<lambda>token.
      Inr \<lparr>access_key_id = key_id, secret_access_key = secret, ecs_token = token, ecs_expiry = expiry\<rparr>))))))))"

definition ecs_fetch_cached ::
  "relay_env \<Rightarrow> instant \<Rightarrow> http_reply option \<Rightarrow> ecs_credentials option \<Rightarrow>
   (unit + ecs_credentials) \<times> ecs_credentials option" where
  "ecs_fetch_cached env now reply cached = (case ecs_fetch env now reply of
      Inl u \<Rightarrow> (Inl u, cached) | Inr c \<Rightarrow> (Inr c, Some c))"

text \<open>The provider's error carries no information: \<open>()\<close>. The second component is the cache.\<close>

definition ecs_load ::
  "relay_env \<Rightarrow> instant \<Rightarrow> http_reply option \<Rightarrow> ecs_credentials option \<Rightarrow>
   (unit + ecs_credentials) \<times> ecs_credentials option" where
  "ecs_load env now reply cached =
    (case cached of
       Some c \<Rightarrow> if ecs_expiry c > now + 60000000000 then (Inr c, cached) else ecs_fetch_cached env now reply cached
     | None \<Rightarrow> ecs_fetch_cached env now reply cached)"

section \<open>What an exchange returns\<close>

lemma read_chunks_bound:
  "read_chunks failed too_long limit bytes cs = Inr out \<Longrightarrow> length bytes \<le> limit \<Longrightarrow> length out \<le> limit"
  by (induction failed too_long limit bytes cs rule: read_chunks.induct) (auto split: if_splits)

lemma read_chunks_content:
  "read_chunks failed too_long limit bytes cs = Inr out \<Longrightarrow>
   out = bytes @ concat (map the cs) \<and> None \<notin> set cs"
  by (induction failed too_long limit bytes cs rule: read_chunks.induct) (auto split: if_splits)

text \<open>
  \<open>vouches env rid a identity deadline\<close>: the attempt brought a payload for this request that names
  this device identity and this deadline.
\<close>

definition vouches :: "relay_env \<Rightarrow> string \<Rightarrow> attempt \<Rightarrow> nat \<Rightarrow> json \<Rightarrow> string \<Rightarrow> int \<Rightarrow> bool" where
  "vouches env rid a status payload identity deadline \<longleftrightarrow>
     (\<exists>bytes. at_response a = Inr (status, bytes) \<and> from_slice env bytes = Some payload)
   \<and> jindex payload ''requestId'' = JStr rid
   \<and> jindex payload ''hubIdentity'' = JStr identity \<and> valid_identity identity
   \<and> as_i64 (jindex payload ''deadlineUnixMs'') = Some deadline \<and> at_wall a < deadline"

lemma accept_payload_Retry:
  assumes "accept_payload env rid pub a status payload st = Retry st'"
  shows "\<exists>identity deadline. status = 202 \<and> jindex payload ''requestId'' = JStr rid
    \<and> jindex payload ''hubIdentity'' = JStr identity \<and> valid_identity identity
    \<and> as_i64 (jindex payload ''deadlineUnixMs'') = Some deadline \<and> at_wall a < deadline
    \<and> cloud_identity st \<in> {None, Some identity} \<and> cloud_deadline st \<in> {None, Some deadline}
    \<and> cloud_identity st' = Some identity \<and> cloud_deadline st' = Some deadline \<and> accepted st'"
  using assms
  by (auto simp: accept_payload_def split: option.splits if_splits elim!: as_str.elims)

lemma complete_response_fields:
  assumes "complete_response env identity payload = Inr resp"
  shows "resp_hub_identity resp = identity" "200 \<le> resp_status resp" "resp_status resp \<le> 599"
    "\<not> is_redirection (resp_status resp)" "length (to_vec env (resp_body resp)) \<le> 70000"
    "jget (jindex payload ''result'') ''body'' = Some (resp_body resp)"
  using assms
  by (auto simp: complete_response_def Let_def is_redirection_def split: option.splits if_splits)

lemma accept_payload_Return:
  assumes "accept_payload env rid pub a status payload st = Return (Inr resp)"
  shows "\<exists>deadline. status \<noteq> 202 \<and> jindex payload ''requestId'' = JStr rid
    \<and> jindex payload ''hubIdentity'' = JStr (resp_hub_identity resp) \<and> valid_identity (resp_hub_identity resp)
    \<and> as_i64 (jindex payload ''deadlineUnixMs'') = Some deadline \<and> at_wall a < deadline
    \<and> cloud_identity st \<in> {None, Some (resp_hub_identity resp)} \<and> cloud_deadline st \<in> {None, Some deadline}
    \<and> complete_response env (resp_hub_identity resp) payload = Inr resp"
  using assms
  by (auto simp: accept_payload_def dest: complete_response_fields(1) split: option.splits if_splits elim!: as_str.elims)

lemma poll_step_Retry:
  assumes "poll_step env rid a st = Retry st'" "at_response a = Inr (202, bytes)"
  shows "\<exists>payload identity deadline. vouches env rid a 202 payload identity deadline
    \<and> from_slice env bytes = Some payload
    \<and> cloud_identity st \<in> {None, Some identity} \<and> cloud_deadline st \<in> {None, Some deadline}
    \<and> cloud_identity st' = Some identity \<and> cloud_deadline st' = Some deadline"
  using assms
  by (auto simp: poll_step_def is_server_error_def vouches_def dest!: accept_payload_Retry split: option.splits)

lemma poll_step_Retry_other:
  assumes "poll_step env rid a st = Retry st'" "\<nexists>bytes. at_response a = Inr (202, bytes)"
  shows "st' = st"
  using assms
  by (auto simp: poll_step_def dest!: accept_payload_Retry split: sum.splits option.splits if_splits)

lemma poll_step_Return:
  assumes "poll_step env rid a st = Return (Inr resp)"
  shows "\<exists>payload deadline. vouches env rid a 200 payload (resp_hub_identity resp) deadline
    \<and> cloud_identity st \<in> {None, Some (resp_hub_identity resp)} \<and> cloud_deadline st \<in> {None, Some deadline}
    \<and> complete_response env (resp_hub_identity resp) payload = Inr resp"
  using assms
  by (auto simp: poll_step_def vouches_def dest!: accept_payload_Return split: sum.splits option.splits if_splits)

lemma exchange_loop_sound:
  assumes "fst (exchange_loop env rid end_at as st) = Inr resp"
  shows "\<exists>pre a post payload deadline. as = pre @ a # post \<and> at_end a \<le> end_at
    \<and> vouches env rid a 200 payload (resp_hub_identity resp) deadline
    \<and> complete_response env (resp_hub_identity resp) payload = Inr resp
    \<and> cloud_identity st \<in> {None, Some (resp_hub_identity resp)} \<and> cloud_deadline st \<in> {None, Some deadline}
    \<and> (\<forall>b \<in> set pre. at_end b \<le> end_at \<and> (\<forall>bytes. at_response b = Inr (202, bytes) \<longrightarrow>
         (\<exists>p. vouches env rid b 202 p (resp_hub_identity resp) deadline)))"
  using assms
proof (induction env rid end_at "as" st rule: exchange_loop.induct)
  case (2 env rid end_at a "as" st)
  then have le: "at_end a \<le> end_at" by (auto split: if_splits)
  show ?case
  proof (cases "poll_step env rid a st")
    case (Return r)
    with 2 le have "poll_step env rid a st = Return (Inr resp)" by simp
    from poll_step_Return [OF this] le show ?thesis by (intro exI [of _ "[]"]) fastforce
  next
    case (Retry st')
    with "2.prems" le have "fst (exchange_loop env rid end_at as st') = Inr resp"
      by (auto simp: case_prod_beta Let_def)
    from "2.IH" [OF _ Retry this] le obtain pre b post payload deadline where
      IH: "as = pre @ b # post" "at_end b \<le> end_at"
        "vouches env rid b 200 payload (resp_hub_identity resp) deadline"
        "complete_response env (resp_hub_identity resp) payload = Inr resp"
        "cloud_identity st' \<in> {None, Some (resp_hub_identity resp)}" "cloud_deadline st' \<in> {None, Some deadline}"
        "\<forall>b \<in> set pre. at_end b \<le> end_at \<and> (\<forall>bytes. at_response b = Inr (202, bytes) \<longrightarrow>
           (\<exists>p. vouches env rid b 202 p (resp_hub_identity resp) deadline))" by auto
    have "cloud_identity st \<in> {None, Some (resp_hub_identity resp)} \<and> cloud_deadline st \<in> {None, Some deadline}
        \<and> (\<forall>bytes. at_response a = Inr (202, bytes) \<longrightarrow> (\<exists>p. vouches env rid a 202 p (resp_hub_identity resp) deadline))"
    proof (cases "\<exists>bytes. at_response a = Inr (202, bytes)")
      case True
      then obtain bytes where "at_response a = Inr (202, bytes)" by blast
      from poll_step_Retry [OF Retry this] IH(5,6) show ?thesis by auto
    next
      case False
      with poll_step_Retry_other [OF Retry] IH(5,6) show ?thesis by auto
    qed
    with IH le show ?thesis by (intro exI [of _ "a # pre"]) fastforce
  qed
qed simp

text \<open>Transient failures: a transport or credential error, throttling, or a server error.\<close>

definition transient :: "attempt \<Rightarrow> bool" where
  "transient a = (case at_response a of
      Inl e \<Rightarrow> err_code e \<noteq> ''NAVI_RELAY_INVALID_RESPONSE''
    | Inr (status, bytes) \<Rightarrow> status = 429 \<or> is_server_error status)"

lemma poll_step_transient: "transient a \<Longrightarrow> poll_step env rid a st = Retry st"
  by (auto simp: transient_def poll_step_def split: sum.splits)

lemma exchange_loop_transient:
  "\<forall>a \<in> set pre. transient a \<and> at_end a \<le> end_at \<Longrightarrow>
   fst (exchange_loop env rid end_at (pre @ as) st) = fst (exchange_loop env rid end_at as st)"
  by (induction pre) (auto simp: poll_step_transient case_prod_beta Let_def)

end
