(* ===== verification/Messages.thy ===== *)
theory Messages
  imports Json_Value
begin

text \<open>
  The message types of \<^verbatim>\<open>src/models.rs\<close> that pass between the platform adapters and the gateway.
\<close>

record inbound_message =
  in_platform :: string
  in_chat_id :: string
  in_user_id :: string
  in_text :: string
  in_message_id :: string
  in_chat_type :: string
  in_route_key :: string
  in_session_id :: string
  in_mentions :: "json list"
  in_attachments :: "json list"
  in_metadata :: "(string \<times> json) list"
  in_timestamp :: string
  in_raw_payload :: json

record outbound_message =
  out_platform :: string
  out_chat_id :: string
  out_text :: string
  out_attachments :: "json list"
  out_timestamp :: string
  out_metadata :: "(string \<times> json) list"

definition default_chat_type :: string where
  "default_chat_type = ''p2p''"

end
