(* ===== verification/Navi_Fleet.thy ===== *)
theory Navi_Fleet
  imports Cloud_Relay Messages
begin

text \<open>
  \<^verbatim>\<open>src/navi_fleet.rs\<close>: which Navi device serves a phone. A signed phone message opens a pending
  proof, the device's answer after its owner confirms makes it the active selection, and the
  devices are told by route updates. The directory is one JSON file; each operation is a function
  on it run by \<open>transaction\<close> under the file lock, which writes the directory back on success.
  Hashing, the RFC 3339 parser and the derived codec are parameters; the clock (seconds) is read
  once per operation; fresh generation names are arguments.
\<close>

section \<open>State\<close>

record selection =
  sel_hub_id :: string
  sel_hub_identity :: string
  sel_binding_id :: string
  sel_generation :: string
  sel_selected_at :: int

record pending =
  pd_id :: string
  pd_hub_id :: string
  pd_token :: string
  pd_recipient :: string
  pd_route_key :: string
  pd_occurred_at :: string
  pd_expires_at :: int
  pd_next_poll :: int
  pd_session_id :: "string option"
  pd_hub_identity :: "string option"

record route_update =
  ru_selection :: selection
  ru_recipient :: string
  ru_route_key :: string
  ru_revision :: nat
  ru_status :: string
  ru_issued_at :: int
  ru_next_poll :: int

record route =
  rt_active :: "selection option"
  rt_pending :: "pending option"
  rt_seen :: "(string \<times> int) list"
  rt_newest_proof_at :: int
  rt_recipient :: string
  rt_route_key :: string
  rt_revision :: nat
  rt_updates :: "(string \<times> route_update) list"
  rt_notification_next_poll :: int

type_synonym directory = "(string \<times> route) list"

record fleet_env =
  fleet_rfc3339 :: "string \<Rightarrow> instant option"
  fleet_hash :: "json \<Rightarrow> string"
  decode_dir :: "string \<Rightarrow> directory option"
  encode_dir :: "directory \<Rightarrow> string"

definition default_route :: route where
  "default_route = \<lparr>rt_active = None, rt_pending = None, rt_seen = [], rt_newest_proof_at = 0, rt_recipient = [],
     rt_route_key = [], rt_revision = 0, rt_updates = [], rt_notification_next_poll = 0\<rparr>"

definition fleet_unavailable :: gateway_error where
  "fleet_unavailable = infrastructure ''Navi routing is temporarily unavailable''"

definition fleet_denied :: gateway_error where
  "fleet_denied = gateway_error_new 403 ''IM_DELIVERY_NOT_ALLOWED''
     ''Navi selection permission no longer permits this delivery''"

definition fleet_key :: "fleet_env \<Rightarrow> string \<Rightarrow> string \<Rightarrow> string" where
  "fleet_key env recipient rk = fleet_hash env (JArr [JStr recipient, JStr rk])"

definition valid_proof_id :: "string \<Rightarrow> bool" where
  "valid_proof_id v \<longleftrightarrow> (length v = 32 \<or> length v = 64) \<and> list_all is_ascii_hexdigit v"

definition timestamp_of :: "fleet_env \<Rightarrow> string \<Rightarrow> int option" where
  "timestamp_of env s = map_option (\<lambda>t. t div 1000000000) (fleet_rfc3339 env s)"

section \<open>Route updates\<close>

definition max_revision :: nat where
  "max_revision = 9007199254740991"

definition queue_route_update :: "int \<Rightarrow> string \<Rightarrow> route \<Rightarrow> gateway_error + route" where
  "queue_route_update now status r = (case rt_active r of
      None \<Rightarrow> Inr r
    | Some sel \<Rightarrow>
        if rt_recipient r = [] \<or> rt_route_key r = [] then Inr r
        else if length (rt_updates r) \<ge> 64 \<and> oget (rt_updates r) (sel_generation sel) = None
        then Inl fleet_unavailable
        else if rt_revision r + 1 > max_revision then Inl fleet_unavailable
        else Inr (r\<lparr>rt_revision := rt_revision r + 1,
               rt_updates := oput (sel_generation sel)
                 \<lparr>ru_selection = sel, ru_recipient = rt_recipient r, ru_route_key = rt_route_key r,
                  ru_revision = rt_revision r + 1, ru_status = status, ru_issued_at = now,
                  ru_next_poll = 0\<rparr> (rt_updates r)\<rparr>))"

section \<open>Identity changes and notifications\<close>

definition same_device :: "selection \<Rightarrow> selection \<Rightarrow> bool" where
  "same_device s i \<longleftrightarrow> sel_hub_id i = sel_hub_id s \<and> sel_hub_identity i = sel_hub_identity s"

definition invalidate_route :: "selection \<Rightarrow> route \<Rightarrow> route" where
  "invalidate_route s r =
     r\<lparr>rt_active := (case rt_active r of Some i \<Rightarrow> if same_device s i then None else Some i | None \<Rightarrow> None),
       rt_pending := (case rt_pending r of
           Some p \<Rightarrow> if pd_hub_id p = sel_hub_id s
               \<and> (case pd_hub_identity p of None \<Rightarrow> True | Some i \<Rightarrow> i = sel_hub_identity s)
             then None else Some p
         | None \<Rightarrow> None),
       rt_updates := filter (\<lambda>(g, u). \<not> same_device s (ru_selection u)) (rt_updates r)\<rparr>"

definition invalidate_identity_dir :: "selection \<Rightarrow> directory \<Rightarrow> gateway_error + (unit \<times> directory)" where
  "invalidate_identity_dir s dir = Inr ((), map (\<lambda>(k, r). (k, invalidate_route s r)) dir)"

text \<open>\<^verbatim>\<open>min_by_key\<close> returns the first of equal elements.\<close>

fun min_by_key :: "('a \<Rightarrow> int) \<Rightarrow> 'a list \<Rightarrow> 'a option" where
  "min_by_key f [] = None"
| "min_by_key f (x # xs) = (case min_by_key f xs of
      None \<Rightarrow> Some x | Some y \<Rightarrow> if f x \<le> f y then Some x else Some y)"

definition pending_open :: "int \<Rightarrow> route \<Rightarrow> bool" where
  "pending_open now r \<longleftrightarrow> (case rt_pending r of None \<Rightarrow> False | Some p \<Rightarrow> pd_expires_at p > now)"

definition notifiable :: "int \<Rightarrow> route \<Rightarrow> bool" where
  "notifiable now r \<longleftrightarrow> rt_active r \<noteq> None \<and> rt_recipient r \<noteq> [] \<and> rt_route_key r \<noteq> []
     \<and> rt_notification_next_poll r \<le> now \<and> \<not> pending_open now r"

definition notification_target_dir ::
  "int \<Rightarrow> directory \<Rightarrow> gateway_error + ((selection \<times> json) option \<times> directory)" where
  "notification_target_dir now dir =
    (case min_by_key (\<lambda>(k, r). rt_notification_next_poll r) (filter (\<lambda>(k, r). notifiable now r) dir) of
       None \<Rightarrow> Inr (None, dir)
     | Some (k, r) \<Rightarrow>
         rbind (ok_or fleet_denied (rt_active r)) (\<lambda>sel.
         Inr (Some (sel, jobj [(''binding_id'', JStr (sel_binding_id sel)), (''generation'', JStr (sel_generation sel)),
                     (''recipient'', JStr (rt_recipient r)), (''route_key'', JStr (rt_route_key r))]),
              oput k (r\<lparr>rt_notification_next_poll := now + 15\<rparr>) dir)))"

section \<open>A phone message opens a pending proof\<close>

definition begin_check :: "fleet_env \<Rightarrow> int \<Rightarrow> inbound_message \<Rightarrow> gateway_error + (string \<times> string \<times> int)" where
  "begin_check env now m =
    rbind (ok_or fleet_denied (strip_prefix ''NAVI '' (trim (in_text m)))) (\<lambda>message.
    rbind (ok_or fleet_denied (split_once CHR ''.'' message)) (\<lambda>(hub, token).
    rbind (ok_or fleet_denied (timestamp_of env (in_timestamp m))) (\<lambda>occurred.
    if \<not> valid_hub_id hub \<or> length token \<noteq> 64 \<or> \<not> list_all is_ascii_hexdigit token
       \<or> in_platform m \<noteq> ''whatsapp'' \<or> in_chat_type m \<noteq> ''p2p'' \<or> in_chat_id m \<noteq> in_user_id m
       \<or> \<not> (7 \<le> length (in_user_id m) \<and> length (in_user_id m) \<le> 15)
       \<or> \<not> list_all is_ascii_digit (in_user_id m)
       \<or> in_route_key m = [] \<or> length (in_route_key m) > 256 \<or> in_message_id m = []
       \<or> occurred \<le> now - 300 \<or> occurred > now + 60
    then Inl fleet_denied else Inr (hub, token, occurred))))"

definition begin_route ::
  "fleet_env \<Rightarrow> int \<Rightarrow> inbound_message \<Rightarrow> string \<Rightarrow> string \<Rightarrow> int \<Rightarrow> route \<Rightarrow> gateway_error + route" where
  "begin_route env now m hub token occurred r0 =
    (let r = r0\<lparr>rt_recipient := in_user_id m, rt_route_key := in_route_key m,
               rt_seen := filter (\<lambda>(i, expiry). expiry > now) (rt_seen r0)\<rparr>;
         rid = fleet_hash env (JArr [JStr hub, JStr token])
     in if oget (rt_seen r) rid \<noteq> None then Inr r
        else if occurred < rt_newest_proof_at r \<or> length (rt_seen r) \<ge> 64 then Inl fleet_denied
        else queue_route_update now ''paused''
          (r\<lparr>rt_seen := oput rid (occurred + 360) (rt_seen r), rt_newest_proof_at := occurred,
             rt_pending := Some \<lparr>pd_id = rid, pd_hub_id = hub, pd_token = token, pd_recipient = in_user_id m,
               pd_route_key = in_route_key m, pd_occurred_at = in_timestamp m,
               pd_expires_at = min (occurred + 300) (now + 300), pd_next_poll = 0,
               pd_session_id = None, pd_hub_identity = None\<rparr>\<rparr>))"

definition begin_dir ::
  "fleet_env \<Rightarrow> int \<Rightarrow> inbound_message \<Rightarrow> string \<Rightarrow> string \<Rightarrow> int \<Rightarrow> directory \<Rightarrow> gateway_error + (unit \<times> directory)" where
  "begin_dir env now m hub token occurred dir =
    (let k = fleet_key env (in_user_id m) (in_route_key m) in
     if length dir \<ge> 4096 \<and> oget dir k = None then Inl fleet_unavailable
     else rbind (begin_route env now m hub token occurred
            (case oget dir k of Some r \<Rightarrow> r | None \<Rightarrow> default_route)) (\<lambda>r.
          Inr ((), oput k r dir)))"

section \<open>Polling a pending proof\<close>

definition expire_route :: "int \<Rightarrow> route \<Rightarrow> gateway_error + route" where
  "expire_route now r = (case rt_pending r of
      Some p \<Rightarrow> if pd_expires_at p \<le> now then queue_route_update now ''active'' (r\<lparr>rt_pending := None\<rparr>) else Inr r
    | None \<Rightarrow> Inr r)"

fun expire_routes :: "int \<Rightarrow> directory \<Rightarrow> gateway_error + directory" where
  "expire_routes now [] = Inr []"
| "expire_routes now ((k, r) # dir) =
     rbind (expire_route now r) (\<lambda>r'. rbind (expire_routes now dir) (\<lambda>dir'. Inr ((k, r') # dir')))"

definition due_pending :: "int \<Rightarrow> string \<times> route \<Rightarrow> (string \<times> route \<times> pending) option" where
  "due_pending now kr = (case rt_pending (snd kr) of
      Some p \<Rightarrow> if pd_next_poll p \<le> now then Some (fst kr, snd kr, p) else None | None \<Rightarrow> None)"

definition claim_dir :: "int \<Rightarrow> directory \<Rightarrow> gateway_error + (pending option \<times> directory)" where
  "claim_dir now dir =
    rbind (expire_routes now dir) (\<lambda>dir.
    (case min_by_key (\<lambda>(k, r, p). pd_next_poll p) (List.map_filter (due_pending now) dir) of
       None \<Rightarrow> Inr (None, dir)
     | Some (k, r, p) \<Rightarrow>
         (let p' = p\<lparr>pd_next_poll := now + 10\<rparr> in Inr (Some p', oput k (r\<lparr>rt_pending := Some p'\<rparr>) dir))))"

definition bound_route ::
  "fleet_env \<Rightarrow> int \<Rightarrow> string \<Rightarrow> string \<Rightarrow> json \<Rightarrow> string \<Rightarrow> string \<Rightarrow> pending \<Rightarrow> route \<Rightarrow> gateway_error + route" where
  "bound_route env now generation hub proof session identity cur r =
    rbind (ok_or fleet_unavailable (timestamp_of env (pd_occurred_at cur))) (\<lambda>occurred.
    if jindex proof ''binding_id'' \<noteq> JStr session
       \<or> (case as_i64 (jindex proof ''confirmed_at'') of None \<Rightarrow> True | Some at \<Rightarrow> at < occurred \<or> at > now + 60)
    then Inl fleet_unavailable
    else
     rbind (queue_route_update now ''retired'' (r\<lparr>rt_pending := Some cur\<rparr>)) (\<lambda>r.
     queue_route_update now ''active''
       (r\<lparr>rt_active := Some \<lparr>sel_hub_id = hub, sel_hub_identity = identity, sel_binding_id = session,
                             sel_generation = generation, sel_selected_at = now\<rparr>,
          rt_pending := None\<rparr>)))"

definition proof_route ::
  "fleet_env \<Rightarrow> int \<Rightarrow> string \<Rightarrow> string \<Rightarrow> nat \<Rightarrow> json \<Rightarrow> string \<Rightarrow> pending \<Rightarrow> route \<Rightarrow> gateway_error + route" where
  "proof_route env now generation hub status proof identity cur r =
    (if pd_expires_at cur \<le> now \<or> status \<in> {400, 401, 403, 404, 410, 422}
     then queue_route_update now ''active'' (r\<lparr>rt_pending := None\<rparr>)
     else if status \<noteq> 200 then Inl fleet_unavailable
     else if \<not> valid_identity identity
          \<or> (case pd_hub_identity cur of None \<Rightarrow> False | Some expected \<Rightarrow> expected \<noteq> identity)
     then Inl fleet_unavailable
     else
      rbind (ok_or fleet_unavailable (case as_str (jindex proof ''session_id'') of
          None \<Rightarrow> None | Some s \<Rightarrow> if valid_proof_id s then Some s else None)) (\<lambda>session.
      rbind (ok_or fleet_unavailable (case as_i64 (jindex proof ''expires_at'') of
          None \<Rightarrow> None | Some e \<Rightarrow> if e > now then Some e else None)) (\<lambda>expires.
      if (case pd_session_id cur of None \<Rightarrow> False | Some original \<Rightarrow> original \<noteq> session)
      then Inl fleet_unavailable
      else
       (let cur' = cur\<lparr>pd_hub_identity := Some identity, pd_session_id := Some session,
                      pd_expires_at := min (pd_expires_at cur) expires\<rparr> in
        if as_str (jindex proof ''status'') = Some ''awaiting_owner_confirmation''
        then Inr (r\<lparr>rt_pending := Some (cur'\<lparr>pd_next_poll := now + 1\<rparr>)\<rparr>)
        else if as_str (jindex proof ''status'') = Some ''bound''
        then bound_route env now generation hub proof session identity cur' r
        else Inl fleet_unavailable))))"

definition finish_dir ::
  "fleet_env \<Rightarrow> int \<Rightarrow> string \<Rightarrow> pending \<Rightarrow> nat \<Rightarrow> json \<Rightarrow> string \<Rightarrow> directory \<Rightarrow> gateway_error + (unit \<times> directory)" where
  "finish_dir env now generation p status proof identity dir =
    (let k = fleet_key env (pd_recipient p) (pd_route_key p) in
     rbind (ok_or fleet_unavailable (oget dir k)) (\<lambda>r.
     (case rt_pending r of
        Some cur \<Rightarrow>
          if pd_id cur \<noteq> pd_id p then Inr ((), dir)
          else rbind (proof_route env now generation (pd_hub_id p) status proof identity cur r) (\<lambda>r.
               Inr ((), oput k r dir))
      | None \<Rightarrow> Inr ((), dir))))"

section \<open>Delivering route updates\<close>

definition due_updates :: "int \<Rightarrow> string \<times> route \<Rightarrow> (string \<times> route \<times> string \<times> route_update) list" where
  "due_updates now kr = map (\<lambda>(g, u). (fst kr, snd kr, g, u))
     (filter (\<lambda>(g, u). ru_next_poll u \<le> now) (rt_updates (snd kr)))"

definition claim_route_update_dir :: "int \<Rightarrow> directory \<Rightarrow> gateway_error + (route_update option \<times> directory)" where
  "claim_route_update_dir now dir =
    (case min_by_key (\<lambda>(k, r, g, u). ru_next_poll u) (concat (map (due_updates now) dir)) of
       None \<Rightarrow> Inr (None, dir)
     | Some (k, r, g, u) \<Rightarrow>
         (let u' = u\<lparr>ru_next_poll := now + 10\<rparr>
          in Inr (Some u', oput k (r\<lparr>rt_updates := oput g u' (rt_updates r)\<rparr>) dir)))"

definition receipt_matches :: "route_update \<Rightarrow> json \<Rightarrow> bool" where
  "receipt_matches u receipt \<longleftrightarrow>
     jindex receipt ''binding_id'' = JStr (sel_binding_id (ru_selection u))
   \<and> jindex receipt ''generation'' = JStr (sel_generation (ru_selection u))
   \<and> as_u64 (jindex receipt ''revision'') = Some (ru_revision u)
   \<and> jindex receipt ''status'' = JStr (ru_status u)
   \<and> jindex receipt ''applied'' = JBool True"

definition finish_route_update_dir ::
  "fleet_env \<Rightarrow> route_update \<Rightarrow> nat \<Rightarrow> json \<Rightarrow> directory \<Rightarrow> gateway_error + (unit \<times> directory)" where
  "finish_route_update_dir env u status receipt dir =
    (let k = fleet_key env (ru_recipient u) (ru_route_key u); g = sel_generation (ru_selection u) in
     (case oget dir k of
        None \<Rightarrow> Inr ((), dir)
      | Some r \<Rightarrow> (case oget (rt_updates r) g of
          None \<Rightarrow> Inr ((), dir)
        | Some cur \<Rightarrow>
            if ru_revision cur \<noteq> ru_revision u then Inr ((), dir)
            else if status = 200 \<and> \<not> receipt_matches u receipt then Inl fleet_unavailable
            else if status \<noteq> 200 \<and> status \<noteq> 403 \<and> status \<noteq> 410 then Inl fleet_unavailable
            else Inr ((), oput k (r\<lparr>rt_updates := odel g (rt_updates r)\<rparr>) dir))))"

section \<open>Using the selection\<close>

definition select_dir ::
  "fleet_env \<Rightarrow> int \<Rightarrow> inbound_message \<Rightarrow> directory \<Rightarrow> gateway_error + (selection \<times> directory)" where
  "select_dir env now m dir =
    rbind (ok_or fleet_denied (oget dir (fleet_key env (in_user_id m) (in_route_key m)))) (\<lambda>r.
    if pending_open now r then Inl fleet_unavailable
    else
     rbind (ok_or fleet_denied (rt_active r)) (\<lambda>sel.
     rbind (ok_or fleet_denied (timestamp_of env (in_timestamp m))) (\<lambda>occurred.
     if in_platform m \<noteq> ''whatsapp'' \<or> in_chat_id m \<noteq> in_user_id m \<or> in_chat_type m \<noteq> ''p2p''
        \<or> occurred \<le> sel_selected_at sel \<or> occurred > now + 60
     then Inl fleet_denied else Inr (sel, dir))))"

text \<open>serde's derived deserialiser of \<^verbatim>\<open>Selection\<close>, from an object or from an array of five.\<close>

fun selection_fields ::
  "json option \<Rightarrow> json option \<Rightarrow> json option \<Rightarrow> json option \<Rightarrow> json option \<Rightarrow> selection option" where
  "selection_fields (Some (JStr h)) (Some (JStr i)) (Some (JStr b)) (Some (JStr g)) (Some at) =
     map_option (\<lambda>t. \<lparr>sel_hub_id = h, sel_hub_identity = i, sel_binding_id = b, sel_generation = g,
       sel_selected_at = t\<rparr>) (as_i64 at)"
| "selection_fields _ _ _ _ _ = None"

fun selection_of_json :: "json \<Rightarrow> selection option" where
  "selection_of_json (JObj m) = selection_fields (oget m ''hub_id'') (oget m ''hub_identity'')
     (oget m ''binding_id'') (oget m ''generation'') (oget m ''selected_at'')"
| "selection_of_json (JArr [h, i, b, g, t]) = selection_fields (Some h) (Some i) (Some b) (Some g) (Some t)"
| "selection_of_json _ = None"

definition check_prepare :: "outbound_message \<Rightarrow> gateway_error + (selection \<times> string)" where
  "check_prepare m =
    rbind (ok_or fleet_denied (oget (out_metadata m) ''navi_selection'')) (\<lambda>v.
    rbind (ok_or fleet_denied (selection_of_json v)) (\<lambda>original.
    rbind (ok_or fleet_denied (Option.bind (oget (out_metadata m) ''route_key'') as_str)) (\<lambda>rk.
    Inr (original, rk))))"

definition check_dir ::
  "fleet_env \<Rightarrow> int \<Rightarrow> outbound_message \<Rightarrow> selection \<Rightarrow> string \<Rightarrow> directory \<Rightarrow> gateway_error + (selection \<times> directory)" where
  "check_dir env now m original rk dir =
    rbind (ok_or fleet_denied (oget dir (fleet_key env (out_chat_id m) rk))) (\<lambda>r.
    if pending_open now r then Inl fleet_unavailable
    else if rt_active r \<noteq> Some original then Inl fleet_denied
    else Inr (original, dir))"

definition session_key :: "fleet_env \<Rightarrow> selection \<Rightarrow> inbound_message \<Rightarrow> string" where
  "session_key env sel m = fleet_hash env (JArr [JStr (in_route_key m), JStr (in_chat_id m),
     JStr (sel_hub_id sel), JStr (sel_generation sel)])"

section \<open>Transactions\<close>

definition routes_json :: string where "routes_json = ''routes.json''"
definition routes_lock :: string where "routes_lock = ''routes.lock''"
definition max_file :: nat where "max_file = 4 * 1024 * 1024"

record fleet_io =
  fi_mkdir :: bool
  fi_is_dir :: bool
  fi_chmod :: bool
  fi_plain_files :: bool
  fi_open :: bool
  fi_lock :: bool
  fi_read :: bool
  fi_write :: bool

definition fleet_load :: "fleet_env \<Rightarrow> fleet_io \<Rightarrow> disk \<Rightarrow> (gateway_error + directory) \<times> disk" where
  "fleet_load env io d = ((case d routes_json of
      None \<Rightarrow> Inr []
    | Some bytes \<Rightarrow> if fi_read io then ok_or fleet_unavailable (decode_dir env bytes) else Inl fleet_unavailable), d)"

definition fleet_save :: "fleet_env \<Rightarrow> fleet_io \<Rightarrow> directory \<Rightarrow> disk \<Rightarrow> (gateway_error + unit) \<times> disk" where
  "fleet_save env io dir d =
    (if length (encode_dir env dir) > max_file \<or> \<not> fi_write io then (Inl fleet_unavailable, d)
     else (Inr (), d(routes_json \<mapsto> encode_dir env dir)))"

definition small_file :: "disk \<Rightarrow> string \<Rightarrow> bool" where
  "small_file d f \<longleftrightarrow> (case d f of None \<Rightarrow> True | Some b \<Rightarrow> length b \<le> max_file)"

definition transaction ::
  "fleet_env \<Rightarrow> fleet_io \<Rightarrow> (directory \<Rightarrow> gateway_error + ('r \<times> directory)) \<Rightarrow> disk \<Rightarrow> (gateway_error + 'r) \<times> disk" where
  "transaction env io f d =
    (if \<not> fi_mkdir io \<or> \<not> fi_is_dir io \<or> \<not> fi_chmod io \<or> \<not> fi_plain_files io
        \<or> \<not> small_file d routes_json \<or> \<not> small_file d routes_lock \<or> \<not> fi_open io
     then (Inl fleet_unavailable, d)
     else
      (let d1 = d(routes_lock \<mapsto> (case d routes_lock of Some b \<Rightarrow> b | None \<Rightarrow> [])) in
       if \<not> fi_lock io then (Inl fleet_unavailable, d1)
       else transact (fleet_load env io) (fleet_save env io)
              (\<lambda>dir. rbind (f dir) (\<lambda>(r, dir'). Inr (r, Some dir'))) d1))"

definition invalidate_identity where
  "invalidate_identity env io s = transaction env io (invalidate_identity_dir s)"

definition notification_target where
  "notification_target env io now = transaction env io (notification_target_dir now)"

definition begin_route_proof :: "fleet_env \<Rightarrow> fleet_io \<Rightarrow> int \<Rightarrow> inbound_message \<Rightarrow> disk \<Rightarrow> (gateway_error + unit) \<times> disk" where
  "begin_route_proof env io now m d = (case begin_check env now m of
      Inl e \<Rightarrow> (Inl e, d)
    | Inr (hub, token, occurred) \<Rightarrow> transaction env io (begin_dir env now m hub token occurred) d)"

definition claim_pending where
  "claim_pending env io now = transaction env io (claim_dir now)"

definition finish_pending where
  "finish_pending env io now generation p status proof identity =
     transaction env io (finish_dir env now generation p status proof identity)"

definition claim_route_update where
  "claim_route_update env io now = transaction env io (claim_route_update_dir now)"

definition finish_route_update where
  "finish_route_update env io u status receipt = transaction env io (finish_route_update_dir env u status receipt)"

definition select_route where
  "select_route env io now m = transaction env io (select_dir env now m)"

definition check_route :: "fleet_env \<Rightarrow> fleet_io \<Rightarrow> int \<Rightarrow> outbound_message \<Rightarrow> disk \<Rightarrow> (gateway_error + selection) \<times> disk" where
  "check_route env io now m d = (case check_prepare m of
      Inl e \<Rightarrow> (Inl e, d) | Inr (original, rk) \<Rightarrow> transaction env io (check_dir env now m original rk) d)"

text \<open>
  \<^verbatim>\<open>refresh_one\<close> and \<^verbatim>\<open>refresh_route_update\<close>: claim, one exchange with the device, finish. The
  exchange is a function of the client and the request.
\<close>

definition refresh_one ::
  "fleet_env \<Rightarrow> fleet_io \<Rightarrow> fleet_io \<Rightarrow> int \<Rightarrow> int \<Rightarrow> string \<Rightarrow> relay_client \<Rightarrow>
   (relay_client \<Rightarrow> string \<Rightarrow> json \<Rightarrow> gateway_error + relay_response) \<Rightarrow> disk \<Rightarrow> (gateway_error + bool) \<times> disk" where
  "refresh_one env io io' now now' generation relay proof_call d = (case claim_pending env io now d of
      (Inl e, d1) \<Rightarrow> (Inl e, d1)
    | (Inr None, d1) \<Rightarrow> (Inr False, d1)
    | (Inr (Some p), d1) \<Rightarrow>
        (case (case pd_hub_identity p of Some i \<Rightarrow> with_hub_identity i relay | None \<Rightarrow> Inr relay) of
           Inl e \<Rightarrow> (Inl e, d1)
         | Inr client \<Rightarrow>
             (case proof_call client (pd_hub_id p) (jobj [(''token'', JStr (pd_token p)),
                 (''recipient'', JStr (pd_recipient p)), (''route_key'', JStr (pd_route_key p)),
                 (''occurred_at'', JStr (pd_occurred_at p))]) of
                Inl e \<Rightarrow> (Inl e, d1)
              | Inr response \<Rightarrow>
                  (case finish_pending env io' now' generation p (resp_status response) (resp_body response)
                     (resp_hub_identity response) d1 of
                     (Inl e, d2) \<Rightarrow> (Inl e, d2) | (Inr u, d2) \<Rightarrow> (Inr True, d2)))))"

definition refresh_route_update ::
  "fleet_env \<Rightarrow> fleet_io \<Rightarrow> fleet_io \<Rightarrow> int \<Rightarrow> relay_client \<Rightarrow>
   (relay_client \<Rightarrow> string \<Rightarrow> json \<Rightarrow> gateway_error + relay_response) \<Rightarrow> disk \<Rightarrow> (gateway_error + bool) \<times> disk" where
  "refresh_route_update env io io' now relay route_call d = (case claim_route_update env io now d of
      (Inl e, d1) \<Rightarrow> (Inl e, d1)
    | (Inr None, d1) \<Rightarrow> (Inr False, d1)
    | (Inr (Some u), d1) \<Rightarrow>
        (case with_hub_identity (sel_hub_identity (ru_selection u)) relay of
           Inl e \<Rightarrow> (Inl e, d1)
         | Inr client \<Rightarrow>
             (case (case route_call client (sel_hub_id (ru_selection u)) (jobj
                 [(''binding_id'', JStr (sel_binding_id (ru_selection u))), (''recipient'', JStr (ru_recipient u)),
                  (''route_key'', JStr (ru_route_key u)), (''generation'', JStr (sel_generation (ru_selection u))),
                  (''revision'', JInt (int (ru_revision u))), (''status'', JStr (ru_status u)),
                  (''issued_at'', JInt (ru_issued_at u))]) of
                Inr response \<Rightarrow> finish_route_update env io' u (resp_status response) (resp_body response) d1
              | Inl e \<Rightarrow> if err_code e = ''NAVI_IDENTITY_CHANGED''
                   then finish_route_update env io' u 403 JNull d1 else (Inl e, d1)) of
                (Inl e, d2) \<Rightarrow> (Inl e, d2) | (Inr v, d2) \<Rightarrow> (Inr True, d2))))"

section \<open>Bounds of a route\<close>

definition route_ok :: "route \<Rightarrow> bool" where
  "route_ok r \<longleftrightarrow> owf (rt_updates r) \<and> length (rt_updates r) \<le> 64 \<and> rt_revision r \<le> max_revision
     \<and> owf (rt_seen r) \<and> length (rt_seen r) \<le> 64
     \<and> (\<forall>(g, u) \<in> set (rt_updates r). ru_revision u \<le> rt_revision r \<and> sel_generation (ru_selection u) = g)"

definition dir_ok :: "directory \<Rightarrow> bool" where
  "dir_ok dir \<longleftrightarrow> owf dir \<and> length dir \<le> 4096 \<and> (\<forall>(k, r) \<in> set dir. route_ok r)"

lemma owf_Nil [simp]: "owf []"
  by (simp add: owf_def)

lemma length_oput: "owf m \<Longrightarrow> length (oput k v m) = (if oget m k = None then Suc (length m) else length m)"
proof -
  assume wf: "owf m"
  have "set (map fst (oput k v m)) = insert k (set (map fst m))"
    by (induction k v m rule: oput.induct) auto
  moreover have "distinct (map fst (oput k v m))" "distinct (map fst m)"
    using omap.wf_put [OF wf] wf by (simp_all add: owf_def)
  ultimately have "length (oput k v m) = card (insert k (set (map fst m)))" "length m = card (set (map fst m))"
    by (metis distinct_card length_map)+
  moreover have "oget m k = None \<longleftrightarrow> k \<notin> set (map fst m)"
    by (simp add: oget_def map_of_eq_None_iff)
  ultimately show ?thesis by (simp add: card_insert_if)
qed

lemma set_oput: "set (oput k v m) \<subseteq> insert (k, v) (set m)"
  by (induction k v m rule: oput.induct) auto

lemma owf_filter: "owf m \<Longrightarrow> owf (filter P m)"
  by (auto simp: owf_def distinct_map_filter intro: sorted_filter)

lemma route_ok_default: "route_ok default_route"
  by (simp add: route_ok_def default_route_def max_revision_def)

lemma queue_ok:
  assumes "queue_route_update now status r = Inr r'" "route_ok r"
  shows "route_ok r'"
proof (cases "r' = r")
  case False
  with assms(1) obtain sel where sel: "rt_active r = Some sel"
    and le: "length (rt_updates r) < 64 \<or> oget (rt_updates r) (sel_generation sel) \<noteq> None"
      "rt_revision r + 1 \<le> max_revision"
    and r': "r' = r\<lparr>rt_revision := rt_revision r + 1,
               rt_updates := oput (sel_generation sel)
                 \<lparr>ru_selection = sel, ru_recipient = rt_recipient r, ru_route_key = rt_route_key r,
                  ru_revision = rt_revision r + 1, ru_status = status, ru_issued_at = now,
                  ru_next_poll = 0\<rparr> (rt_updates r)\<rparr>"
    by (auto simp: queue_route_update_def split: option.splits if_splits)
  have wf: "owf (rt_updates r)" using assms(2) by (simp add: route_ok_def)
  show ?thesis
    using assms(2) le omap.wf_put [OF wf] length_oput [OF wf] set_oput [of "sel_generation sel" _ "rt_updates r"]
    unfolding r' by (fastforce simp: route_ok_def)
qed (use assms in simp)

lemma queue_frame:
  assumes "queue_route_update now status r = Inr r'"
  shows "rt_active r' = rt_active r \<and> rt_pending r' = rt_pending r \<and> rt_seen r' = rt_seen r
    \<and> rt_recipient r' = rt_recipient r \<and> rt_route_key r' = rt_route_key r \<and> rt_revision r \<le> rt_revision r'
    \<and> rt_newest_proof_at r' = rt_newest_proof_at r"
  using assms by (auto simp: queue_route_update_def split: option.splits if_splits)

section \<open>The directory as a state machine\<close>

datatype fleet_op =
    Invalidate selection
  | NotificationTarget
  | Begin inbound_message
  | ClaimPending
  | FinishPending string pending nat json string
  | ClaimUpdate
  | FinishUpdate route_update nat json

definition dir_result :: "directory \<Rightarrow> gateway_error + ('r \<times> directory) \<Rightarrow> directory" where
  "dir_result dir res = (case res of Inl e \<Rightarrow> dir | Inr (r, dir') \<Rightarrow> dir')"

fun dir_step :: "fleet_env \<Rightarrow> int \<Rightarrow> fleet_op \<Rightarrow> directory \<Rightarrow> directory" where
  "dir_step env now (Invalidate s) dir = dir_result dir (invalidate_identity_dir s dir)"
| "dir_step env now NotificationTarget dir = dir_result dir (notification_target_dir now dir)"
| "dir_step env now (Begin m) dir = dir_result dir (rbind (begin_check env now m)
     (\<lambda>(hub, token, occurred). begin_dir env now m hub token occurred dir))"
| "dir_step env now ClaimPending dir = dir_result dir (claim_dir now dir)"
| "dir_step env now (FinishPending g p status proof identity) dir =
     dir_result dir (finish_dir env now g p status proof identity dir)"
| "dir_step env now ClaimUpdate dir = dir_result dir (claim_route_update_dir now dir)"
| "dir_step env now (FinishUpdate u status receipt) dir =
     dir_result dir (finish_route_update_dir env u status receipt dir)"

fun dir_run :: "fleet_env \<Rightarrow> (int \<times> fleet_op) list \<Rightarrow> directory \<Rightarrow> directory" where
  "dir_run env [] dir = dir"
| "dir_run env ((now, op) # ops) dir = dir_run env ops (dir_step env now op dir)"

lemma dir_run_invariant:
  assumes "\<And>now op dir. (now, op) \<in> set ops \<Longrightarrow> P dir \<Longrightarrow> P (dir_step env now op dir)" "P dir"
  shows "P (dir_run env ops dir)"
  using assms
proof (induction ops arbitrary: dir)
  case (Cons x ops)
  then show ?case by (cases x) simp
qed simp

lemma min_by_key_in: "min_by_key f xs = Some x \<Longrightarrow> x \<in> set xs"
  by (induction xs arbitrary: x) (auto split: option.splits if_splits)

lemma min_by_key_least: "min_by_key f xs = Some x \<Longrightarrow> y \<in> set xs \<Longrightarrow> f x \<le> f y"
proof (induction xs arbitrary: x)
  case (Cons z zs)
  show ?case
  proof (cases "min_by_key f zs")
    case None
    then have "zs = []" by (cases zs) (auto split: option.splits if_splits)
    with Cons.prems show ?thesis by simp
  next
    case (Some w)
    with Cons.prems Cons.IH [OF Some] show ?thesis by (fastforce split: if_splits)
  qed
qed simp

lemma route_member: "(k, r) \<in> set dir \<Longrightarrow> owf dir \<Longrightarrow> oget dir k = Some r"
  by (simp add: oget_def owf_def)

lemma dir_ok_route: "dir_ok dir \<Longrightarrow> oget dir k = Some r \<Longrightarrow> route_ok r"
  by (auto simp: dir_ok_def oget_def dest!: map_of_SomeD)

lemma dir_ok_oput:
  assumes "dir_ok dir" "route_ok r" "oget dir k \<noteq> None \<or> length dir < 4096"
  shows "dir_ok (oput k r dir)"
proof -
  have wf: "owf dir" using assms(1) by (simp add: dir_ok_def)
  show ?thesis
    using assms omap.wf_put [OF wf] length_oput [OF wf] set_oput [of k r dir] by (fastforce simp: dir_ok_def)
qed

lemma begin_route_ok:
  assumes "begin_route env now m hub token occurred r = Inr r'" "route_ok r"
  shows "route_ok r'"
proof -
  let ?seen = "filter (\<lambda>(i, expiry). expiry > now) (rt_seen r)"
  have wf: "owf ?seen" "length ?seen \<le> 64"
    using assms(2) owf_filter le_trans [OF length_filter_le] by (auto simp: route_ok_def)
  show ?thesis
  proof (cases "oget ?seen (fleet_hash env (JArr [JStr hub, JStr token]))")
    case (Some x)
    with assms wf show ?thesis by (auto simp: begin_route_def Let_def route_ok_def)
  next
    case None
    with assms(1) have q: "length ?seen < 64" "queue_route_update now ''paused''
        (r\<lparr>rt_recipient := in_user_id m, rt_route_key := in_route_key m,
          rt_seen := oput (fleet_hash env (JArr [JStr hub, JStr token])) (occurred + 360) ?seen,
          rt_newest_proof_at := occurred,
          rt_pending := Some \<lparr>pd_id = fleet_hash env (JArr [JStr hub, JStr token]), pd_hub_id = hub,
            pd_token = token, pd_recipient = in_user_id m,
            pd_route_key = in_route_key m, pd_occurred_at = in_timestamp m,
            pd_expires_at = min (occurred + 300) (now + 300), pd_next_poll = 0,
            pd_session_id = None, pd_hub_identity = None\<rparr>\<rparr>) = Inr r'"
      by (auto simp: begin_route_def Let_def split: if_splits)
    show ?thesis
      by (rule queue_ok [OF q(2)])
        (use assms(2) wf q(1) omap.wf_put [OF wf(1)] length_oput [OF wf(1)] in \<open>simp add: route_ok_def\<close>)
  qed
qed

lemma proof_route_ok:
  assumes "proof_route env now g hub status prv identity cur r = Inr r'" "route_ok r"
  shows "route_ok r'"
proof -
  have pend: "route_ok (r\<lparr>rt_pending := x\<rparr>)" for x using assms(2) by (simp add: route_ok_def)
  have act: "route_ok (q\<lparr>rt_active := x, rt_pending := y\<rparr>)" if "route_ok q" for q x y
    using that by (simp add: route_ok_def)
  have "route_ok r''" if "bound_route env now g hub prv s identity c r = Inr r''" for s c r''
    using that pend act by (auto simp: bound_route_def split: if_splits dest!: queue_ok)
  with assms(1) pend show ?thesis
    by (auto simp: proof_route_def Let_def split: if_splits dest: queue_ok)
qed

lemma expire_route_ok: "expire_route now r = Inr r' \<Longrightarrow> route_ok r \<Longrightarrow> route_ok r'"
  by (auto simp: expire_route_def split: option.splits if_splits elim!: queue_ok) (simp add: route_ok_def)

lemma expire_routes_ok: "expire_routes now dir = Inr dir' \<Longrightarrow> dir_ok dir \<Longrightarrow> dir_ok dir'"
proof -
  assume e: "expire_routes now dir = Inr dir'" and ok: "dir_ok dir"
  have "map fst dir' = map fst dir \<and> ((\<forall>(k, r) \<in> set dir. route_ok r) \<longrightarrow> (\<forall>(k, r) \<in> set dir'. route_ok r))"
    using e
  proof (induction now dir arbitrary: dir' rule: expire_routes.induct)
    case (2 now k r dir)
    then obtain r1 dir1 where "expire_route now r = Inr r1" "expire_routes now dir = Inr dir1" "dir' = (k, r1) # dir1"
      by auto
    with 2 expire_route_ok show ?case by auto
  qed simp
  moreover from this have "length dir' = length dir" by (metis length_map)
  ultimately show ?thesis using ok by (auto simp: dir_ok_def owf_def)
qed

lemma invalidate_ok: "route_ok r \<Longrightarrow> route_ok (invalidate_route s r)"
  using owf_filter [of "rt_updates r"] le_trans [OF length_filter_le]
  by (fastforce simp: route_ok_def invalidate_route_def)

text \<open>Every operation keeps the directory within its bounds.\<close>

lemma notification_dir_ok:
  assumes "dir_ok dir" "notification_target_dir now dir = Inr (x, dir')"
  shows "dir_ok dir'"
proof (cases "min_by_key (\<lambda>(k, r). rt_notification_next_poll r) (filter (\<lambda>(k, r). notifiable now r) dir)")
  case (Some kr)
  then obtain k r where kr: "kr = (k, r)" "(k, r) \<in> set dir" using min_by_key_in by fastforce
  then have g: "oget dir k = Some r" using assms(1) route_member by (auto simp: dir_ok_def)
  have "route_ok (r\<lparr>rt_notification_next_poll := now + 15\<rparr>)"
    using dir_ok_route [OF assms(1) g] by (simp add: route_ok_def)
  with Some kr g assms show ?thesis by (auto simp: notification_target_dir_def intro: dir_ok_oput)
qed (use assms in \<open>simp add: notification_target_dir_def\<close>)

lemma begin_dir_ok:
  assumes "dir_ok dir" "begin_dir env now m hub token occurred dir = Inr (x, dir')"
  shows "dir_ok dir'"
proof -
  let ?k = "fleet_key env (in_user_id m) (in_route_key m)"
  from assms(2) obtain r where r: "begin_route env now m hub token occurred
      (case oget dir ?k of Some r \<Rightarrow> r | None \<Rightarrow> default_route) = Inr r" "dir' = oput ?k r dir"
    "length dir < 4096 \<or> oget dir ?k \<noteq> None"
    by (auto simp: begin_dir_def Let_def split: if_splits)
  have "route_ok (case oget dir ?k of Some r \<Rightarrow> r | None \<Rightarrow> default_route)"
    using dir_ok_route [OF assms(1)] route_ok_default by (auto split: option.splits)
  with r assms(1) begin_route_ok show ?thesis by (auto intro!: dir_ok_oput)
qed

lemma claim_dir_ok:
  assumes "dir_ok dir" "claim_dir now dir = Inr (x, dir')"
  shows "dir_ok dir'"
proof -
  from assms(2) obtain dir1 where d1: "expire_routes now dir = Inr dir1" by (auto simp: claim_dir_def)
  have ok1: "dir_ok dir1" by (rule expire_routes_ok [OF d1 assms(1)])
  show ?thesis
  proof (cases "min_by_key (\<lambda>(k, r, p). pd_next_poll p) (List.map_filter (due_pending now) dir1)")
    case (Some krp)
    obtain k r p where krp: "krp = (k, r, p)" by (cases krp) auto
    from min_by_key_in [OF Some] krp have "(k, r) \<in> set dir1"
      by (auto simp: List.map_filter_def due_pending_def split: option.splits if_splits)
    then have g: "oget dir1 k = Some r" using ok1 route_member by (auto simp: dir_ok_def)
    have "route_ok (r\<lparr>rt_pending := y\<rparr>)" for y using dir_ok_route [OF ok1 g] by (simp add: route_ok_def)
    with assms(2) d1 Some krp g ok1 show ?thesis by (auto simp: claim_dir_def Let_def intro: dir_ok_oput)
  qed (use assms(2) d1 ok1 in \<open>simp add: claim_dir_def\<close>)
qed

text \<open>A finish is ignored unless the route still waits for this very proof.\<close>

lemma finish_dir_cases:
  assumes "finish_dir env now g p status prv identity dir = Inr (x, dir')"
  obtains (ignored) r where "oget dir (fleet_key env (pd_recipient p) (pd_route_key p)) = Some r" "dir' = dir"
      "\<forall>cur. rt_pending r = Some cur \<longrightarrow> pd_id cur \<noteq> pd_id p"
  | (applied) r cur r' where "oget dir (fleet_key env (pd_recipient p) (pd_route_key p)) = Some r"
      "rt_pending r = Some cur" "pd_id cur = pd_id p"
      "proof_route env now g (pd_hub_id p) status prv identity cur r = Inr r'"
      "dir' = oput (fleet_key env (pd_recipient p) (pd_route_key p)) r' dir"
proof -
  let ?k = "fleet_key env (pd_recipient p) (pd_route_key p)"
  from assms obtain r where r: "oget dir ?k = Some r" by (auto simp: finish_dir_def Let_def)
  show ?thesis
  proof (cases "\<exists>cur. rt_pending r = Some cur \<and> pd_id cur = pd_id p")
    case True
    then obtain cur where cur: "rt_pending r = Some cur" "pd_id cur = pd_id p" by blast
    with assms r obtain r' where "proof_route env now g (pd_hub_id p) status prv identity cur r = Inr r'"
      "dir' = oput ?k r' dir" by (auto simp: finish_dir_def Let_def ok_or_def)
    with r cur that(2) show ?thesis by blast
  next
    case False
    with assms r have "dir' = dir" by (auto simp: finish_dir_def Let_def ok_or_def split: option.splits)
    with r False that(1) show ?thesis by blast
  qed
qed

lemma finish_dir_ok:
  assumes "dir_ok dir" "finish_dir env now g p status prv identity dir = Inr (x, dir')"
  shows "dir_ok dir'"
  using assms(2)
proof (cases rule: finish_dir_cases)
  case (applied r cur r')
  with assms(1) proof_route_ok dir_ok_route show ?thesis by (auto intro!: dir_ok_oput)
qed (use assms(1) in simp)

lemma route_ok_put:
  assumes "route_ok r" "ru_revision u \<le> rt_revision r" "sel_generation (ru_selection u) = g"
    and "oget (rt_updates r) g \<noteq> None"
  shows "route_ok (r\<lparr>rt_updates := oput g u (rt_updates r)\<rparr>)"
proof -
  have wf: "owf (rt_updates r)" using assms(1) by (simp add: route_ok_def)
  have "\<forall>(h, v) \<in> set (oput g u (rt_updates r)). ru_revision v \<le> rt_revision r \<and> sel_generation (ru_selection v) = h"
  proof
    fix x assume "x \<in> set (oput g u (rt_updates r))"
    then have "x = (g, u) \<or> x \<in> set (rt_updates r)" using set_oput by fast
    then show "case x of (h, v) \<Rightarrow> ru_revision v \<le> rt_revision r \<and> sel_generation (ru_selection v) = h"
      using assms(1-3) by (auto simp: route_ok_def)
  qed
  with assms(1,4) omap.wf_put [OF wf] length_oput [OF wf] show ?thesis by (auto simp: route_ok_def)
qed

lemma claim_update_dir_ok:
  assumes "dir_ok dir" "claim_route_update_dir now dir = Inr (x, dir')"
  shows "dir_ok dir'"
proof (cases "min_by_key (\<lambda>(k, r, g, u). ru_next_poll u) (concat (map (due_updates now) dir))")
  case (Some krgu)
  obtain k r g u where krgu: "krgu = (k, r, g, u)" by (cases krgu) auto
  from min_by_key_in [OF Some] krgu have m: "(k, r) \<in> set dir" "(g, u) \<in> set (rt_updates r)"
    by (auto simp: due_updates_def)
  then have o: "oget dir k = Some r" using assms(1) route_member by (auto simp: dir_ok_def)
  then have ok: "route_ok r" by (rule dir_ok_route [OF assms(1)])
  then have wf: "owf (rt_updates r)" by (simp add: route_ok_def)
  have "route_ok (r\<lparr>rt_updates := oput g (u\<lparr>ru_next_poll := now + 10\<rparr>) (rt_updates r)\<rparr>)"
    by (rule route_ok_put [OF ok]) (use ok m(2) route_member [OF m(2) wf] in \<open>auto simp: route_ok_def\<close>)
  with assms Some krgu o show ?thesis by (auto simp: claim_route_update_dir_def Let_def intro: dir_ok_oput)
qed (use assms in \<open>simp add: claim_route_update_dir_def\<close>)

lemma finish_update_cases:
  assumes "finish_route_update_dir env u status receipt dir = Inr (x, dir')"
  obtains (ignored) "dir' = dir"
  | (removed) r cur where "oget dir (fleet_key env (ru_recipient u) (ru_route_key u)) = Some r"
      "oget (rt_updates r) (sel_generation (ru_selection u)) = Some cur" "ru_revision cur = ru_revision u"
      "status = 200 \<and> receipt_matches u receipt \<or> status = 403 \<or> status = 410"
      "dir' = oput (fleet_key env (ru_recipient u) (ru_route_key u))
         (r\<lparr>rt_updates := odel (sel_generation (ru_selection u)) (rt_updates r)\<rparr>) dir"
proof (cases "oget dir (fleet_key env (ru_recipient u) (ru_route_key u))")
  case None
  with assms that(1) show ?thesis by (simp add: finish_route_update_dir_def Let_def)
next
  case r: (Some r)
  show ?thesis
  proof (cases "oget (rt_updates r) (sel_generation (ru_selection u))")
    case None
    with r assms that(1) show ?thesis by (simp add: finish_route_update_dir_def Let_def)
  next
    case (Some cur)
    with r assms that(1) that(2) [OF r Some] show ?thesis
      by (auto simp: finish_route_update_dir_def Let_def split: if_splits)
  qed
qed

lemma finish_update_dir_ok:
  assumes "dir_ok dir" "finish_route_update_dir env u status receipt dir = Inr (x, dir')"
  shows "dir_ok dir'"
  using assms(2)
proof (cases rule: finish_update_cases)
  case (removed r cur)
  have "route_ok r" by (rule dir_ok_route [OF assms(1) removed(1)])
  then have "route_ok (r\<lparr>rt_updates := odel g (rt_updates r)\<rparr>)" for g
    using owf_filter le_trans [OF length_filter_le] by (fastforce simp: route_ok_def odel_def)
  with removed assms(1) show ?thesis by (auto intro!: dir_ok_oput)
qed (use assms(1) in simp)

lemma invalidate_dir_ok: "dir_ok dir \<Longrightarrow> dir_ok (map (\<lambda>(k, r). (k, invalidate_route s r)) dir)"
  using invalidate_ok by (auto simp: dir_ok_def owf_def comp_def case_prod_beta)

lemma dir_result_ok: "dir_ok dir \<Longrightarrow> (\<And>r dir'. res = Inr (r, dir') \<Longrightarrow> dir_ok dir') \<Longrightarrow> dir_ok (dir_result dir res)"
  by (auto simp: dir_result_def split: sum.splits)

lemma dir_step_ok:
  assumes "dir_ok dir" shows "dir_ok (dir_step env now op dir)"
proof (cases op)
  case (Invalidate s)
  then show ?thesis using invalidate_dir_ok [OF assms] by (simp add: invalidate_identity_dir_def dir_result_def)
next
  case (Begin m)
  then show ?thesis using begin_dir_ok [OF assms] by (auto intro!: dir_result_ok [OF assms])
qed (simp_all, (rule dir_result_ok [OF assms], erule notification_dir_ok [OF assms] claim_dir_ok [OF assms]
    finish_dir_ok [OF assms] claim_update_dir_ok [OF assms] finish_update_dir_ok [OF assms])+)

section \<open>What one operation does to one route\<close>

definition route_at :: "directory \<Rightarrow> string \<Rightarrow> route" where
  "route_at dir k = (case oget dir k of Some r \<Rightarrow> r | None \<Rightarrow> default_route)"

inductive route_step :: "fleet_env \<Rightarrow> int \<Rightarrow> fleet_op \<Rightarrow> string \<Rightarrow> route \<Rightarrow> route \<Rightarrow> bool" for env now where
  unchanged: "route_step env now op k r r"
| invalidated: "route_step env now (Invalidate s) k r (invalidate_route s r)"
| notified: "route_step env now NotificationTarget k r (r\<lparr>rt_notification_next_poll := now + 15\<rparr>)"
| begun: "begin_check env now m = Inr (hub, token, occurred) \<Longrightarrow> k = fleet_key env (in_user_id m) (in_route_key m) \<Longrightarrow>
     begin_route env now m hub token occurred r = Inr r' \<Longrightarrow> route_step env now (Begin m) k r r'"
| polled: "expire_route now r = Inr r1 \<Longrightarrow>
     r' = r1 \<or> (\<exists>p. rt_pending r1 = Some p \<and> r' = r1\<lparr>rt_pending := Some (p\<lparr>pd_next_poll := now + 10\<rparr>)\<rparr>) \<Longrightarrow>
     route_step env now ClaimPending k r r'"
| proved: "k = fleet_key env (pd_recipient p) (pd_route_key p) \<Longrightarrow> rt_pending r = Some cur \<Longrightarrow> pd_id cur = pd_id p \<Longrightarrow>
     proof_route env now g (pd_hub_id p) status prv identity cur r = Inr r' \<Longrightarrow>
     route_step env now (FinishPending g p status prv identity) k r r'"
| update_claimed: "route_step env now ClaimUpdate k r (r\<lparr>rt_updates := us\<rparr>)"
| update_finished: "route_step env now (FinishUpdate u status receipt) k r (r\<lparr>rt_updates := odel g (rt_updates r)\<rparr>)"

lemma route_at_oput: "route_at (oput k' r dir) k = (if k = k' then r else route_at dir k)"
  by (simp add: route_at_def)

lemma route_at_Some: "oget dir k = Some r \<Longrightarrow> route_at dir k = r"
  by (simp add: route_at_def)

lemma invalidate_default: "invalidate_route s default_route = default_route"
  by (simp add: invalidate_route_def default_route_def)

lemma oget_invalidate: "oget (map (\<lambda>(k, r). (k, f r)) dir) k = map_option f (oget dir k)"
  by (induction dir) (auto simp: oget_def)

lemma oget_expire:
  "expire_routes now dir = Inr dir' \<Longrightarrow>
   (oget dir k = None \<and> oget dir' k = None) \<or>
   (\<exists>r r'. oget dir k = Some r \<and> oget dir' k = Some r' \<and> expire_route now r = Inr r')"
proof (induction now dir arbitrary: dir' rule: expire_routes.induct)
  case (2 now k' r dir)
  then obtain r1 dir1 where "expire_route now r = Inr r1" "expire_routes now dir = Inr dir1" "dir' = (k', r1) # dir1"
    by auto
  with 2 show ?case by (auto simp: oget_def)
qed (simp add: oget_def)

lemma claim_route_step:
  assumes "claim_dir now dir = Inr (x, dir')" "dir_ok dir"
  shows "route_step env now ClaimPending k (route_at dir k) (route_at dir' k)"
proof -
  from assms(1) obtain dir1 where d1: "expire_routes now dir = Inr dir1" by (auto simp: claim_dir_def)
  have ok1: "dir_ok dir1" by (rule expire_routes_ok [OF d1 assms(2)])
  have e: "expire_route now (route_at dir k) = Inr (route_at dir1 k)" for k
    using oget_expire [OF d1, of k] by (auto simp: route_at_Some) (simp add: route_at_def expire_route_def default_route_def)
  show ?thesis
  proof (cases "min_by_key (\<lambda>(k, r, p). pd_next_poll p) (List.map_filter (due_pending now) dir1)")
    case None
    with assms(1) d1 have "dir' = dir1" by (simp add: claim_dir_def)
    with e show ?thesis by (auto intro: polled)
  next
    case (Some krp)
    obtain k' r p where krp: "krp = (k', r, p)" by (cases krp) auto
    from min_by_key_in [OF Some] krp have m: "(k', r) \<in> set dir1" "rt_pending r = Some p"
      by (auto simp: List.map_filter_def due_pending_def split: option.splits if_splits)
    then have "route_at dir1 k' = r" using ok1 by (auto simp: dir_ok_def intro: route_at_Some route_member)
    moreover from assms(1) d1 Some krp have "dir' = oput k' (r\<lparr>rt_pending := Some (p\<lparr>pd_next_poll := now + 10\<rparr>)\<rparr>) dir1"
      by (auto simp: claim_dir_def Let_def)
    ultimately show ?thesis using m e [of k] by (auto simp: route_at_oput intro!: polled)
  qed
qed

lemma notification_route_step:
  assumes "notification_target_dir now dir = Inr (x, dir')" "dir_ok dir"
  shows "route_step env now NotificationTarget k (route_at dir k) (route_at dir' k)"
proof (cases "min_by_key (\<lambda>(k, r). rt_notification_next_poll r) (filter (\<lambda>(k, r). notifiable now r) dir)")
  case None
  with assms(1) show ?thesis by (simp add: notification_target_dir_def unchanged)
next
  case (Some kr)
  then obtain k' r where kr: "kr = (k', r)" "(k', r) \<in> set dir" using min_by_key_in by fastforce
  then have "route_at dir k' = r" using assms(2) by (auto simp: dir_ok_def intro: route_at_Some route_member)
  moreover from Some kr assms(1) have "dir' = oput k' (r\<lparr>rt_notification_next_poll := now + 15\<rparr>) dir"
    by (auto simp: notification_target_dir_def)
  ultimately show ?thesis by (auto simp: route_at_oput intro: unchanged notified)
qed

lemma begin_route_step:
  assumes "rbind (begin_check env now m) (\<lambda>(hub, token, occurred). begin_dir env now m hub token occurred dir)
     = Inr (x, dir')"
  shows "route_step env now (Begin m) k (route_at dir k) (route_at dir' k)"
proof -
  let ?k = "fleet_key env (in_user_id m) (in_route_key m)"
  from assms obtain hub token occurred r' where b: "begin_check env now m = Inr (hub, token, occurred)"
    "begin_route env now m hub token occurred (route_at dir ?k) = Inr r'" "dir' = oput ?k r' dir"
    by (auto simp: begin_dir_def Let_def route_at_def split: if_splits)
  then show ?thesis by (auto simp: route_at_oput intro: unchanged begun)
qed

lemma finish_route_step:
  assumes "finish_dir env now g p status prv identity dir = Inr (x, dir')"
  shows "route_step env now (FinishPending g p status prv identity) k (route_at dir k) (route_at dir' k)"
  by (rule finish_dir_cases [OF assms])
    (auto simp: route_at_oput route_at_Some intro: unchanged proved)

lemma claim_update_route_step:
  assumes "claim_route_update_dir now dir = Inr (x, dir')" "dir_ok dir"
  shows "route_step env now ClaimUpdate k (route_at dir k) (route_at dir' k)"
proof (cases "min_by_key (\<lambda>(k, r, g, u). ru_next_poll u) (concat (map (due_updates now) dir))")
  case None
  with assms(1) show ?thesis by (simp add: claim_route_update_dir_def unchanged)
next
  case (Some krgu)
  obtain k' r g u where krgu: "krgu = (k', r, g, u)" by (cases krgu) auto
  from min_by_key_in [OF Some] krgu have "(k', r) \<in> set dir" by (auto simp: due_updates_def)
  then have "route_at dir k' = r" using assms(2) by (auto simp: dir_ok_def intro: route_at_Some route_member)
  moreover from Some krgu assms(1) have
    "dir' = oput k' (r\<lparr>rt_updates := oput g (u\<lparr>ru_next_poll := now + 10\<rparr>) (rt_updates r)\<rparr>) dir"
    by (auto simp: claim_route_update_dir_def Let_def)
  ultimately show ?thesis by (auto simp: route_at_oput intro: unchanged update_claimed)
qed

lemma finish_update_route_step:
  assumes "finish_route_update_dir env u status receipt dir = Inr (x, dir')"
  shows "route_step env now (FinishUpdate u status receipt) k (route_at dir k) (route_at dir' k)"
  by (rule finish_update_cases [OF assms])
    (auto simp: route_at_oput route_at_Some intro: unchanged update_finished)

lemma dir_result_route:
  assumes "\<And>x dir'. res = Inr (x, dir') \<Longrightarrow> route_step env now op k (route_at dir k) (route_at dir' k)"
  shows "route_step env now op k (route_at dir k) (route_at (dir_result dir res) k)"
  using assms by (auto simp: dir_result_def intro: unchanged split: sum.splits)

lemma dir_step_route:
  assumes "dir_ok dir"
  shows "route_step env now op k (route_at dir k) (route_at (dir_step env now op dir) k)"
proof (cases op)
  case (Invalidate s)
  have "route_at (map (\<lambda>(k, r). (k, invalidate_route s r)) dir) k = invalidate_route s (route_at dir k)"
    by (simp add: route_at_def oget_invalidate invalidate_default split: option.split)
  with Invalidate show ?thesis
    by (simp add: invalidate_identity_dir_def dir_result_def route_step.invalidated)
qed (simp_all only: dir_step.simps,
    (rule dir_result_route, erule notification_route_step [OF _ assms] begin_route_step claim_route_step [OF _ assms]
      finish_route_step claim_update_route_step [OF _ assms] finish_update_route_step)+)

section \<open>Who is selected\<close>

text \<open>
  \<open>bound_by\<close>: the device answered the pending proof with status 200, its owner confirmed, and the
  answer names the binding, the identity and the times that the selection records.
\<close>

definition bound_by ::
  "fleet_env \<Rightarrow> int \<Rightarrow> string \<Rightarrow> string \<Rightarrow> json \<Rightarrow> string \<Rightarrow> pending \<Rightarrow> selection \<Rightarrow> bool" where
  "bound_by env now g hub prv identity cur sel \<longleftrightarrow>
     pd_expires_at cur > now \<and> valid_identity identity
   \<and> (pd_hub_identity cur = None \<or> pd_hub_identity cur = Some identity)
   \<and> jindex prv ''status'' = JStr ''bound''
   \<and> (\<exists>session. jindex prv ''session_id'' = JStr session \<and> jindex prv ''binding_id'' = JStr session
        \<and> valid_proof_id session
        \<and> (pd_session_id cur = None \<or> pd_session_id cur = Some session)
        \<and> sel = \<lparr>sel_hub_id = hub, sel_hub_identity = identity, sel_binding_id = session,
                sel_generation = g, sel_selected_at = now\<rparr>)
   \<and> (\<exists>occurred at. timestamp_of env (pd_occurred_at cur) = Some occurred
        \<and> as_i64 (jindex prv ''confirmed_at'') = Some at \<and> occurred \<le> at \<and> at \<le> now + 60)"

lemma bound_route_active:
  assumes "bound_route env now g hub prv session identity cur r = Inr r'"
  shows "rt_active r' = Some \<lparr>sel_hub_id = hub, sel_hub_identity = identity, sel_binding_id = session,
      sel_generation = g, sel_selected_at = now\<rparr>"
    "rt_pending r' = None" "rt_seen r' = rt_seen r" "jindex prv ''binding_id'' = JStr session"
    "\<exists>occurred at. timestamp_of env (pd_occurred_at cur) = Some occurred
        \<and> as_i64 (jindex prv ''confirmed_at'') = Some at \<and> occurred \<le> at \<and> at \<le> now + 60"
  using assms
  by (auto simp: bound_route_def dest!: queue_frame split: if_splits option.splits)

lemma proof_route_active:
  assumes "proof_route env now g hub status prv identity cur r = Inr r'"
    and "rt_active r' = Some sel" "rt_active r \<noteq> Some sel"
  shows "status = 200 \<and> bound_by env now g hub prv identity cur sel"
proof -
  have "\<nexists>r0. queue_route_update now ''active'' (r\<lparr>rt_pending := x\<rparr>) = Inr r'" for x
    using assms(2,3) queue_frame by fastforce
  then have st: "pd_expires_at cur > now" "status = 200" "valid_identity identity"
    "pd_hub_identity cur = None \<or> pd_hub_identity cur = Some identity"
    using assms by (auto simp: proof_route_def split: if_splits option.splits dest!: queue_frame)
  from assms st obtain session e where s: "as_str (jindex prv ''session_id'') = Some session" "valid_proof_id session"
    "pd_session_id cur = None \<or> pd_session_id cur = Some session"
    and b: "as_str (jindex prv ''status'') = Some ''bound''"
      "bound_route env now g hub prv session identity
        (cur\<lparr>pd_hub_identity := Some identity, pd_session_id := Some session,
             pd_expires_at := min (pd_expires_at cur) e\<rparr>) r = Inr r'"
    by (auto simp: proof_route_def Let_def split: if_splits option.splits)
  from bound_route_active [OF b(2)] s b(1) st assms(2) show ?thesis
    by (auto simp: bound_by_def)
qed

lemma begin_route_keeps:
  assumes "begin_route env now m hub token occurred r = Inr r'"
  shows "rt_active r' = rt_active r"
  using assms by (auto simp: begin_route_def Let_def dest!: queue_frame split: if_splits)

lemma expire_route_keeps:
  assumes "expire_route now r = Inr r'"
  shows "rt_active r' = rt_active r" "rt_seen r' = rt_seen r" "rt_pending r' \<in> {None, rt_pending r}"
  using assms by (auto simp: expire_route_def dest!: queue_frame split: option.splits if_splits)

lemma route_step_active:
  assumes "route_step env now op k r r'" "rt_active r' = Some sel" "rt_active r \<noteq> Some sel"
  shows "\<exists>g p prv identity cur. op = FinishPending g p 200 prv identity
    \<and> k = fleet_key env (pd_recipient p) (pd_route_key p) \<and> rt_pending r = Some cur \<and> pd_id cur = pd_id p
    \<and> bound_by env now g (pd_hub_id p) prv identity cur sel"
  using assms(1)
proof (cases rule: route_step.cases)
  case (proved p cur g status prv identity)
  with proof_route_active [OF proved(5) assms(2,3)] show ?thesis by blast
next
  case (begun m hub token occurred)
  with assms begin_route_keeps [OF begun(4)] show ?thesis by simp
next
  case (polled r1)
  with assms expire_route_keeps(1) [OF polled(2)] show ?thesis by auto
qed (use assms in \<open>auto simp: invalidate_route_def split: option.splits if_splits\<close>)

section \<open>A token opens one proof\<close>

lemma proof_route_seen:
  assumes "proof_route env now g hub status prv identity cur r = Inr r'"
  shows "rt_seen r' = rt_seen r"
  using assms
  by (auto simp: proof_route_def Let_def dest: queue_frame bound_route_active(3) split: if_splits)

lemma oget_filter: "oget m i = Some e \<Longrightarrow> P (i, e) \<Longrightarrow> oget (filter P m) i = Some e"
  by (induction m) (auto simp: oget_def split: if_splits)

lemma begin_route_seen:
  assumes "begin_route env now m hub token occurred r = Inr r'" "oget (rt_seen r) i = Some e" "now < e"
  shows "oget (rt_seen r') i = Some e"
proof -
  have "oget (filter (\<lambda>(i, expiry). expiry > now) (rt_seen r)) i = Some e"
    by (rule oget_filter) (use assms(2,3) in simp_all)
  with assms(1) show ?thesis
    by (auto simp: begin_route_def Let_def dest!: queue_frame split: if_splits)
qed

lemma route_step_seen:
  assumes "route_step env now op k r r'" "oget (rt_seen r) i = Some e" "now < e"
  shows "oget (rt_seen r') i = Some e"
  using assms(1)
proof (cases rule: route_step.cases)
  case (proved p cur g status prv identity)
  with assms(2) proof_route_seen [OF proved(5)] show ?thesis by simp
next
  case (begun m hub token occurred)
  show ?thesis by (rule begin_route_seen [OF begun(4) assms(2,3)])
next
  case (polled r1)
  with assms(2) expire_route_keeps(2) [OF polled(2)] show ?thesis by auto
qed (use assms in \<open>auto simp: invalidate_route_def\<close>)

lemma begin_route_opens:
  assumes "begin_route env now m hub token occurred r = Inr r'"
    and "oget (rt_seen r) (fleet_hash env (JArr [JStr hub, JStr token])) = None"
  shows "oget (rt_seen r') (fleet_hash env (JArr [JStr hub, JStr token])) = Some (occurred + 360)"
proof -
  have "oget (filter P (rt_seen r)) (fleet_hash env (JArr [JStr hub, JStr token])) = None" for P
    using assms(2) by (auto simp: oget_def map_of_eq_None_iff)
  with assms(1) show ?thesis
    by (auto simp: begin_route_def Let_def dest!: queue_frame split: if_splits)
qed

lemma begin_route_replay:
  assumes "begin_route env now m hub token occurred r = Inr r'" "now < e"
    and "oget (rt_seen r) (fleet_hash env (JArr [JStr hub, JStr token])) = Some e"
  shows "rt_pending r' = rt_pending r \<and> rt_active r' = rt_active r"
proof -
  have "oget (filter (\<lambda>(i, expiry). expiry > now) (rt_seen r)) (fleet_hash env (JArr [JStr hub, JStr token])) = Some e"
    by (rule oget_filter) (use assms in simp_all)
  with assms(1) show ?thesis by (auto simp: begin_route_def Let_def)
qed

lemma seen_run:
  assumes "dir_ok dir" "oget (rt_seen (route_at dir k)) i = Some e" "\<forall>x \<in> set ops. fst x < e"
  shows "dir_ok (dir_run env ops dir) \<and> oget (rt_seen (route_at (dir_run env ops dir) k)) i = Some e"
proof (rule dir_run_invariant [where P = "\<lambda>d. dir_ok d \<and> oget (rt_seen (route_at d k)) i = Some e"])
  fix now op d assume op: "(now, op) \<in> set ops" and d: "dir_ok d \<and> oget (rt_seen (route_at d k)) i = Some e"
  have "oget (rt_seen (route_at (dir_step env now op d) k)) i = Some e"
    by (rule route_step_seen [OF dir_step_route]) (use d op assms(3) in auto)
  with d show "dir_ok (dir_step env now op d) \<and> oget (rt_seen (route_at (dir_step env now op d) k)) i = Some e"
    by (simp add: dir_step_ok)
qed (use assms in simp)

section \<open>The directory on disk\<close>

definition fleet_view :: "fleet_env \<Rightarrow> disk \<Rightarrow> directory option" where
  "fleet_view env d = (case d routes_json of None \<Rightarrow> Some [] | Some bytes \<Rightarrow> decode_dir env bytes)"

definition fleet_storable :: "fleet_env \<Rightarrow> directory \<Rightarrow> bool" where
  "fleet_storable env dir \<longleftrightarrow> decode_dir env (encode_dir env dir) = Some dir"

interpretation fleet: durable_state "fleet_view env" "fleet_load env io" "fleet_save env io" "fleet_storable env"
  for env io
  by unfold_locales
    (auto simp: fleet_load_def fleet_save_def fleet_view_def fleet_storable_def ok_or_def split: option.splits if_splits)

lemma routes_lock_view [simp]: "fleet_view env (d(routes_lock \<mapsto> x)) = fleet_view env d"
  by (simp add: fleet_view_def routes_json_def routes_lock_def)

lemma transaction_err: "transaction env io f d = (Inl e, d') \<Longrightarrow> fleet_view env d' = fleet_view env d"
  by (auto simp: transaction_def Let_def dest!: fleet.transact_err_view split: if_splits)

lemma transaction_ok:
  assumes "transaction env io f d = (Inr r, d')"
    and "\<And>dir r dir'. fleet_view env d = Some dir \<Longrightarrow> f dir = Inr (r, dir') \<Longrightarrow> fleet_storable env dir'"
  shows "\<exists>dir dir'. fleet_view env d = Some dir \<and> f dir = Inr (r, dir') \<and> fleet_view env d' = Some dir'"
proof -
  let ?d1 = "d(routes_lock \<mapsto> (case d routes_lock of Some b \<Rightarrow> b | None \<Rightarrow> []))"
  let ?act = "\<lambda>dir. rbind (f dir) (\<lambda>(r, dir'). Inr (r, Some dir'))"
  have t: "transact (fleet_load env io) (fleet_save env io) ?act ?d1 = (Inr r, d')"
    using assms(1) by (auto simp: transaction_def Let_def split: if_splits)
  have "\<exists>s w. fleet_view env ?d1 = Some s \<and> ?act s = Inr (r, w)
     \<and> fleet_view env d' = Some (case w of None \<Rightarrow> s | Some s' \<Rightarrow> s')"
    by (rule fleet.transact_ok_view [OF t]) (use assms(2) in auto)
  then show ?thesis by auto
qed

definition fleet_outcome :: "(gateway_error + 'r) \<times> disk \<Rightarrow> bool \<times> disk" where
  "fleet_outcome res = (isOk (fst res), snd res)"

fun fleet_disk_step :: "fleet_env \<Rightarrow> fleet_io \<Rightarrow> int \<Rightarrow> fleet_op \<Rightarrow> disk \<Rightarrow> bool \<times> disk" where
  "fleet_disk_step env io now (Invalidate s) d = fleet_outcome (invalidate_identity env io s d)"
| "fleet_disk_step env io now NotificationTarget d = fleet_outcome (notification_target env io now d)"
| "fleet_disk_step env io now (Begin m) d = fleet_outcome (begin_route_proof env io now m d)"
| "fleet_disk_step env io now ClaimPending d = fleet_outcome (claim_pending env io now d)"
| "fleet_disk_step env io now (FinishPending g p status prv identity) d =
     fleet_outcome (finish_pending env io now g p status prv identity d)"
| "fleet_disk_step env io now ClaimUpdate d = fleet_outcome (claim_route_update env io now d)"
| "fleet_disk_step env io now (FinishUpdate u status receipt) d =
     fleet_outcome (finish_route_update env io u status receipt d)"

lemma transaction_outcome:
  assumes "fleet_view env d = Some dir" "fleet_storable env (dir_result dir (f dir))"
  shows "fleet_view env (snd (fleet_outcome (transaction env io f d)))
     = Some (if fst (fleet_outcome (transaction env io f d)) then dir_result dir (f dir) else dir)"
proof (cases "transaction env io f d")
  case (Pair res d')
  show ?thesis
  proof (cases res)
    case (Inl e)
    with Pair transaction_err assms(1) show ?thesis by (fastforce simp: fleet_outcome_def)
  next
    case (Inr r)
    have "\<exists>dir dir'. fleet_view env d = Some dir \<and> f dir = Inr (r, dir') \<and> fleet_view env d' = Some dir'"
      by (rule transaction_ok [OF Pair [unfolded Inr]]) (use assms in \<open>auto simp: dir_result_def\<close>)
    with Pair Inr assms(1) show ?thesis by (auto simp: fleet_outcome_def dir_result_def)
  qed
qed

lemma fleet_disk_step_view:
  assumes "fleet_view env d = Some dir" "fleet_storable env (dir_step env now op dir)"
  shows "fleet_view env (snd (fleet_disk_step env io now op d))
     = Some (if fst (fleet_disk_step env io now op d) then dir_step env now op dir else dir)"
proof (cases op)
  case (Begin m)
  show ?thesis
  proof (cases "begin_check env now m")
    case (Inl e)
    with Begin assms(1) show ?thesis by (simp add: begin_route_proof_def fleet_outcome_def)
  next
    case (Inr x)
    obtain hub token occurred where x: "x = (hub, token, occurred)" by (cases x) auto
    from transaction_outcome [OF assms(1), of "begin_dir env now m hub token occurred" io] assms(2) Begin Inr x
    show ?thesis by (simp add: begin_route_proof_def)
  qed
qed (use assms(2) in \<open>simp_all only: fleet_disk_step.simps dir_step.simps invalidate_identity_def
    notification_target_def claim_pending_def finish_pending_def claim_route_update_def finish_route_update_def
    transaction_outcome [OF assms(1)]\<close>)

section \<open>Invalidated devices\<close>

text \<open>
  \<open>rebinds s op\<close>: the operation finishes a proof by the device of selection \<open>s\<close> under the same
  identity.
\<close>

fun rebinds :: "selection \<Rightarrow> fleet_op \<Rightarrow> bool" where
  "rebinds s (FinishPending g p status prv identity) \<longleftrightarrow> pd_hub_id p = sel_hub_id s \<and> identity = sel_hub_identity s"
| "rebinds s _ \<longleftrightarrow> False"

definition silent :: "selection \<Rightarrow> directory \<Rightarrow> bool" where
  "silent s dir \<longleftrightarrow> (\<forall>k sel. rt_active (route_at dir k) = Some sel \<longrightarrow> \<not> same_device s sel)"

lemma silent_step:
  assumes "dir_ok dir" "silent s dir" "\<not> rebinds s op"
  shows "silent s (dir_step env now op dir)"
  unfolding silent_def
proof (intro allI impI)
  fix k sel assume a: "rt_active (route_at (dir_step env now op dir) k) = Some sel"
  show "\<not> same_device s sel"
  proof (cases "rt_active (route_at dir k) = Some sel")
    case True
    with assms(2) show ?thesis by (auto simp: silent_def)
  next
    case False
    from route_step_active [OF dir_step_route [OF assms(1)] a this] assms(3) show ?thesis
      by (auto simp: bound_by_def same_device_def)
  qed
qed

lemma silent_invalidated: "silent s (dir_step env now (Invalidate s) dir)"
proof -
  have "route_at (map (\<lambda>(k, r). (k, invalidate_route s r)) dir) k = invalidate_route s (route_at dir k)" for k
    by (simp add: route_at_def oget_invalidate invalidate_default split: option.split)
  then show ?thesis
    by (auto simp: silent_def invalidate_identity_dir_def dir_result_def invalidate_route_def split: option.splits if_splits)
qed

lemma silent_run:
  assumes "dir_ok dir" "silent s dir" "\<forall>x \<in> set ops. \<not> rebinds s (snd x)"
  shows "dir_ok (dir_run env ops dir) \<and> silent s (dir_run env ops dir)"
  by (rule dir_run_invariant [where P = "\<lambda>d. dir_ok d \<and> silent s d"])
    (use assms silent_step dir_step_ok in \<open>fastforce+\<close>)

end
