(* ===== verification/Fleet_Properties.thy ===== *)
theory Fleet_Properties
  imports Navi_Fleet Model_Env
begin

text \<open>
  The properties of the relay client and of the route directory, each with a witness in a concrete
  environment.
\<close>

section \<open>A concrete environment\<close>

definition model_relay :: relay_env where
  "model_relay = \<lparr>url_parse = (\<lambda>s. None), url_join = (\<lambda>u s. Some u), from_slice = read_json,
     to_vec = print_json, relay_rfc3339 = scan_int\<rparr>"

definition model_fleet :: fleet_env where
  "model_fleet = \<lparr>fleet_rfc3339 = scan_int, fleet_hash = print_json,
     decode_dir = (\<lambda>b. if b = ''[]'' then Some [] else None), encode_dir = (\<lambda>dir. if dir = [] then ''[]'' else ''?'')\<rparr>"

definition hex_id :: "char \<Rightarrow> nat \<Rightarrow> string" where
  "hex_id c n = replicate n c"

lemma hex_id_ok: "valid_identity (hex_id CHR ''a'' 64)" "valid_proof_id (hex_id CHR ''b'' 32)"
  by (simp_all add: valid_identity_def valid_proof_id_def hex_id_def is_ascii_hexdigit_def list_all_iff
      is_ascii_digit_def less_eq_char_def)

definition demo_payload :: "nat \<Rightarrow> json" where
  "demo_payload status = jobj ([(''requestId'', JStr ''gate_1''), (''hubIdentity'', JStr (hex_id CHR ''a'' 64)),
     (''deadlineUnixMs'', JInt 9000), (''status'', JStr (if status = 202 then ''pending'' else ''complete''))]
     @ (if status = 202 then [] else [(''result'', jobj [(''status'', JStr ''complete''), (''httpStatus'', JInt 201),
         (''body'', JNull)])]))"

definition demo_attempt :: "nat \<Rightarrow> nat \<Rightarrow> attempt" where
  "demo_attempt t status = \<lparr>at_start = int t, at_end = int t, at_wall = 100,
     at_response = (if status = 503 then Inr (503, []) else Inr (status, print_json (demo_payload status)))\<rparr>"

lemma demo_payload_parses [simp]: "read_json (print_json (demo_payload status)) = Some (demo_payload status)"
proof -
  have "jwf (\<lambda>_. True) (demo_payload status)"
    unfolding demo_payload_def
    by (rule jwf_jobj) (auto simp: i64_min_def u64_max_def simp del: jwf.simps(7) intro!: jwf_jobj)
  moreover have "jdepth (demo_payload status) \<le> 127"
    unfolding demo_payload_def jobj_def
    by (rule jdepth_oputs) (auto intro: le_imp_less_Suc jdepth_oputs [of _ 1] simp: less_Suc_eq_le)
  ultimately show ?thesis using model_serde_ok by (simp add: serde_ok_def)
qed

section \<open>The relay client\<close>

text \<open>C19: what an exchange with a device can return. When an exchange succeeds, its result was brought
  by an attempt completed before the exchange's deadline, for this very request, whose cloud deadline
  had not passed; the device identity it names is well formed and is the pinned one if the client is
  pinned; every earlier accepted attempt named the same identity and the same deadline; and the
  relayed status is a final one (no informational status, no redirect) with a body of at most 70,000
  bytes.\<close>

theorem relay_result_sound:
  assumes "fst (relay_exchange env client rid hub operation body ttl start attempts) = Inr resp"
  shows "\<exists>pre a post payload deadline. attempts = pre @ a # post \<and> at_end a \<le> start + ttl
    \<and> vouches env rid a 200 payload (resp_hub_identity resp) deadline
    \<and> jget (jindex payload ''result'') ''body'' = Some (resp_body resp)
    \<and> (expected_hub_identity client = None \<or> expected_hub_identity client = Some (resp_hub_identity resp))
    \<and> (\<forall>b \<in> set pre. \<forall>bytes. at_response b = Inr (202, bytes) \<longrightarrow>
         (\<exists>p. vouches env rid b 202 p (resp_hub_identity resp) deadline))
    \<and> 200 \<le> resp_status resp \<and> resp_status resp \<le> 599 \<and> \<not> is_redirection (resp_status resp)
    \<and> length (to_vec env (resp_body resp)) \<le> 70000"
proof -
  have "fst (exchange_loop env rid (start + ttl) attempts
      \<lparr>accepted = False, cloud_deadline = None, cloud_identity = expected_hub_identity client, last_publish = start\<rparr>)
      = Inr resp"
    using assms by (auto simp: relay_exchange_def Let_def split: if_splits)
  from exchange_loop_sound [OF this] obtain pre a post payload deadline where
    "attempts = pre @ a # post" "at_end a \<le> start + ttl"
    "vouches env rid a 200 payload (resp_hub_identity resp) deadline"
    "expected_hub_identity client \<in> {None, Some (resp_hub_identity resp)}"
    "\<forall>b \<in> set pre. \<forall>bytes. at_response b = Inr (202, bytes) \<longrightarrow>
       (\<exists>p. vouches env rid b 202 p (resp_hub_identity resp) deadline)"
    and c: "complete_response env (resp_hub_identity resp) payload = Inr resp" by auto
  with complete_response_fields(2-) [OF c] show ?thesis
    by (intro exI [of _ pre] exI [of _ a] exI [of _ post] exI [of _ payload] exI [of _ deadline]) auto
qed

lemma demo_members:
  "jindex (demo_payload st) ''requestId'' = JStr ''gate_1''"
  "jindex (demo_payload st) ''hubIdentity'' = JStr (hex_id CHR ''a'' 64)"
  "jindex (demo_payload st) ''deadlineUnixMs'' = JInt 9000"
  "jindex (demo_payload 202) ''status'' = JStr ''pending''" "jget (demo_payload 202) ''result'' = None"
  "jindex (demo_payload 200) ''status'' = JStr ''complete''"
  "jindex (jindex (demo_payload 200) ''result'') ''status'' = JStr ''complete''"
  "jindex (jindex (demo_payload 200) ''result'') ''httpStatus'' = JInt 201"
  "jget (jindex (demo_payload 200) ''result'') ''body'' = Some JNull"
  by (simp_all add: demo_payload_def jobj_def jindex_def)

lemma demo_poll_202:
  "poll_step model_relay ''gate_1'' (demo_attempt t 202) \<lparr>accepted = a, cloud_deadline = None, cloud_identity = None, last_publish = p\<rparr>
   = Retry \<lparr>accepted = True, cloud_deadline = Some 9000, cloud_identity = Some (hex_id CHR ''a'' 64),
       last_publish = if publishes \<lparr>accepted = a, cloud_deadline = None, cloud_identity = None, last_publish = p\<rparr>
         (demo_attempt t 202) then int t else p\<rparr>"
  by (simp add: poll_step_def demo_attempt_def model_relay_def is_server_error_def accept_payload_def demo_members
      hex_id_ok i64_min_def i64_max_def publishes_def)

lemma demo_poll_200:
  "cloud_identity st = Some (hex_id CHR ''a'' 64) \<Longrightarrow> cloud_deadline st = Some 9000 \<Longrightarrow>
   poll_step model_relay ''gate_1'' (demo_attempt t 200) st
   = Return (Inr \<lparr>resp_hub_identity = hex_id CHR ''a'' 64, resp_status = 201, resp_body = JNull\<rparr>)"
  by (simp add: poll_step_def demo_attempt_def model_relay_def is_server_error_def accept_payload_def demo_members
      hex_id_ok i64_min_def i64_max_def complete_response_def Let_def u64_max_def)

lemma demo_poll_503: "poll_step model_relay rid (demo_attempt t 503) st = Retry st"
  by (rule poll_step_transient) (simp add: transient_def demo_attempt_def is_server_error_def)

theorem relay_result_sound_witness:
  "\<exists>resp. fst (relay_exchange model_relay \<lparr>expected_hub_identity = None, relay_endpoint = undefined, relay_region = []\<rparr>
       ''gate_1'' ''hub'' ''turn'' (JObj []) 5000 0 [demo_attempt 1 503, demo_attempt 2 202, demo_attempt 3 200]) = Inr resp
     \<and> resp_hub_identity resp = hex_id CHR ''a'' 64
     \<and> 200 \<le> resp_status resp \<and> resp_status resp \<le> 599 \<and> \<not> is_redirection (resp_status resp)"
proof -
  let ?c = "\<lparr>expected_hub_identity = None, relay_endpoint = undefined, relay_region = []\<rparr>"
  let ?r = "\<lparr>resp_hub_identity = hex_id CHR ''a'' 64, resp_status = 201, resp_body = JNull\<rparr>"
  have h: "valid_hub_id ''hub''"
    by (simp add: valid_hub_id_def is_ascii_alphanumeric_def is_ascii_lowercase_def less_eq_char_def)
  have at: "at_end (demo_attempt t st) = int t" for t st by (simp add: demo_attempt_def)
  have e: "fst (relay_exchange model_relay ?c ''gate_1'' ''hub'' ''turn'' (JObj []) 5000 0
      [demo_attempt 1 503, demo_attempt 2 202, demo_attempt 3 200]) = Inr ?r"
    by (simp add: relay_exchange_def h is_object_def Let_def max_response_def at demo_poll_503 demo_poll_202
        demo_poll_200 case_prod_beta)
      (simp add: model_relay_def request_value_def jobj_def print_int_def digits.simps)
  from relay_result_sound [OF e] e show ?thesis by auto
qed



text \<open>A signed request is made only with session credentials that outlive it by more than five
  seconds; the body it yields has at most 74,096 bytes and is exactly the concatenation of the chunks
  read, and a redirect yields an empty body, so the signature is never followed elsewhere.\<close>

theorem relay_request_bounded:
  assumes "relay_request credentials now signed reply = Inr (status, bytes)"
  shows "\<exists>c t e r. credentials = Some c \<and> session_token c = Some t \<and> t \<noteq> [] \<and> cred_expiry c = Some e
    \<and> now + 5000000000 < e \<and> signed \<and> reply = Some r \<and> status = reply_status r
    \<and> length bytes \<le> max_response
    \<and> (if is_redirection status then bytes = [] else bytes = concat (map the (reply_chunks r)))"
proof -
  from assms obtain c where c: "credentials = Some c" by (auto simp: relay_request_def)
  with assms obtain t where t: "session_token c = Some t" "t \<noteq> []"
    by (cases "session_token c") (auto simp: relay_request_def split: if_splits)
  with assms c obtain e where e: "cred_expiry c = Some e" "now + 5000000000 < e"
    by (cases "cred_expiry c") (auto simp: relay_request_def split: if_splits)
  from assms c t e obtain r where r: "signed" "reply = Some r" "status = reply_status r"
    and b: "if is_redirection status then bytes = [] else
      read_chunks relay_unavailable relay_invalid_response max_response [] (reply_chunks r) = Inr bytes"
    by (auto simp: relay_request_def split: if_splits)
  have "length bytes \<le> max_response
      \<and> (if is_redirection status then bytes = [] else bytes = concat (map the (reply_chunks r)))"
    using b read_chunks_bound read_chunks_content by (cases "is_redirection status") fastforce+
  with c t e r show ?thesis by blast
qed

theorem relay_request_bounded_witness:
  "\<exists>bytes. relay_request (Some \<lparr>session_token = Some ''t'', cred_expiry = Some 6000000000\<rparr>) 0 True
     (Some \<lparr>reply_status = 200, reply_content_length = None, reply_chunks = [Some ''a'', Some ''b'']\<rparr>) = Inr (200, bytes)
     \<and> length bytes \<le> max_response"
proof -
  have r: "relay_request (Some \<lparr>session_token = Some ''t'', cred_expiry = Some 6000000000\<rparr>) 0 True
     (Some \<lparr>reply_status = 200, reply_content_length = None, reply_chunks = [Some ''a'', Some ''b'']\<rparr>) = Inr (200, ''ab'')"
    by (simp add: relay_request_def is_redirection_def max_response_def)
  from relay_request_bounded [OF r] r show ?thesis by auto
qed

section \<open>The route directory\<close>

text \<open>C21: the directory stays within its bounds. Over every sequence of operations, successful or not,
  the directory has at most 4,096 routes, and each route at most 64 remembered tokens, at most 64
  queued updates, and a revision of at most 2^53 - 1 that no queued update exceeds, so every revision
  sent to a device is a number its JSON reader represents exactly.\<close>

theorem directory_within_bounds:
  assumes "dir_ok dir"
  shows "length (dir_run env ops dir) \<le> 4096
    \<and> (\<forall>(k, r) \<in> set (dir_run env ops dir). length (rt_seen r) \<le> 64 \<and> length (rt_updates r) \<le> 64
        \<and> rt_revision r \<le> 2 ^ 53 - 1 \<and> (\<forall>(g, u) \<in> set (rt_updates r). ru_revision u \<le> rt_revision r))"
proof -
  have "dir_ok (dir_run env ops dir)"
    by (rule dir_run_invariant [where P = dir_ok]) (simp_all add: dir_step_ok assms)
  then show ?thesis by (fastforce simp: dir_ok_def route_ok_def max_revision_def)
qed

theorem directory_within_bounds_witness:
  "length (dir_run model_fleet [(0, ClaimPending), (1, NotificationTarget)] []) \<le> 4096"
  using directory_within_bounds [of "[]" model_fleet "[(0, ClaimPending), (1, NotificationTarget)]"]
  by (simp add: dir_ok_def)

text \<open>C18: a routing hint is not ownership. Whatever operation runs, a route's active device changes to a
  new selection only when the operation finishes the very proof the route is waiting for, before it
  expires, with an answer of status 200 in state bound: from the pinned device identity if one was
  pinned, for the binding session first seen, and confirmed by the owner after the phone's message.
  Every other operation leaves the active device as it is, or removes it.\<close>

theorem selection_needs_owner_proof:
  assumes "dir_ok dir" "rt_active (route_at (dir_step env now op dir) k) = Some sel"
    and "rt_active (route_at dir k) \<noteq> Some sel"
  shows "\<exists>g p prv identity cur. op = FinishPending g p 200 prv identity
    \<and> k = fleet_key env (pd_recipient p) (pd_route_key p)
    \<and> rt_pending (route_at dir k) = Some cur \<and> pd_id cur = pd_id p
    \<and> bound_by env now g (pd_hub_id p) prv identity cur sel"
  by (rule route_step_active [OF dir_step_route [OF assms(1)] assms(2,3)])

definition demo_pending :: pending where
  "demo_pending = \<lparr>pd_id = ''i'', pd_hub_id = ''hub'', pd_token = ''t'', pd_recipient = ''123'', pd_route_key = ''rk'',
     pd_occurred_at = print_int 5000000000, pd_expires_at = 300, pd_next_poll = 0, pd_session_id = None,
     pd_hub_identity = None\<rparr>"

definition demo_dir :: directory where
  "demo_dir = [(fleet_key model_fleet ''123'' ''rk'', default_route\<lparr>rt_pending := Some demo_pending\<rparr>)]"

definition demo_proof :: json where
  "demo_proof = jobj [(''session_id'', JStr (hex_id CHR ''b'' 32)), (''binding_id'', JStr (hex_id CHR ''b'' 32)),
     (''expires_at'', JInt 400), (''confirmed_at'', JInt 9), (''status'', JStr ''bound'')]"

lemma demo_dir_ok: "dir_ok demo_dir"
  using route_ok_default by (simp add: dir_ok_def demo_dir_def owf_def route_ok_def)

lemma demo_route: "route_at demo_dir (fleet_key model_fleet ''123'' ''rk'') = default_route\<lparr>rt_pending := Some demo_pending\<rparr>"
  by (simp add: route_at_def demo_dir_def oget_def)

lemma demo_proof_members:
  "jindex demo_proof ''session_id'' = JStr (hex_id CHR ''b'' 32)" "jindex demo_proof ''binding_id'' = JStr (hex_id CHR ''b'' 32)"
  "jindex demo_proof ''expires_at'' = JInt 400" "jindex demo_proof ''confirmed_at'' = JInt 9"
  "jindex demo_proof ''status'' = JStr ''bound''"
  by (simp_all add: demo_proof_def jobj_def jindex_def)

lemma demo_bound:
  "rt_active (route_at (dir_step model_fleet 10 (FinishPending ''g'' demo_pending 200 demo_proof (hex_id CHR ''a'' 64)) demo_dir)
       (fleet_key model_fleet ''123'' ''rk''))
     = Some \<lparr>sel_hub_id = ''hub'', sel_hub_identity = hex_id CHR ''a'' 64, sel_binding_id = hex_id CHR ''b'' 32,
         sel_generation = ''g'', sel_selected_at = 10\<rparr>"
proof -
  have o: "oget demo_dir (fleet_key model_fleet ''123'' ''rk'') = Some (default_route\<lparr>rt_pending := Some demo_pending\<rparr>)"
    by (simp add: demo_dir_def oget_def)
  show ?thesis
    by (simp add: finish_dir_def Let_def o demo_pending_def dir_result_def)
       (simp add: proof_route_def demo_proof_members hex_id_ok i64_min_def i64_max_def Let_def bound_route_def
         timestamp_of_def model_fleet_def queue_route_update_def default_route_def route_at_oput)
qed

theorem selection_needs_owner_proof_witness:
  "\<exists>sel g p prv identity cur. rt_active (route_at (dir_step model_fleet 10
        (FinishPending ''g'' demo_pending 200 demo_proof (hex_id CHR ''a'' 64)) demo_dir)
        (fleet_key model_fleet ''123'' ''rk'')) = Some sel
     \<and> FinishPending ''g'' demo_pending 200 demo_proof (hex_id CHR ''a'' 64) = FinishPending g p 200 prv identity
     \<and> bound_by model_fleet 10 g (pd_hub_id p) prv identity cur sel"
proof -
  have "rt_active (route_at demo_dir (fleet_key model_fleet ''123'' ''rk'')) \<noteq> Some sel" for sel
    by (simp add: demo_route default_route_def)
  from selection_needs_owner_proof [OF demo_dir_ok demo_bound this] demo_bound show ?thesis by blast
qed

text \<open>C22: a token opens one proof. Once a phone message has opened a pending proof with a token, any later
  message with the same device and token for the same route, arriving within six minutes of the
  first one's timestamp and after any other operations, neither reopens, replaces nor extends the
  pending proof, and leaves the active device alone.\<close>

theorem token_opens_once:
  assumes "dir_ok dir" "begin_check env now m = Inr (hub, token, occurred)"
    and "begin_dir env now m hub token occurred dir = Inr ((), dir1)"
    and "oget (rt_seen (route_at dir (fleet_key env (in_user_id m) (in_route_key m))))
           (fleet_hash env (JArr [JStr hub, JStr token])) = None"
    and "\<forall>x \<in> set ops. fst x < occurred + 360" "now' < occurred + 360"
    and "begin_check env now' m' = Inr (hub, token, occurred')"
    and "in_user_id m' = in_user_id m" "in_route_key m' = in_route_key m"
    and "r = route_at (dir_run env ops dir1) (fleet_key env (in_user_id m) (in_route_key m))"
    and "r' = route_at (dir_step env now' (Begin m') (dir_run env ops dir1)) (fleet_key env (in_user_id m) (in_route_key m))"
  shows "rt_pending r' = rt_pending r \<and> rt_active r' = rt_active r"
proof -
  let ?k = "fleet_key env (in_user_id m) (in_route_key m)" and ?i = "fleet_hash env (JArr [JStr hub, JStr token])"
  from assms(3) obtain r1 where r1: "begin_route env now m hub token occurred (route_at dir ?k) = Inr r1"
    "dir1 = oput ?k r1 dir" by (auto simp: begin_dir_def Let_def route_at_def split: if_splits)
  have "oget (rt_seen (route_at dir1 ?k)) ?i = Some (occurred + 360)"
    using begin_route_opens [OF r1(1) assms(4)] r1(2) by (simp add: route_at_oput)
  from seen_run [OF begin_dir_ok [OF assms(1,3)] this assms(5)]
  have ok: "dir_ok (dir_run env ops dir1)" and seen: "oget (rt_seen r) ?i = Some (occurred + 360)"
    using assms(10) by auto
  from dir_step_route [OF ok, of env now' "Begin m'" ?k] have "route_step env now' (Begin m') ?k r r'"
    using assms(10,11) by simp
  then show ?thesis
  proof (cases rule: route_step.cases)
    case (begun hub' token' occ)
    with assms(7) have "begin_route env now' m' hub token occurred' r = Inr r'" by simp
    from begin_route_replay [OF this assms(6) seen] show ?thesis .
  qed simp_all
qed

definition demo_message :: "int \<Rightarrow> inbound_message" where
  "demo_message t = \<lparr>in_platform = ''whatsapp'', in_chat_id = ''1234567'', in_user_id = ''1234567'',
     in_text = ''NAVI hub.'' @ hex_id CHR ''c'' 64, in_message_id = ''m'', in_chat_type = ''p2p'', in_route_key = ''rk'',
     in_session_id = [], in_mentions = [], in_attachments = [], in_metadata = [],
     in_timestamp = print_int (t * 1000000000), in_raw_payload = JNull\<rparr>"

lemma demo_message_trim: "trim (''NAVI hub.'' @ hex_id CHR ''c'' 64) = ''NAVI hub.'' @ hex_id CHR ''c'' 64"
  by (rule trim_id) (simp_all add: ws_bytes_def hex_id_def last_replicate)

lemma demo_begin_check:
  assumes "now - 300 < t" "t \<le> now + 60"
  shows "begin_check model_fleet now (demo_message t) = Inr (''hub'', hex_id CHR ''c'' 64, t)"
proof -
  have p: "strip_prefix ''NAVI '' (''NAVI hub.'' @ hex_id CHR ''c'' 64) = Some (''hub.'' @ hex_id CHR ''c'' 64)" by simp
  have s: "split_once CHR ''.'' (''hub.'' @ hex_id CHR ''c'' 64) = Some (''hub'', hex_id CHR ''c'' 64)"
    using split_once_append [of "CHR ''.''" "''hub''"] by simp
  have h: "valid_hub_id ''hub''" "list_all is_ascii_digit ''1234567''" "list_all is_ascii_hexdigit (hex_id CHR ''c'' 64)"
    "length (hex_id CHR ''c'' 64) = 64"
    by (simp_all add: valid_hub_id_def is_ascii_alphanumeric_def is_ascii_lowercase_def less_eq_char_def is_ascii_digit_def
        is_ascii_hexdigit_def hex_id_def list_all_iff)
  have ts: "timestamp_of model_fleet (print_int (t * 1000000000)) = Some t"
    by (simp add: timestamp_of_def model_fleet_def)
  have sel: "in_text (demo_message t) = ''NAVI hub.'' @ hex_id CHR ''c'' 64"
    "in_timestamp (demo_message t) = print_int (t * 1000000000)" by (simp_all add: demo_message_def)
  show ?thesis
    unfolding begin_check_def sel demo_message_trim p ok_or_simps rbind.simps s prod.case ts
    using assms h by (simp add: demo_message_def)
qed

theorem token_opens_once_witness:
  "\<exists>dir1 dir2. begin_dir model_fleet 10 (demo_message 10) ''hub'' (hex_id CHR ''c'' 64) 10 [] = Inr ((), dir1)
     \<and> dir2 = dir_step model_fleet 200 (Begin (demo_message 150)) dir1
     \<and> rt_pending (route_at dir2 (fleet_key model_fleet ''1234567'' ''rk''))
         = rt_pending (route_at dir1 (fleet_key model_fleet ''1234567'' ''rk''))"
proof -
  have m: "in_user_id (demo_message t) = ''1234567''" "in_route_key (demo_message t) = ''rk''" for t
    by (simp_all add: demo_message_def)
  have "\<exists>dir1. begin_dir model_fleet 10 (demo_message 10) ''hub'' (hex_id CHR ''c'' 64) 10 [] = Inr ((), dir1)"
    by (simp add: begin_dir_def begin_route_def Let_def oget_def default_route_def queue_route_update_def)
  then obtain dir1 where d: "begin_dir model_fleet 10 (demo_message 10) ''hub'' (hex_id CHR ''c'' 64) 10 [] = Inr ((), dir1)"
    by blast
  have "rt_pending (route_at (dir_step model_fleet 200 (Begin (demo_message 150)) (dir_run model_fleet [] dir1))
        (fleet_key model_fleet ''1234567'' ''rk''))
      = rt_pending (route_at (dir_run model_fleet [] dir1) (fleet_key model_fleet ''1234567'' ''rk''))
    \<and> rt_active (route_at (dir_step model_fleet 200 (Begin (demo_message 150)) (dir_run model_fleet [] dir1))
        (fleet_key model_fleet ''1234567'' ''rk''))
      = rt_active (route_at (dir_run model_fleet [] dir1) (fleet_key model_fleet ''1234567'' ''rk''))"
    by (rule token_opens_once [where ops = "[]" and m = "demo_message 10" and m' = "demo_message 150",
          OF _ demo_begin_check d _ _ _ demo_begin_check])
      (simp_all add: m dir_ok_def route_at_def oget_def default_route_def)
  with d show ?thesis by auto
qed

text \<open>C23: a device whose identity was invalidated stays silent. After the identity of a device is
  invalidated, and after any operations other than a fresh proof by that device under that identity,
  every message still addressed to a selection of it is refused before it leaves the gate.\<close>

theorem invalidated_device_refused:
  assumes "dir_ok dir" "\<forall>x \<in> set ops. \<not> rebinds s (snd x)" "same_device s original"
  shows "\<exists>e. check_dir env now' m original rk (dir_run env ops (dir_step env now (Invalidate s) dir)) = Inl e"
proof -
  let ?dir = "dir_run env ops (dir_step env now (Invalidate s) dir)"
  have "silent s ?dir" using silent_run [OF dir_step_ok [OF assms(1)] silent_invalidated assms(2)] by blast
  then have "rt_active (route_at ?dir k) \<noteq> Some original" for k using assms(3) by (auto simp: silent_def)
  then have "rt_active r \<noteq> Some original" if "oget ?dir k = Some r" for k r using that route_at_Some by metis
  then show ?thesis by (cases "oget ?dir (fleet_key env (out_chat_id m) rk)") (auto simp: check_dir_def)
qed

theorem invalidated_device_refused_witness:
  "\<exists>e. check_dir model_fleet 20 \<lparr>out_platform = ''whatsapp'', out_chat_id = ''123'', out_text = [], out_attachments = [],
        out_timestamp = [], out_metadata = []\<rparr>
      \<lparr>sel_hub_id = ''hub'', sel_hub_identity = ''id'', sel_binding_id = ''b'', sel_generation = ''g'', sel_selected_at = 1\<rparr> ''rk''
      (dir_run model_fleet [(15, ClaimPending)] (dir_step model_fleet 10 (Invalidate
        \<lparr>sel_hub_id = ''hub'', sel_hub_identity = ''id'', sel_binding_id = ''x'', sel_generation = ''y'', sel_selected_at = 0\<rparr>)
        demo_dir)) = Inl e"
  by (rule invalidated_device_refused [OF demo_dir_ok]) (simp_all add: same_device_def)



end
