(* ===== verification/Std_Text.thy ===== *)
theory Std_Text
  imports Json_Value
begin

text \<open>
  Further pieces of the standard library and of serde\_json that the adapters and the configuration
  use: decimal and hexadecimal parsing, path components, JSON pointers, and the hash-derived
  identifiers of \<^verbatim>\<open>src/harborbeacon.rs\<close>.
\<close>

section \<open>Numbers\<close>

definition digit_value :: "char \<Rightarrow> nat" where
  "digit_value c = of_char c - 48"

fun decimal_value :: "nat \<Rightarrow> string \<Rightarrow> nat option" where
  "decimal_value acc [] = Some acc"
| "decimal_value acc (c # cs) =
     (if is_ascii_digit c then decimal_value (acc * 10 + digit_value c) cs else None)"

text \<open>\<^verbatim>\<open>str::parse::<u64>\<close> and \<^verbatim>\<open>str::parse::<i64>\<close>: an optional sign, at least one digit, no overflow.\<close>

definition parse_nat :: "string \<Rightarrow> nat option" where
  "parse_nat s = (if s = [] then None else decimal_value 0 s)"

fun parse_u64 :: "string \<Rightarrow> nat option" where
  "parse_u64 s = Option.bind (parse_nat (case s of CHR ''+'' # r \<Rightarrow> r | _ \<Rightarrow> s))
     (\<lambda>n. if n \<le> u64_max then Some n else None)"

definition in_i64 :: "int \<Rightarrow> int option" where
  "in_i64 i = (if i64_min \<le> i \<and> i \<le> i64_max then Some i else None)"

definition parse_i64 :: "string \<Rightarrow> int option" where
  "parse_i64 s = (case s of
      CHR ''-'' # r \<Rightarrow> Option.bind (parse_nat r) (\<lambda>n. in_i64 (- int n))
    | CHR ''+'' # r \<Rightarrow> Option.bind (parse_nat r) (\<lambda>n. in_i64 (int n))
    | _ \<Rightarrow> Option.bind (parse_nat s) (\<lambda>n. in_i64 (int n)))"

definition hex_value :: "char \<Rightarrow> nat option" where
  "hex_value c =
    (if is_ascii_digit c then Some (of_char c - 48)
     else if CHR ''a'' \<le> c \<and> c \<le> CHR ''f'' then Some (of_char c - 87)
     else if CHR ''A'' \<le> c \<and> c \<le> CHR ''F'' then Some (of_char c - 55)
     else None)"

text \<open>The bytes written as pairs of hexadecimal digits.\<close>

fun hex_bytes :: "string \<Rightarrow> string option" where
  "hex_bytes [] = Some []"
| "hex_bytes [c] = None"
| "hex_bytes (a # b # cs) = (case (hex_value a, hex_value b, hex_bytes cs) of
      (Some x, Some y, Some r) \<Rightarrow> Some (char_of (16 * x + y) # r) | _ \<Rightarrow> None)"

lemma hex_value_Some: "is_ascii_hexdigit c \<Longrightarrow> \<exists>n. hex_value c = Some n"
  by (auto simp: hex_value_def is_ascii_hexdigit_def)

lemma hex_bytes_total: "even (length s) \<Longrightarrow> list_all is_ascii_hexdigit s \<Longrightarrow> \<exists>b. hex_bytes s = Some b"
  by (induction s rule: hex_bytes.induct) (fastforce dest: hex_value_Some)+

text \<open>Decimal text of a number, and that it is read back.\<close>

fun show_nat :: "nat \<Rightarrow> string" where
  "show_nat n = (if n < 10 then [char_of (48 + n)] else show_nat (n div 10) @ [char_of (48 + n mod 10)])"

declare show_nat.simps [simp del]

lemma of_char_digit: "n < 10 \<Longrightarrow> of_char (char_of (48 + n) :: char) = (48 + n :: nat)"
  by (simp add: of_char_of)

lemma digit_char: "n < 10 \<Longrightarrow> is_ascii_digit (char_of (48 + n :: nat)) \<and> digit_value (char_of (48 + n)) = n"
  by (simp add: is_ascii_digit_def less_eq_char_def of_char_digit digit_value_def)

lemma decimal_value_append: "decimal_value acc (s @ t) = Option.bind (decimal_value acc s) (\<lambda>a. decimal_value a t)"
  by (induction acc s rule: decimal_value.induct) auto

lemma decimal_show_nat: "decimal_value 0 (show_nat n) = Some n"
proof (induction n rule: show_nat.induct)
  case (1 n)
  show ?case
  proof (cases "n < 10")
    case True
    then show ?thesis using digit_char [of n] by (simp add: show_nat.simps)
  next
    case False
    have "n mod 10 < 10" by simp
    from digit_char [OF this] 1 [OF False] False show ?thesis
      by (subst show_nat.simps) (simp add: decimal_value_append)
  qed
qed

lemma show_nat_inject [simp]: "show_nat m = show_nat n \<longleftrightarrow> m = n"
proof
  assume "show_nat m = show_nat n"
  then have "decimal_value 0 (show_nat m) = decimal_value 0 (show_nat n)" by (rule arg_cong)
  then show "m = n" unfolding decimal_show_nat by simp
qed (rule arg_cong)

lemma show_nat_digits: "list_all is_ascii_digit (show_nat n)"
proof (induction n rule: show_nat.induct)
  case (1 n)
  show ?case
  proof (cases "n < 10")
    case True
    then show ?thesis using digit_char [of n] by (simp add: show_nat.simps)
  next
    case False
    have "n mod 10 < 10" by simp
    from digit_char [OF this] 1 [OF False] False show ?thesis by (subst show_nat.simps) simp
  qed
qed

section \<open>Paths\<close>

text \<open>\<^verbatim>\<open>Path::components\<close> on Unix: empty parts and inner dots vanish.\<close>

datatype path_component = RootDir | CurDir | ParentDir | Normal string

fun split_on :: "char \<Rightarrow> string \<Rightarrow> string list" where
  "split_on d [] = [[]]"
| "split_on d (c # cs) = (if c = d then [] # split_on d cs
     else (case split_on d cs of p # ps \<Rightarrow> (c # p) # ps | [] \<Rightarrow> [[c]]))"

fun body_component :: "string \<Rightarrow> path_component option" where
  "body_component part = (if part = [] \<or> part = ''.'' then None
     else if part = ''..'' then Some ParentDir else Some (Normal part))"

definition path_components :: "string \<Rightarrow> path_component list" where
  "path_components s = (case split_on CHR ''/'' s of
      [] \<Rightarrow> []
    | p # ps \<Rightarrow> (if s \<noteq> [] \<and> hd s = CHR ''/'' then [RootDir] else if p = ''.'' then [CurDir] else [])
        @ List.map_filter body_component (p # ps))"

text \<open>\<^verbatim>\<open>Path::parent\<close> (of the components) and \<^verbatim>\<open>Path::strip_prefix\<close>.\<close>

definition path_parent :: "path_component list \<Rightarrow> path_component list option" where
  "path_parent cs = (if cs = [] \<or> last cs = RootDir then None else Some (butlast cs))"

fun strip_components :: "path_component list \<Rightarrow> path_component list \<Rightarrow> path_component list option" where
  "strip_components [] cs = Some cs"
| "strip_components (p # ps) [] = None"
| "strip_components (p # ps) (c # cs) = (if p = c then strip_components ps cs else None)"

lemma strip_components_Some [simp]: "strip_components ps cs = Some r \<longleftrightarrow> cs = ps @ r"
  by (induction ps cs rule: strip_components.induct) auto

fun is_normal :: "path_component \<Rightarrow> bool" where
  "is_normal (Normal s) = True"
| "is_normal _ = False"

lemma all_normal: "list_all is_normal cs \<Longrightarrow> \<exists>names. cs = map Normal names"
proof (induction cs)
  case (Cons c cs)
  then obtain s names where "c = Normal s" "cs = map Normal names" by (cases c) auto
  then have "c # cs = map Normal (s # names)" by simp
  then show ?case by (rule exI)
qed simp

text \<open>\<^verbatim>\<open>Path::extension\<close> of a file name.\<close>

definition extension :: "string \<Rightarrow> string option" where
  "extension f = (case split_once CHR ''.'' (rev f) of
      None \<Rightarrow> None | Some (re, rs) \<Rightarrow> if rs = [] then None else Some (rev re))"

lemma extension_append: "extension (a @ CHR ''.'' # e) = Some e" if "a \<noteq> []" "CHR ''.'' \<notin> set e"
  using that split_once_append [of "CHR ''.''" "rev e" "rev a"] by (simp add: extension_def)

section \<open>JSON pointers\<close>

text \<open>\<^verbatim>\<open>Value::pointer\<close> over the unescaped tokens of the pointer.\<close>

definition pointer_index :: "string \<Rightarrow> nat option" where
  "pointer_index t = (if t \<noteq> [] \<and> (hd t = CHR ''+'' \<or> (hd t = CHR ''0'' \<and> tl t \<noteq> [])) then None else parse_u64 t)"

fun jpointer :: "string list \<Rightarrow> json \<Rightarrow> json option" where
  "jpointer [] j = Some j"
| "jpointer (t # ts) (JObj m) = Option.bind (oget m t) (jpointer ts)"
| "jpointer (t # ts) (JArr xs) = Option.bind (pointer_index t)
     (\<lambda>i. if i < length xs then jpointer ts (xs ! i) else None)"
| "jpointer (t # ts) _ = None"

section \<open>Options and texts\<close>

definition or_opt :: "'a option \<Rightarrow> 'a option \<Rightarrow> 'a option" where
  "or_opt a b = (case a of None \<Rightarrow> b | Some x \<Rightarrow> Some x)"

lemma or_opt_simps [simp]: "or_opt None b = b" "or_opt (Some x) b = Some x"
  by (simp_all add: or_opt_def)

text \<open>\<^verbatim>\<open>.map(str::trim).filter(|v| !v.is_empty())\<close>\<close>

definition nonempty_trim :: "string option \<Rightarrow> string option" where
  "nonempty_trim v = (case v of None \<Rightarrow> None | Some s \<Rightarrow> if trim s = [] then None else Some (trim s))"

lemma nonempty_trim_Some: "nonempty_trim v = Some s \<Longrightarrow> s \<noteq> []"
  by (auto simp: nonempty_trim_def split: option.splits if_splits)

fun contains :: "string \<Rightarrow> string \<Rightarrow> bool" where
  "contains pat [] = (pat = [])"
| "contains pat (c # cs) = (strip_prefix pat (c # cs) \<noteq> None \<or> contains pat cs)"

definition ascii_lower :: "string \<Rightarrow> string" where
  "ascii_lower s = map (\<lambda>c. if is_ascii_uppercase c then char_of (of_char c + 32 :: nat) else c) s"

section \<open>Identifiers\<close>

text \<open>\<open>hex\<close> is the lower-case hexadecimal SHA-256 digest of a byte string.\<close>

definition stable_id :: "(string \<Rightarrow> string) \<Rightarrow> string \<Rightarrow> string \<Rightarrow> nat \<Rightarrow> string" where
  "stable_id hex prfx payload len = prfx @ take (min len (length (hex payload))) (hex payload)"

fun join_with :: "string \<Rightarrow> string list \<Rightarrow> string" where
  "join_with sep [] = []"
| "join_with sep [x] = x"
| "join_with sep (x # xs) = x @ sep @ join_with sep xs"

text \<open>\<open>pr\<close> prints a scalar or a key the way serde\_json does.\<close>

function canonical_json :: "(json \<Rightarrow> string) \<Rightarrow> json \<Rightarrow> string" where
  "canonical_json pr (JObj m) = ''{'' @ join_with '',''
     (map (\<lambda>(k, v). pr (JStr k) @ '':'' @ canonical_json pr v) (sort_key fst m)) @ ''}''"
| "canonical_json pr (JArr vs) = ''['' @ join_with '','' (map (canonical_json pr) vs) @ '']''"
| "canonical_json pr JNull = pr JNull"
| "canonical_json pr (JBool b) = pr (JBool b)"
| "canonical_json pr (JInt i) = pr (JInt i)"
| "canonical_json pr (JFloat f) = pr (JFloat f)"
| "canonical_json pr (JStr s) = pr (JStr s)"
  by pat_completeness auto
termination
proof (relation "measure (\<lambda>(t, j). size j)")
  show "((pr, v), pr, JObj m) \<in> measure (\<lambda>(t, j). size j)"
    if "p \<in> set (sort_key fst m)" "(k, v) = p" for pr m p k v
    using size_list_estimation' [of p m "size v" "size_prod (\<lambda>x. 0) size"] that by auto
qed (auto simp: less_Suc_eq_le size_list_estimation')

definition starts_with :: "string \<Rightarrow> string \<Rightarrow> bool" where
  "starts_with p s \<longleftrightarrow> strip_prefix p s \<noteq> None"

definition trim_end_matches :: "char \<Rightarrow> string \<Rightarrow> string" where
  "trim_end_matches c s = rev (dropWhile (\<lambda>x. x = c) (rev s))"

text \<open>\<^verbatim>\<open>PathBuf::join\<close>\<close>

definition path_join :: "string \<Rightarrow> string \<Rightarrow> string" where
  "path_join a b = (if starts_with ''/'' b then b else if a = [] \<or> last a = CHR ''/'' then a @ b else a @ ''/'' @ b)"

end
