(* ===== verification/WhatsApp_Adapter.thy ===== *)
theory WhatsApp_Adapter
  imports Std_Text Gate_Error Messages File_Store
begin

text \<open>
  The adapter interface of \<^verbatim>\<open>src/adapters/mod.rs\<close>, the webhook adapter and the WhatsApp adapter of
  \<^verbatim>\<open>src/adapters/whatsapp.rs\<close> except for its inbox: configuration, webhook verification, the
  normalisation of inbound messages and the outbound calls. HMAC, SHA-256, the constant-time
  comparison, chrono and serde\_json are parameters; files and HTTP replies are inputs.
\<close>

section \<open>The adapter interface\<close>

record prepared_outbound =
  provider_media_id :: string
  provider_client_id :: "string option"
  prepared_state :: json

text \<open>The default methods of \<^verbatim>\<open>PlatformAdapter\<close>.\<close>

definition default_claim_lease_seconds :: nat where
  "default_claim_lease_seconds = 300"

definition default_prepare_outbound :: "outbound_message \<Rightarrow> gateway_error + prepared_outbound option" where
  "default_prepare_outbound m = Inr None"

definition default_send_prepared ::
  "(outbound_message \<Rightarrow> gateway_error + json) \<Rightarrow> outbound_message \<Rightarrow> prepared_outbound option \<Rightarrow> gateway_error + json" where
  "default_send_prepared send m prepared = send m"

text \<open>What the gateway relies on: a normalised message is addressed and has a text.\<close>

definition addressed :: "inbound_message \<Rightarrow> bool" where
  "addressed m \<longleftrightarrow> in_chat_id m \<noteq> [] \<and> in_user_id m \<noteq> [] \<and> in_text m \<noteq> []"

locale platform_adapter =
  fixes normalize :: "json \<Rightarrow> gateway_error + inbound_message"
  assumes normalize_addressed: "normalize payload = Inr m \<Longrightarrow> addressed m"
begin

lemma normalize_all_addressed:
  "list_all2 (\<lambda>p m. normalize p = Inr m) ps ms \<Longrightarrow> list_all addressed ms"
  by (induction rule: list_all2_induct) (auto dest: normalize_addressed)

end

section \<open>The webhook adapter\<close>

definition str_field :: "(string \<times> json) list \<Rightarrow> string \<Rightarrow> string option" where
  "str_field object k = (case Option.bind (oget object k) as_str of
      None \<Rightarrow> None | Some v \<Rightarrow> if trim v = [] then None else Some (trim v))"

definition value_array :: "json option \<Rightarrow> json list" where
  "value_array v = (case Option.bind v as_array of None \<Rightarrow> [] | Some items \<Rightarrow> filter is_object items)"

definition or_else :: "'a \<Rightarrow> 'a option \<Rightarrow> 'a" where
  "or_else x o' = (case o' of None \<Rightarrow> x | Some y \<Rightarrow> y)"

lemma or_else_simps [simp]: "or_else x None = x" "or_else x (Some y) = y"
  by (simp_all add: or_else_def)

definition webhook_normalize_inbound ::
  "gate_env \<Rightarrow> instant \<Rightarrow> json \<Rightarrow> gateway_error + inbound_message" where
  "webhook_normalize_inbound env now payload =
    rbind (ok_or (validation ''Payload must be a JSON object'') (as_object payload)) (\<lambda>object.
    let chat_id = or_else [] (str_field object ''chat_id'');
        text' = or_else [] (str_field object ''text'') in
    if trim chat_id = [] then Inl (validation ''Payload must include chat_id'')
    else if trim text' = [] then Inl (validation ''Payload must include text'')
    else Inr \<lparr>
      in_platform = or_else ''webhook'' (str_field object ''platform''),
      in_chat_id = chat_id,
      in_user_id = or_else ''anonymous'' (str_field object ''user_id''),
      in_text = text',
      in_message_id = or_else [] (str_field object ''message_id''),
      in_chat_type = or_else ''p2p'' (str_field object ''chat_type''),
      in_route_key = or_else [] (str_field object ''route_key''),
      in_session_id = or_else [] (str_field object ''session_id''),
      in_mentions = value_array (oget object ''mentions''),
      in_attachments = value_array (oget object ''attachments''),
      in_metadata = or_else [] (Option.bind (oget object ''metadata'') as_object),
      in_timestamp = utc_now_iso env now,
      in_raw_payload = JObj object\<rparr>)"

definition webhook_send_outbound :: "outbound_message \<Rightarrow> gateway_error + json" where
  "webhook_send_outbound m = Inr (jobj [(''platform'', JStr (out_platform m)), (''chat_id'', JStr (out_chat_id m)),
     (''text'', JStr (out_text m)), (''attachments'', JArr (out_attachments m)),
     (''timestamp'', JStr (out_timestamp m)), (''metadata'', JObj (out_metadata m)),
     (''delivery'', JStr ''webhook''), (''sent'', JBool False)])"

definition webhook_profile :: json where
  "webhook_profile = jobj [(''adapter_name'', JStr ''webhook''), (''surface_family'', JStr ''webhook''),
     (''transport_mode'', JStr ''normalized''), (''supports_mentions'', JBool False),
     (''supports_attachments'', JBool True), (''supports_replies'', JBool True),
     (''supports_updates'', JBool False), (''supports_live_receive'', JBool False)]"

lemma str_field_nonempty: "str_field object k = Some v \<Longrightarrow> v \<noteq> []"
  by (auto simp: str_field_def split: option.splits if_splits)

interpretation webhook: platform_adapter "webhook_normalize_inbound env now"
  by unfold_locales
    (auto simp: webhook_normalize_inbound_def addressed_def Let_def or_else_def dest: str_field_nonempty
      split: if_splits option.splits)

section \<open>WhatsApp: configuration\<close>

record wa_env =
  ct_eq :: "string \<Rightarrow> string \<Rightarrow> bool"
  hmac_verify :: "string \<Rightarrow> string \<Rightarrow> string \<Rightarrow> bool"
  sha256_hex :: "string \<Rightarrow> string"
  wa_from_slice :: "string \<Rightarrow> string + json"
  wa_to_string :: "json \<Rightarrow> string"
  wa_f64_text :: "string \<Rightarrow> bool"
  timestamp_rfc3339 :: "int \<Rightarrow> string option"

record whatsapp_config =
  wa_phone_number_id :: string
  wa_business_number :: string
  wa_app_secret :: string
  wa_verify_token :: string
  wa_access_token :: string
  wa_graph_version :: string

definition wa_from_env :: "(string \<Rightarrow> string option) \<Rightarrow> whatsapp_config" where
  "wa_from_env var = \<lparr>
     wa_phone_number_id = or_else [] (var ''WHATSAPP_PHONE_NUMBER_ID''),
     wa_business_number = or_else [] (var ''WHATSAPP_BUSINESS_NUMBER''),
     wa_app_secret = or_else [] (var ''WHATSAPP_APP_SECRET''),
     wa_verify_token = or_else [] (var ''WHATSAPP_VERIFY_TOKEN''),
     wa_access_token = or_else [] (var ''WHATSAPP_ACCESS_TOKEN''),
     wa_graph_version = or_else [] (var ''WHATSAPP_GRAPH_VERSION'')\<rparr>"

definition wa_digits :: "string \<Rightarrow> bool" where
  "wa_digits v \<longleftrightarrow> v \<noteq> [] \<and> length v \<le> 32 \<and> list_all is_ascii_digit v"

definition valid_version :: "string \<Rightarrow> bool" where
  "valid_version v = (case Option.bind (strip_prefix ''v'' v) (split_once CHR ''.'') of
      None \<Rightarrow> False | Some (a, b) \<Rightarrow> wa_digits a \<and> wa_digits b)"

definition configured :: "whatsapp_config \<Rightarrow> bool" where
  "configured c \<longleftrightarrow> wa_digits (wa_phone_number_id c) \<and> wa_digits (wa_business_number c)
     \<and> length (wa_app_secret c) \<ge> 16 \<and> length (wa_verify_token c) \<ge> 32
     \<and> wa_access_token c \<noteq> [] \<and> valid_version (wa_graph_version c)"

definition wa_denied :: gateway_error where
  "wa_denied = gateway_error_new 403 ''WHATSAPP_VERIFICATION_FAILED'' ''WhatsApp verification failed''"

definition require_config :: "whatsapp_config \<Rightarrow> gateway_error + unit" where
  "require_config c = (if configured c then Inr () else Inl (gateway_error_new 503 ''WHATSAPP_NOT_CONFIGURED''
     ''WhatsApp is not configured. Continue in the Navi web app.''))"

lemma require_config_Inr [simp]: "require_config c = Inr u \<longleftrightarrow> configured c"
  by (simp add: require_config_def)

section \<open>WhatsApp: webhook verification\<close>

definition verification :: "wa_env \<Rightarrow> whatsapp_config \<Rightarrow> string \<Rightarrow> string \<Rightarrow> string \<Rightarrow> gateway_error + string" where
  "verification env c mode token challenge =
    rbind (require_config c) (\<lambda>u.
    if mode \<noteq> ''subscribe'' \<or> length challenge > 256 \<or> challenge = [] \<or> \<not> ct_eq env token (wa_verify_token c)
    then Inl wa_denied else Inr challenge)"

definition too_many_messages :: gateway_error where
  "too_many_messages = validation ''WhatsApp webhook contains too many messages''"

fun push_messages :: "whatsapp_config \<Rightarrow> json list \<Rightarrow> json list \<Rightarrow> gateway_error + json list" where
  "push_messages c acc [] = Inr acc"
| "push_messages c acc (m # ms) =
    (let acc' = (if jindex m ''type'' = JStr ''text''
                 then acc @ [jobj [(''phone_number_id'', JStr (wa_phone_number_id c)), (''message'', m)]] else acc)
     in if length acc' > 100 then Inl too_many_messages else push_messages c acc' ms)"

definition items_of :: "json \<Rightarrow> json list" where
  "items_of v = (case as_array v of None \<Rightarrow> [] | Some xs \<Rightarrow> xs)"

definition own_change :: "whatsapp_config \<Rightarrow> json \<Rightarrow> bool" where
  "own_change c change \<longleftrightarrow> jindex change ''field'' = JStr ''messages''
     \<and> Option.bind (jpointer [''metadata'', ''phone_number_id''] (jindex change ''value'')) as_str
         = Some (wa_phone_number_id c)"

fun collect_changes :: "whatsapp_config \<Rightarrow> json list \<Rightarrow> json list \<Rightarrow> gateway_error + json list" where
  "collect_changes c acc [] = Inr acc"
| "collect_changes c acc (change # cs) =
    (if \<not> own_change c change then collect_changes c acc cs
     else rbind (push_messages c acc (items_of (jindex (jindex change ''value'') ''messages'')))
            (\<lambda>acc'. collect_changes c acc' cs))"

fun collect_entries :: "whatsapp_config \<Rightarrow> json list \<Rightarrow> json list \<Rightarrow> gateway_error + json list" where
  "collect_entries c acc [] = Inr acc"
| "collect_entries c acc (entry # es) =
    rbind (collect_changes c acc (items_of (jindex entry ''changes''))) (\<lambda>acc'. collect_entries c acc' es)"

definition signature_bytes :: "string \<Rightarrow> gateway_error + string" where
  "signature_bytes signature =
    rbind (ok_or wa_denied (strip_prefix ''sha256='' signature)) (\<lambda>s.
    if length s \<noteq> 64 \<or> \<not> list_all is_ascii_hexdigit s then Inl wa_denied
    else ok_or wa_denied (hex_bytes s))"

definition verified_messages :: "wa_env \<Rightarrow> whatsapp_config \<Rightarrow> string \<Rightarrow> string \<Rightarrow> gateway_error + json list" where
  "verified_messages env c body signature =
    rbind (require_config c) (\<lambda>u.
    if length body > 1024 * 1024 then Inl (validation ''WhatsApp webhook is too large'')
    else
     rbind (signature_bytes signature) (\<lambda>sig.
     if \<not> hmac_verify env (wa_app_secret c) body sig then Inl wa_denied
     else (case wa_from_slice env body of
         Inl e \<Rightarrow> Inl (validation ''Invalid WhatsApp webhook'')
       | Inr payload \<Rightarrow>
           if jindex payload ''object'' \<noteq> JStr ''whatsapp_business_account''
           then Inl (validation ''Invalid WhatsApp account event'')
           else collect_entries c [] (items_of (jindex payload ''entry'')))))"

section \<open>WhatsApp: inbound messages\<close>

definition str_or_empty :: "json \<Rightarrow> string" where
  "str_or_empty v = or_else [] (as_str v)"

definition occurred_of :: "wa_env \<Rightarrow> json \<Rightarrow> string option" where
  "occurred_of env message = Option.bind (Option.bind (as_str (jindex message ''timestamp'')) parse_i64)
     (\<lambda>t. if t > 0 then timestamp_rfc3339 env t else None)"

definition wa_normalize_inbound :: "wa_env \<Rightarrow> whatsapp_config \<Rightarrow> json \<Rightarrow> gateway_error + inbound_message" where
  "wa_normalize_inbound env c payload =
    rbind (require_config c) (\<lambda>u.
    if as_str (jindex payload ''phone_number_id'') \<noteq> Some (wa_phone_number_id c) then Inl wa_denied
    else
     (let message = jindex payload ''message'';
          sender = str_or_empty (jindex message ''from'');
          mid = str_or_empty (jindex message ''id'');
          text' = or_else [] (Option.bind (jpointer [''text'', ''body''] message) as_str) in
      rbind (ok_or (validation ''WhatsApp event timestamp is invalid'') (occurred_of env message)) (\<lambda>occurred.
      if \<not> wa_digits sender \<or> mid = [] \<or> length mid > 512 \<or> text' = [] \<or> chars_count text' > 4096
      then Inl (validation ''Invalid WhatsApp text event'')
      else Inr \<lparr>
        in_platform = ''whatsapp'', in_chat_id = sender, in_user_id = sender, in_text = text',
        in_message_id = mid, in_chat_type = ''p2p'',
        in_route_key = stable_id (sha256_hex env) ''gw_route_''
          (wa_to_string env (JArr [JStr ''whatsapp'', JStr (wa_phone_number_id c), JStr sender])) 24,
        in_session_id = [], in_mentions = [], in_attachments = [], in_metadata = [],
        in_timestamp = occurred, in_raw_payload = JNull\<rparr>)))"

interpretation whatsapp: platform_adapter "wa_normalize_inbound env c"
  by unfold_locales
    (auto simp: wa_normalize_inbound_def addressed_def wa_digits_def Let_def split: if_splits)

section \<open>WhatsApp: outbound messages\<close>

text \<open>A reply of the Graph API; the body is \<open>None\<close> when reading or parsing it fails.\<close>

record graph_reply =
  gr_status :: nat
  gr_length :: "nat option"
  gr_json :: "json option"

definition wa_endpoint :: "whatsapp_config \<Rightarrow> string \<Rightarrow> string" where
  "wa_endpoint c suffix = ''https://graph.facebook.com/'' @ wa_graph_version c @ ''/'' @ wa_phone_number_id c
     @ ''/'' @ suffix"

definition wa_decode :: "graph_reply \<Rightarrow> gateway_error + json" where
  "wa_decode r =
    (if \<not> is_success (gr_status r) then Inl (gateway_error_new 502 ''WHATSAPP_DELIVERY_FAILED''
       ''WhatsApp rejected the message. Check the account, recipient and messaging window.'')
     else if (case gr_length r of None \<Rightarrow> False | Some n \<Rightarrow> n > 1024 * 1024)
     then Inl (infrastructure ''WhatsApp response is too large'')
     else ok_or (infrastructure ''WhatsApp returned an invalid response'') (gr_json r))"

definition message_body :: "outbound_message \<Rightarrow> prepared_outbound option \<Rightarrow> gateway_error + json" where
  "message_body m prepared =
    (if \<not> wa_digits (out_chat_id m) \<or> chars_count (out_text m) > 4096
     then Inl (validation ''Invalid WhatsApp recipient or message size'')
     else
      (let base = [(''messaging_product'', JStr ''whatsapp''), (''recipient_type'', JStr ''individual''),
                   (''to'', JStr (out_chat_id m))] in
       case prepared of
         Some media \<Rightarrow>
           if out_text m \<noteq> [] \<and> chars_count (out_text m) > 1024
           then Inl (validation ''WhatsApp image caption is too long'')
           else Inr (jobj (base @ [(''type'', JStr ''image''), (''image'',
             jobj ((''id'', JStr (provider_media_id media)) #
               (if out_text m = [] then [] else [(''caption'', JStr (out_text m))])))]))
       | None \<Rightarrow>
           if out_attachments m \<noteq> [] \<or> trim (out_text m) = []
           then Inl (validation ''WhatsApp media must be prepared before delivery'')
           else Inr (jobj (base @ [(''type'', JStr ''text''), (''text'',
             jobj [(''preview_url'', JBool False), (''body'', JStr (out_text m))])]))))"

text \<open>
  Reading the cached image below the opened cache directory (\<open>None\<close> where the system call fails),
  and the reply to the upload.
\<close>

record media_io =
  mi_root :: bool
  mi_open :: bool
  mi_length :: "nat option"
  mi_bytes :: "string option"
  mi_reply :: "graph_reply option"

definition max_image :: nat where "max_image = 5 * 1024 * 1024"

definition image_mime :: "outbound_message \<Rightarrow> gateway_error + string" where
  "image_mime m =
    (if length (out_attachments m) \<noteq> 1 then Inl (validation ''Prepare one WhatsApp image per delivery item'')
     else
      (let mime = str_or_empty (jindex (hd (out_attachments m)) ''mime_type'') in
       if mime \<noteq> ''image/jpeg'' \<and> mime \<noteq> ''image/png''
       then Inl (validation ''WhatsApp supports JPEG or PNG image replies'') else Inr mime))"

definition image_path :: "string \<Rightarrow> outbound_message \<Rightarrow> gateway_error + path_component list" where
  "image_path cache m =
    rbind (ok_or wa_denied (strip_components (path_components cache)
        (path_components (str_or_empty (jindex (hd (out_attachments m)) ''path''))))) (\<lambda>relative.
    if \<not> list_all is_normal relative then Inl wa_denied else Inr relative)"

definition image_bytes :: "media_io \<Rightarrow> gateway_error + string" where
  "image_bytes io =
    (if \<not> mi_root io \<or> \<not> mi_open io then Inl wa_denied
     else
      rbind (ok_or wa_denied (mi_length io)) (\<lambda>len.
      if len > max_image then Inl (validation ''WhatsApp image is too large'')
      else
       rbind (ok_or wa_denied (mi_bytes io)) (\<lambda>content.
       let bytes = take (max_image + 1) content in
       if bytes = [] \<or> length bytes > max_image then Inl (validation ''Invalid WhatsApp image'')
       else Inr bytes)))"

definition media_id_of :: "json \<Rightarrow> gateway_error + string" where
  "media_id_of result = ok_or (infrastructure ''WhatsApp upload did not return a media ID'')
     (case as_str (jindex result ''id'') of None \<Rightarrow> None | Some v \<Rightarrow> if v = [] then None else Some v)"

definition wa_prepare_outbound ::
  "whatsapp_config \<Rightarrow> string \<Rightarrow> media_io \<Rightarrow> outbound_message \<Rightarrow> gateway_error + prepared_outbound option" where
  "wa_prepare_outbound c cache io m =
    rbind (require_config c) (\<lambda>u.
    if out_attachments m = [] then Inr None
    else
     rbind (image_mime m) (\<lambda>mime. rbind (image_path cache m) (\<lambda>relative. rbind (image_bytes io) (\<lambda>bytes.
     rbind (ok_or (infrastructure ''WhatsApp media upload is unavailable'') (mi_reply io)) (\<lambda>reply.
     rbind (wa_decode reply) (\<lambda>result. rbind (media_id_of result) (\<lambda>mid.
     Inr (Some \<lparr>provider_media_id = mid, provider_client_id = None,
                prepared_state = jobj [(''kind'', JStr ''image'')]\<rparr>))))))))"

definition message_id_of :: "json \<Rightarrow> gateway_error + string" where
  "message_id_of result = ok_or (infrastructure ''WhatsApp did not return a message ID'')
     (case Option.bind (jpointer [''messages'', ''0'', ''id''] result) as_str of
        None \<Rightarrow> None | Some v \<Rightarrow> if v = [] then None else Some v)"

definition wa_send_prepared_outbound ::
  "whatsapp_config \<Rightarrow> graph_reply option \<Rightarrow> outbound_message \<Rightarrow> prepared_outbound option \<Rightarrow> gateway_error + json" where
  "wa_send_prepared_outbound c reply m prepared =
    rbind (require_config c) (\<lambda>u. rbind (message_body m prepared) (\<lambda>body.
    rbind (ok_or (gateway_error_new 502 ''WHATSAPP_DELIVERY_UNCERTAIN'' ''WhatsApp delivery could not be confirmed'') reply)
      (\<lambda>r. rbind (wa_decode r) (\<lambda>result. rbind (message_id_of result) (\<lambda>mid.
    Inr (jobj [(''platform'', JStr ''whatsapp''), (''delivery'', JStr ''whatsapp''), (''sent'', JBool True),
               (''message_id'', JStr mid), (''provider_message_id'', JStr mid)]))))))"

definition wa_send_outbound ::
  "whatsapp_config \<Rightarrow> string \<Rightarrow> media_io \<Rightarrow> graph_reply option \<Rightarrow> outbound_message \<Rightarrow> gateway_error + json" where
  "wa_send_outbound c cache io reply m =
    rbind (wa_prepare_outbound c cache io m) (wa_send_prepared_outbound c reply m)"

definition wa_profile :: "whatsapp_config \<Rightarrow> json" where
  "wa_profile c = jobj [(''adapter_name'', JStr ''whatsapp''), (''surface_family'', JStr ''whatsapp''),
     (''transport_mode'', JStr ''cloud_api''), (''configured'', JBool (configured c)),
     (''supports_live_receive'', JBool (configured c)), (''supports_attachments'', JBool True),
     (''supports_replies'', JBool True), (''supports_updates'', JBool False), (''supports_mentions'', JBool False),
     (''business_number'', jstr_opt (if configured c then Some (wa_business_number c) else None))]"

end
