(* ===== verification/WhatsApp_Inbox.thy ===== *)
theory WhatsApp_Inbox
  imports WhatsApp_Adapter
begin

text \<open>
  The durable inbox of \<^verbatim>\<open>src/adapters/whatsapp.rs\<close>: one file per received message in the directory
  \<^verbatim>\<open>whatsapp-inbox\<close>, written by \<open>enqueue\<close>, handed to a worker by \<open>claim_message\<close> and settled by
  \<open>finish_message\<close>, all under the directory's lock. A directory is the ordered list of its entries;
  the order in which \<^verbatim>\<open>read_dir\<close> lists them and every operating-system failure (with the text of its
  error) are inputs.
\<close>

section \<open>The directory\<close>

type_synonym inbox_dir = "(string \<times> string) list"

datatype inbox_error = Failed gateway_error | Panicked

definition os_error :: "string \<Rightarrow> inbox_error" where
  "os_error msg = Failed (infrastructure msg)"

definition os_step :: "string option \<Rightarrow> inbox_error + unit" where
  "os_step failure = (case failure of None \<Rightarrow> Inr () | Some msg \<Rightarrow> Inl (os_error msg))"

definition not_found :: inbox_error where
  "not_found = os_error ''No such file or directory (os error 2)''"

record inbox_io =
  ii_mkdir :: bool
  ii_stat :: "string option"
  ii_symlink :: bool
  ii_chmod :: "string option"
  ii_open :: "string option"
  ii_lock :: "string option"

definition lock_entry :: string where "lock_entry = ''inbox.lock''"

definition inbox :: "string \<Rightarrow> inbox_io \<Rightarrow> inbox_error + unit" where
  "inbox cache io =
    rbind (ok_or (Failed wa_denied) (path_parent (path_components cache))) (\<lambda>parent.
    if \<not> ii_mkdir io then Inl (Failed (infrastructure ''WhatsApp inbox is unavailable''))
    else
     rbind (os_step (ii_stat io)) (\<lambda>u.
     if ii_symlink io then Inl (Failed wa_denied) else os_step (ii_chmod io)))"

text \<open>\<^verbatim>\<open>self.inbox()?\<close>, then the lock file is opened (created) and locked.\<close>

definition locked ::
  "string \<Rightarrow> inbox_io \<Rightarrow> (inbox_dir \<Rightarrow> (inbox_error + 'r) \<times> inbox_dir) \<Rightarrow> inbox_dir \<Rightarrow> (inbox_error + 'r) \<times> inbox_dir" where
  "locked cache io body d = (case rbind (inbox cache io) (\<lambda>u. os_step (ii_open io)) of
      Inl e \<Rightarrow> (Inl e, d)
    | Inr u \<Rightarrow>
       (let d1 = oput lock_entry (or_else [] (oget d lock_entry)) d in
        case os_step (ii_lock io) of Inl e \<Rightarrow> (Inl e, d1) | Inr u \<Rightarrow> body d1))"

definition inbox_write :: "wa_env \<Rightarrow> bool \<Rightarrow> string \<Rightarrow> json \<Rightarrow> inbox_dir \<Rightarrow> (inbox_error + unit) \<times> inbox_dir" where
  "inbox_write env written f v d =
    (if written then (Inr (), oput f (wa_to_string env v) d)
     else (Inl (Failed (infrastructure ''WhatsApp inbox could not be saved'')), d))"

definition entry_name :: "string \<Rightarrow> string" where
  "entry_name mid = mid @ ''.json''"

section \<open>Receiving\<close>

definition inbox_id :: "wa_env \<Rightarrow> whatsapp_config \<Rightarrow> string \<Rightarrow> string" where
  "inbox_id env c message_id = sha256_hex env (wa_to_string env (JArr [JStr (wa_phone_number_id c), JStr message_id]))"

definition inbox_full :: gateway_error where
  "inbox_full = gateway_error_new 503 ''WHATSAPP_INBOX_FULL'' ''WhatsApp inbox is at capacity''"

definition new_entry :: "string \<Rightarrow> int \<Rightarrow> json \<Rightarrow> json" where
  "new_entry mid now payload = jobj [(''id'', JStr mid), (''status'', JStr ''pending''), (''created_at'', JInt now),
     (''attempts'', JInt 0), (''payload'', payload)]"

text \<open>What one message of the batch meets: the listing, the write and the clock.\<close>

record enqueue_io =
  ei_list :: "string option"
  ei_write :: bool
  ei_now :: int

fun enqueue_loop ::
  "wa_env \<Rightarrow> whatsapp_config \<Rightarrow> nat \<Rightarrow> (json \<times> enqueue_io) list \<Rightarrow> inbox_dir \<Rightarrow> (inbox_error + nat) \<times> inbox_dir" where
  "enqueue_loop env c count [] d = (Inr count, d)"
| "enqueue_loop env c count ((payload, io) # rest) d = (case wa_normalize_inbound env c payload of
      Inl e \<Rightarrow> (Inl (Failed e), d)
    | Inr inbound \<Rightarrow>
       (let mid = inbox_id env c (in_message_id inbound) in
        if oget d (entry_name mid) \<noteq> None then enqueue_loop env c count rest d
        else case ei_list io of
            Some msg \<Rightarrow> (Inl (os_error msg), d)
          | None \<Rightarrow>
              if length d > 10000 then (Inl (Failed inbox_full), d)
              else case inbox_write env (ei_write io) (entry_name mid) (new_entry mid (ei_now io) payload) d of
                  (Inl e, d1) \<Rightarrow> (Inl e, d1)
                | (Inr u, d1) \<Rightarrow> enqueue_loop env c (count + 1) rest d1))"

definition enqueue ::
  "wa_env \<Rightarrow> whatsapp_config \<Rightarrow> string \<Rightarrow> inbox_io \<Rightarrow> (json \<times> enqueue_io) list \<Rightarrow> inbox_dir \<Rightarrow>
   (inbox_error + nat) \<times> inbox_dir" where
  "enqueue env c cache io messages = locked cache io (enqueue_loop env c 0 messages)"

section \<open>Claiming\<close>

text \<open>What the scan decides about one decoded entry.\<close>

datatype verdict = Discard | Expire json | Grant json | Skip

definition jassign :: "string \<Rightarrow> json \<Rightarrow> json \<Rightarrow> inbox_error + json" where
  "jassign k v j = (case jset k v j of Inl e \<Rightarrow> Inl Panicked | Inr j' \<Rightarrow> Inr j')"

definition i64_or :: "int \<Rightarrow> json \<Rightarrow> int" where
  "i64_or x v = or_else x (as_i64 v)"

definition u64_or :: "nat \<Rightarrow> json \<Rightarrow> nat" where
  "u64_or x v = or_else x (as_u64 v)"

definition settled_long_ago :: "int \<Rightarrow> json \<Rightarrow> bool" where
  "settled_long_ago now item \<longleftrightarrow> i64_or now (jindex item ''created_at'') < now - 7 * 86400
     \<and> jindex item ''status'' = JStr ''done''"

definition gave_up :: "int \<Rightarrow> json \<Rightarrow> bool" where
  "gave_up now item \<longleftrightarrow> jindex item ''status'' \<noteq> JStr ''done''
     \<and> (i64_or 0 (jindex item ''created_at'') < now - 86400 \<or> u64_or 0 (jindex item ''attempts'') \<ge> 30)"

definition claimable :: "int \<Rightarrow> json \<Rightarrow> bool" where
  "claimable now item \<longleftrightarrow> (jindex item ''status'' = JStr ''pending''
       \<or> (jindex item ''status'' = JStr ''running'' \<and> i64_or now (jindex item ''claimed_at'') < now - 600))
     \<and> \<not> i64_or 0 (jindex item ''retry_at'') > now"

definition judge :: "int \<Rightarrow> json \<Rightarrow> inbox_error + verdict" where
  "judge now item =
    (if settled_long_ago now item then Inr Discard
     else if gave_up now item then
       rbind (jassign ''status'' (JStr ''done'') item) (\<lambda>i. rbind (jassign ''payload'' JNull i) (\<lambda>i.
       rbind (jassign ''error_code'' (JStr ''WHATSAPP_RECEIVE_EXPIRED'') i) (\<lambda>i. Inr (Expire i))))
     else if claimable now item then
       rbind (jassign ''status'' (JStr ''running'') item) (\<lambda>i. rbind (jassign ''claimed_at'' (JInt now) i) (\<lambda>i.
       rbind (jassign ''attempts'' (JInt (int (u64_or 0 (jindex i ''attempts'') + 1))) i) (\<lambda>i. Inr (Grant i))))
     else Inr Skip)"

text \<open>One step of the listing: the name or a failure, and what the system calls on it answer.\<close>

record visit =
  vi_entry :: "string + string"
  vi_stat :: "string option"
  vi_regular :: bool
  vi_metadata :: "string option"
  vi_read :: "string option"
  vi_remove :: "string option"
  vi_write :: bool

definition max_entry :: nat where "max_entry = 65536"

text \<open>Everything before the decision: the next file and its decoded content, or nothing to look at.\<close>

definition read_entry :: "wa_env \<Rightarrow> visit \<Rightarrow> inbox_dir \<Rightarrow> inbox_error + (string \<times> json) option" where
  "read_entry env v d = (case vi_entry v of
      Inl msg \<Rightarrow> Inl (os_error msg)
    | Inr f \<Rightarrow>
       if extension f \<noteq> Some ''json'' then Inr None
       else
        rbind (os_step (vi_stat v)) (\<lambda>u. case oget d f of
            None \<Rightarrow> Inl not_found
          | Some bytes \<Rightarrow>
             if \<not> vi_regular v then Inr None
             else
              rbind (os_step (vi_metadata v)) (\<lambda>u.
              if length bytes > max_entry then Inr None
              else
               rbind (os_step (vi_read v)) (\<lambda>u. case wa_from_slice env bytes of
                   Inl msg \<Rightarrow> Inl (os_error msg) | Inr item \<Rightarrow> Inr (Some (f, item))))))"

fun claim_loop :: "wa_env \<Rightarrow> int \<Rightarrow> visit list \<Rightarrow> inbox_dir \<Rightarrow> (inbox_error + json option) \<times> inbox_dir" where
  "claim_loop env now [] d = (Inr None, d)"
| "claim_loop env now (v # vs) d = (case read_entry env v d of
      Inl e \<Rightarrow> (Inl e, d)
    | Inr None \<Rightarrow> claim_loop env now vs d
    | Inr (Some (f, item)) \<Rightarrow> (case judge now item of
          Inl e \<Rightarrow> (Inl e, d)
        | Inr Discard \<Rightarrow> (case os_step (vi_remove v) of
              Inl e \<Rightarrow> (Inl e, d) | Inr u \<Rightarrow> claim_loop env now vs (odel f d))
        | Inr (Expire i) \<Rightarrow> (case inbox_write env (vi_write v) f i d of
              (Inl e, d1) \<Rightarrow> (Inl e, d1) | (Inr u, d1) \<Rightarrow> claim_loop env now vs d1)
        | Inr (Grant i) \<Rightarrow> (case inbox_write env (vi_write v) f i d of
              (Inl e, d1) \<Rightarrow> (Inl e, d1) | (Inr u, d1) \<Rightarrow> (Inr (Some i), d1))
        | Inr Skip \<Rightarrow> claim_loop env now vs d))"

text \<open>\<open>listing\<close> is the outcome of \<^verbatim>\<open>read_dir\<close>: a failure or the entries it yields.\<close>

definition claim_message ::
  "wa_env \<Rightarrow> whatsapp_config \<Rightarrow> string \<Rightarrow> inbox_io \<Rightarrow> int \<Rightarrow> string + visit list \<Rightarrow> inbox_dir \<Rightarrow>
   (inbox_error + json option) \<times> inbox_dir" where
  "claim_message env c cache io now listing d =
    (if \<not> configured c then (Inr None, d)
     else locked cache io (\<lambda>d1. case listing of
         Inl msg \<Rightarrow> (Inl (os_error msg), d1) | Inr visits \<Rightarrow> claim_loop env now visits d1) d)"

section \<open>Settling\<close>

definition hex_id64 :: "string \<Rightarrow> bool" where
  "hex_id64 s \<longleftrightarrow> length s = 64 \<and> list_all is_ascii_hexdigit s"

definition finished_entry :: "int \<Rightarrow> bool \<Rightarrow> json \<Rightarrow> inbox_error + json" where
  "finished_entry now retry item =
    (if retry then rbind (jassign ''status'' (JStr ''pending'') item) (jassign ''retry_at'' (JInt (now + 60)))
     else rbind (jassign ''status'' (JStr ''done'') item) (jassign ''payload'' JNull))"

definition finish_message ::
  "wa_env \<Rightarrow> string \<Rightarrow> inbox_io \<Rightarrow> string option \<Rightarrow> bool \<Rightarrow> int \<Rightarrow> json \<Rightarrow> bool \<Rightarrow> inbox_dir \<Rightarrow>
   (inbox_error + unit) \<times> inbox_dir" where
  "finish_message env cache io read written now item retry d =
    (let mid = str_or_empty (jindex item ''id'') in
     if \<not> hex_id64 mid then (Inl (Failed wa_denied), d)
     else locked cache io (\<lambda>d1.
       case oget d1 (entry_name mid) of None \<Rightarrow> (Inl not_found, d1) | Some bytes \<Rightarrow>
       case os_step read of Inl e \<Rightarrow> (Inl e, d1) | Inr u \<Rightarrow>
       (case wa_from_slice env bytes of Inl msg \<Rightarrow> (Inl (os_error msg), d1) | Inr current \<Rightarrow>
       (if jindex current ''status'' \<noteq> JStr ''running''
           \<or> jindex current ''attempts'' \<noteq> jindex item ''attempts''
           \<or> jindex current ''claimed_at'' \<noteq> jindex item ''claimed_at''
        then (Inr (), d1)
        else case finished_entry now retry item of Inl e \<Rightarrow> (Inl e, d1)
          | Inr item' \<Rightarrow> inbox_write env written (entry_name mid) item' d1))) d)"

section \<open>Runs of operations\<close>

datatype inbox_op =
    Enqueue inbox_io "(json \<times> enqueue_io) list"
  | Claim inbox_io int "string + visit list"
  | Finish inbox_io "string option" bool int json bool

definition granted :: "inbox_error + json option \<Rightarrow> json option" where
  "granted r = (case r of Inr (Some i) \<Rightarrow> Some i | _ \<Rightarrow> None)"

text \<open>One operation: the message it hands to the worker, if any, and the directory after it.\<close>

fun inbox_step :: "wa_env \<Rightarrow> whatsapp_config \<Rightarrow> string \<Rightarrow> inbox_op \<Rightarrow> inbox_dir \<Rightarrow> json option \<times> inbox_dir" where
  "inbox_step env c cache (Enqueue io ms) d = (None, snd (enqueue env c cache io ms d))"
| "inbox_step env c cache (Claim io now listing) d =
     (granted (fst (claim_message env c cache io now listing d)), snd (claim_message env c cache io now listing d))"
| "inbox_step env c cache (Finish io read written now item retry) d =
     (None, snd (finish_message env cache io read written now item retry d))"

fun inbox_run :: "wa_env \<Rightarrow> whatsapp_config \<Rightarrow> string \<Rightarrow> inbox_op list \<Rightarrow> inbox_dir \<Rightarrow> json list \<times> inbox_dir" where
  "inbox_run env c cache [] d = ([], d)"
| "inbox_run env c cache (op # ops) d =
    (let (g, d1) = inbox_step env c cache op d; (gs, d2) = inbox_run env c cache ops d1
     in ((case g of None \<Rightarrow> gs | Some i \<Rightarrow> i # gs), d2))"

text \<open>The values the operations are given can be stored and read back.\<close>

definition wa_serde_ok :: "wa_env \<Rightarrow> bool" where
  "wa_serde_ok env \<longleftrightarrow>
     (\<forall>v. jwf (wa_f64_text env) v \<and> jdepth v \<le> 127 \<longrightarrow> wa_from_slice env (wa_to_string env v) = Inr v)
   \<and> (\<forall>s v. wa_from_slice env s = Inr v \<longrightarrow> jwf (wa_f64_text env) v \<and> jdepth v \<le> 127)"

definition storable_value :: "wa_env \<Rightarrow> nat \<Rightarrow> json \<Rightarrow> bool" where
  "storable_value env n v \<longleftrightarrow> jwf (wa_f64_text env) v \<and> jdepth v \<le> n"

definition i64_fits :: "int \<Rightarrow> bool" where
  "i64_fits i \<longleftrightarrow> i64_min \<le> i \<and> i \<le> i64_max"

fun inbox_op_ok :: "wa_env \<Rightarrow> inbox_op \<Rightarrow> bool" where
  "inbox_op_ok env (Enqueue io ms) = list_all (\<lambda>(p, e). storable_value env 126 p \<and> i64_fits (ei_now e)) ms"
| "inbox_op_ok env (Claim io now listing) = i64_fits now"
| "inbox_op_ok env (Finish io read written now item retry) = (storable_value env 127 item \<and> i64_fits (now + 60))"

definition entry_at :: "wa_env \<Rightarrow> inbox_dir \<Rightarrow> string \<Rightarrow> json option" where
  "entry_at env d f = (case oget d f of None \<Rightarrow> None
     | Some bytes \<Rightarrow> (case wa_from_slice env bytes of Inl e \<Rightarrow> None | Inr v \<Rightarrow> Some v))"

fun after :: "json \<Rightarrow> verdict \<Rightarrow> json option" where
  "after i Discard = None"
| "after i (Expire w) = Some w"
| "after i (Grant w) = Some w"
| "after i Skip = Some i"

lemma extension_entry_name [simp]: "extension (entry_name mid) = (if mid = [] then None else Some ''json'')"
  using extension_append [of mid "''json''"] by (simp add: entry_name_def extension_def)

lemma extension_lock_entry [simp]: "extension lock_entry = Some ''lock''"
  by (simp add: lock_entry_def extension_def)

lemma entry_name_inj [simp]: "entry_name a = entry_name b \<longleftrightarrow> a = b"
  by (simp add: entry_name_def)

lemma hex_id64_nonempty: "hex_id64 s \<Longrightarrow> s \<noteq> []"
  by (auto simp: hex_id64_def)

lemma entry_at_other [simp]: "f \<noteq> g \<Longrightarrow> entry_at env (oput g b d) f = entry_at env d f"
  by (simp add: entry_at_def)

lemma entry_at_del [simp]: "entry_at env (odel g d) f = (if f = g then None else entry_at env d f)"
  by (simp add: entry_at_def)

lemma entry_at_written:
  "wa_serde_ok env \<Longrightarrow> storable_value env 127 v \<Longrightarrow> entry_at env (oput f (wa_to_string env v) d) f = Some v"
  by (simp add: entry_at_def wa_serde_ok_def storable_value_def)

lemma entry_at_storable: "wa_serde_ok env \<Longrightarrow> entry_at env d f = Some v \<Longrightarrow> storable_value env 127 v"
  by (auto simp: entry_at_def wa_serde_ok_def storable_value_def split: option.splits sum.splits)

text \<open>Assigning a scalar member keeps a value storable.\<close>

lemma jassign_Inr: "jassign k v j = Inr j' \<longleftrightarrow> jset k v j = Inr j'"
  by (auto simp: jassign_def split: sum.splits)

lemma jassign_storable:
  assumes "jassign k v j = Inr j'" "storable_value env n j" "jwf (wa_f64_text env) v" "jdepth v = 0" "0 < n"
  shows "storable_value env n j'"
  using assms jdepth_oput [of _ n v k]
  by (cases j) (auto simp: jassign_Inr storable_value_def owf_def)

lemma jindex_jassign:
  "jassign k v j = Inr j' \<Longrightarrow> jindex j' k' = (if k' = k then v else jindex j k')"
  by (cases j) (auto simp: jassign_Inr jindex_def)

lemma jassign_is_object: "jassign k v j = Inr j' \<Longrightarrow> is_object j'"
  by (cases j) (auto simp: jassign_Inr is_object_def)

section \<open>What the scan writes\<close>

lemma judge_Discard: "judge now i = Inr Discard \<longleftrightarrow> settled_long_ago now i"
  by (auto simp: judge_def)

lemma judge_Skip: "judge now i = Inr Skip \<longleftrightarrow> \<not> settled_long_ago now i \<and> \<not> gave_up now i \<and> \<not> claimable now i"
  by (auto simp: judge_def)

lemma judge_Expire:
  assumes "judge now i = Inr (Expire w)"
  shows "gave_up now i"
    and "jindex w k = (if k = ''error_code'' then JStr ''WHATSAPP_RECEIVE_EXPIRED'' else if k = ''payload'' then JNull
           else if k = ''status'' then JStr ''done'' else jindex i k)"
    and "storable_value env 127 i \<Longrightarrow> storable_value env 127 w"
proof -
  from assms obtain i1 i2 where s: "gave_up now i" "jassign ''status'' (JStr ''done'') i = Inr i1"
    "jassign ''payload'' JNull i1 = Inr i2" "jassign ''error_code'' (JStr ''WHATSAPP_RECEIVE_EXPIRED'') i2 = Inr w"
    by (auto simp: judge_def split: if_splits)
  from s(1) show "gave_up now i" .
  from s show "jindex w k = (if k = ''error_code'' then JStr ''WHATSAPP_RECEIVE_EXPIRED'' else if k = ''payload'' then JNull
           else if k = ''status'' then JStr ''done'' else jindex i k)"
    by (simp add: jindex_jassign)
  assume "storable_value env 127 i"
  then have "storable_value env 127 i1" using jassign_storable [OF s(2)] by simp
  then have "storable_value env 127 i2" using jassign_storable [OF s(3)] by simp
  then show "storable_value env 127 w" using jassign_storable [OF s(4)] by simp
qed

lemma judge_Grant:
  assumes "judge now i = Inr (Grant w)"
  shows "claimable now i" and "\<not> gave_up now i" and "\<not> settled_long_ago now i"
    and "jindex w k = (if k = ''attempts'' then JInt (int (u64_or 0 (jindex i ''attempts'') + 1))
           else if k = ''claimed_at'' then JInt now else if k = ''status'' then JStr ''running'' else jindex i k)"
    and "storable_value env 127 i \<Longrightarrow> i64_fits now \<Longrightarrow> storable_value env 127 w"
    and "u64_or 0 (jindex i ''attempts'') < 30"
proof -
  from assms obtain i1 i2 where s: "claimable now i" "\<not> gave_up now i" "\<not> settled_long_ago now i"
    "jassign ''status'' (JStr ''running'') i = Inr i1" "jassign ''claimed_at'' (JInt now) i1 = Inr i2"
    "jassign ''attempts'' (JInt (int (u64_or 0 (jindex i2 ''attempts'') + 1))) i2 = Inr w"
    by (auto simp: judge_def split: if_splits)
  from s show "claimable now i" "\<not> gave_up now i" "\<not> settled_long_ago now i" by blast+
  have a: "jindex i2 ''attempts'' = jindex i ''attempts''" using s(4,5) by (simp add: jindex_jassign)
  from s show "jindex w k = (if k = ''attempts'' then JInt (int (u64_or 0 (jindex i ''attempts'') + 1))
           else if k = ''claimed_at'' then JInt now else if k = ''status'' then JStr ''running'' else jindex i k)"
    by (simp add: jindex_jassign a)
  show lt: "u64_or 0 (jindex i ''attempts'') < 30"
    using s(1,2) by (auto simp: gave_up_def claimable_def)
  assume "storable_value env 127 i" and now: "i64_fits now"
  then have "storable_value env 127 i1" using jassign_storable [OF s(4)] by simp
  then have "storable_value env 127 i2" using jassign_storable [OF s(5)] now
    by (simp add: i64_fits_def i64_max_def u64_max_def)
  then show "storable_value env 127 w" using jassign_storable [OF s(6)] lt
    by (simp add: a i64_min_def u64_max_def)
qed

lemma finished_entry_fields:
  assumes "finished_entry now retry item = Inr w"
  shows "jindex w k = (if k = ''status'' then JStr (if retry then ''pending'' else ''done'')
      else if retry \<and> k = ''retry_at'' then JInt (now + 60) else if \<not> retry \<and> k = ''payload'' then JNull
      else jindex item k)"
  using assms by (auto simp: finished_entry_def jindex_jassign split: if_splits)

lemma finished_entry_storable:
  assumes "finished_entry now retry item = Inr w" "storable_value env 127 item" "i64_fits (now + 60)"
  shows "storable_value env 127 w"
proof (cases retry)
  case True
  with assms(1) obtain i where i: "jassign ''status'' (JStr ''pending'') item = Inr i"
    "jassign ''retry_at'' (JInt (now + 60)) i = Inr w" by (auto simp: finished_entry_def)
  have "storable_value env 127 i" using jassign_storable [OF i(1) assms(2)] by simp
  then show ?thesis using jassign_storable [OF i(2)] assms(3) by (simp add: i64_fits_def i64_max_def u64_max_def)
next
  case False
  with assms(1) obtain i where i: "jassign ''status'' (JStr ''done'') item = Inr i"
    "jassign ''payload'' JNull i = Inr w" by (auto simp: finished_entry_def)
  have "storable_value env 127 i" using jassign_storable [OF i(1) assms(2)] by simp
  then show ?thesis using jassign_storable [OF i(2)] by simp
qed

lemma new_entry_fields:
  "jindex (new_entry mid now p) k = (if k = ''payload'' then p else if k = ''attempts'' then JInt 0
     else if k = ''created_at'' then JInt now else if k = ''status'' then JStr ''pending''
     else if k = ''id'' then JStr mid else JNull)"
  by (simp add: new_entry_def jindex_def jget_jobj)

lemma new_entry_storable: "storable_value env 126 p \<Longrightarrow> i64_fits now \<Longrightarrow> storable_value env 127 (new_entry mid now p)"
  unfolding storable_value_def new_entry_def
  by (intro conjI jwf_jobj) (auto simp: jobj_def i64_fits_def i64_min_def i64_max_def u64_max_def)

section \<open>Invariants of the entries\<close>

lemma read_entry_Some:
  "read_entry env v d = Inr (Some (f, i)) \<Longrightarrow> extension f = Some ''json'' \<and> entry_at env d f = Some i"
  by (auto simp: read_entry_def entry_at_def split: sum.splits if_splits option.splits)

lemma claim_loop_cases:
  assumes "claim_loop env now (v # vs) d = (r, d')"
  obtains (failed) e where "d' = d" "r = Inl e"
  | (passed) "claim_loop env now vs d = (r, d')"
  | (discarded) f i where "extension f = Some ''json''" "entry_at env d f = Some i" "judge now i = Inr Discard"
      "claim_loop env now vs (odel f d) = (r, d')"
  | (expired) f i w where "extension f = Some ''json''" "entry_at env d f = Some i" "judge now i = Inr (Expire w)"
      "claim_loop env now vs (oput f (wa_to_string env w) d) = (r, d')"
  | (claimed) f i w where "extension f = Some ''json''" "entry_at env d f = Some i" "judge now i = Inr (Grant w)"
      "r = Inr (Some w)" "d' = oput f (wa_to_string env w) d"
proof (cases "read_entry env v d")
  case (Inr x)
  show thesis
  proof (cases x)
    case (Some y)
    obtain f i where r: "read_entry env v d = Inr (Some (f, i))" using Inr Some by (cases y) simp
    note e = read_entry_Some [OF r]
    show thesis
    proof (cases "judge now i")
      case (Inr w)
      with assms r e show thesis
        by (cases w) (auto simp: inbox_write_def split: sum.splits if_splits intro: that)
    next
      case (Inl e)
      with assms r show thesis by (intro failed [of e]) simp_all
    qed
  next
    case None
    with assms Inr show thesis by (intro passed) simp
  qed
next
  case (Inl e)
  with assms show thesis by (intro failed [of e]) simp_all
qed

definition entries_hold :: "wa_env \<Rightarrow> (string \<Rightarrow> json option \<Rightarrow> bool) \<Rightarrow> inbox_dir \<Rightarrow> bool" where
  "entries_hold env holds d \<longleftrightarrow> (\<forall>f. extension f = Some ''json'' \<longrightarrow> holds f (entry_at env d f))"

text \<open>
  A property of the single entries that every operation keeps is kept by every run. \<open>holds\<close> is the
  property of a file's decoded entry, \<open>permits\<close> the operations under which it is kept.
\<close>

locale entry_invariant =
  fixes env :: wa_env and c :: whatsapp_config
    and holds :: "string \<Rightarrow> json option \<Rightarrow> bool" and permits :: "inbox_op \<Rightarrow> bool"
  assumes enqueued: "permits (Enqueue io ms) \<Longrightarrow> (p, e) \<in> set ms \<Longrightarrow> wa_normalize_inbound env c p = Inr m \<Longrightarrow>
      mid = inbox_id env c (in_message_id m) \<Longrightarrow> holds (entry_name mid) None \<Longrightarrow>
      holds (entry_name mid) (Some (new_entry mid (ei_now e) p))"
    and judged: "permits (Claim io now listing) \<Longrightarrow> holds f (Some i) \<Longrightarrow> judge now i = Inr v \<Longrightarrow> holds f (after i v)"
    and finished: "permits (Finish io rd wr now item retry) \<Longrightarrow> hex_id64 mid \<Longrightarrow> jindex item ''id'' = JStr mid \<Longrightarrow>
      holds (entry_name mid) (Some cur) \<Longrightarrow> jindex cur ''status'' = JStr ''running'' \<Longrightarrow>
      jindex cur ''attempts'' = jindex item ''attempts'' \<Longrightarrow> jindex cur ''claimed_at'' = jindex item ''claimed_at'' \<Longrightarrow>
      finished_entry now retry item = Inr w \<Longrightarrow> holds (entry_name mid) (Some w)"
begin

lemma entries_hold_put:
  assumes "wa_serde_ok env" "entries_hold env holds d" "storable_value env 127 w" "holds f (Some w)"
  shows "entries_hold env holds (oput f (wa_to_string env w) d)"
  unfolding entries_hold_def
proof (intro allI impI)
  fix g assume "extension g = Some ''json''"
  with assms show "holds g (entry_at env (oput f (wa_to_string env w) d) g)"
    by (cases "g = f") (simp_all add: entry_at_written entries_hold_def)
qed

lemma claim_loop_holds:
  assumes "wa_serde_ok env" "i64_fits now" "permits (Claim io now listing)"
    and "claim_loop env now vs d = (r, d')" "entries_hold env holds d"
  shows "entries_hold env holds d' \<and> (\<forall>w. r = Inr (Some w) \<longrightarrow> (\<exists>f i. extension f = Some ''json'' \<and> holds f (Some i)
    \<and> judge now i = Inr (Grant w) \<and> entry_at env d' f = Some w))"
  using assms(4,5)
proof (induction vs arbitrary: d)
  case (Cons v vs)
  have h: "holds f (Some i)" "storable_value env 127 i" if "extension f = Some ''json''" "entry_at env d f = Some i" for f i
    using Cons.prems(2) that entry_at_storable [OF assms(1)] by (fastforce simp: entries_hold_def)+
  note j = judged [OF assms(3)]
  from Cons.prems(1) show ?case
  proof (cases rule: claim_loop_cases)
    case (discarded f i)
    have "entries_hold env holds (odel f d)"
      using Cons.prems(2) j [OF h(1) [OF discarded(1,2)] discarded(3)] by (auto simp: entries_hold_def)
    with Cons.IH discarded(4) show ?thesis by blast
  next
    case (expired f i w)
    have "entries_hold env holds (oput f (wa_to_string env w) d)"
      using entries_hold_put [OF assms(1) Cons.prems(2) judge_Expire(3) [OF expired(3) h(2) [OF expired(1,2)]]]
        j [OF h(1) [OF expired(1,2)] expired(3)] by simp
    with Cons.IH expired(4) show ?thesis by blast
  next
    case (claimed f i w)
    note st = judge_Grant(5) [OF claimed(3) h(2) [OF claimed(1,2)] assms(2)]
    have "entries_hold env holds d'" using entries_hold_put [OF assms(1) Cons.prems(2) st] j [OF h(1) [OF claimed(1,2)] claimed(3)]
      by (simp add: claimed(5))
    moreover have "entry_at env d' f = Some w" using entry_at_written [OF assms(1) st] claimed(5) by simp
    ultimately show ?thesis using h(1) [OF claimed(1,2)] claimed(1,3,4) by blast
  qed (use Cons.IH Cons.prems(2) in \<open>blast+\<close>)
qed auto

lemma enqueue_loop_holds:
  assumes "wa_serde_ok env" "permits (Enqueue io ms)" "inbox_op_ok env (Enqueue io ms)"
    and "set msgs \<subseteq> set ms" "entries_hold env holds d"
  shows "entries_hold env holds (snd (enqueue_loop env c n msgs d))"
  using assms(4,5)
proof (induction msgs arbitrary: d n)
  case (Cons pe msgs)
  obtain p e where pe: "pe = (p, e)" by fastforce
  then have ok: "storable_value env 126 p" "i64_fits (ei_now e)"
    using Cons.prems(1) assms(3) by (auto simp: list_all_iff)
  have new: "entries_hold env holds (oput (entry_name mid) (wa_to_string env (new_entry mid (ei_now e) p)) d)"
    if "wa_normalize_inbound env c p = Inr m" "mid = inbox_id env c (in_message_id m)"
      "oget d (entry_name mid) = None" for m mid
  proof (cases "mid = []")
    case True
    then show ?thesis using Cons.prems(2) by (auto simp: entries_hold_def intro: entry_at_other [THEN ssubst])
  next
    case False
    then have "holds (entry_name mid) None"
      using Cons.prems(2) that(3) by (auto simp: entries_hold_def entry_at_def dest: spec [of _ "entry_name mid"])
    then show ?thesis
      using entries_hold_put [OF assms(1) Cons.prems(2) new_entry_storable [OF ok]]
        enqueued [OF assms(2) _ that(1,2)] Cons.prems(1) pe by auto
  qed
  show ?case
    using Cons.prems Cons.IH pe new by (auto simp: Let_def inbox_write_def split: sum.splits option.splits)
qed simp

lemma locked_holds:
  assumes "entries_hold env holds d" and "\<And>d1. entries_hold env holds d1 \<Longrightarrow> entries_hold env holds (snd (body d1))"
  shows "entries_hold env holds (snd (locked cache io body d))"
proof -
  have "entries_hold env holds (oput lock_entry b d)" for b
    unfolding entries_hold_def
  proof (intro allI impI)
    fix f assume f: "extension f = Some ''json''"
    then have "f \<noteq> lock_entry" by auto
    with f assms(1) show "holds f (entry_at env (oput lock_entry b d) f)" by (simp add: entries_hold_def)
  qed
  then show ?thesis using assms by (auto simp: locked_def Let_def split: sum.splits)
qed

end

context entry_invariant begin

lemma finish_holds:
  assumes "wa_serde_ok env" "permits (Finish io rd wr now item retry)" "inbox_op_ok env (Finish io rd wr now item retry)"
    and "entries_hold env holds d"
  shows "entries_hold env holds (snd (finish_message env cache io rd wr now item retry d))"
proof (cases "hex_id64 (str_or_empty (jindex item ''id''))")
  case True
  let ?mid = "str_or_empty (jindex item ''id'')"
  have mid: "jindex item ''id'' = JStr ?mid" using hex_id64_nonempty [OF True]
    by (cases "jindex item ''id''") (auto simp: str_or_empty_def or_else_def)
  have put: "entries_hold env holds (oput (entry_name ?mid) (wa_to_string env w) d1)"
    if "entries_hold env holds d1" "oget d1 (entry_name ?mid) = Some bytes" "wa_from_slice env bytes = Inr cur"
      "jindex cur ''status'' = JStr ''running''" "jindex cur ''attempts'' = jindex item ''attempts''"
      "jindex cur ''claimed_at'' = jindex item ''claimed_at''" "finished_entry now retry item = Inr w" for d1 bytes cur w
  proof -
    have "holds (entry_name ?mid) (Some cur)"
      using that(1-3) hex_id64_nonempty [OF True]
      by (auto simp: entries_hold_def entry_at_def dest: spec [of _ "entry_name ?mid"])
    from finished [OF assms(2) True mid this that(4-7)] show ?thesis
      using entries_hold_put [OF assms(1) that(1) finished_entry_storable [OF that(7)]] assms(3) by simp
  qed
  show ?thesis unfolding finish_message_def Let_def using True
    by (simp, intro locked_holds [OF assms(4)])
      (auto simp: inbox_write_def intro: put split: option.splits sum.splits)
qed (simp add: finish_message_def assms(4))

lemma step_holds:
  assumes "wa_serde_ok env" "permits op" "inbox_op_ok env op" "entries_hold env holds d" "inbox_step env c cache op d = (g, d')"
  shows "entries_hold env holds d' \<and> (\<forall>w. g = Some w \<longrightarrow> (\<exists>io now l f i. op = Claim io now l \<and> extension f = Some ''json''
    \<and> holds f (Some i) \<and> judge now i = Inr (Grant w) \<and> entry_at env d' f = Some w))"
proof (cases op)
  case (Enqueue io ms)
  with assms show ?thesis
    using locked_holds [OF assms(4), of "enqueue_loop env c 0 ms" cache io]
      enqueue_loop_holds [OF assms(1), of io ms ms] by (auto simp: enqueue_def)
next
  case (Finish io rd wr now item retry)
  with assms show ?thesis using finish_holds [OF assms(1)] by auto
next
  case (Claim io now l)
  let ?body = "\<lambda>d1. case l of Inl msg \<Rightarrow> (Inl (os_error msg), d1) | Inr visits \<Rightarrow> claim_loop env now visits d1"
  have loop: "entries_hold env holds d2 \<and> (\<forall>w. r = Inr (Some w) \<longrightarrow> (\<exists>f i. extension f = Some ''json'' \<and> holds f (Some i)
      \<and> judge now i = Inr (Grant w) \<and> entry_at env d2 f = Some w))"
    if "?body d1 = (r, d2)" "entries_hold env holds d1" for d1 d2 r
    using that claim_loop_holds [OF assms(1), of now io l] assms(2,3) Claim by (auto split: sum.splits)
  have dir: "entries_hold env holds d'"
  proof (cases "configured c")
    case True
    then have "d' = snd (locked cache io ?body d)" using assms(5) Claim by (simp add: claim_message_def)
    moreover have "entries_hold env holds (snd (?body d1))" if "entries_hold env holds d1" for d1
      by (rule loop [OF prod.collapse [symmetric] that, THEN conjunct1])
    then have "entries_hold env holds (snd (locked cache io ?body d))" by (rule locked_holds [OF assms(4)])
    ultimately show ?thesis by blast
  qed (use assms(4,5) Claim in \<open>simp add: claim_message_def\<close>)
  moreover have "\<exists>f i. extension f = Some ''json'' \<and> holds f (Some i) \<and> judge now i = Inr (Grant w)
      \<and> entry_at env d' f = Some w" if "g = Some w" for w
  proof -
    from that assms(5) Claim have "claim_message env c cache io now l d = (Inr (Some w), d')"
      by (auto simp: granted_def prod_eq_iff split: sum.splits option.splits)
    then obtain d1 where "entries_hold env holds d1" "?body d1 = (Inr (Some w), d')"
      using locked_holds [OF assms(4), of "\<lambda>d. (Inr (), d)" cache io]
      by (auto simp: claim_message_def locked_def Let_def split: if_splits sum.splits)
    with loop show ?thesis by blast
  qed
  ultimately show ?thesis using Claim by blast
qed

lemma run_holds:
  assumes "wa_serde_ok env" "list_all permits ops" "list_all (inbox_op_ok env) ops" "entries_hold env holds d"
    and "inbox_run env c cache ops d = (gs, d')"
  shows "entries_hold env holds d' \<and> (\<forall>w \<in> set gs. \<exists>io now l f i. Claim io now l \<in> set ops \<and> extension f = Some ''json''
    \<and> holds f (Some i) \<and> judge now i = Inr (Grant w))"
  using assms(2-5)
proof (induction ops arbitrary: d gs)
  case (Cons op ops)
  obtain g d1 where s: "inbox_step env c cache op d = (g, d1)" by fastforce
  obtain gs1 where r: "inbox_run env c cache ops d1 = (gs1, d')" "gs = (case g of None \<Rightarrow> gs1 | Some i \<Rightarrow> i # gs1)"
    using Cons.prems(4) s by (auto split: prod.splits)
  from Cons.prems have p: "permits op" "inbox_op_ok env op" "list_all permits ops" "list_all (inbox_op_ok env) ops"
    by auto
  note st = step_holds [OF assms(1) p(1,2) Cons.prems(3) s]
  note ih = Cons.IH [OF p(3,4) conjunct1 [OF st] r(1)]
  show ?case
  proof (intro conjI ballI)
    fix w assume "w \<in> set gs"
    then have "g = Some w \<or> w \<in> set gs1" using r(2) by (auto split: option.splits)
    then show "\<exists>io now l f i. Claim io now l \<in> set (op # ops) \<and> extension f = Some ''json''
        \<and> holds f (Some i) \<and> judge now i = Inr (Grant w)"
    proof
      assume "g = Some w"
      with st show ?thesis by (metis list.set_intros(1))
    next
      assume "w \<in> set gs1"
      with ih show ?thesis by (meson list.set_intros(2))
    qed
  qed (use ih in blast)
qed simp

end

section \<open>Entries carry their own name\<close>

definition named :: "string \<Rightarrow> json option \<Rightarrow> bool" where
  "named f e \<longleftrightarrow> (\<forall>i. e = Some i \<longrightarrow> (\<exists>mid. jindex i ''id'' = JStr mid \<and> f = entry_name mid))"

lemma judge_keeps:
  assumes "judge now i = Inr v" "after i v = Some w" "k \<notin> {''status'', ''payload'', ''error_code'', ''claimed_at'', ''attempts''}"
  shows "jindex w k = jindex i k"
  using assms by (cases v) (auto simp: judge_Expire(2) judge_Grant(4))

lemma named_judged: "named f (Some i) \<Longrightarrow> judge now i = Inr v \<Longrightarrow> named f (after i v)"
  by (auto simp: named_def judge_keeps)

lemma named_finished: "finished_entry now retry item = Inr w \<Longrightarrow> jindex item ''id'' = JStr mid \<Longrightarrow> named (entry_name mid) (Some w)"
  by (simp add: named_def finished_entry_fields)

lemma named_new [simp]: "named (entry_name mid) (Some (new_entry mid now p))"
  by (simp add: named_def new_entry_fields)

interpretation naming: entry_invariant env c named "\<lambda>op. True" for env c
  by unfold_locales (auto intro: named_judged named_finished)

section \<open>A settled message stays settled\<close>

definition settled_at :: "string \<Rightarrow> int \<Rightarrow> string \<Rightarrow> json option \<Rightarrow> bool" where
  "settled_at g t f e \<longleftrightarrow> named f e \<and> (f = g \<longrightarrow>
     (\<exists>i. e = Some i \<and> jindex i ''status'' = JStr ''done'' \<and> jindex i ''created_at'' = JInt t \<and> i64_fits t))"

fun claims_until :: "int \<Rightarrow> inbox_op \<Rightarrow> bool" where
  "claims_until t (Claim io now l) = (now \<le> t)"
| "claims_until t op = True"

lemma settled_skipped:
  "jindex i ''status'' = JStr ''done'' \<Longrightarrow> jindex i ''created_at'' = JInt t \<Longrightarrow> i64_fits t \<Longrightarrow> now \<le> t + 7 * 86400 \<Longrightarrow>
   judge now i = Inr Skip"
  by (simp add: judge_def settled_long_ago_def gave_up_def claimable_def i64_or_def i64_fits_def)

interpretation settling: entry_invariant env c "settled_at g t" "claims_until (t + 7 * 86400)" for env c g t
proof unfold_locales
  fix io now l f i v
  assume a: "claims_until (t + 7 * 86400) (Claim io now l)" "settled_at g t f (Some i)" "judge now i = Inr v"
  show "settled_at g t f (after i v)"
  proof (cases "f = g")
    case True
    with a have "v = Skip" using settled_skipped [of i t now] by (auto simp: settled_at_def)
    with a(2) show ?thesis by simp
  qed (use a named_judged in \<open>auto simp: settled_at_def\<close>)
qed (auto simp: settled_at_def named_finished)

section \<open>A claimed message is held\<close>

text \<open>The claim of a worker: the entry is running with its attempt and claim time.\<close>

definition held_at :: "string \<Rightarrow> json \<Rightarrow> string \<Rightarrow> json option \<Rightarrow> bool" where
  "held_at g item f e \<longleftrightarrow> named f e \<and> (f = g \<longrightarrow> e = Some item)"

fun respects_claim :: "json \<Rightarrow> int \<Rightarrow> inbox_op \<Rightarrow> bool" where
  "respects_claim item t (Claim io now l) = (now \<le> t)"
| "respects_claim item t (Enqueue io ms) = True"
| "respects_claim item t (Finish io rd wr now other retry) =
     (jindex other ''id'' \<noteq> jindex item ''id'' \<or> jindex other ''attempts'' \<noteq> jindex item ''attempts''
      \<or> jindex other ''claimed_at'' \<noteq> jindex item ''claimed_at'')"

definition in_progress :: "json \<Rightarrow> int \<Rightarrow> int \<Rightarrow> bool" where
  "in_progress item t_claimed t_created \<longleftrightarrow> jindex item ''status'' = JStr ''running''
     \<and> jindex item ''claimed_at'' = JInt t_claimed \<and> i64_fits t_claimed
     \<and> jindex item ''created_at'' = JInt t_created \<and> i64_fits t_created
     \<and> u64_or 0 (jindex item ''attempts'') < 30"

lemma in_progress_skipped:
  "in_progress i tc t \<Longrightarrow> now \<le> tc + 600 \<Longrightarrow> now \<le> t + 86400 \<Longrightarrow> judge now i = Inr Skip"
  by (simp add: in_progress_def judge_def settled_long_ago_def gave_up_def claimable_def i64_or_def i64_fits_def)

interpretation holding: entry_invariant env c "\<lambda>f e. in_progress item tc t \<and> jindex item ''id'' = JStr m \<and> g = entry_name m
      \<and> held_at g item f e" "respects_claim item (min (tc + 600) (t + 86400))" for env c g item m tc t
proof unfold_locales
  fix io now l f i v
  assume a: "respects_claim item (min (tc + 600) (t + 86400)) (Claim io now l)" "judge now i = Inr v"
    "in_progress item tc t \<and> jindex item ''id'' = JStr m \<and> g = entry_name m \<and> held_at g item f (Some i)"
  show "in_progress item tc t \<and> jindex item ''id'' = JStr m \<and> g = entry_name m \<and> held_at g item f (after i v)"
  proof (cases "f = g")
    case True
    with a have "v = Skip" using in_progress_skipped [of i tc t now] by (auto simp: held_at_def)
    with a(3) show ?thesis by auto
  qed (use a named_judged in \<open>auto simp: held_at_def\<close>)
next
  fix io rd wr now other retry mid cur w
  assume a: "respects_claim item (min (tc + 600) (t + 86400)) (Finish io rd wr now other retry)"
    "jindex other ''id'' = JStr mid"
    "in_progress item tc t \<and> jindex item ''id'' = JStr m \<and> g = entry_name m \<and> held_at g item (entry_name mid) (Some cur)"
    "jindex cur ''attempts'' = jindex other ''attempts''" "jindex cur ''claimed_at'' = jindex other ''claimed_at''"
    "finished_entry now retry other = Inr w"
  then show "in_progress item tc t \<and> jindex item ''id'' = JStr m \<and> g = entry_name m
      \<and> held_at g item (entry_name mid) (Some w)"
    by (auto simp: held_at_def named_finished)
qed (auto simp: held_at_def)

section \<open>Every message is claimed at most thirty times\<close>

definition tried :: "string \<Rightarrow> nat \<Rightarrow> string \<Rightarrow> json option \<Rightarrow> bool" where
  "tried g n f e \<longleftrightarrow> named f e \<and> (f = g \<longrightarrow> (\<forall>i. e = Some i \<longrightarrow> n \<le> u64_or 0 (jindex i ''attempts'')))"

fun not_received :: "wa_env \<Rightarrow> whatsapp_config \<Rightarrow> string \<Rightarrow> inbox_op \<Rightarrow> bool" where
  "not_received env c mid (Enqueue io ms) = list_all (\<lambda>(p, e). case wa_normalize_inbound env c p of
      Inl err \<Rightarrow> True | Inr m \<Rightarrow> inbox_id env c (in_message_id m) \<noteq> mid) ms"
| "not_received env c mid op = True"

lemma attempts_granted: "judge now i = Inr (Grant w) \<Longrightarrow> u64_or 0 (jindex w ''attempts'') = Suc (u64_or 0 (jindex i ''attempts''))"
  using judge_Grant(6) [of now i w] by (simp add: judge_Grant(4) u64_or_def u64_max_def)

lemma tried_judged: "tried g n f (Some i) \<Longrightarrow> judge now i = Inr v \<Longrightarrow> tried g n f (after i v)"
  by (cases v) (fastforce simp: tried_def judge_Expire(2) attempts_granted dest: named_judged)+

interpretation trying: entry_invariant env c "tried (entry_name mid) n" "not_received env c mid" for env c mid n
proof unfold_locales
  fix io ms p e m m' assume "not_received env c mid (Enqueue io ms)" "(p, e) \<in> set ms"
    "wa_normalize_inbound env c p = Inr m" "m' = inbox_id env c (in_message_id m)"
  then show "tried (entry_name mid) n (entry_name m') (Some (new_entry m' (ei_now e) p))"
    by (fastforce simp: tried_def list_all_iff)
next
  fix io now l f i v assume "tried (entry_name mid) n f (Some i)" "judge now i = Inr v"
  then show "tried (entry_name mid) n f (after i v)" by (rule tried_judged)
next
  fix io rd wr now item retry m' cur w
  assume "jindex item ''id'' = JStr m'" "tried (entry_name mid) n (entry_name m') (Some cur)"
    "jindex cur ''attempts'' = jindex item ''attempts''" "finished_entry now retry item = Inr w"
  then show "tried (entry_name mid) n (entry_name m') (Some w)"
    by (auto simp: tried_def named_finished finished_entry_fields)
qed

definition claims_of :: "string \<Rightarrow> json list \<Rightarrow> nat" where
  "claims_of mid gs = length (filter (\<lambda>w. jindex w ''id'' = JStr mid) gs)"

lemma claim_advances:
  assumes "wa_serde_ok env" "not_received env c mid op" "inbox_op_ok env op" "entries_hold env (tried (entry_name mid) n) d"
    and "inbox_step env c cache op d = (Some w, d')" "jindex w ''id'' = JStr mid" "mid \<noteq> []"
  shows "n < 30 \<and> entries_hold env (tried (entry_name mid) (Suc n)) d'"
proof -
  note st = trying.step_holds [OF assms(1-5)]
  from st have g1: "entries_hold env (tried (entry_name mid) n) d'" ..
  from st obtain now f i where g: "extension f = Some ''json''"
      "tried (entry_name mid) n f (Some i)" "judge now i = Inr (Grant w)" "entry_at env d' f = Some w" by auto
  have f: "f = entry_name mid" using g(2) judge_Grant(4) [OF g(3), of "''id''"] assms(6) by (auto simp: tried_def named_def)
  then have n: "n \<le> u64_or 0 (jindex i ''attempts'')" using g(2) by (simp add: tried_def)
  have "tried (entry_name mid) (Suc n) h (entry_at env d' h)" if "extension h = Some ''json''" for h
  proof -
    have "tried (entry_name mid) n h (entry_at env d' h)" using g1 that by (simp add: entries_hold_def)
    then show ?thesis using g(4) n f attempts_granted [OF g(3)] by (cases "h = f") (auto simp: tried_def)
  qed
  then show ?thesis using n judge_Grant(6) [OF g(3)] by (simp add: entries_hold_def)
qed

lemma claims_bounded:
  assumes "wa_serde_ok env" "mid \<noteq> []" "n \<le> 30" "list_all (not_received env c mid) ops" "list_all (inbox_op_ok env) ops"
    and "entries_hold env (tried (entry_name mid) n) d" "inbox_run env c cache ops d = (gs, d')"
  shows "n + claims_of mid gs \<le> 30"
  using assms(3-)
proof (induction ops arbitrary: d gs n)
  case (Cons op ops)
  obtain g d1 where s: "inbox_step env c cache op d = (g, d1)" by fastforce
  obtain gs1 where r: "inbox_run env c cache ops d1 = (gs1, d')" "gs = (case g of None \<Rightarrow> gs1 | Some i \<Rightarrow> i # gs1)"
    using Cons.prems(5) s by (auto split: prod.splits)
  from Cons.prems have p: "not_received env c mid op" "inbox_op_ok env op"
    "list_all (not_received env c mid) ops" "list_all (inbox_op_ok env) ops" by auto
  show ?case
  proof (cases "\<exists>w. g = Some w \<and> jindex w ''id'' = JStr mid")
    case True
    then obtain w where w: "g = Some w" "jindex w ''id'' = JStr mid" by blast
    from claim_advances [OF assms(1) p(1,2) Cons.prems(4) _ w(2) assms(2)] s w(1)
    have "n < 30 \<and> entries_hold env (tried (entry_name mid) (Suc n)) d1" by simp
    with Cons.IH [of "Suc n" d1 gs1] p(3,4) r w show ?thesis by (simp add: claims_of_def)
  next
    case False
    from trying.step_holds [OF assms(1) p(1,2) Cons.prems(4) s]
    have "entries_hold env (tried (entry_name mid) n) d1" by blast
    with Cons.IH [of n d1 gs1] Cons.prems(1) p(3,4) r False show ?thesis
      by (cases g) (auto simp: claims_of_def)
  qed
qed (simp add: claims_of_def)

section \<open>Every waiting message is handed out\<close>

text \<open>A directory as the operations leave it, and a scan of all its entries without failures.\<close>

definition healthy :: "wa_env \<Rightarrow> inbox_dir \<Rightarrow> bool" where
  "healthy env d \<longleftrightarrow> entries_hold env named d \<and> oget d lock_entry \<noteq> None
     \<and> (\<forall>f b. extension f = Some ''json'' \<longrightarrow> oget d f = Some b \<longrightarrow> entry_at env d f \<noteq> None)"

definition clean_visit :: "string \<Rightarrow> visit" where
  "clean_visit f = \<lparr>vi_entry = Inr f, vi_stat = None, vi_regular = True, vi_metadata = None, vi_read = None,
     vi_remove = None, vi_write = True\<rparr>"

lemma clean_visit_sel [simp]: "vi_remove (clean_visit f) = None" "vi_write (clean_visit f)"
  by (simp_all add: clean_visit_def)

definition clean_io :: inbox_io where
  "clean_io = \<lparr>ii_mkdir = True, ii_stat = None, ii_symlink = False, ii_chmod = None, ii_open = None, ii_lock = None\<rparr>"

definition small :: "inbox_dir \<Rightarrow> string \<Rightarrow> bool" where
  "small d f \<longleftrightarrow> (\<exists>b. oget d f = Some b \<and> length b \<le> max_entry)"

definition live :: "wa_env \<Rightarrow> int \<Rightarrow> inbox_dir \<Rightarrow> string \<Rightarrow> bool" where
  "live env now d f \<longleftrightarrow> extension f = Some ''json'' \<and> small d f
     \<and> (\<exists>i w. entry_at env d f = Some i \<and> judge now i = Inr (Grant w))"

lemma judge_total: "jindex i ''id'' = JStr mid \<Longrightarrow> \<exists>v. judge now i = Inr v"
  by (cases i) (auto simp: judge_def jassign_def jindex_def)

lemma read_clean:
  assumes "healthy env d" "oget d f \<noteq> None"
  shows "if extension f = Some ''json'' \<and> small d f
    then \<exists>i v. read_entry env (clean_visit f) d = Inr (Some (f, i)) \<and> entry_at env d f = Some i \<and> judge now i = Inr v
    else read_entry env (clean_visit f) d = Inr None"
proof (cases "extension f = Some ''json''")
  case True
  from assms(2) obtain b where b: "oget d f = Some b" by auto
  with assms(1) True obtain i where i: "entry_at env d f = Some i" unfolding healthy_def by blast
  then have "wa_from_slice env b = Inr i" using b by (auto simp: entry_at_def split: sum.splits)
  moreover have "\<exists>v. judge now i = Inr v"
    using assms(1) True i judge_total by (fastforce simp: healthy_def entries_hold_def named_def)
  ultimately show ?thesis using b i True by (auto simp: read_entry_def clean_visit_def os_step_def small_def)
qed (simp add: read_entry_def clean_visit_def)

text \<open>What one visited file leaves behind keeps the directory healthy and the other files alike.\<close>

lemma healthy_put:
  assumes "wa_serde_ok env" "healthy env d" "storable_value env 127 w" "named f (Some w)"
  shows "healthy env (oput f (wa_to_string env w) d)"
proof -
  have e: "entry_at env (oput f (wa_to_string env w) d) g = (if g = f then Some w else entry_at env d g)" for g
    by (simp add: entry_at_written [OF assms(1,3)])
  show ?thesis using assms(2,4) by (auto simp: healthy_def entries_hold_def e)
qed

lemma healthy_del: "healthy env d \<Longrightarrow> f \<noteq> lock_entry \<Longrightarrow> healthy env (odel f d)"
  by (auto simp: healthy_def entries_hold_def named_def)

lemma live_other: "f \<noteq> g \<Longrightarrow> live env now (oput f b d) g = live env now d g"
  by (simp add: live_def small_def)

lemma live_del: "live env now (odel f d) g \<longleftrightarrow> f \<noteq> g \<and> live env now d g"
  by (auto simp: live_def small_def)

lemma granted_not_live:
  assumes "wa_serde_ok env" "judge now i = Inr (Grant w)" "storable_value env 127 w" "i64_fits now"
  shows "\<not> live env now (oput f (wa_to_string env w) d) f"
proof -
  have "\<not> claimable now w" using judge_Grant(4) [OF assms(2)] assms(4) by (simp add: claimable_def i64_or_def i64_fits_def)
  then show ?thesis using judge_Grant(1) by (fastforce simp: live_def entry_at_written [OF assms(1,3)])
qed

lemma expired_not_live:
  assumes "wa_serde_ok env" "judge now i = Inr (Expire w)" "storable_value env 127 w"
  shows "\<not> live env now (oput f (wa_to_string env w) d) f"
  using assms by (auto simp: live_def entry_at_written dest!: judge_Grant(1))
    (auto simp: claimable_def judge_Expire(2) [OF assms(2)])

lemma clean_scan:
  assumes "wa_serde_ok env" "i64_fits now" "healthy env d" "distinct fs" "\<forall>f \<in> set fs. oget d f \<noteq> None"
    and "claim_loop env now (map clean_visit fs) d = (r, d')"
  shows "healthy env d' \<and> (\<forall>g. live env now d' g \<longrightarrow> live env now d g)
    \<and> ((\<exists>f \<in> set fs. live env now d f) \<longrightarrow> (\<exists>mid w. r = Inr (Some w) \<and> live env now d (entry_name mid)
          \<and> jindex w ''id'' = JStr mid \<and> (\<forall>g. live env now d' g = (g \<noteq> entry_name mid \<and> live env now d g))))"
  using assms(3-6)
proof (induction fs arbitrary: d)
  case (Cons f fs)
  let ?ok = "\<lambda>d. (\<forall>g \<in> set fs. oget d g \<noteq> None)"
  have rest: "\<forall>g \<in> set fs. f \<noteq> g" "distinct fs" "?ok d" using Cons.prems by auto
  show ?case
  proof (cases "extension f = Some ''json'' \<and> small d f")
    case False
    then have "read_entry env (clean_visit f) d = Inr None"
      using read_clean [OF Cons.prems(1), of f now] Cons.prems(3) by simp
    then have "claim_loop env now (map clean_visit fs) d = (r, d')" using Cons.prems(4) by simp
    moreover have "\<not> live env now d f" using False by (auto simp: live_def)
    ultimately show ?thesis using Cons.IH [OF Cons.prems(1) rest(2,3)] by simp
  next
    case True
    then obtain i v where rd: "read_entry env (clean_visit f) d = Inr (Some (f, i))" "entry_at env d f = Some i"
      "judge now i = Inr v" using read_clean [OF Cons.prems(1), of f now] Cons.prems(3) by auto
    have nm: "named f (Some i)" using Cons.prems(1) True rd(2) by (auto simp: healthy_def entries_hold_def)
    have st: "storable_value env 127 i" by (rule entry_at_storable [OF assms(1) rd(2)])
    have nl: "f \<noteq> lock_entry" using True by auto
    have lf: "live env now d f \<longleftrightarrow> (\<exists>w. v = Grant w)" using True rd by (auto simp: live_def)
    show ?thesis
    proof (cases v)
      case Discard
      then have l: "claim_loop env now (map clean_visit fs) (odel f d) = (r, d')"
        using Cons.prems(4) rd by (simp add: os_step_def)
      have "?ok (odel f d)" using rest by auto
      from Cons.IH [OF healthy_del [OF Cons.prems(1) nl] rest(2) this l] lf Discard rest(1) show ?thesis
        by (auto simp: live_del)
    next
      case (Expire w)
      note stw = judge_Expire(3) [OF rd(3) [unfolded Expire] st]
      let ?d = "oput f (wa_to_string env w) d"
      have l: "claim_loop env now (map clean_visit fs) ?d = (r, d')"
        using Cons.prems(4) rd Expire by (simp add: inbox_write_def)
      have h: "healthy env ?d" using named_judged [OF nm rd(3)] Expire
        by (intro healthy_put [OF assms(1) Cons.prems(1) stw]) simp
      have "live env now ?d g = live env now d g" for g
        using expired_not_live [OF assms(1) rd(3) [unfolded Expire] stw] lf Expire by (cases "g = f") (auto simp: live_other)
      with Cons.IH [OF h rest(2) _ l] rest(3) lf Expire show ?thesis by auto
    next
      case (Grant w)
      note stw = judge_Grant(5) [OF rd(3) [unfolded Grant] st assms(2)]
      have r: "r = Inr (Some w)" "d' = oput f (wa_to_string env w) d"
        using Cons.prems(4) rd Grant by (auto simp: inbox_write_def)
      have n: "named f (Some w)" using named_judged [OF nm rd(3)] Grant by simp
      have "live env now d' g = (g \<noteq> f \<and> live env now d g)" for g
        using granted_not_live [OF assms(1) rd(3) [unfolded Grant] stw assms(2)] by (cases "g = f") (auto simp: live_other r)
      moreover have "healthy env d'" unfolding r by (rule healthy_put [OF assms(1) Cons.prems(1) stw n])
      moreover from n obtain mid where "jindex w ''id'' = JStr mid" "f = entry_name mid" by (auto simp: named_def)
      moreover have "live env now d f" using lf Grant by blast
      ultimately show ?thesis using r(1) by auto
    next
      case Skip
      then have l: "claim_loop env now (map clean_visit fs) d = (r, d')" using Cons.prems(4) rd by simp
      from Cons.IH [OF Cons.prems(1) rest(2,3) l] lf Skip show ?thesis by auto
    qed
  qed
qed auto

text \<open>\<open>fs\<close> lists the directory; a sequence of scans, each of the directory as it then is.\<close>

definition lists :: "inbox_dir \<Rightarrow> string list \<Rightarrow> bool" where
  "lists d fs \<longleftrightarrow> distinct fs \<and> (\<forall>f. f \<in> set fs \<longleftrightarrow> oget d f \<noteq> None)"

definition scan_op :: "int \<Rightarrow> string list \<Rightarrow> inbox_op" where
  "scan_op now fs = Claim clean_io now (Inr (map clean_visit fs))"

fun scans :: "wa_env \<Rightarrow> whatsapp_config \<Rightarrow> string \<Rightarrow> int \<Rightarrow> string list list \<Rightarrow> inbox_dir \<Rightarrow> bool" where
  "scans env c cache now [] d = True"
| "scans env c cache now (fs # fss) d =
    (lists d fs \<and> scans env c cache now fss (snd (inbox_step env c cache (scan_op now fs) d)))"

lemma locked_clean:
  assumes "path_parent (path_components cache) \<noteq> None" "oget d lock_entry = Some b"
  shows "locked cache clean_io body d = body (oput lock_entry b d)"
  using assms by (auto simp: locked_def inbox_def clean_io_def os_step_def Let_def)

lemma same_entries:
  assumes "\<And>f. oget d1 f = oget d f"
  shows "healthy env d1 = healthy env d" "live env now d1 f = live env now d f"
proof -
  have "entry_at env d1 = entry_at env d" using assms by (auto simp: entry_at_def fun_eq_iff)
  then show "healthy env d1 = healthy env d" "live env now d1 f = live env now d f"
    using assms by (simp_all add: healthy_def entries_hold_def live_def small_def)
qed

lemma scan_step:
  assumes "wa_serde_ok env" "i64_fits now" "configured c" "path_parent (path_components cache) \<noteq> None"
    and "healthy env d" "lists d fs" "live env now d f" "inbox_step env c cache (scan_op now fs) d = (g, d')"
  shows "healthy env d' \<and> (\<exists>mid w. g = Some w \<and> live env now d (entry_name mid) \<and> jindex w ''id'' = JStr mid
    \<and> (\<forall>h. live env now d' h = (h \<noteq> entry_name mid \<and> live env now d h)))"
proof -
  from assms(5) obtain b where b: "oget d lock_entry = Some b" by (auto simp: healthy_def)
  let ?d = "oput lock_entry b d"
  have same: "oget ?d f = oget d f" for f using b by simp
  obtain r where r: "claim_loop env now (map clean_visit fs) ?d = (r, d')" "g = granted r"
    using assms(3,8) locked_clean [OF assms(4) b, of "\<lambda>d1. claim_loop env now (map clean_visit fs) d1"]
    by (auto simp: scan_op_def claim_message_def prod_eq_iff)
  have "f \<in> set fs" using assms(6,7) by (auto simp: lists_def live_def small_def)
  with assms(7) have "\<exists>f \<in> set fs. live env now ?d f" by (auto simp: same_entries(2) [OF same])
  moreover have "healthy env ?d" using assms(5) by (simp only: same_entries(1) [OF same])
  moreover have "\<forall>f \<in> set fs. oget ?d f \<noteq> None" using assms(6) by (simp add: lists_def same)
  ultimately show ?thesis
    using clean_scan [OF assms(1,2) _ _ _ r(1)] assms(6) r(2) by (auto simp: lists_def granted_def same_entries(2) [OF same])
qed

lemma scans_serve:
  assumes "wa_serde_ok env" "i64_fits now" "configured c" "path_parent (path_components cache) \<noteq> None"
    and "healthy env d" "scans env c cache now fss d" "live env now d (entry_name mid)"
    and "card {f. live env now d f} \<le> length fss" "inbox_run env c cache (map (scan_op now) fss) d = (gs, d')"
  shows "\<exists>w \<in> set gs. jindex w ''id'' = JStr mid"
  using assms(5-9)
proof (induction fss arbitrary: d gs)
  have fin: "finite {f. live env now d f}" for d
    by (rule finite_subset [of _ "fst ` set d"]) (auto simp: live_def small_def oget_def dest: map_of_SomeD intro: rev_image_eqI)
  {
    case Nil
    then show ?case using fin [of d] by auto
  next
    case (Cons fs fss)
    obtain g d1 where s: "inbox_step env c cache (scan_op now fs) d = (g, d1)" by fastforce
    from Cons.prems(2) s have l: "lists d fs" "scans env c cache now fss d1" by auto
    from scan_step [OF assms(1-4) Cons.prems(1) l(1) Cons.prems(3) s] obtain m w where
      w: "g = Some w" "live env now d (entry_name m)" "jindex w ''id'' = JStr m" "healthy env d1"
        "\<And>h. live env now d1 h = (h \<noteq> entry_name m \<and> live env now d h)" by blast
    obtain gs1 where r: "inbox_run env c cache (map (scan_op now) fss) d1 = (gs1, d')" "gs = w # gs1"
      using Cons.prems(5) s w(1) by (auto split: prod.splits)
    show ?case
    proof (cases "m = mid")
      case False
      have "{f. live env now d1 f} = {f. live env now d f} - {entry_name m}" using w(5) by auto
      then have "card {f. live env now d1 f} \<le> length fss" using Cons.prems(4) fin [of d] w(2) by simp
      moreover have "live env now d1 (entry_name mid)" using w(5) Cons.prems(3) False by simp
      ultimately show ?thesis using Cons.IH [OF w(4) l(2) _ _ r(1)] r(2) by auto
    qed (use w(3) r(2) in simp)
  }
qed

text \<open>The completion of the claim an entry is held under.\<close>

lemma finish_settles:
  assumes "wa_serde_ok env" "path_parent (path_components cache) \<noteq> None"
    and "entry_at env d (entry_name mid) = Some w" "jindex w ''id'' = JStr mid" "hex_id64 mid" "in_progress w tc t"
    and "i64_fits (later + 60)"
  shows "\<exists>d3 j. finish_message env cache clean_io None True later w False d = (Inr (), d3)
     \<and> entry_at env d3 (entry_name mid) = Some j \<and> jindex j ''status'' = JStr ''done''"
proof -
  let ?f = "entry_name mid"
  have nl: "?f \<noteq> lock_entry"
  proof
    assume "?f = lock_entry"
    then have "extension ?f = Some ''lock''" by simp
    then show False using hex_id64_nonempty [OF assms(5)] by simp
  qed
  have ob: "\<exists>m. w = JObj m" using assms(4) by (cases w) (auto simp: jindex_def)
  then obtain j where j: "finished_entry later False w = Inr j"
    by (auto simp: finished_entry_def jassign_def)
  have sj: "storable_value env 127 j"
    by (rule finished_entry_storable [OF j entry_at_storable [OF assms(1,3)] assms(7)])
  from assms(3) obtain b where b: "oget d ?f = Some b" "wa_from_slice env b = Inr w"
    by (auto simp: entry_at_def split: option.splits sum.splits)
  define d1 where "d1 = oput lock_entry (or_else [] (oget d lock_entry)) d"
  have "finish_message env cache clean_io None True later w False d = (Inr (), oput ?f (wa_to_string env j) d1)"
    using assms(2,4-6) b j nl
    by (auto simp: finish_message_def Let_def str_or_empty_def locked_def inbox_def clean_io_def os_step_def
        inbox_write_def in_progress_def d1_def)
  moreover have "entry_at env (oput ?f (wa_to_string env j) d1) ?f = Some j" by (rule entry_at_written [OF assms(1) sj])
  moreover have "jindex j ''status'' = JStr ''done''" by (simp add: finished_entry_fields [OF j])
  ultimately show ?thesis by blast
qed

end
