(* ===== verification/WhatsApp_Properties.thy ===== *)
theory WhatsApp_Properties
  imports WhatsApp_Inbox Model_Env
begin

text \<open>
  The properties of the WhatsApp adapter and its inbox, each with a witness in a concrete
  environment.
\<close>

section \<open>A concrete environment\<close>

definition model_wa :: wa_env where
  "model_wa = \<lparr>ct_eq = (=), hmac_verify = (\<lambda>key body tag. tag = replicate 32 (CHR 0xAB)),
     sha256_hex = (\<lambda>s. replicate 64 (CHR ''a'')),
     wa_from_slice = (\<lambda>s. case from_str model_env s of None \<Rightarrow> Inl ''invalid'' | Some v \<Rightarrow> Inr v),
     wa_to_string = to_vec_pretty model_env, wa_f64_text = f64_text model_env,
     timestamp_rfc3339 = (\<lambda>t. Some ''2025-01-01T00:00:00+00:00'')\<rparr>"

lemma model_wa_ok: "wa_serde_ok model_wa"
  using model_serde_ok by (auto simp: wa_serde_ok_def serde_ok_def model_wa_def split: option.splits)

definition demo_config :: whatsapp_config where
  "demo_config = \<lparr>wa_phone_number_id = ''12'', wa_business_number = ''34'', wa_app_secret = replicate 16 (CHR ''s''),
     wa_verify_token = replicate 32 (CHR ''t''), wa_access_token = ''k'', wa_graph_version = ''v1.0''\<rparr>"

lemma demo_configured [simp]: "configured demo_config"
  by (simp add: configured_def demo_config_def wa_digits_def valid_version_def is_ascii_digit_def less_eq_char_def)

section \<open>The webhook\<close>

text \<open>The messages of a payload that are addressed to the configured number.\<close>

definition own_messages :: "whatsapp_config \<Rightarrow> json \<Rightarrow> json set" where
  "own_messages c payload = {msg. \<exists>entry change. entry \<in> set (items_of (jindex payload ''entry''))
     \<and> change \<in> set (items_of (jindex entry ''changes'')) \<and> own_change c change
     \<and> msg \<in> set (items_of (jindex (jindex change ''value'') ''messages'')) \<and> jindex msg ''type'' = JStr ''text''}"

definition inbox_payload :: "whatsapp_config \<Rightarrow> json \<Rightarrow> json" where
  "inbox_payload c msg = jobj [(''phone_number_id'', JStr (wa_phone_number_id c)), (''message'', msg)]"

definition texts_of :: "json list \<Rightarrow> json set" where
  "texts_of ms = {m \<in> set ms. jindex m ''type'' = JStr ''text''}"

lemma texts_of_simps [simp]:
  "texts_of [] = {}" "texts_of (m # ms) = (if jindex m ''type'' = JStr ''text'' then insert m (texts_of ms) else texts_of ms)"
  by (auto simp: texts_of_def)

lemma push_messages_sound:
  "push_messages c acc ms = Inr r \<Longrightarrow> length acc \<le> 100 \<Longrightarrow>
   length r \<le> 100 \<and> set r = set acc \<union> inbox_payload c ` texts_of ms"
proof (induction ms arbitrary: acc)
  case (Cons m ms)
  let ?acc = "if jindex m ''type'' = JStr ''text'' then acc @ [inbox_payload c m] else acc"
  from Cons.prems(1) have "push_messages c ?acc ms = Inr r" "length ?acc \<le> 100"
    by (simp_all only: push_messages.simps Let_def inbox_payload_def [symmetric]) (meson Inl_Inr_False leI)+
  from Cons.IH [OF this] show ?case by (cases "jindex m ''type'' = JStr ''text''") simp_all
qed simp

definition change_texts :: "whatsapp_config \<Rightarrow> json list \<Rightarrow> json set" where
  "change_texts c cs = (\<Union>ch \<in> set (filter (own_change c) cs). texts_of (items_of (jindex (jindex ch ''value'') ''messages'')))"

lemma change_texts_simps [simp]:
  "change_texts c [] = {}"
  "change_texts c (ch # cs) = (if own_change c ch
     then texts_of (items_of (jindex (jindex ch ''value'') ''messages'')) \<union> change_texts c cs else change_texts c cs)"
  by (simp_all add: change_texts_def)

lemma own_messages_eq:
  "own_messages c payload = (\<Union>e \<in> set (items_of (jindex payload ''entry'')). change_texts c (items_of (jindex e ''changes'')))"
  by (auto simp: own_messages_def change_texts_def texts_of_def)

lemma collect_changes_sound:
  "collect_changes c acc cs = Inr r \<Longrightarrow> length acc \<le> 100 \<Longrightarrow>
   length r \<le> 100 \<and> set r = set acc \<union> inbox_payload c ` change_texts c cs"
proof (induction cs arbitrary: acc)
  case (Cons ch cs)
  show ?case
  proof (cases "own_change c ch")
    case True
    then obtain acc' where a: "push_messages c acc (items_of (jindex (jindex ch ''value'') ''messages'')) = Inr acc'"
      "collect_changes c acc' cs = Inr r" using Cons.prems(1) by auto
    from push_messages_sound [OF a(1) Cons.prems(2)] Cons.IH [OF a(2)] True show ?thesis by (simp add: image_Un Un_assoc)
  qed (use Cons in simp)
qed simp

lemma collect_entries_sound:
  "collect_entries c acc es = Inr r \<Longrightarrow> length acc \<le> 100 \<Longrightarrow> length r \<le> 100
   \<and> set r = set acc \<union> inbox_payload c ` (\<Union>e \<in> set es. change_texts c (items_of (jindex e ''changes'')))"
proof (induction es arbitrary: acc)
  case (Cons e es)
  then obtain acc' where a: "collect_changes c acc (items_of (jindex e ''changes'')) = Inr acc'"
    "collect_entries c acc' es = Inr r" by auto
  from collect_changes_sound [OF a(1) Cons.prems(2)] Cons.IH [OF a(2)] show ?case by (simp add: image_Un Un_assoc)
qed simp

text \<open>C29: only authentic messages are taken. A webhook body yields messages only when the adapter is
  configured, the body is at most one megabyte and carries the signature \<^verbatim>\<open>sha256=\<close> with 64 hexadecimal
  digits whose bytes verify under the application secret. They are at most a hundred, and exactly the
  text messages of the body's changes that are addressed to the configured phone number.\<close>

theorem webhook_authentic:
  assumes "verified_messages env c body signature = Inr ms"
  shows "configured c \<and> length body \<le> 1024 * 1024 \<and> length ms \<le> 100
    \<and> (\<exists>digits tag payload. signature = ''sha256='' @ digits \<and> length digits = 64 \<and> hex_bytes digits = Some tag
        \<and> hmac_verify env (wa_app_secret c) body tag \<and> wa_from_slice env body = Inr payload
        \<and> set ms = inbox_payload c ` own_messages c payload)"
proof -
  from assms obtain tag payload where
    v: "configured c" "length body \<le> 1024 * 1024" "signature_bytes signature = Inr tag"
      "hmac_verify env (wa_app_secret c) body tag" "wa_from_slice env body = Inr payload"
      "collect_entries c [] (items_of (jindex payload ''entry'')) = Inr ms"
    by (auto simp: verified_messages_def split: if_splits sum.splits)
  from v(3) obtain digits where d: "signature = ''sha256='' @ digits" "length digits = 64" "hex_bytes digits = Some tag"
    by (auto simp: signature_bytes_def split: if_splits)
  from collect_entries_sound [OF v(6)] have "length ms \<le> 100" "set ms = inbox_payload c ` own_messages c payload"
    by (simp_all add: own_messages_eq)
  with v d show ?thesis by blast
qed
definition demo_body :: json where
  "demo_body = jobj [(''object'', JStr ''whatsapp_business_account''), (''entry'', JArr [])]"

lemma from_slice_model [simp]:
  "storable_value model_wa 127 v \<Longrightarrow> wa_from_slice model_wa (wa_to_string model_wa v) = Inr v"
  using model_wa_ok by (simp add: wa_serde_ok_def storable_value_def)

lemma demo_body_storable: "storable_value model_wa 127 demo_body"
  by (simp add: storable_value_def demo_body_def jobj_def owf_def)

lemma demo_hex:
  "hex_bytes (concat (replicate n ''AB'')) = Some (replicate n (CHR 0xAB))
   \<and> list_all is_ascii_hexdigit (concat (replicate n ''AB'')) \<and> length (concat (replicate n ''AB'')) = 2 * n"
  by (induction n) (simp_all add: hex_value_def is_ascii_hexdigit_def is_ascii_digit_def less_eq_char_def
      char_of_eq_iff take_bit_eq_mod)

theorem webhook_authentic_witness:
  "\<exists>ms. verified_messages model_wa demo_config (wa_to_string model_wa demo_body)
     (''sha256='' @ concat (replicate 32 ''AB'')) = Inr ms \<and> length ms \<le> 100"
proof -
  have t: "signature_bytes (''sha256='' @ concat (replicate 32 ''AB'')) = Inr (replicate 32 (CHR 0xAB))"
  proof -
    obtain s where s: "s = concat (replicate 32 ''AB'')" by blast
    with demo_hex [of 32] have "hex_bytes s = Some (replicate 32 (CHR 0xAB))" "list_all is_ascii_hexdigit s" "length s = 64"
      by simp_all
    then show ?thesis unfolding s [symmetric] by (simp add: signature_bytes_def)
  qed
  have "length (wa_to_string model_wa demo_body) \<le> 1024 * 1024"
    by (simp add: model_wa_def demo_body_def jobj_def)
  moreover have "hmac_verify model_wa (wa_app_secret demo_config) (wa_to_string model_wa demo_body) (replicate 32 (CHR 0xAB))"
    by (simp add: model_wa_def)
  moreover have "jindex demo_body ''object'' = JStr ''whatsapp_business_account''" "items_of (jindex demo_body ''entry'') = []"
    by (simp_all add: demo_body_def jindex_def jget_jobj items_of_def)
  ultimately have v: "verified_messages model_wa demo_config (wa_to_string model_wa demo_body)
     (''sha256='' @ concat (replicate 32 ''AB'')) = Inr []"
    unfolding verified_messages_def t by (simp add: demo_body_storable require_config_def)
  from webhook_authentic [OF v] v show ?thesis by blast
qed

section \<open>The inbox\<close>


definition demo_mid :: string where "demo_mid = replicate 64 (CHR ''a'')"

definition demo_entry :: "string \<Rightarrow> json" where
  "demo_entry status = jobj [(''id'', JStr demo_mid), (''status'', JStr status), (''created_at'', JInt 1000),
     (''attempts'', JInt 1), (''claimed_at'', JInt 1000), (''payload'', JNull)]"

definition demo_inbox :: "string \<Rightarrow> inbox_dir" where
  "demo_inbox status = [(entry_name demo_mid, wa_to_string model_wa (demo_entry status)), (lock_entry, [])]"

lemma demo_entry_storable [simp]: "storable_value model_wa 127 (demo_entry s)"
  by (simp add: storable_value_def demo_entry_def jobj_def owf_def less_list_code i64_min_def u64_max_def)

lemma demo_entry_fields:
  "jindex (demo_entry s) k = (if k = ''payload'' then JNull else if k = ''claimed_at'' then JInt 1000
     else if k = ''attempts'' then JInt 1 else if k = ''created_at'' then JInt 1000 else if k = ''status'' then JStr s
     else if k = ''id'' then JStr demo_mid else JNull)"
  by (simp add: demo_entry_def jindex_def jget_jobj)

lemma demo_inbox_at: "entry_at model_wa (demo_inbox s) (entry_name demo_mid) = Some (demo_entry s)"
  by (simp add: entry_at_def demo_inbox_def)

lemma demo_mid_nonempty [simp]: "demo_mid \<noteq> []"
  by (simp add: demo_mid_def)

lemma demo_inbox_named: "entries_hold model_wa named (demo_inbox s)"
  by (auto simp: entries_hold_def named_def demo_inbox_def entry_at_def demo_entry_fields lock_entry_def extension_def
      split: if_splits)



lemma length_print_str: "length (print_str s) = 2 * length s + 1"
  by (induction s) simp_all

lemma demo_judge: "\<exists>w. judge 2000 (demo_entry ''pending'') = Inr (Grant w)"
  by (simp add: judge_def settled_long_ago_def gave_up_def claimable_def demo_entry_fields i64_or_def u64_or_def
      i64_min_def i64_max_def u64_max_def)
    (simp add: demo_entry_def jobj_def jassign_def)

lemma demo_small: "small (demo_inbox s) (entry_name demo_mid)" if "length s \<le> 20"
proof -
  have "length (wa_to_string model_wa (demo_entry s)) \<le> max_entry"
    using that by (simp add: max_entry_def model_wa_def demo_entry_def jobj_def length_print_str demo_mid_def print_int_def
        digits.simps)
  then show ?thesis by (simp add: small_def demo_inbox_def)
qed

lemma demo_healthy: "healthy model_wa (demo_inbox s)"
  using demo_inbox_named [of s]
  by (auto simp: healthy_def demo_inbox_def entry_at_def lock_entry_def extension_def split: if_splits)

lemma demo_live: "live model_wa 2000 (demo_inbox ''pending'') (entry_name demo_mid)"
  using demo_judge by (simp add: live_def demo_small demo_inbox_at)

lemma demo_fits: "i64_fits 1000" "i64_fits 2000" "i64_fits 2060"
  by (simp_all add: i64_fits_def i64_min_def i64_max_def)

lemma demo_parent [simp]: "path_parent (path_components ''/c/k'') \<noteq> None"
  by (simp add: path_parent_def path_components_def List.map_filter_def)

lemma demo_lists: "lists (demo_inbox s) [entry_name demo_mid, lock_entry]"
  by (auto simp: lists_def demo_inbox_def lock_entry_def entry_name_def demo_mid_def)






section \<open>Outbound images\<close>

text \<open>only cached images are uploaded. A delivery with an attachment is prepared only when it has one
  attachment of a supported image type whose path lies below the attachment cache, reached by plain
  directory names alone, and whose content is neither empty nor larger than five megabytes.\<close>

theorem upload_confined:
  assumes "wa_prepare_outbound c cache io m = Inr (Some p)"
  shows "\<exists>item mime relative bytes. out_attachments m = [item] \<and> jindex item ''mime_type'' = JStr mime
    \<and> mime \<in> {''image/jpeg'', ''image/png''}
    \<and> path_components (str_or_empty (jindex item ''path'')) = path_components cache @ map Normal relative
    \<and> mi_bytes io = Some bytes \<and> bytes \<noteq> [] \<and> length bytes \<le> max_image \<and> provider_media_id p \<noteq> []"
proof -
  from assms obtain mime relative bytes reply result mid where
    s: "image_mime m = Inr mime" "image_path cache m = Inr relative" "image_bytes io = Inr bytes"
      "wa_decode reply = Inr result" "media_id_of result = Inr mid" "p = \<lparr>provider_media_id = mid, provider_client_id = None,
        prepared_state = jobj [(''kind'', JStr ''image'')]\<rparr>"
    by (auto simp: wa_prepare_outbound_def split: if_splits)
  from s(1) obtain item where a: "out_attachments m = [item]" "jindex item ''mime_type'' = JStr mime"
    "mime \<in> {''image/jpeg'', ''image/png''}"
    by (cases "out_attachments m"; cases "jindex (hd (out_attachments m)) ''mime_type''")
      (auto simp: image_mime_def Let_def str_or_empty_def split: if_splits)
  from s(2) have "list_all is_normal relative"
    and p: "path_components (str_or_empty (jindex item ''path'')) = path_components cache @ relative"
    by (auto simp: image_path_def a(1) split: if_splits)
  then have "\<exists>names. relative = map Normal names" using all_normal by blast
  moreover from s(3) obtain content where "mi_bytes io = Some content" "content \<noteq> []" "length content \<le> max_image"
    by (auto simp: image_bytes_def Let_def split: if_splits)
  moreover have "mid \<noteq> []" using s(5) by (auto simp: media_id_of_def split: option.splits if_splits)
  ultimately show ?thesis using a p s(6) by auto
qed

definition demo_image :: outbound_message where
  "demo_image = \<lparr>out_platform = ''whatsapp'', out_chat_id = ''123'', out_text = [], out_attachments =
     [jobj [(''mime_type'', JStr ''image/png''), (''path'', JStr ''/c/k/a.png'')]], out_timestamp = [], out_metadata = []\<rparr>"

theorem upload_confined_witness:
  "\<exists>p bytes. wa_prepare_outbound demo_config ''/c/k'' \<lparr>mi_root = True, mi_open = True, mi_length = Some 3, mi_bytes = Some ''png'',
       mi_reply = Some \<lparr>gr_status = 200, gr_length = None, gr_json = Some (jobj [(''id'', JStr ''9'')])\<rparr>\<rparr> demo_image = Inr (Some p)
     \<and> bytes = ''png'' \<and> length bytes \<le> max_image"
proof -
  let ?io = "\<lparr>mi_root = True, mi_open = True, mi_length = Some 3, mi_bytes = Some ''png'',
       mi_reply = Some \<lparr>gr_status = 200, gr_length = None, gr_json = Some (jobj [(''id'', JStr ''9'')])\<rparr>\<rparr>"
  have "image_mime demo_image = Inr ''image/png''"
    by (simp add: image_mime_def demo_image_def str_or_empty_def jindex_def jget_jobj)
  moreover have "image_path ''/c/k'' demo_image = Inr [Normal ''a.png'']"
    by (simp add: image_path_def demo_image_def str_or_empty_def jindex_def jget_jobj path_components_def List.map_filter_def)
  moreover have "image_bytes ?io = Inr ''png''" by (simp add: image_bytes_def max_image_def)
  ultimately have "\<exists>p. wa_prepare_outbound demo_config ''/c/k'' ?io demo_image = Inr (Some p)"
    by (simp add: wa_prepare_outbound_def require_config_def wa_decode_def is_success_def media_id_of_def jindex_def jget_jobj)
      (simp add: demo_image_def)
  then obtain p where p: "wa_prepare_outbound demo_config ''/c/k'' ?io demo_image = Inr (Some p)" ..
  from upload_confined [OF p] p show ?thesis by auto
qed

end
