(* ===== verification/App_Config.thy ===== *)
theory App_Config
  imports Std_Text Gate_Error
begin

text \<open>
  \<^verbatim>\<open>src/config.rs\<close>: the configuration read from the environment, from credential files and from the
  setup portal's file, and the checks of the K3 runtime profile. The environment and the files are
  functions; Unicode lower-casing and serde\_json are parameters. A path is its text; paths are compared
  by their components.
\<close>

section \<open>Standard library\<close>

definition parse_uint :: "nat \<Rightarrow> string \<Rightarrow> nat option" where
  "parse_uint limit s = Option.bind (parse_nat (case s of CHR ''+'' # r \<Rightarrow> r | _ \<Rightarrow> s))
     (\<lambda>n. if n \<le> limit then Some n else None)"

text \<open>The text of \<^verbatim>\<open>Path::parent\<close>.\<close>

fun strip_trailing :: "string list \<Rightarrow> string list" where
  "strip_trailing [] = []"
| "strip_trailing [x] = (if x = [] then [] else [x])"
| "strip_trailing (x # y # r) = (if x = [] \<or> x = ''.'' then strip_trailing (y # r) else x # y # r)"

definition parent_text :: "string \<Rightarrow> string option" where
  "parent_text s = (case strip_trailing (rev (split_on CHR ''/'' s)) of
      [] \<Rightarrow> None
    | p # r \<Rightarrow> Some (case strip_trailing r of
          [] \<Rightarrow> if starts_with ''/'' s then ''/'' else []
        | q # r' \<Rightarrow> join_with ''/'' (rev (q # r'))))"

definition same_path :: "string \<Rightarrow> string \<Rightarrow> bool" where
  "same_path a b \<longleftrightarrow> path_components a = path_components b"

text \<open>
  \<^verbatim>\<open>IpAddr::from_str\<close>: four decimal octets without leading zeros, or the groups of an IPv6 address
  with at most one elision and a trailing IPv4 address. A parser returns the value and the rest.
\<close>

definition octet_text :: "string \<Rightarrow> bool" where
  "octet_text ds \<longleftrightarrow> ds \<noteq> [] \<and> length ds \<le> 3 \<and> (hd ds = CHR ''0'' \<longrightarrow> tl ds = [])"

definition read_octet :: "string \<Rightarrow> (nat \<times> string) option" where
  "read_octet s = (let ds = takeWhile is_ascii_digit s in
     if octet_text ds then Option.bind (decimal_value 0 ds) (\<lambda>n. if n \<le> 255 then Some (n, drop (length ds) s) else None)
     else None)"

fun read_char :: "char \<Rightarrow> string \<Rightarrow> string option" where
  "read_char c [] = None"
| "read_char c (x # s) = (if x = c then Some s else None)"

fun read_ipv4 :: "nat \<Rightarrow> string \<Rightarrow> (nat list \<times> string) option" where
  "read_ipv4 0 s = Some ([], s)"
| "read_ipv4 (Suc n) s = Option.bind (read_octet s) (\<lambda>(o1, r).
     if n = 0 then Some ([o1], r)
     else Option.bind (read_char CHR ''.'' r) (\<lambda>r'. map_option (\<lambda>(os, t). (o1 # os, t)) (read_ipv4 n r')))"

definition read_group :: "string \<Rightarrow> (nat \<times> string) option" where
  "read_group s = (let ds = takeWhile is_ascii_hexdigit s in
     if ds = [] \<or> length ds > 4 then None
     else Some (foldl (\<lambda>acc c. acc * 16 + (case hex_value c of Some v \<Rightarrow> v | None \<Rightarrow> 0)) 0 ds, drop (length ds) s))"

definition separated :: "nat \<Rightarrow> (string \<Rightarrow> ('a \<times> string) option) \<Rightarrow> string \<Rightarrow> ('a \<times> string) option" where
  "separated i p s = (if i = 0 then p s else Option.bind (read_char CHR '':'' s) p)"

text \<open>Up to \<open>n\<close> groups from position \<open>i\<close> on: the groups, whether they end in an IPv4 part, the rest.\<close>

fun read_groups :: "nat \<Rightarrow> nat \<Rightarrow> string \<Rightarrow> nat list \<times> bool \<times> string" where
  "read_groups i 0 s = ([], False, s)"
| "read_groups i (Suc n) s = (case (if n > 0 then separated i (read_ipv4 4) s else None) of
      Some ([a, b, c, d], r) \<Rightarrow> ([a * 256 + b, c * 256 + d], True, r)
    | _ \<Rightarrow> (case separated i read_group s of
          None \<Rightarrow> ([], False, s)
        | Some (g, r) \<Rightarrow> (case read_groups (Suc i) n r of (gs, v4, t) \<Rightarrow> (g # gs, v4, t))))"

definition read_ipv6 :: "string \<Rightarrow> (nat list \<times> string) option" where
  "read_ipv6 s = (case read_groups 0 8 s of (head, v4, r) \<Rightarrow>
     if length head = 8 then Some (head, r)
     else if v4 then None
     else Option.bind (Option.bind (read_char CHR '':'' r) (read_char CHR '':'')) (\<lambda>r'.
       case read_groups 0 (7 - length head) r' of (tail, w4, t) \<Rightarrow>
         Some (head @ replicate (8 - length head - length tail) 0 @ tail, t)))"

datatype ip_addr = V4 "nat list" | V6 "nat list"

definition parse_ip :: "string \<Rightarrow> ip_addr option" where
  "parse_ip s = (case (case read_ipv4 4 s of Some (os, r) \<Rightarrow> Some (V4 os, r)
       | None \<Rightarrow> map_option (\<lambda>(gs, r). (V6 gs, r)) (read_ipv6 s)) of
      Some (a, []) \<Rightarrow> Some a | _ \<Rightarrow> None)"

fun is_loopback :: "ip_addr \<Rightarrow> bool" where
  "is_loopback (V4 os) = (os \<noteq> [] \<and> hd os = 127)"
| "is_loopback (V6 gs) = (gs = [0, 0, 0, 0, 0, 0, 0, 1])"

section \<open>The environment\<close>

record cfg_env =
  env_var :: "string \<Rightarrow> string option"
  env_var_os :: "string \<Rightarrow> bool"
  read_to_string :: "string \<Rightarrow> string option"
  cfg_from_str :: "string \<Rightarrow> json option"
  lowercase :: "string \<Rightarrow> string"

definition env_trim :: "cfg_env \<Rightarrow> string \<Rightarrow> string" where
  "env_trim e key = trim (case env_var e key of None \<Rightarrow> [] | Some v \<Rightarrow> v)"

definition env_present :: "cfg_env \<Rightarrow> string \<Rightarrow> bool" where
  "env_present e key = env_var_os e key"

definition env_or :: "cfg_env \<Rightarrow> string \<Rightarrow> string \<Rightarrow> string" where
  "env_or e key default_value = (if env_trim e key = [] then default_value else env_trim e key)"

fun env_first :: "cfg_env \<Rightarrow> string list \<Rightarrow> string" where
  "env_first e [] = []"
| "env_first e (key # keys) = (if env_trim e key \<noteq> [] then env_trim e key else env_first e keys)"

definition truthy :: "string \<Rightarrow> bool" where
  "truthy v \<longleftrightarrow> v \<in> {''1'', ''true'', ''yes'', ''on''}"

definition env_flag :: "cfg_env \<Rightarrow> string \<Rightarrow> bool" where
  "env_flag e key = truthy (lowercase e (env_trim e key))"

definition env_flag_default :: "cfg_env \<Rightarrow> string \<Rightarrow> bool \<Rightarrow> bool" where
  "env_flag_default e key default_value =
    (if env_trim e key = [] then default_value else truthy (lowercase e (env_trim e key)))"

definition credential_file_path_from_values :: "string \<Rightarrow> string \<Rightarrow> string \<Rightarrow> string option" where
  "credential_file_path_from_values directory configured_file credential_name =
    (if directory \<noteq> [] then Some (path_join directory credential_name)
     else if configured_file \<noteq> [] then Some configured_file else None)"

definition credential_file_path :: "cfg_env \<Rightarrow> string \<Rightarrow> string \<Rightarrow> string option" where
  "credential_file_path e file_env credential_name = credential_file_path_from_values
     (env_trim e ''CREDENTIALS_DIRECTORY'') (env_trim e file_env) credential_name"

definition credential_first :: "cfg_env \<Rightarrow> string \<Rightarrow> string \<Rightarrow> string list \<Rightarrow> string" where
  "credential_first e file_env credential_name env_keys = (case credential_file_path e file_env credential_name of
      Some file \<Rightarrow> (case read_to_string e file of None \<Rightarrow> [] | Some v \<Rightarrow> trim v)
    | None \<Rightarrow> env_first e env_keys)"

definition strip_endpoint_suffix :: "string \<Rightarrow> string \<Rightarrow> string" where
  "strip_endpoint_suffix base_url endpoint_suffix =
    (let normalized = trim_end_matches CHR ''/'' (trim base_url) in
     if normalized = [] then normalized
     else
      (let suffix = trim_end_matches CHR ''/'' endpoint_suffix in
       if length suffix \<le> length normalized \<and> drop (length normalized - length suffix) normalized = suffix
       then trim_end_matches CHR ''/'' (take (length normalized - length suffix) normalized)
       else normalized))"

section \<open>Feishu, its mail and Weixin\<close>

record feishu_config =
  fs_app_id :: string
  fs_app_secret :: string
  fs_domain :: string
  fs_connection_mode :: string
  fs_allowed_users :: "string list"
  fs_group_policy :: string
  fs_bot_open_id :: string
  fs_bot_user_id :: string
  fs_bot_name :: string
  fs_verification_token :: string
  fs_webhook_path :: string
  fs_base_url :: string
  fs_auth_base_url :: string
  fs_enable_live_send :: bool
  fs_timeout_seconds :: nat

record feishu_mail_config =
  fm_enabled :: bool
  fm_sender_mailbox :: string
  fm_user_access_token :: string
  fm_user_refresh_token :: string
  fm_user_token_state_path :: string
  fm_default_from_name :: string
  fm_app_id :: string
  fm_app_secret :: string
  fm_base_url :: string
  fm_auth_base_url :: string
  fm_timeout_seconds :: nat

record weixin_config =
  wx_state_dir :: string
  wx_account_id :: string
  wx_token :: string
  wx_base_url :: string
  wx_user_id :: string
  wx_cdn_base_url :: string
  wx_timeout_seconds :: nat
  wx_poll_timeout_ms :: nat

definition ilink_base_url :: string where "ilink_base_url = ''https://ilinkai.weixin.qq.com''"
definition default_cdn_base_url :: string where "default_cdn_base_url = ''https://novac2c.cdn.weixin.qq.com/c2c''"

definition parsed_or :: "nat \<Rightarrow> nat \<Rightarrow> string \<Rightarrow> nat" where
  "parsed_or limit n s = (case parse_uint limit s of Some v \<Rightarrow> v | None \<Rightarrow> n)"

definition weixin_from_env :: "cfg_env \<Rightarrow> weixin_config" where
  "weixin_from_env e = \<lparr>
     wx_state_dir = env_or e ''WEIXIN_STATE_DIR'' ''data/weixin'',
     wx_account_id = env_trim e ''WEIXIN_ACCOUNT_ID'',
     wx_token = env_trim e ''WEIXIN_BOT_TOKEN'',
     wx_base_url = env_or e ''WEIXIN_BASE_URL'' ilink_base_url,
     wx_user_id = env_trim e ''WEIXIN_USER_ID'',
     wx_cdn_base_url = env_or e ''WEIXIN_CDN_BASE_URL'' default_cdn_base_url,
     wx_timeout_seconds = parsed_or u64_max 45 (env_or e ''WEIXIN_TIMEOUT_SECONDS'' ''45''),
     wx_poll_timeout_ms = parsed_or u64_max 35000 (env_or e ''WEIXIN_POLL_TIMEOUT_MS'' ''35000'')\<rparr>"

definition text_field :: "json \<Rightarrow> string \<Rightarrow> string option" where
  "text_field object key = (case get_str object key of
      None \<Rightarrow> None | Some v \<Rightarrow> if trim v = [] then None else Some (trim v))"

definition bool_field :: "cfg_env \<Rightarrow> json \<Rightarrow> string \<Rightarrow> bool option" where
  "bool_field e object key = (case jget object key of
      Some (JBool b) \<Rightarrow> Some b
    | Some (JStr s) \<Rightarrow>
        (let v = lowercase e (trim s) in
         if truthy v then Some True
         else if v \<in> {''0'', ''false'', ''no'', ''off''} then Some False else None)
    | _ \<Rightarrow> None)"

definition fill_text_if_empty :: "json \<Rightarrow> string \<Rightarrow> string \<Rightarrow> string" where
  "fill_text_if_empty object key field =
    (if trim field = [] then (case text_field object key of Some v \<Rightarrow> v | None \<Rightarrow> field) else field)"

definition setup_portal_feishu :: "json \<Rightarrow> json option" where
  "setup_portal_feishu payload = (case jget payload ''feishu'' of
      Some v \<Rightarrow> Some v
    | None \<Rightarrow> (case jpointer [''platforms'', ''feishu''] payload of
          Some v \<Rightarrow> Some v | None \<Rightarrow> jpointer [''setup'', ''feishu''] payload))"

definition push_candidate :: "string list \<Rightarrow> string \<Rightarrow> string list" where
  "push_candidate paths raw =
    (if trim raw = [] \<or> list_ex (same_path (trim raw)) paths then paths else paths @ [trim raw])"

definition setup_portal_candidates :: "cfg_env \<Rightarrow> string list" where
  "setup_portal_candidates e =
    (let paths = push_candidate [] (env_trim e ''FEISHU_SETUP_PORTAL_PATH'');
         state_dir = env_trim e ''IM_AGENT_STATE_DIR'';
         paths = (if state_dir \<noteq> [] then push_candidate paths (path_join state_dir ''_setup_portal.json'') else paths);
         data_dir = env_trim e ''IM_AGENT_DATA_DIR'' in
     if data_dir = [] then paths
     else (case parent_text data_dir of
         None \<Rightarrow> paths | Some parent \<Rightarrow> push_candidate paths (path_join parent ''_setup_portal.json'')))"

text \<open>\<open>None\<close> when the file does not apply.\<close>

definition apply_setup_portal_file :: "cfg_env \<Rightarrow> bool \<Rightarrow> bool \<Rightarrow> string \<Rightarrow> feishu_config \<Rightarrow> feishu_config option" where
  "apply_setup_portal_file e mode_is_env live_is_env file cfg =
    Option.bind (read_to_string e file) (\<lambda>raw. Option.bind (cfg_from_str e raw) (\<lambda>payload.
    Option.bind (setup_portal_feishu payload) (\<lambda>feishu. Some (cfg\<lparr>
      fs_app_id := fill_text_if_empty feishu ''app_id'' (fs_app_id cfg),
      fs_app_secret := fill_text_if_empty feishu ''app_secret'' (fs_app_secret cfg),
      fs_bot_open_id := fill_text_if_empty feishu ''bot_open_id'' (fs_bot_open_id cfg),
      fs_bot_user_id := fill_text_if_empty feishu ''bot_user_id'' (fs_bot_user_id cfg),
      fs_bot_name := fill_text_if_empty feishu ''app_name'' (fill_text_if_empty feishu ''bot_name'' (fs_bot_name cfg)),
      fs_verification_token := fill_text_if_empty feishu ''verification_token'' (fs_verification_token cfg),
      fs_connection_mode := (if mode_is_env then fs_connection_mode cfg
        else case text_field feishu ''connection_mode'' of Some m \<Rightarrow> lowercase e m | None \<Rightarrow> fs_connection_mode cfg),
      fs_enable_live_send := (if live_is_env then fs_enable_live_send cfg
        else case bool_field e feishu ''enable_live_send'' of Some b \<Rightarrow> b | None \<Rightarrow> fs_enable_live_send cfg)\<rparr>))))"

fun apply_first :: "cfg_env \<Rightarrow> bool \<Rightarrow> bool \<Rightarrow> string list \<Rightarrow> feishu_config \<Rightarrow> feishu_config" where
  "apply_first e mode_is_env live_is_env [] cfg = cfg"
| "apply_first e mode_is_env live_is_env (file # files) cfg = (case apply_setup_portal_file e mode_is_env live_is_env file cfg of
      Some cfg' \<Rightarrow> cfg' | None \<Rightarrow> apply_first e mode_is_env live_is_env files cfg)"

definition feishu_base :: "cfg_env \<Rightarrow> feishu_config" where
  "feishu_base e = \<lparr>
     fs_app_id = env_trim e ''FEISHU_APP_ID'',
     fs_app_secret = env_trim e ''FEISHU_APP_SECRET'',
     fs_domain = lowercase e (env_or e ''FEISHU_DOMAIN'' ''feishu''),
     fs_connection_mode = (if env_trim e ''FEISHU_CONNECTION_MODE'' = [] then ''websocket''
       else lowercase e (env_trim e ''FEISHU_CONNECTION_MODE'')),
     fs_allowed_users = filter (\<lambda>u. u \<noteq> []) (map trim (split_on CHR '','' (env_trim e ''FEISHU_ALLOWED_USERS''))),
     fs_group_policy = lowercase e (env_or e ''FEISHU_GROUP_POLICY'' ''allowlist''),
     fs_bot_open_id = env_trim e ''FEISHU_BOT_OPEN_ID'',
     fs_bot_user_id = env_trim e ''FEISHU_BOT_USER_ID'',
     fs_bot_name = env_trim e ''FEISHU_BOT_NAME'',
     fs_verification_token = env_trim e ''FEISHU_VERIFICATION_TOKEN'',
     fs_webhook_path = env_or e ''FEISHU_WEBHOOK_PATH'' ''/feishu/webhook'',
     fs_base_url = env_or e ''FEISHU_BASE_URL'' ''https://open.feishu.cn'',
     fs_auth_base_url = env_or e ''FEISHU_AUTH_BASE_URL'' ''https://open.feishu.cn'',
     fs_enable_live_send = env_flag e ''FEISHU_ENABLE_LIVE_SEND'',
     fs_timeout_seconds = parsed_or u64_max 20 (env_or e ''FEISHU_TIMEOUT_SECONDS'' ''20'')\<rparr>"

definition feishu_from_env :: "cfg_env \<Rightarrow> feishu_config" where
  "feishu_from_env e = apply_first e (env_trim e ''FEISHU_CONNECTION_MODE'' \<noteq> []) (env_present e ''FEISHU_ENABLE_LIVE_SEND'')
     (setup_portal_candidates e) (feishu_base e)"

definition feishu_configured :: "feishu_config \<Rightarrow> bool" where
  "feishu_configured c \<longleftrightarrow> fs_app_id c \<noteq> [] \<and> fs_app_secret c \<noteq> []"

definition feishu_mail_from_env :: "cfg_env \<Rightarrow> feishu_config \<Rightarrow> feishu_mail_config" where
  "feishu_mail_from_env e feishu = \<lparr>
     fm_enabled = env_flag e ''FEISHU_MAIL_ENABLED'',
     fm_sender_mailbox = env_trim e ''FEISHU_MAIL_SENDER_MAILBOX'',
     fm_user_access_token = env_trim e ''FEISHU_MAIL_USER_ACCESS_TOKEN'',
     fm_user_refresh_token = env_trim e ''FEISHU_MAIL_USER_REFRESH_TOKEN'',
     fm_user_token_state_path = env_trim e ''FEISHU_MAIL_TOKEN_STATE_PATH'',
     fm_default_from_name = env_trim e ''FEISHU_MAIL_DEFAULT_FROM_NAME'',
     fm_app_id = env_or e ''FEISHU_MAIL_APP_ID'' (fs_app_id feishu),
     fm_app_secret = env_or e ''FEISHU_MAIL_APP_SECRET'' (fs_app_secret feishu),
     fm_base_url = env_or e ''FEISHU_MAIL_BASE_URL'' (fs_base_url feishu),
     fm_auth_base_url = env_or e ''FEISHU_MAIL_AUTH_BASE_URL'' (fs_auth_base_url feishu),
     fm_timeout_seconds = (if env_trim e ''FEISHU_MAIL_TIMEOUT_SECONDS'' = [] then fs_timeout_seconds feishu
       else parsed_or u64_max (fs_timeout_seconds feishu) (env_trim e ''FEISHU_MAIL_TIMEOUT_SECONDS''))\<rparr>"

definition app_credentials_configured :: "feishu_mail_config \<Rightarrow> bool" where
  "app_credentials_configured c \<longleftrightarrow> trim (fm_app_id c) \<noteq> [] \<and> trim (fm_app_secret c) \<noteq> []"

definition refreshable :: "feishu_mail_config \<Rightarrow> bool" where
  "refreshable c \<longleftrightarrow> trim (fm_user_refresh_token c) \<noteq> [] \<or> trim (fm_user_token_state_path c) \<noteq> []"

definition feishu_mail_configured :: "feishu_mail_config \<Rightarrow> bool" where
  "feishu_mail_configured c \<longleftrightarrow> fm_enabled c \<and> trim (fm_sender_mailbox c) \<noteq> []
     \<and> (trim (fm_user_access_token c) \<noteq> [] \<or> (refreshable c \<and> app_credentials_configured c) \<or> app_credentials_configured c)"

definition auth_mode :: "feishu_mail_config \<Rightarrow> string" where
  "auth_mode c = (if refreshable c then ''user_refresh_token''
     else if trim (fm_user_access_token c) \<noteq> [] then ''user_access_token''
     else if app_credentials_configured c then ''tenant_access_token'' else ''unconfigured'')"

section \<open>The application\<close>

record app_config =
  cf_runtime_profile :: string
  cf_host :: string
  cf_port :: nat
  cf_data_dir :: string
  cf_state_dir :: string
  cf_device_session_state_dir :: string
  cf_public_origin :: string
  cf_contract_version :: string
  cf_service_token :: string
  cf_service_token_previous :: string
  cf_harborbeacon_base_url :: string
  cf_harborbeacon_token :: string
  cf_harborbeacon_web_api_token :: string
  cf_harborbeacon_turn_endpoint :: string
  cf_harbor_workspace_id :: string
  cf_cloud_relay_url :: string
  cf_cloud_relay_region :: string
  cf_feishu :: feishu_config
  cf_feishu_mail :: feishu_mail_config
  cf_weixin :: weixin_config
  cf_enable_feishu_websocket :: bool
  cf_enable_weixin_runtime :: bool

definition workspace_id_for_profile :: "string \<Rightarrow> string \<Rightarrow> string" where
  "workspace_id_for_profile runtime_profile configured =
    (if configured = [] \<and> runtime_profile \<noteq> ''k3'' then ''home-1'' else configured)"

definition turn_endpoint_of :: "cfg_env \<Rightarrow> string" where
  "turn_endpoint_of e = (let t = env_or e ''HARBORBEACON_TURN_ENDPOINT'' ''/api/web/turns''
     in if starts_with ''/'' t then t else ''/'' @ t)"

definition base_url_of :: "cfg_env \<Rightarrow> string" where
  "base_url_of e = strip_endpoint_suffix (strip_endpoint_suffix (strip_endpoint_suffix
     (env_first e [''HARBORBEACON_WEB_API_URL'', ''HARBORBEACON_TASK_API_URL'']) (turn_endpoint_of e))
     ''/api/web/turns'') ''/api/turns''"

definition from_env :: "cfg_env \<Rightarrow> app_config" where
  "from_env e =
    (let feishu = feishu_from_env e;
         data_dir = env_or e ''IM_AGENT_DATA_DIR'' ''data/sessions'';
         state_dir = env_or e ''IM_AGENT_STATE_DIR'' (case parent_text data_dir of Some p \<Rightarrow> p | None \<Rightarrow> ''data'');
         gate_to_beacon_token = credential_first e ''HARBOR_GATE_TO_BEACON_TOKEN_FILE'' ''gate-to-beacon-send''
           [''HARBOR_GATE_TO_BEACON_TOKEN'', ''HARBORBEACON_WEB_API_TOKEN''];
         runtime_profile = env_or e ''HARBORGATE_RUNTIME_PROFILE'' ''standard'' in
     \<lparr>cf_runtime_profile = runtime_profile,
      cf_host = env_or e ''IM_AGENT_HOST'' ''127.0.0.1'',
      cf_port = parsed_or 65535 8787 (env_or e ''IM_AGENT_PORT'' ''8787''),
      cf_data_dir = data_dir,
      cf_state_dir = state_dir,
      cf_device_session_state_dir = env_or e ''HARBORGATE_DEVICE_SESSION_STATE_DIR'' (path_join state_dir ''device-sessions''),
      cf_public_origin = env_trim e ''IM_AGENT_PUBLIC_ORIGIN'',
      cf_contract_version = env_or e ''IM_AGENT_CONTRACT_VERSION'' ''2.0'',
      cf_service_token = credential_first e ''HARBOR_BEACON_TO_GATE_TOKEN_FILE'' ''beacon-to-gate-accept-current''
        [''HARBOR_BEACON_TO_GATE_TOKEN'', ''IM_AGENT_SERVICE_TOKEN''],
      cf_service_token_previous = credential_first e ''HARBOR_BEACON_TO_GATE_TOKEN_PREVIOUS_FILE''
        ''beacon-to-gate-accept-previous'' [''HARBOR_BEACON_TO_GATE_TOKEN_PREVIOUS''],
      cf_harborbeacon_base_url = base_url_of e,
      cf_harborbeacon_token = gate_to_beacon_token,
      cf_harborbeacon_web_api_token = gate_to_beacon_token,
      cf_harborbeacon_turn_endpoint = turn_endpoint_of e,
      cf_harbor_workspace_id = workspace_id_for_profile runtime_profile (env_trim e ''HARBOR_WORKSPACE_ID''),
      cf_cloud_relay_url = env_trim e ''HARBORCLOUD_RELAY_URL'',
      cf_cloud_relay_region = env_trim e ''HARBORCLOUD_RELAY_REGION'',
      cf_feishu = feishu,
      cf_feishu_mail = feishu_mail_from_env e feishu,
      cf_weixin = weixin_from_env e,
      cf_enable_feishu_websocket = env_flag_default e ''HARBORGATE_RUST_FEISHU_WEBSOCKET'' True,
      cf_enable_weixin_runtime = env_flag_default e ''HARBORGATE_WEIXIN_RUNTIME_ENABLED'' True\<rparr>)"

definition harborbeacon_enabled :: "app_config \<Rightarrow> bool" where
  "harborbeacon_enabled c \<longleftrightarrow> trim (cf_harborbeacon_base_url c) \<noteq> []"

definition is_lower_hex_credential :: "string \<Rightarrow> bool" where
  "is_lower_hex_credential v \<longleftrightarrow> length v = 64
     \<and> list_all (\<lambda>b. is_ascii_digit b \<or> (CHR ''a'' \<le> b \<and> b \<le> CHR ''f'')) v"

definition valid_home_id :: "string \<Rightarrow> bool" where
  "valid_home_id v \<longleftrightarrow> length v \<le> 128 \<and> v \<noteq> [] \<and> is_ascii_alphanumeric (hd v)
     \<and> list_all (\<lambda>b. is_ascii_alphanumeric b \<or> b \<in> {CHR ''_'', CHR ''.'', CHR '':'', CHR ''@'', CHR ''-''}) (tl v)"

fun ensure_all :: "(bool \<times> string) list \<Rightarrow> string + unit" where
  "ensure_all [] = Inr ()"
| "ensure_all ((ok, msg) # cs) = (if ok then ensure_all cs else Inl msg)"

definition validate_k3_runtime :: "app_config \<Rightarrow> string + unit" where
  "validate_k3_runtime c =
    rbind (ok_or ''IM_AGENT_HOST must be a numeric loopback address'' (parse_ip (cf_host c))) (\<lambda>host. ensure_all [
      (is_loopback host, ''IM_AGENT_HOST must be loopback-only''),
      (cf_port c = 8787, ''IM_AGENT_PORT must be 8787''),
      (cf_contract_version c = ''2.0'', ''IM_AGENT_CONTRACT_VERSION must be 2.0''),
      (same_path (cf_data_dir c) ''/data/harborgate/sessions'', ''IM_AGENT_DATA_DIR must be /data/harborgate/sessions''),
      (same_path (cf_state_dir c) ''/data/harborgate'', ''IM_AGENT_STATE_DIR must be /data/harborgate''),
      (same_path (cf_device_session_state_dir c) ''/data/harborgate/device-sessions'',
        ''HARBORGATE_DEVICE_SESSION_STATE_DIR must be /data/harborgate/device-sessions''),
      (same_path (wx_state_dir (cf_weixin c)) ''/data/harborgate/weixin'', ''WEIXIN_STATE_DIR must be /data/harborgate/weixin''),
      (fm_user_token_state_path (cf_feishu_mail c) = ''/data/harborgate/feishu-mail-token.json'',
        ''FEISHU_MAIL_TOKEN_STATE_PATH must be /data/harborgate/feishu-mail-token.json''),
      (cf_harborbeacon_base_url c = ''http://127.0.0.1:4174'', ''HARBORBEACON_WEB_API_URL must use the K3 loopback endpoint''),
      (cf_harborbeacon_turn_endpoint c = ''/api/web/turns'', ''HARBORBEACON_TURN_ENDPOINT must be /api/web/turns''),
      (valid_home_id (cf_harbor_workspace_id c), ''HARBOR_WORKSPACE_ID must contain the authoritative Home ID''),
      (is_lower_hex_credential (cf_service_token c), ''IM_AGENT_SERVICE_TOKEN must be a 32-byte lowercase hex credential''),
      (is_lower_hex_credential (cf_harborbeacon_web_api_token c),
        ''HARBORBEACON_WEB_API_TOKEN must be a 32-byte lowercase hex credential''),
      (cf_harborbeacon_token c = cf_harborbeacon_web_api_token c, ''HarborBeacon v2 transport must use the Web API bearer''),
      (cf_service_token c \<noteq> cf_harborbeacon_web_api_token c,
        ''Gate ingress and Beacon upstream credentials must be distinct'')])"

definition validate_runtime_profile :: "app_config \<Rightarrow> string + unit" where
  "validate_runtime_profile c = (if cf_runtime_profile c = ''standard'' then Inr ()
     else if cf_runtime_profile c = ''k3'' then validate_k3_runtime c
     else Inl ''HARBORGATE_RUNTIME_PROFILE must be standard or k3'')"

end
