(* ===== verification/Harboros_Auth.thy ===== *)
theory Harboros_Auth
  imports Std_Text
begin

text \<open>
  \<^verbatim>\<open>src/harboros_auth.rs\<close>: a token is checked by the HarborOS middleware over a websocket. The
  messages of the socket, with the time at which each arrives, are inputs; the derived decoder of the
  response types is a parameter.
\<close>

section \<open>Text\<close>

text \<open>\<^verbatim>\<open>String::from_utf8\<close>: the well-formed UTF-8 byte sequences.\<close>

definition cont_in :: "char \<Rightarrow> char \<Rightarrow> char \<Rightarrow> bool" where
  "cont_in lo hi c \<longleftrightarrow> lo \<le> c \<and> c \<le> hi"

fun utf8_valid :: "string \<Rightarrow> bool" where
  "utf8_valid [] = True"
| "utf8_valid (a # s) =
    (if a \<le> CHR 0x7F then utf8_valid s
     else if cont_in CHR 0xC2 CHR 0xDF a then (case s of b # r \<Rightarrow> is_cont_byte b \<and> utf8_valid r | _ \<Rightarrow> False)
     else if cont_in CHR 0xE0 CHR 0xEF a then (case s of
         b # c # r \<Rightarrow> cont_in (if a = CHR 0xE0 then CHR 0xA0 else CHR 0x80) (if a = CHR 0xED then CHR 0x9F else CHR 0xBF) b
           \<and> is_cont_byte c \<and> utf8_valid r
       | _ \<Rightarrow> False)
     else if cont_in CHR 0xF0 CHR 0xF4 a then (case s of
         b # c # e # r \<Rightarrow> cont_in (if a = CHR 0xF0 then CHR 0x90 else CHR 0x80) (if a = CHR 0xF4 then CHR 0x8F else CHR 0xBF) b
           \<and> is_cont_byte c \<and> is_cont_byte e \<and> utf8_valid r
       | _ \<Rightarrow> False)
     else False)"

section \<open>Data\<close>

record harboros_principal =
  hp_source :: string
  hp_principal_id :: string
  hp_roles :: "string list"
  hp_camera_scope :: "string option"

datatype harboros_failure = InvalidToken | AccessDenied | WebUiAccessRequired | FullAdminRequired | AuthUnavailable

definition failure_message :: "harboros_failure \<Rightarrow> string" where
  "failure_message f = (case f of
      InvalidToken \<Rightarrow> ''HarborOS authentication failed''
    | AccessDenied \<Rightarrow> ''HarborOS access was denied''
    | WebUiAccessRequired \<Rightarrow> ''HarborOS WebUI access is required''
    | FullAdminRequired \<Rightarrow> ''HarborOS FULL_ADMIN role is required''
    | AuthUnavailable \<Rightarrow> ''HarborOS authentication service is unavailable'')"

record harboros_privilege =
  webui_access :: bool
  privilege_roles :: "string list"

record harboros_user_info =
  pw_uid :: nat
  privilege :: harboros_privilege

record login_response =
  response_type :: string
  user_info :: "harboros_user_info option"

record rpc_response =
  rpc_id :: "string option"
  rpc_result :: "login_response option"
  rpc_error :: "json option"

definition default_auth_timeout :: int where "default_auth_timeout = 5000"
definition auth_request_id :: string where "auth_request_id = ''harborgate-harboros-auth''"
definition full_admin_role :: string where "full_admin_role = ''FULL_ADMIN''"

definition auth_login_request :: "string \<Rightarrow> json" where
  "auth_login_request token = jobj [(''jsonrpc'', JStr ''2.0''), (''id'', JStr auth_request_id),
     (''method'', JStr ''auth.login_ex''), (''params'', JArr [jobj [(''mechanism'', JStr ''TOKEN_PLAIN''), (''token'', JStr token),
       (''login_options'', jobj [(''user_info'', JBool True), (''reconnect_token'', JBool False)])]])]"

section \<open>The decision\<close>

definition principal_from_login_response :: "login_response \<Rightarrow> harboros_failure + harboros_principal" where
  "principal_from_login_response r =
    (if response_type r = ''AUTH_ERR'' \<or> response_type r = ''EXPIRED'' then Inl InvalidToken
     else if response_type r = ''DENIED'' then Inl AccessDenied
     else if response_type r \<noteq> ''SUCCESS'' then Inl AuthUnavailable
     else
      rbind (ok_or AuthUnavailable (user_info r)) (\<lambda>info.
      if \<not> webui_access (privilege info) then Inl WebUiAccessRequired
      else
       (let roles = remdups_adj (sort (privilege_roles (privilege info))) in
        if full_admin_role \<notin> set roles then Inl FullAdminRequired
        else Inr \<lparr>hp_source = ''harboros'', hp_principal_id = ''harboros:uid:'' @ show_nat (pw_uid info),
                  hp_roles = roles, hp_camera_scope = None\<rparr>)))"

section \<open>The websocket\<close>

datatype ws_message = WsText string | WsBinary string | WsClose | WsControl

text \<open>
  A received message, or \<open>None\<close> for a failed read, with its arrival time. Once the time limit is
  reached the whole call is unavailable, whatever arrives later.
\<close>

definition payload_of :: "ws_message \<Rightarrow> harboros_failure + string option" where
  "payload_of m = (case m of
      WsText s \<Rightarrow> Inr (Some s)
    | WsBinary b \<Rightarrow> if utf8_valid b then Inr (Some b) else Inl AuthUnavailable
    | WsClose \<Rightarrow> Inl AuthUnavailable
    | WsControl \<Rightarrow> Inr None)"

fun auth_loop ::
  "(string \<Rightarrow> rpc_response option) \<Rightarrow> int \<Rightarrow> (int \<times> ws_message option) list \<Rightarrow> harboros_failure + harboros_principal" where
  "auth_loop decode limit [] = Inl AuthUnavailable"
| "auth_loop decode limit ((t, received) # rest) =
    (if t \<ge> limit then Inl AuthUnavailable
     else
      rbind (rbind (ok_or AuthUnavailable received) payload_of) (\<lambda>p. case p of
        None \<Rightarrow> auth_loop decode limit rest
      | Some payload \<Rightarrow>
          rbind (ok_or AuthUnavailable (decode payload)) (\<lambda>response.
          if rpc_id response \<noteq> Some auth_request_id then auth_loop decode limit rest
          else if rpc_error response \<noteq> None then Inl AuthUnavailable
          else rbind (ok_or AuthUnavailable (rpc_result response)) principal_from_login_response)))"

text \<open>\<open>connected\<close> and \<open>sent\<close> are the times at which connecting and sending succeed, if they do.\<close>

definition harboros_authenticate ::
  "(string \<Rightarrow> rpc_response option) \<Rightarrow> int option \<Rightarrow> int option \<Rightarrow> (int \<times> ws_message option) list \<Rightarrow>
   harboros_failure + harboros_principal" where
  "harboros_authenticate decode connected sent received =
    rbind (ok_or AuthUnavailable connected) (\<lambda>t1. if t1 \<ge> default_auth_timeout then Inl AuthUnavailable else
    rbind (ok_or AuthUnavailable sent) (\<lambda>t2. if t2 \<ge> default_auth_timeout then Inl AuthUnavailable else
    auth_loop decode default_auth_timeout received))"

text \<open>What a message that answers the request contains, and a message that is passed over.\<close>

definition answers :: "(string \<Rightarrow> rpc_response option) \<Rightarrow> ws_message option \<Rightarrow> login_response \<Rightarrow> bool" where
  "answers decode m r \<longleftrightarrow> (\<exists>s resp. (m = Some (WsText s) \<or> m = Some (WsBinary s) \<and> utf8_valid s)
     \<and> decode s = Some resp \<and> rpc_id resp = Some auth_request_id \<and> rpc_error resp = None \<and> rpc_result resp = Some r)"

lemma payload_of_Some:
  "payload_of m = Inr (Some s) \<longleftrightarrow> m = WsText s \<or> m = WsBinary s \<and> utf8_valid s"
  by (auto simp: payload_of_def split: ws_message.splits)

lemma auth_loop_sound:
  assumes "auth_loop decode limit ms = Inr p"
  shows "\<exists>t m r. (t, m) \<in> set ms \<and> t < limit \<and> answers decode m r \<and> principal_from_login_response r = Inr p"
  using assms
proof (induction ms)
  case (Cons e rest)
  obtain t received where e: "e = (t, received)" by fastforce
  note l = Cons.prems [unfolded e]
  have rest: ?case if "auth_loop decode limit rest = Inr p"
    using Cons.IH [OF that] by (meson list.set_intros(2))
  from l have t: "t < limit" by (auto split: if_splits)
  from l t obtain m q where q: "received = Some m" "payload_of m = Inr q" by auto
  show ?case
  proof (cases q)
    case (Some s)
    then obtain resp where r: "decode s = Some resp" using l t q by auto
    show ?thesis
    proof (cases "rpc_id resp = Some auth_request_id")
      case True
      then obtain lr where lr: "rpc_error resp = None" "rpc_result resp = Some lr" "principal_from_login_response lr = Inr p"
        using l t q Some r by (auto split: if_splits)
      moreover have "answers decode received lr"
        using q Some r True lr by (auto simp: answers_def payload_of_Some)
      ultimately show ?thesis using t e by (meson list.set_intros(1))
    qed (use rest l t q Some r in simp)
  qed (use rest l t q in simp)
qed simp

lemma sorted_remdups_distinct: "sorted xs \<Longrightarrow> distinct (remdups_adj xs)" for xs :: "'a :: linorder list"
proof (induction xs rule: remdups_adj.induct)
  case (3 x y xs)
  show ?case
  proof (cases "x = y")
    case False
    with 3 have "x \<notin> set (y # xs)" by auto
    with 3 False show ?thesis by (simp del: remdups_adj.simps add: remdups_adj.simps(3))
  qed (use 3 in simp)
qed simp_all

lemma principal_sound:
  assumes "principal_from_login_response r = Inr p"
  shows "response_type r = ''SUCCESS'' \<and> (\<exists>info. user_info r = Some info \<and> webui_access (privilege info)
    \<and> full_admin_role \<in> set (privilege_roles (privilege info))
    \<and> hp_principal_id p = ''harboros:uid:'' @ show_nat (pw_uid info)
    \<and> set (hp_roles p) = set (privilege_roles (privilege info)) \<and> sorted (hp_roles p) \<and> distinct (hp_roles p)
    \<and> hp_camera_scope p = None)"
  using assms
  by (auto simp: principal_from_login_response_def Let_def sorted_remdups_adj sorted_remdups_distinct split: if_splits)

end
