(* ===== verification/Config_Properties.thy ===== *)
theory Config_Properties
  imports App_Config Harboros_Auth
begin

text \<open>The properties of the configuration and of the HarborOS authentication, with their witnesses.\<close>

section \<open>Credentials\<close>

lemma credential_from_directory:
  assumes "env_trim e ''CREDENTIALS_DIRECTORY'' \<noteq> []"
  shows "credential_first e file_env name keys =
    (case read_to_string e (path_join (env_trim e ''CREDENTIALS_DIRECTORY'') name) of None \<Rightarrow> [] | Some v \<Rightarrow> trim v)"
  using assms by (simp add: credential_first_def credential_file_path_def credential_file_path_from_values_def)

text \<open>C30: with a credentials directory, the tokens come from its files alone. Two environments with the same
  credentials directory and the same files give the same service tokens and the same HarborBeacon
  token, whatever the other variables say: no variable overrides a file or stands in for a missing one.\<close>

theorem credentials_isolated:
  assumes "env_trim e ''CREDENTIALS_DIRECTORY'' \<noteq> []"
    and "env_trim e' ''CREDENTIALS_DIRECTORY'' = env_trim e ''CREDENTIALS_DIRECTORY''"
    and "read_to_string e' = read_to_string e"
  shows "cf_service_token (from_env e') = cf_service_token (from_env e)
    \<and> cf_service_token_previous (from_env e') = cf_service_token_previous (from_env e)
    \<and> cf_harborbeacon_token (from_env e') = cf_harborbeacon_token (from_env e)
    \<and> cf_harborbeacon_web_api_token (from_env e') = cf_harborbeacon_web_api_token (from_env e)"
  using assms credential_from_directory [of e] credential_from_directory [of e'] by (simp add: from_env_def Let_def)

definition demo_env :: "string \<Rightarrow> cfg_env" where
  "demo_env token = \<lparr>env_var = [''CREDENTIALS_DIRECTORY'' \<mapsto> ''/run/c'', ''IM_AGENT_SERVICE_TOKEN'' \<mapsto> token,
       ''HARBORGATE_RUNTIME_PROFILE'' \<mapsto> ''k3''],
     env_var_os = (\<lambda>k. False), read_to_string = [''/run/c/gate-to-beacon-send'' \<mapsto> ''abc''],
     cfg_from_str = (\<lambda>s. None), lowercase = (\<lambda>s. s)\<rparr>"

lemma demo_trims: "trim ''/run/c'' = ''/run/c''" "trim ''k3'' = ''k3''"
  by (rule trim_id; simp add: ws_bytes_def)+

lemma demo_directory: "env_trim (demo_env t) ''CREDENTIALS_DIRECTORY'' = ''/run/c''"
  by (simp add: env_trim_def demo_env_def demo_trims)

theorem credentials_isolated_witness:
  "cf_service_token (from_env (demo_env ''x'')) = cf_service_token (from_env (demo_env ''y''))
   \<and> env_var (demo_env ''x'') ''IM_AGENT_SERVICE_TOKEN'' \<noteq> env_var (demo_env ''y'') ''IM_AGENT_SERVICE_TOKEN''"
  using credentials_isolated [of "demo_env ''y''" "demo_env ''x''"]
  by (simp add: demo_directory) (simp add: demo_env_def)

lemma ensure_all_Inr [simp]: "ensure_all cs = Inr u \<longleftrightarrow> list_all fst cs"
  by (induction cs rule: ensure_all.induct) auto

text \<open>C31: the K3 profile fails closed. With the K3 profile and a credentials directory, the gate refuses to
  start when the file of either credential is missing or unreadable, or when both hold the same text,
  even if the variables hold valid tokens.\<close>

theorem k3_fails_closed:
  assumes "cf_runtime_profile (from_env e) = ''k3''" "env_trim e ''CREDENTIALS_DIRECTORY'' = dir" "dir \<noteq> []"
    and "read_to_string e (path_join dir ''beacon-to-gate-accept-current'') = None
       \<or> read_to_string e (path_join dir ''gate-to-beacon-send'') = None
       \<or> read_to_string e (path_join dir ''beacon-to-gate-accept-current'') = read_to_string e (path_join dir ''gate-to-beacon-send'')"
  shows "\<exists>msg. validate_runtime_profile (from_env e) = Inl msg"
proof -
  have n: "\<not> is_lower_hex_credential []" by (simp add: is_lower_hex_credential_def)
  have t: "cf_service_token (from_env e) = (case read_to_string e (path_join dir ''beacon-to-gate-accept-current'') of
        None \<Rightarrow> [] | Some v \<Rightarrow> trim v)"
    "cf_harborbeacon_web_api_token (from_env e) = (case read_to_string e (path_join dir ''gate-to-beacon-send'') of
        None \<Rightarrow> [] | Some v \<Rightarrow> trim v)"
    using credential_from_directory [of e] assms(2,3) by (simp_all add: from_env_def Let_def)
  have "\<not> is_lower_hex_credential (cf_service_token (from_env e))
      \<or> \<not> is_lower_hex_credential (cf_harborbeacon_web_api_token (from_env e))
      \<or> cf_service_token (from_env e) = cf_harborbeacon_web_api_token (from_env e)"
    using assms(4) n unfolding t by (elim disjE) simp_all
  then have "validate_k3_runtime (from_env e) \<noteq> Inr ()" unfolding validate_k3_runtime_def by auto
  then show ?thesis using assms(1) by (cases "validate_k3_runtime (from_env e)") (simp_all add: validate_runtime_profile_def)
qed

theorem k3_fails_closed_witness:
  "\<exists>msg. validate_runtime_profile (from_env (demo_env ''token'')) = Inl msg"
proof (rule k3_fails_closed [OF _ demo_directory])
  show "cf_runtime_profile (from_env (demo_env ''token'')) = ''k3''"
    by (simp add: from_env_def Let_def env_or_def env_trim_def demo_env_def demo_trims)
qed (simp_all add: demo_env_def path_join_def starts_with_def)

section \<open>HarborOS\<close>

text \<open>C32: only a full administrator is let in. A token authenticates only when a message of the socket that
  answers this request, received within the time limit and without an error, reports success for a
  user with web access and the role FULL\_ADMIN. The principal then names that user and carries exactly
  the reported roles, sorted and without repetition.\<close>

theorem harboros_admin_only:
  assumes "harboros_authenticate decode connected sent received = Inr p"
  shows "\<exists>t m r info. (t, m) \<in> set received \<and> t < default_auth_timeout \<and> answers decode m r
    \<and> response_type r = ''SUCCESS'' \<and> user_info r = Some info \<and> webui_access (privilege info)
    \<and> full_admin_role \<in> set (privilege_roles (privilege info))
    \<and> hp_principal_id p = ''harboros:uid:'' @ show_nat (pw_uid info)
    \<and> set (hp_roles p) = set (privilege_roles (privilege info)) \<and> sorted (hp_roles p) \<and> distinct (hp_roles p)"
proof -
  from assms have "auth_loop decode default_auth_timeout received = Inr p"
    by (auto simp: harboros_authenticate_def split: if_splits)
  from auth_loop_sound [OF this] show ?thesis using principal_sound by blast
qed

definition demo_login :: rpc_response where
  "demo_login = \<lparr>rpc_id = Some auth_request_id, rpc_result = Some \<lparr>response_type = ''SUCCESS'', user_info = Some
     \<lparr>pw_uid = 7, privilege = \<lparr>webui_access = True, privilege_roles = [''X'', ''FULL_ADMIN'']\<rparr>\<rparr>\<rparr>, rpc_error = None\<rparr>"

theorem harboros_admin_only_witness:
  "\<exists>p. harboros_authenticate (\<lambda>s. if s = ''ok'' then Some demo_login else None) (Some 1) (Some 2)
     [(3, Some WsControl), (4, Some (WsText ''ok''))] = Inr p \<and> sorted (hp_roles p) \<and> distinct (hp_roles p)"
proof -
  let ?d = "\<lambda>s. if s = ''ok'' then Some demo_login else None"
  have "\<exists>p. harboros_authenticate ?d (Some 1) (Some 2) [(3, Some WsControl), (4, Some (WsText ''ok''))] = Inr p"
    by (simp add: harboros_authenticate_def default_auth_timeout_def payload_of_def demo_login_def
        principal_from_login_response_def Let_def full_admin_role_def)
  then obtain p where p: "harboros_authenticate ?d (Some 1) (Some 2) [(3, Some WsControl), (4, Some (WsText ''ok''))] = Inr p" ..
  from harboros_admin_only [OF p] p show ?thesis by blast
qed

end
