(* ===== verification/Gateway_Content.thy ===== *)
theory Gateway_Content
  imports WhatsApp_Adapter
begin

text \<open>
  The functions of \<^verbatim>\<open>src/gateway.rs\<close> that compute on messages and JSON values: the items of a delivery
  and their keys, native attachments and their fallbacks, the normalisation of gateway turns, the
  texts of replies and notifications, the metadata of a delivery and the classification of failures.
  SHA-256, Unicode lower-casing and the printing of JSON scalars are parameters.
\<close>

record content_env =
  ce_sha256_hex :: "string \<Rightarrow> string"
  ce_lowercase :: "string \<Rightarrow> string"
  ce_scalar :: "json \<Rightarrow> string"

definition point_str :: "string list \<Rightarrow> json \<Rightarrow> string option" where
  "point_str ts v = Option.bind (jpointer ts v) as_str"

section \<open>Delivery items\<close>

definition delivery_item_key :: "string \<Rightarrow> string \<Rightarrow> string" where
  "delivery_item_key delivery_key item_identity =
     ''delivery:v1:'' @ show_nat (length delivery_key) @ '':'' @ delivery_key @ '':'' @ item_identity"

definition attachment_item_identity :: "string \<Rightarrow> string" where
  "attachment_item_identity artifact_id = ''item:v1:artifact:'' @ show_nat (length artifact_id) @ '':'' @ artifact_id"

definition text_item_identity :: string where "text_item_identity = ''item:v1:text''"
definition text_artifact :: string where "text_artifact = ''__text''"

definition delivery_artifact_id :: "json \<Rightarrow> string option" where
  "delivery_artifact_id a = nonempty_trim (Option.bind
     (or_opt (or_opt (jget a ''artifact_id'') (jget a ''id'')) (jpointer [''metadata'', ''harborlink_artifact_id''] a)) as_str)"

definition delivery_item_requires_materialization :: "string \<Rightarrow> outbound_message \<Rightarrow> bool" where
  "delivery_item_requires_materialization adapter_name m \<longleftrightarrow> adapter_name \<in> {''weixin'', ''whatsapp''}
     \<and> (case out_attachments m of
          [a] \<Rightarrow> (case get_str a ''path'' of None \<Rightarrow> True | Some p \<Rightarrow> trim p = [])
             \<and> (case get_str a ''url'' of None \<Rightarrow> False | Some u \<Rightarrow> trim u \<noteq> [])
        | _ \<Rightarrow> False)"

type_synonym delivery_item = "string \<times> string \<times> string \<times> outbound_message"

definition duplicate_artifact :: "string \<Rightarrow> gateway_error" where
  "duplicate_artifact artifact_id = gateway_error_new 422 ''DUPLICATE_DELIVERY_ARTIFACT''
     (''duplicate artifact_id in delivery plan: '' @ artifact_id)"

definition attachment_kind :: "json \<Rightarrow> string" where
  "attachment_kind a = trim (or_else ''file'' (Option.bind (or_opt (jget a ''kind'') (jget a ''type'')) as_str))"

definition attachment_item :: "outbound_message \<Rightarrow> json \<Rightarrow> string \<Rightarrow> delivery_item" where
  "attachment_item m a artifact_id = (attachment_item_identity artifact_id, artifact_id, attachment_kind a,
     m\<lparr>out_text := [], out_attachments := [a]\<rparr>)"

fun split_attachments :: "outbound_message \<Rightarrow> string list \<Rightarrow> json list \<Rightarrow> gateway_error + delivery_item list" where
  "split_attachments m ids [] = Inr []"
| "split_attachments m ids (a # as) = (case delivery_artifact_id a of
      None \<Rightarrow> split_attachments m ids as
    | Some artifact_id \<Rightarrow>
        if artifact_id \<in> set ids then Inl (duplicate_artifact artifact_id)
        else rbind (split_attachments m (artifact_id # ids) as) (\<lambda>items. Inr (attachment_item m a artifact_id # items)))"

definition split_outbound_items :: "outbound_message \<Rightarrow> gateway_error + delivery_item list" where
  "split_outbound_items m =
    rbind (split_attachments m [] (out_attachments m)) (\<lambda>attached.
    let items = (if trim (out_text m) \<noteq> []
          then [(text_item_identity, text_artifact, ''text'', m\<lparr>out_attachments := []\<rparr>)] else []) @ attached
    in Inr (if items = [] then [(text_item_identity, text_artifact, ''text'', m)] else items))"

section \<open>Native media\<close>

definition mime_of :: "json \<Rightarrow> string option" where "mime_of a = get_str a ''mime_type''"

definition has_mime :: "string \<Rightarrow> json \<Rightarrow> bool" where
  "has_mime p a = (case mime_of a of None \<Rightarrow> False | Some t \<Rightarrow> starts_with p t)"

definition native_video_file_fallback :: "outbound_message \<Rightarrow> outbound_message option" where
  "native_video_file_fallback m = (case out_attachments m of
      [a] \<Rightarrow>
        if point_str [''metadata'', ''native_attachment_fallback''] a \<noteq> Some ''file'' then None
        else if \<not> (get_str a ''kind'' = Some ''video'' \<or> has_mime ''video/'' a) then None
        else Some (m\<lparr>
          out_attachments := [case a of JObj o' \<Rightarrow> JObj (oput ''mime_type'' (JStr ''application/octet-stream'')
              (oput ''kind'' (JStr ''file'') o')) | _ \<Rightarrow> a],
          out_metadata := oput ''native_attachment_fallback_used'' (JBool True) (out_metadata m)\<rparr>)
    | _ \<Rightarrow> None)"

definition should_fallback_to_file :: "gateway_error \<Rightarrow> bool" where
  "should_fallback_to_file e \<longleftrightarrow> err_code e \<in> {''UNSUPPORTED_NATIVE_VIDEO'', ''NATIVE_MEDIA_PRE_SEND_FAILED''}"

definition hint_artifact_id :: "json \<Rightarrow> string option" where
  "hint_artifact_id a = nonempty_trim (get_str a ''artifact_id'')"

definition artifact_media_location :: "json \<Rightarrow> string option" where
  "artifact_media_location a = or_opt (nonempty_trim (get_str a ''path'')) (nonempty_trim (get_str a ''url''))"

definition array_or_empty :: "json option \<Rightarrow> json list" where
  "array_or_empty v = or_else [] (Option.bind v as_array)"

definition mark_fallback :: "json \<Rightarrow> json" where
  "mark_fallback a = (case a of
      JObj o' \<Rightarrow>
        (let metadata = or_else (JObj []) (oget o' ''metadata'') in
         JObj (oput ''metadata'' (case metadata of
             JObj md \<Rightarrow> JObj (oput ''native_attachment_fallback'' (JStr ''file'') md) | _ \<Rightarrow> metadata) o'))
    | _ \<Rightarrow> a)"

definition hinted_video :: "json list \<Rightarrow> json \<Rightarrow> (string \<times> json) option" where
  "hinted_video artifacts hint =
    (if get_str hint ''kind'' \<noteq> Some ''native_video'' \<or> get_str hint ''fallback'' \<noteq> Some ''file'' then None
     else Option.bind (nonempty_trim (get_str hint ''artifact_id'')) (\<lambda>artifact_id.
       Option.bind (find (\<lambda>a. hint_artifact_id a = Some artifact_id) artifacts) (\<lambda>a.
       if \<not> has_mime ''video/'' a \<or> artifact_media_location a = None then None
       else Some (artifact_id, mark_fallback a))))"

fun select_videos :: "json list \<Rightarrow> json list \<Rightarrow> json list \<Rightarrow> json list" where
  "select_videos artifacts selected [] = selected"
| "select_videos artifacts selected (hint # hints) = (case hinted_video artifacts hint of
      None \<Rightarrow> select_videos artifacts selected hints
    | Some (artifact_id, a) \<Rightarrow> select_videos artifacts
        (if list_ex (\<lambda>e. hint_artifact_id e = Some artifact_id) selected then selected else selected @ [a]) hints)"

definition hinted_native_videos :: "json list \<Rightarrow> json \<Rightarrow> json list" where
  "hinted_native_videos artifacts resp =
     select_videos artifacts [] (array_or_empty (jget resp ''delivery_hints''))"

definition native_image_limit :: "json \<Rightarrow> nat option" where
  "native_image_limit resp =
    Option.bind (Option.bind (jget resp ''delivery_hints'') as_array) (\<lambda>hints.
    map_option (\<lambda>hint. let raw = or_else 3 (Option.bind
        (or_opt (or_opt (jget hint ''max_items'') (jpointer [''metadata'', ''max_items''] hint))
          (jpointer [''metadata'', ''limit''] hint)) as_u64) in max 1 (min raw 3))
      (find (\<lambda>hint. get_str hint ''kind'' \<in> {Some ''native_image'', Some ''native_images''}) hints))"

definition hinted_notification_attachments :: "json \<Rightarrow> json list" where
  "hinted_notification_attachments content =
    (let artifacts = array_or_empty (jget content ''attachments'') in
     hinted_native_videos artifacts content @ (case native_image_limit content of
         None \<Rightarrow> []
       | Some limit \<Rightarrow> take limit (filter (\<lambda>a. has_mime ''image/'' a \<and> artifact_media_location a \<noteq> None) artifacts)))"

definition artifact_candidates :: "json \<Rightarrow> json list" where
  "artifact_candidates r = filter is_object (or_else [] (or_opt (Option.bind (jget r ''artifacts'') as_array)
     (or_opt (Option.bind (jpointer [''result'', ''artifacts''] r) as_array)
     (or_opt (Option.bind (jpointer [''result'', ''attachments''] r) as_array)
             (Option.bind (jpointer [''result'', ''evidence''] r) as_array)))))"

definition artifact_kind :: "json \<Rightarrow> string" where
  "artifact_kind a = or_else [] (Option.bind (or_opt (jget a ''kind'') (jget a ''type'')) as_str)"

definition weixin_media :: "content_env \<Rightarrow> json \<Rightarrow> bool" where
  "weixin_media env a \<longleftrightarrow>
    (let kind = ce_lowercase env (artifact_kind a); mime = ce_lowercase env (or_else [] (mime_of a)) in
     artifact_media_location a \<noteq> None
     \<and> (kind \<in> {''image'', ''video'', ''file''} \<or> starts_with ''image/'' mime \<or> starts_with ''video/'' mime))"

definition weixin_native_attachments :: "content_env \<Rightarrow> json list \<Rightarrow> json \<Rightarrow> json list" where
  "weixin_native_attachments env artifacts resp =
    (let media = filter (weixin_media env) artifacts in
     if media = [] then []
     else
      (let images = filter (\<lambda>a. artifact_kind a = ''image'' \<or> starts_with ''image/'' (or_else [] (mime_of a))) media in
       (case native_image_limit resp of
           Some limit \<Rightarrow> take limit images
         | None \<Rightarrow> if length images = 1 \<and> length media = 1 then images else [])
       @ hinted_native_videos artifacts resp))"

definition native_source_bound_attachments :: "content_env \<Rightarrow> string \<Rightarrow> json \<Rightarrow> json list" where
  "native_source_bound_attachments env adapter_name resp =
    (if adapter_name \<noteq> ''feishu'' \<and> adapter_name \<noteq> ''weixin'' \<and> adapter_name \<noteq> ''whatsapp'' then []
     else
      (let artifacts = artifact_candidates resp in
       if adapter_name = ''weixin'' then weixin_native_attachments env artifacts resp
       else
        (let images = filter (\<lambda>a. artifact_kind a = ''image'' \<and> starts_with ''image/'' (or_else [] (mime_of a))
                \<and> artifact_media_location a \<noteq> None) artifacts in
         if images = [] then []
         else (case native_image_limit resp of
             Some limit \<Rightarrow> take limit images
           | None \<Rightarrow> if length images = 1 then images else []))))"

section \<open>Turns\<close>

fun first_string :: "json \<Rightarrow> string list list \<Rightarrow> string option" where
  "first_string payload [] = None"
| "first_string payload (ts # pointers) =
     or_opt (nonempty_trim (point_str ts payload)) (first_string payload pointers)"

definition gateway_turn_to_inbound :: "content_env \<Rightarrow> string \<Rightarrow> json \<Rightarrow> gateway_error + inbound_message" where
  "gateway_turn_to_inbound env now_iso payload =
    rbind (ok_or (validation ''input.text is required'')
        (first_string payload [[''input'', ''text''], [''text''], [''message'', ''text'']])) (\<lambda>text'.
    let metadata = oput ''source'' (JStr ''gateway_turn'')
          (or_else [] (Option.bind (jpointer [''transport'', ''metadata''] payload) as_object));
        metadata = (case nonempty_trim (point_str [''conversation'', ''surface''] payload) of
            None \<Rightarrow> metadata | Some surface \<Rightarrow> oput ''surface'' (JStr surface) metadata) in
    Inr \<lparr>
      in_platform = or_else ''webui'' (first_string payload
        [[''conversation'', ''channel''], [''channel''], [''surface''], [''transport'', ''channel'']]),
      in_chat_id = or_else (stable_id (ce_sha256_hex env) ''thread_'' (canonical_json (ce_scalar env) payload) 16)
        (first_string payload [[''conversation'', ''thread_id''], [''thread_id''], [''session_id''],
          [''transport'', ''session_id''], [''actor'', ''user_id'']]),
      in_user_id = or_else ''anonymous'' (first_string payload [[''actor'', ''user_id''], [''user_id''], [''open_id'']]),
      in_text = text',
      in_message_id = or_else [] (first_string payload [[''transport'', ''message_id''], [''message_id''], [''turn'', ''turn_id'']]),
      in_chat_type = or_else ''p2p'' (first_string payload [[''conversation'', ''chat_type''], [''chat_type'']]),
      in_route_key = or_else [] (first_string payload [[''transport'', ''route_key''], [''route_key'']]),
      in_session_id = or_else [] (first_string payload [[''transport'', ''session_id''], [''session_id'']]),
      in_mentions = [],
      in_attachments = or_else [] (Option.bind (jpointer [''input'', ''parts''] payload) as_array),
      in_metadata = metadata,
      in_timestamp = or_else now_iso (first_string payload [[''turn'', ''occurred_at'']]),
      in_raw_payload = payload\<rparr>)"

definition is_dlna_domain :: "json \<Rightarrow> string list \<Rightarrow> bool" where
  "is_dlna_domain payload ts = (case point_str ts payload of
      None \<Rightarrow> False | Some domain \<Rightarrow> ascii_lower (trim domain) = ''dlna'')"

definition is_dlna_command :: "string \<Rightarrow> bool" where
  "is_dlna_command text' = (case strip_prefix ''/dlna'' (ascii_lower (trim_start text')) of
      None \<Rightarrow> False
    | Some suffix \<Rightarrow> suffix = [] \<or> strip_any whitespace_seqs suffix \<noteq> None \<or> hd suffix = CHR ''/'')"

definition reject_unbound_dlna_turn :: "json \<Rightarrow> gateway_error + unit" where
  "reject_unbound_dlna_turn payload =
    (if list_ex (is_dlna_domain payload) [[''intent'', ''domain''], [''domain''],
          [''transport'', ''metadata'', ''intent'', ''domain''], [''transport'', ''metadata'', ''domain'']]
        \<or> (case first_string payload [[''input'', ''text''], [''text''], [''message'', ''text'']] of
             None \<Rightarrow> False | Some text' \<Rightarrow> is_dlna_command text')
     then Inl (gateway_error_new 403 ''DLNA_MEMBER_BINDING_REQUIRED'' ''DLNA control requires a verified Home and member binding'')
     else Inr ())"

section \<open>Reply texts\<close>

definition fallback_reply :: "'t list \<Rightarrow> inbound_message \<Rightarrow> string" where
  "fallback_reply history m = (if history = []
     then [CHR 0xE6, CHR 0x94, CHR 0xB6, CHR 0xE5, CHR 0x88, CHR 0xB0, CHR 0xEF, CHR 0xBC, CHR 0x9A]
     else [CHR 0xE7, CHR 0xBB, CHR 0xA7, CHR 0xE7, CHR 0xBB, CHR 0xAD, CHR 0xE6, CHR 0x94, CHR 0xB6, CHR 0xE5, CHR 0x88, CHR 0xB0, CHR 0xEF, CHR 0xBC, CHR 0x9A]) @ in_text m"

definition public_artifact_url :: "string \<Rightarrow> string \<Rightarrow> string" where
  "public_artifact_url u public_origin =
    (if starts_with ''http://'' u \<or> starts_with ''https://'' u then u
     else if starts_with ''/'' u \<and> trim public_origin \<noteq> [] then trim_end_matches CHR ''/'' public_origin @ u
     else u)"

fun first_text :: "json \<Rightarrow> string list \<Rightarrow> string option" where
  "first_text r [] = None"
| "first_text r (k # ks) = or_opt (nonempty_trim (get_str r k)) (first_text r ks)"

definition render_entry :: "string \<Rightarrow> string \<Rightarrow> nat \<Rightarrow> json \<Rightarrow> string" where
  "render_entry kind public_origin index r =
    (let label = or_else [CHR 0xE6, CHR 0x9C, CHR 0xAA, CHR 0xE5, CHR 0x91, CHR 0xBD, CHR 0xE5, CHR 0x90, CHR 0x8D] (first_text r
          (if kind = ''citation'' then [''title'', ''name'', ''headline'', ''summary'', ''snippet'', ''text'', ''id'']
           else [''title'', ''name'', ''filename'', ''file_name'', ''label'', ''id''])) in
     show_nat (index + 1) @ ''. '' @ label @ (case nonempty_trim (get_str r ''url'') of
         None \<Rightarrow> [] | Some u \<Rightarrow> CHR 0x0A # public_artifact_url u public_origin))"

definition render_entries :: "json list \<Rightarrow> string \<Rightarrow> string \<Rightarrow> string" where
  "render_entries entries kind public_origin =
     join_with [CHR 0x0A] (map (\<lambda>(i, r). render_entry kind public_origin i r) (enumerate 0 (take 3 entries)))"

definition citations_of :: "json \<Rightarrow> json list" where
  "citations_of r = or_else [] (or_opt (Option.bind (jpointer [''result'', ''citations''] r) as_array)
     (or_opt (Option.bind (jpointer [''result'', ''references''] r) as_array)
     (or_opt (Option.bind (jpointer [''result'', ''sources''] r) as_array)
     (or_opt (Option.bind (jpointer [''result'', ''top_hits''] r) as_array)
             (Option.bind (jpointer [''result'', ''hits''] r) as_array)))))"

definition render_retrieval_reply :: "string \<Rightarrow> json \<Rightarrow> bool \<Rightarrow> string \<Rightarrow> string" where
  "render_retrieval_reply base_text resp suppress_artifacts public_origin =
    (let citations = citations_of resp; artifacts = artifact_candidates resp in
     if citations = [] \<and> (artifacts = [] \<or> suppress_artifacts) then trim base_text
     else join_with [CHR 0x0A, CHR 0x0A] (
       [[CHR 0xE6, CHR 0xA3, CHR 0x80, CHR 0xE7, CHR 0xB4, CHR 0xA2, CHR 0xE7, CHR 0xBB, CHR 0x93, CHR 0xE6, CHR 0x9E, CHR 0x9C, CHR 0xEF, CHR 0xBC, CHR 0x88] @ show_nat (length citations)
          @ [CHR 0x20, CHR 0xE6, CHR 0x9D, CHR 0xA1, CHR 0xE5, CHR 0xBC, CHR 0x95, CHR 0xE7, CHR 0x94, CHR 0xA8, CHR 0xEF, CHR 0xBC, CHR 0x8C] @ show_nat (length artifacts)
          @ [CHR 0x20, CHR 0xE4, CHR 0xB8, CHR 0xAA, CHR 0xE9, CHR 0x99, CHR 0x84, CHR 0xE4, CHR 0xBB, CHR 0xB6, CHR 0xEF, CHR 0xBC, CHR 0x89]]
       @ (if trim base_text \<noteq> [] then [trim base_text] else [])
       @ (if citations \<noteq> [] then [[CHR 0xE5, CHR 0xBC, CHR 0x95, CHR 0xE7, CHR 0x94, CHR 0xA8, CHR 0x0A]
            @ render_entries citations ''citation'' public_origin] else [])
       @ (if artifacts \<noteq> [] \<and> \<not> suppress_artifacts
          then [[CHR 0xE9, CHR 0x99, CHR 0x84, CHR 0xE4, CHR 0xBB, CHR 0xB6, CHR 0x0A] @ render_entries artifacts ''artifact'' public_origin]
          else [])))"

section \<open>Notifications\<close>

definition validate_delivery_mode :: "string \<Rightarrow> string \<Rightarrow> string \<Rightarrow> string \<Rightarrow> gateway_error + unit" where
  "validate_delivery_mode mode reply_to_message_id update_message_id trace_id =
    (if mode \<notin> {''send'', ''reply'', ''update''}
     then Inl (with_trace trace_id (validation ''delivery.mode must be send, reply, or update''))
     else if mode = ''send'' \<and> (reply_to_message_id \<noteq> [] \<or> update_message_id \<noteq> [])
     then Inl (with_trace trace_id (validation ''delivery.mode=send requires empty reply_to_message_id and update_message_id''))
     else if mode = ''reply'' \<and> (reply_to_message_id = [] \<or> update_message_id \<noteq> [])
     then Inl (with_trace trace_id (validation ''delivery.mode=reply requires reply_to_message_id and forbids update_message_id''))
     else if mode = ''update'' \<and> (update_message_id = [] \<or> reply_to_message_id \<noteq> [])
     then Inl (with_trace trace_id (validation ''delivery.mode=update requires update_message_id and forbids reply_to_message_id''))
     else Inr ())"

definition notification_id :: "json \<Rightarrow> string" where
  "notification_id p = trim (or_else [] (or_opt (point_str [''notification'', ''notification_id''] p) (get_str p ''notification_id'')))"

definition notification_trace_id :: "json \<Rightarrow> string" where
  "notification_trace_id p = trim (or_else [] (or_opt (point_str [''notification'', ''trace_id''] p) (get_str p ''trace_id'')))"

definition delivery_content :: "json \<Rightarrow> json" where
  "delivery_content p = (case jget p ''content'' of
      Some (JObj content) \<Rightarrow>
        (let content = oput ''attachments'' (or_else (or_else (JArr []) (oget content ''attachments'')) (jget p ''artifacts'')) content
         in JObj (oput ''delivery_hints'' (or_else (or_else (JArr []) (oget content ''delivery_hints'')) (jget p ''delivery_hints'')) content))
    | _ \<Rightarrow>
        (let reply = Option.bind (jget p ''reply'') as_object;
             field = (\<lambda>k. Option.bind (Option.bind reply (\<lambda>r. oget r k)) as_str) in
         jobj [(''title'', JStr (or_else [] (field ''title''))), (''body'', JStr (or_else [] (field ''text''))),
           (''attachments'', or_else (JArr []) (jget p ''artifacts'')),
           (''delivery_hints'', or_else (JArr []) (jget p ''delivery_hints'')),
           (''payload_format'', JStr (or_else ''plain_text'' (field ''payload_format''))),
           (''structured_payload'', or_else (JObj []) (Option.bind reply (\<lambda>r. oget r ''structured_payload'')))]))"

definition notification_text :: "json \<Rightarrow> string" where
  "notification_text content =
    (let title = trim (or_else [] (get_str content ''title'')); body = trim (or_else [] (get_str content ''body'')) in
     if title \<noteq> [] \<and> body \<noteq> [] then title @ [CHR 0x0A, CHR 0x0A] @ body
     else if body \<noteq> [] then body else title)"

record notification_metadata =
  nm_notification_id :: string
  nm_trace_id :: string
  nm_mode :: string
  nm_route_key :: string
  nm_reply_to_message_id :: string
  nm_update_message_id :: string
  nm_route :: json
  nm_content :: json
  nm_destination :: jmap
  nm_idempotency_key :: string

definition put_some :: "string \<Rightarrow> json option \<Rightarrow> jmap \<Rightarrow> jmap" where
  "put_some k v m = (case v of None \<Rightarrow> m | Some x \<Rightarrow> oput k x m)"

definition outbound_delivery_metadata :: "notification_metadata \<Rightarrow> jmap" where
  "outbound_delivery_metadata n =
    (let content = nm_content n;
         base = oputs [(''source'', JStr ''notification_delivery''), (''notification_id'', JStr (nm_notification_id n)),
           (''trace_id'', JStr (nm_trace_id n)), (''delivery_mode'', JStr (nm_mode n)), (''route_key'', JStr (nm_route_key n)),
           (''route_mode'', or_else (JStr ''unknown'') (jget (nm_route n) ''route_mode'')),
           (''route_source'', or_else (JStr ''unknown'') (jget (nm_route n) ''route_source'')),
           (''reply_to_message_id'', JStr (nm_reply_to_message_id n)), (''update_message_id'', JStr (nm_update_message_id n)),
           (''payload_format'', or_else (JStr ''plain_text'') (jget content ''payload_format'')),
           (''structured_payload'', or_else (JObj []) (jget content ''structured_payload'')),
           (''idempotency_key'', JStr (nm_idempotency_key n)), (''mail_dedupe_key'', JStr (nm_idempotency_key n))] [];
         base = put_some ''recipient'' (oget (nm_destination n) ''recipient'') base;
         base = put_some ''mail_recipients'' (or_opt (jget content ''recipients'')
           (jpointer [''structured_payload'', ''recipients''] content)) base;
         base = put_some ''mail_subject'' (map_option JStr (nonempty_trim (get_str content ''title''))) base;
         base = put_some ''mail_body_plain_text'' (map_option JStr (nonempty_trim (get_str content ''body''))) base
     in put_some ''mail_body_html'' (map_option JStr (nonempty_trim (Option.bind
          (or_opt (jpointer [''structured_payload'', ''html_body''] content)
          (or_opt (jpointer [''structured_payload'', ''body_html''] content)
          (or_opt (jget content ''html_body'') (jget content ''body_html'')))) as_str))) base)"

definition fingerprint :: "content_env \<Rightarrow> json \<Rightarrow> string" where
  "fingerprint env payload = ce_sha256_hex env (canonical_json (ce_scalar env) payload)"

definition delivery_idempotency_cache_segment :: "content_env \<Rightarrow> string \<Rightarrow> string" where
  "delivery_idempotency_cache_segment env delivery_key = stable_id (ce_sha256_hex env) ''delivery-'' delivery_key 24"

section \<open>Failures\<close>

definition map_delivery_failure :: "content_env \<Rightarrow> string \<Rightarrow> string \<times> bool" where
  "map_delivery_failure env message =
    (let lower = ce_lowercase env message in
     if contains ''context_token'' lower then (''INVALID_RECIPIENT'', False)
     else if list_ex (\<lambda>p. contains p lower) [''not configured'', ''authorization'', ''auth'', ''permission'', ''scope'',
          ''forbidden'', ''unauthorized''] then (''PROVIDER_AUTH_FAILED'', False)
     else if contains ''unsupported'' lower then (''UNSUPPORTED_CONTENT'', False)
     else (''PLATFORM_UNAVAILABLE'', True))"

definition classify_delivery_attempt :: "json \<Rightarrow> json \<Rightarrow> json" where
  "classify_delivery_attempt route resp =
    (let ok = or_else False (get_bool resp ''ok'');
         retryable = or_else False (get_bool resp ''retryable'') in
     jobj [(''route_mode'', JStr (or_else ''unknown'' (get_str route ''route_mode''))),
       (''route_source'', JStr (or_else ''unknown'' (get_str route ''route_source''))),
       (''outcome'', JStr (if ok then ''sent'' else ''failed'')),
       (''failure_class'', JStr (if ok then [] else or_else ''INTERNAL_ERROR'' (point_str [''error'', ''code''] resp))),
       (''queue_state'', JStr (if ok then ''complete'' else if retryable then ''retry_queue'' else ''terminal_failure'')),
       (''retryable'', JBool retryable)])"

definition if_empty_then :: "string \<Rightarrow> string \<Rightarrow> string" where
  "if_empty_then s producer = (if trim s = [] then producer else s)"

section \<open>Keys are unambiguous\<close>

lemma colon_not_digit: "CHR '':'' \<notin> set (show_nat n)"
  using show_nat_digits [of n] by (auto simp: list_all_iff is_ascii_digit_def less_eq_char_def)

lemma length_prefixed_inject:
  "show_nat (length a) @ CHR '':'' # a @ x = show_nat (length b) @ CHR '':'' # b @ y \<longleftrightarrow> a = b \<and> x = y"
proof
  assume e: "show_nat (length a) @ CHR '':'' # a @ x = show_nat (length b) @ CHR '':'' # b @ y"
  have "Some (show_nat (length a), a @ x) = Some (show_nat (length b), b @ y)"
    using arg_cong [OF e, of "split_once CHR '':''"] unfolding split_once_append [OF colon_not_digit] .
  then have "length a = length b" "a @ x = b @ y" by simp_all
  then show "a = b \<and> x = y" by simp
qed simp

lemma delivery_item_key_inject [simp]: "delivery_item_key a x = delivery_item_key b y \<longleftrightarrow> a = b \<and> x = y"
  using length_prefixed_inject [of a "'':'' @ x" b "'':'' @ y"] by (simp add: delivery_item_key_def)

lemma attachment_identity_inject [simp]: "attachment_item_identity a = attachment_item_identity b \<longleftrightarrow> a = b"
  using length_prefixed_inject [of a "[]" b "[]"] by (simp add: attachment_item_identity_def)

lemma attachment_identity_not_text [simp]: "attachment_item_identity a \<noteq> text_item_identity"
  "text_item_identity \<noteq> attachment_item_identity a"
  by (simp_all add: attachment_item_identity_def text_item_identity_def)

text \<open>The attachments that carry an identifier, with it.\<close>

fun identified :: "json list \<Rightarrow> (json \<times> string) list" where
  "identified [] = []"
| "identified (a # as) = (case delivery_artifact_id a of None \<Rightarrow> identified as | Some i \<Rightarrow> (a, i) # identified as)"

lemma split_attachments_Inr:
  "split_attachments m ids as = Inr items \<Longrightarrow>
   items = map (\<lambda>(a, i). attachment_item m a i) (identified as)
   \<and> distinct (map snd (identified as)) \<and> set (map snd (identified as)) \<inter> set ids = {}"
proof (induction as arbitrary: ids items)
  case (Cons a as)
  show ?case
  proof (cases "delivery_artifact_id a")
    case None
    then show ?thesis using Cons by simp
  next
    case (Some i)
    with Cons.prems obtain rest where r: "i \<notin> set ids" "split_attachments m (i # ids) as = Inr rest"
      "items = attachment_item m a i # rest" by (auto split: if_splits)
    from Cons.IH [OF r(2)] Some r(1,3) show ?thesis by auto
  qed
qed simp

lemma split_items:
  assumes "split_outbound_items m = Inr items"
  shows "items \<noteq> []" "distinct (map fst items)"
proof -
  let ?att = "map (\<lambda>(a, i). attachment_item m a i) (identified (out_attachments m))"
  from assms have d: "distinct (map snd (identified (out_attachments m)))"
    and i: "items = (let items = (if trim (out_text m) \<noteq> []
          then [(text_item_identity, text_artifact, ''text'', m\<lparr>out_attachments := []\<rparr>)] else []) @ ?att
        in if items = [] then [(text_item_identity, text_artifact, ''text'', m)] else items)"
    using split_attachments_Inr [of m "[]" "out_attachments m"] by (auto simp: split_outbound_items_def Let_def)
  have f: "map fst ?att = map attachment_item_identity (map snd (identified (out_attachments m)))"
    by (simp add: attachment_item_def case_prod_beta)
  have "distinct (map fst ?att)" unfolding f using d by (simp add: distinct_map inj_on_def)
  moreover have "text_item_identity \<notin> set (map fst ?att)" unfolding f by auto
  ultimately show "distinct (map fst items)" unfolding i Let_def by simp
  show "items \<noteq> []" unfolding i Let_def by simp
qed

end
