(* ===== verification/Beacon_Client.thy ===== *)
theory Beacon_Client
  imports Gateway_Content Cloud_Relay App_Config
begin

text \<open>
  \<^verbatim>\<open>src/harborbeacon.rs\<close>: the client of the HarborBeacon task API. This theory holds the client, the turn
  requests it builds and the results it reads, the permission check for WhatsApp deliveries and the rules for
  media addresses and media chunks; \<open>Media_Cache\<close> holds the downloads. Replies, times and generated
  identifiers are inputs; SHA-256, base64, URL parsing and decoding, serde\_json and the names of HTTP statuses are
  parameters.
\<close>

record beacon_env =
  be_content :: content_env
  be_relay :: relay_env
  be_status_text :: "nat \<Rightarrow> string"
  be_from_str :: "string \<Rightarrow> string + json"
  be_url_decode :: "string \<Rightarrow> string option"
  be_base64 :: "string \<Rightarrow> string option"

abbreviation be_sha256 :: "beacon_env \<Rightarrow> string \<Rightarrow> string" where
  "be_sha256 env \<equiv> ce_sha256_hex (be_content env)"

abbreviation be_id :: "beacon_env \<Rightarrow> string \<Rightarrow> string \<Rightarrow> nat \<Rightarrow> string" where
  "be_id env \<equiv> stable_id (be_sha256 env)"

abbreviation be_canonical :: "beacon_env \<Rightarrow> json \<Rightarrow> string" where
  "be_canonical env \<equiv> canonical_json (ce_scalar (be_content env))"

section \<open>The client\<close>

record task_client =
  tc_cloud_relay :: "(relay_client \<times> string) option"
  tc_base_url :: string
  tc_api_token :: string
  tc_turn_endpoint :: string
  tc_contract_version :: string

definition default_turn_endpoint :: string where "default_turn_endpoint = ''/api/web/turns''"
definition default_contract_version :: string where "default_contract_version = ''2.0''"

definition from_cloud_relay :: "relay_client \<Rightarrow> string \<Rightarrow> gateway_error + task_client" where
  "from_cloud_relay relay hub_id = (if \<not> valid_hub_id hub_id then Inl (validation ''Invalid selected Navi'')
     else Inr \<lparr>tc_cloud_relay = Some (relay, hub_id), tc_base_url = [], tc_api_token = [],
       tc_turn_endpoint = default_turn_endpoint, tc_contract_version = default_contract_version\<rparr>)"

definition valid_beacon_base_url :: "beacon_env \<Rightarrow> string \<Rightarrow> bool" where
  "valid_beacon_base_url env raw = (case url_parse (be_relay env) raw of
      None \<Rightarrow> False
    | Some u \<Rightarrow> url_scheme u \<in> {''http'', ''https''} \<and> url_host u \<noteq> None \<and> url_username u = [] \<and> url_password u = None
        \<and> url_query u = None \<and> url_fragment u = None)"

definition client_from_config :: "beacon_env \<Rightarrow> app_config \<Rightarrow> task_client option" where
  "client_from_config env config =
    (let base_url = trim_end_matches CHR ''/'' (cf_harborbeacon_base_url config); api_token = trim (cf_harborbeacon_token config) in
     if \<not> harborbeacon_enabled config \<or> api_token = [] \<or> \<not> valid_beacon_base_url env base_url then None
     else Some \<lparr>tc_cloud_relay = None, tc_base_url = base_url, tc_api_token = api_token,
       tc_turn_endpoint = cf_harborbeacon_turn_endpoint config, tc_contract_version = default_contract_version\<rparr>)"

section \<open>Permission to deliver\<close>

definition wa_delivery_denied :: gateway_error where
  "wa_delivery_denied = gateway_error_new 403 ''IM_DELIVERY_NOT_ALLOWED'' ''WhatsApp binding permission no longer permits this delivery''"

definition wa_delivery_unavailable :: gateway_error where
  "wa_delivery_unavailable = infrastructure ''WhatsApp delivery check is temporarily unavailable''"

definition refused_statuses :: "nat set" where "refused_statuses = {400, 401, 403, 404, 410, 422}"

definition nonempty_entry :: "string \<Rightarrow> jmap \<Rightarrow> string option" where
  "nonempty_entry k m = Option.bind (Option.bind (oget m k) as_str) (\<lambda>s. if s = [] then None else Some s)"

text \<open>The answer of the relay, or the one reply of the Beacon server (\<open>None\<close>: no reply).\<close>

definition authorize_whatsapp_delivery ::
  "beacon_env \<Rightarrow> task_client \<Rightarrow> exchange_inputs \<Rightarrow> http_reply option \<Rightarrow> outbound_message \<Rightarrow> gateway_error + unit" where
  "authorize_whatsapp_delivery env client inputs reply m =
    rbind (ok_or wa_delivery_denied (nonempty_entry ''conversation_handle'' (out_metadata m))) (\<lambda>handle.
    rbind (ok_or wa_delivery_denied (nonempty_entry ''route_key'' (out_metadata m))) (\<lambda>route.
    let request = jobj [(''recipient'', JStr (out_chat_id m)), (''route_key'', JStr route), (''conversation_handle'', JStr handle),
          (''text'', JStr (out_text m)), (''has_attachments'', JBool (out_attachments m \<noteq> []))] in
    case tc_cloud_relay client of
      Some (relay, hub) \<Rightarrow> (case authorize_delivery (be_relay env) relay hub request inputs of
          Inl e \<Rightarrow> Inl (if err_code e = ''NAVI_IDENTITY_CHANGED'' then wa_delivery_denied else wa_delivery_unavailable)
        | Inr response \<Rightarrow>
            if resp_status response \<in> refused_statuses then Inl wa_delivery_denied
            else if resp_status response \<noteq> 200 \<or> length (to_vec (be_relay env) (resp_body response)) > 4096
            then Inl wa_delivery_unavailable
            else if jindex (resp_body response) ''allowed'' \<noteq> JBool True then Inl wa_delivery_denied
            else Inr ())
    | None \<Rightarrow> rbind (ok_or wa_delivery_unavailable reply) (\<lambda>r.
        if reply_status r \<in> refused_statuses then Inl wa_delivery_denied
        else if reply_status r \<noteq> 200 then Inl wa_delivery_unavailable
        else rbind (read_chunks wa_delivery_unavailable wa_delivery_unavailable 4096 [] (reply_chunks r)) (\<lambda>body.
          rbind (ok_or wa_delivery_unavailable (from_slice (be_relay env) body)) (\<lambda>payload.
          if jindex payload ''allowed'' \<noteq> JBool True then Inl wa_delivery_denied else Inr ())))))"

section \<open>Media addresses\<close>

definition port_or_known_default :: "url \<Rightarrow> nat option" where
  "port_or_known_default u = (case url_port u of
      Some p \<Rightarrow> Some p
    | None \<Rightarrow> if url_scheme u = ''http'' then Some 80 else if url_scheme u = ''https'' then Some 443 else None)"

text \<open>The segments of a URL path; a URL that cannot be a base has none.\<close>

definition path_segments :: "url \<Rightarrow> string list option" where
  "path_segments u = (case url_path u of
      CHR ''/'' # rest \<Rightarrow> Some (split_on CHR ''/'' rest) | _ \<Rightarrow> None)"

definition artifact_id_char :: "char \<Rightarrow> bool" where
  "artifact_id_char c \<longleftrightarrow> is_ascii_alphanumeric c \<or> c \<in> {CHR ''-'', CHR ''_'', CHR ''.'', CHR ''~''}"

definition safe_artifact_id :: "string \<Rightarrow> bool" where
  "safe_artifact_id i \<longleftrightarrow> i \<noteq> [] \<and> i \<noteq> ''.'' \<and> i \<noteq> ''..'' \<and> list_all artifact_id_char i"

fun decode_all :: "('a \<Rightarrow> 'b option) \<Rightarrow> 'a list \<Rightarrow> 'b list option" where
  "decode_all f [] = Some []"
| "decode_all f (x # xs) = Option.bind (f x) (\<lambda>y. map_option (Cons y) (decode_all f xs))"

definition trusted_media_artifact_url :: "beacon_env \<Rightarrow> string \<Rightarrow> string \<Rightarrow> url option" where
  "trusted_media_artifact_url env base_url raw =
    Option.bind (url_parse (be_relay env) base_url) (\<lambda>base.
    if \<not> valid_beacon_base_url env base_url then None
    else
     (let raw = trim raw in
      Option.bind (if starts_with ''/'' raw \<and> \<not> starts_with ''//'' raw then url_join (be_relay env) base raw
          else url_parse (be_relay env) raw) (\<lambda>artifact.
      if url_scheme artifact \<noteq> url_scheme base \<or> url_host artifact \<noteq> url_host base
         \<or> port_or_known_default artifact \<noteq> port_or_known_default base
         \<or> url_username artifact \<noteq> [] \<or> url_password artifact \<noteq> None
         \<or> (case url_query artifact of None \<Rightarrow> False | Some q \<Rightarrow> q \<noteq> ''media_context=chat'') \<or> url_fragment artifact \<noteq> None
      then None
      else Option.bind (path_segments artifact) (\<lambda>segments.
       Option.bind (decode_all (be_url_decode env) segments) (\<lambda>decoded.
       if length decoded \<noteq> 5 \<or> take 4 decoded \<noteq> [''api'', ''cameras'', ''recordings'', ''artifacts''] then None
       else if safe_artifact_id (decoded ! 4) then Some artifact else None)))))"

definition remote_media_artifact_id :: "string \<Rightarrow> string option" where
  "remote_media_artifact_id raw =
    (let (path, query) = (case split_once CHR ''?'' raw of None \<Rightarrow> (raw, None) | Some (p, q) \<Rightarrow> (p, Some q)) in
     if CHR ''#'' \<in> set raw \<or> (case query of None \<Rightarrow> False | Some q \<Rightarrow> q \<noteq> ''media_context=chat'') then None
     else Option.bind (strip_prefix ''/api/cameras/recordings/artifacts/'' path) (\<lambda>i.
       if length i > 256 \<or> \<not> safe_artifact_id i then None else Some i))"

definition trusted_attachment_mime :: "string \<Rightarrow> bool" where
  "trusted_attachment_mime raw \<longleftrightarrow> ascii_lower (trim raw) \<in>
     {''image/jpeg'', ''image/png'', ''image/webp'', ''video/mp4'', ''video/quicktime''}"

definition safe_cache_segment :: "string \<Rightarrow> string" where
  "safe_cache_segment value =
    (let safe = take 48 (filter (\<lambda>c. is_ascii_alphanumeric c \<or> c = CHR ''-'' \<or> c = CHR ''_'') value)
     in if safe = [] then ''unknown'' else safe)"

definition attachment_extension :: "string \<Rightarrow> string" where
  "attachment_extension mime_type = (let m = ascii_lower (trim mime_type) in
     if m = ''image/jpeg'' then ''jpg'' else if m = ''image/png'' then ''png'' else if m = ''image/webp'' then ''webp''
     else if m = ''video/mp4'' then ''mp4'' else if m = ''video/quicktime'' then ''mov'' else ''bin'')"

section \<open>Media chunks\<close>

definition max_media :: nat where "max_media = 134217728"

definition camera_denied :: gateway_error where
  "camera_denied = gateway_error_new 403 ''CAMERA_MEDIA_DELIVERY_NOT_ALLOWED''
     ''Camera media permission was revoked or the attachment expired''"

definition invalid_media :: gateway_error where "invalid_media = infrastructure ''Navi returned invalid camera media''"

definition eq_ignore_case :: "string \<Rightarrow> string \<Rightarrow> bool" where
  "eq_ignore_case a b \<longleftrightarrow> ascii_lower a = ascii_lower b"

definition decode_remote_media ::
  "beacon_env \<Rightarrow> relay_response \<Rightarrow> nat \<Rightarrow> nat \<Rightarrow> string \<Rightarrow> gateway_error + (string \<times> nat)" where
  "decode_remote_media env response offset end' mime_type =
    (if resp_status response \<in> {400, 401, 403, 404, 410, 416} then Inl camera_denied
     else if resp_status response \<notin> {200, 206} then Inl invalid_media
     else
      (let body = resp_body response in
       case as_u64 (jindex body ''totalBytes'') of
         None \<Rightarrow> Inl invalid_media
       | Some total_bytes \<Rightarrow>
         if \<not> (total_bytes > offset \<and> total_bytes \<le> max_media) then Inl invalid_media
         else if as_u64 (jindex body ''artifactOffset'') \<noteq> Some offset
            \<or> (resp_status response = 200 \<and> (offset \<noteq> 0 \<or> total_bytes > end' + 1))
            \<or> (case as_str (jindex body ''contentType'') of None \<Rightarrow> True | Some t \<Rightarrow> \<not> eq_ignore_case t mime_type)
         then Inl invalid_media
         else (case as_str (jindex body ''dataBase64'') of
             None \<Rightarrow> Inl invalid_media
           | Some encoded \<Rightarrow>
             if length encoded > 65536 then Inl invalid_media
             else (case be_base64 env encoded of
                 None \<Rightarrow> Inl invalid_media
               | Some bytes \<Rightarrow>
                 if length bytes \<noteq> min (end' + 1) total_bytes - offset
                    \<or> as_u64 (jindex body ''bytes'') \<noteq> Some (length bytes)
                    \<or> as_str (jindex body ''sha256'') \<noteq> Some (be_sha256 env bytes)
                 then Inl invalid_media else Inr (bytes, total_bytes)))))"

section \<open>Turn requests\<close>

definition derive_route_key :: "beacon_env \<Rightarrow> inbound_message \<Rightarrow> string" where
  "derive_route_key env i = (if trim (in_route_key i) \<noteq> [] then trim (in_route_key i)
     else be_id env ''gw_route_'' (in_platform i @ ''|'' @ in_chat_id i) 20)"

definition derive_session_id :: "beacon_env \<Rightarrow> inbound_message \<Rightarrow> string" where
  "derive_session_id env i = (if trim (in_session_id i) \<noteq> [] then trim (in_session_id i)
     else be_id env ''gw_sess_'' (in_platform i @ ''|'' @ in_chat_id i @ ''|'' @ in_user_id i) 20)"

definition filled_str :: "json option \<Rightarrow> string option" where
  "filled_str v = Option.bind (Option.bind v as_str) (\<lambda>s. if trim s = [] then None else Some s)"

definition metadata_lookup :: "jmap \<Rightarrow> string \<Rightarrow> string option" where
  "metadata_lookup metadata k = filled_str (oget metadata k)"

definition raw_lookup :: "jmap option \<Rightarrow> string \<Rightarrow> string option" where
  "raw_lookup raw k = Option.bind raw (\<lambda>m. filled_str (oget m k))"

definition event_fingerprint :: "beacon_env \<Rightarrow> inbound_message \<Rightarrow> string" where
  "event_fingerprint env i =
    (let tagged = (\<lambda>s. in_platform i @ ''|'' @ in_chat_id i @ ''|'' @ s) in
     if in_platform i = ''whatsapp'' \<and> trim (in_message_id i) \<noteq> []
     then be_canonical env (JArr [JStr (in_platform i), JStr (derive_route_key env i), JStr (in_message_id i)])
     else if trim (in_message_id i) \<noteq> [] then tagged (in_message_id i)
     else (case List.map_filter (\<lambda>k. filled_str (jget (in_raw_payload i) k))
               [''message_id'', ''msg_id'', ''event_id'', ''client_id''] of
         value # rest \<Rightarrow> tagged value
       | [] \<Rightarrow> tagged (be_canonical env (jobj [(''platform'', JStr (in_platform i)), (''chat_id'', JStr (in_chat_id i)),
           (''user_id'', JStr (in_user_id i)), (''text'', JStr (in_text i)), (''timestamp'', JStr (in_timestamp i)),
           (''raw_payload'', in_raw_payload i)]))))"

definition object_member :: "string \<Rightarrow> jmap \<Rightarrow> json option" where
  "object_member k m = Option.bind (oget m k) (\<lambda>v. if is_object v then Some v else None)"

definition turn_intent :: "inbound_message \<Rightarrow> jmap" where
  "turn_intent i =
    (let raw = as_object (in_raw_payload i);
         look = (\<lambda>k d. or_else d (or_opt (raw_lookup raw k) (metadata_lookup (in_metadata i) k)));
         intent = oputs [(''domain'', JStr (look ''domain'' ''general'')), (''action'', JStr (look ''action'' ''message'')),
           (''raw_text'', JStr (in_text i))] [] in
     case object_member ''intent'' (in_metadata i) of
       None \<Rightarrow> intent
     | Some channel \<Rightarrow> fold (\<lambda>k m. case get_str channel k of None \<Rightarrow> m | Some s \<Rightarrow> oput k (JStr s) m)
         [''domain'', ''action'', ''raw_text''] intent)"

definition turn_metadata :: "inbound_message \<Rightarrow> jmap" where
  "turn_metadata i =
    (let raw = or_else [] (as_object (in_raw_payload i));
         m = [(''intent'', JObj (turn_intent i))];
         m = put_some ''entity_refs'' (object_member ''entity_refs'' raw) m;
         m = put_some ''args'' (object_member ''args'' raw) m;
         m = put_some ''args'' (object_member ''args'' (in_metadata i)) m
     in put_some ''entity_refs'' (object_member ''entity_refs'' (in_metadata i)) m)"

definition build_turn_request :: "beacon_env \<Rightarrow> inbound_message \<Rightarrow> string option \<Rightarrow> json option \<Rightarrow> json" where
  "build_turn_request env i handle continuation =
    (let fp = event_fingerprint env i; raw = as_object (in_raw_payload i);
         look = (\<lambda>k. or_opt (raw_lookup raw k) (metadata_lookup (in_metadata i) k)) in
     jobj [
      (''turn'', jobj [(''turn_id'', JStr (be_id env ''turn_'' fp 24)), (''trace_id'', JStr (be_id env ''trace_'' (''trace|'' @ fp) 24)),
         (''occurred_at'', JStr (in_timestamp i)), (''retry_of'', JNull)]),
      (''actor'', jobj [(''user_id'', JStr (in_user_id i)), (''workspace_id'', JStr (or_else ''home-1'' (look ''workspace_id''))),
         (''account_id'', jstr_opt (look ''account_id''))]),
      (''conversation'', jobj [(''handle'', jstr_opt (Option.bind handle (\<lambda>h. if trim h = [] then None else Some h))),
         (''channel'', JStr (in_platform i)), (''surface'', JStr ''harborgate''), (''thread_id'', JStr (in_chat_id i)),
         (''chat_type'', JStr (if trim (in_chat_type i) = [] then ''unknown'' else in_chat_type i))]),
      (''transport'', jobj [(''route_key'', JStr (derive_route_key env i)), (''message_id'', JStr (trim (in_message_id i))),
         (''capabilities'', jobj [(''text'', JBool True), (''image'', JBool True), (''file'', JBool True), (''video'', JBool True)]),
         (''metadata'', JObj (turn_metadata i))]),
      (''input'', jobj [(''text'', JStr (in_text i)), (''parts'', JArr (in_attachments i))]),
      (''continuation'', or_else JNull continuation),
      (''autonomy'', jobj [(''level'', JStr ''supervised'')])])"

text \<open>Updating a member object of a JSON object in place, when there is one.\<close>

definition update_member :: "string \<Rightarrow> (jmap \<Rightarrow> jmap) \<Rightarrow> json \<Rightarrow> json" where
  "update_member k f j = (case j of
      JObj m \<Rightarrow> (case oget m k of Some (JObj o') \<Rightarrow> JObj (oput k (JObj (f o')) m) | _ \<Rightarrow> j)
    | _ \<Rightarrow> j)"

definition put_filled :: "string \<Rightarrow> json option \<Rightarrow> jmap \<Rightarrow> jmap" where
  "put_filled k v = put_some k (map_option (\<lambda>s. JStr (trim s)) (filled_str v))"

definition apply_channel_turn_overrides :: "json \<Rightarrow> json \<Rightarrow> json" where
  "apply_channel_turn_overrides source payload =
     update_member ''autonomy'' (put_filled ''level'' (jpointer [''autonomy'', ''level''] source))
    (update_member ''conversation'' (put_filled ''surface'' (jpointer [''conversation'', ''surface''] source))
    (update_member ''actor'' (\<lambda>a. put_some ''account_id'' (jpointer [''actor'', ''account_id''] source)
        (put_filled ''workspace_id'' (jpointer [''actor'', ''workspace_id''] source) a))
    (update_member ''turn'' (\<lambda>t. put_some ''retry_of'' (jpointer [''turn'', ''retry_of''] source)
        (put_filled ''occurred_at'' (jpointer [''turn'', ''occurred_at''] source)
        (put_filled ''trace_id'' (jpointer [''turn'', ''trace_id''] source)
        (put_filled ''turn_id'' (jpointer [''turn'', ''turn_id''] source) t)))) payload)))"

definition build_channel_turn_request ::
  "beacon_env \<Rightarrow> inbound_message \<Rightarrow> json \<Rightarrow> string option \<Rightarrow> json option \<Rightarrow> json" where
  "build_channel_turn_request env i source handle continuation =
     apply_channel_turn_overrides source (build_turn_request env i handle continuation)"

section \<open>Turn results\<close>

record task_turn_result =
  tr_text :: string
  tr_task_id :: string
  tr_trace_id :: string
  tr_status :: string
  tr_route_key :: string
  tr_conversation_handle :: "string option"
  tr_continuation :: "json option"
  tr_active_frame :: "json option"
  tr_next_actions :: "string list"
  tr_response_payload :: json

definition continuation_from_active_frame :: "json option \<Rightarrow> jmap option \<Rightarrow> json option" where
  "continuation_from_active_frame active_frame turn' =
    Option.bind (Option.bind active_frame as_object) (\<lambda>frame.
    Option.bind (Option.bind (oget frame ''continuation_token'') as_str) (\<lambda>token.
    if trim token = [] then None
    else Some (jobj [(''token'', JStr (trim token)),
      (''frame_id'', JStr (or_else [] (Option.bind (oget frame ''frame_id'') as_str))),
      (''reply_to_turn_id'', JStr (or_else [] (Option.bind turn' (\<lambda>t. Option.bind (oget t ''turn_id'') as_str)))),
      (''expires_at'', or_else JNull (oget frame ''expires_at''))])))"

definition map_turn_response :: "json \<Rightarrow> json \<Rightarrow> task_turn_result" where
  "map_turn_response request response =
    (let object = (\<lambda>k. Option.bind (jget response k) as_object);
         str = (\<lambda>o' k. Option.bind (Option.bind o' (\<lambda>m. oget m k)) as_str);
         turn' = object ''turn'';
         active_frame = Option.bind (jget response ''active_frame'') (\<lambda>v. if is_object v then Some v else None) in
     \<lparr>tr_text = trim (or_else ''HarborBeacon returned an empty reply.''
        (or_opt (str (object ''reply'') ''text'') (str (object ''error'') ''message''))),
      tr_task_id = or_else [] (or_opt (str turn' ''turn_id'') (point_str [''turn'', ''turn_id''] request)),
      tr_trace_id = or_else [] (or_opt (str turn' ''trace_id'') (point_str [''turn'', ''trace_id''] request)),
      tr_status = or_else ''completed'' (str turn' ''status''),
      tr_route_key = or_else [] (point_str [''transport'', ''route_key''] request),
      tr_conversation_handle = filled_str (Option.bind (object ''conversation'') (\<lambda>m. oget m ''handle'')),
      tr_continuation = continuation_from_active_frame active_frame turn',
      tr_active_frame = active_frame,
      tr_next_actions = (case Option.bind (Option.bind active_frame (\<lambda>f. jget f ''expected_reply'')) as_array of
          None \<Rightarrow> [] | Some items \<Rightarrow> filter (\<lambda>s. trim s \<noteq> []) (List.map_filter as_str items)),
      tr_response_payload = response\<rparr>)"

text \<open>
  The reply of the task API: the error of sending, or the status with the error of reading the body or
  the body.
\<close>

type_synonym task_reply = "string + (nat \<times> (string + string))"

definition upstream_error :: "string \<Rightarrow> gateway_error" where
  "upstream_error message = gateway_error_new 502 ''UPSTREAM_TASK_API_ERROR'' message"

definition error_detail :: "json \<Rightarrow> string option" where
  "error_detail payload = Option.bind (Option.bind (jget payload ''error'') as_object) (\<lambda>e.
     let part = (\<lambda>k. or_else [] (Option.bind (oget e k) as_str));
         detail = join_with '' '' (filter (\<lambda>p. p \<noteq> []) [part ''code'', part ''message''])
     in if detail = [] then None else Some detail)"

definition post_json :: "beacon_env \<Rightarrow> task_client \<Rightarrow> exchange_inputs \<Rightarrow> task_reply \<Rightarrow> json \<Rightarrow> gateway_error + json" where
  "post_json env client inputs reply payload = (case tc_cloud_relay client of
      Some (relay, hub) \<Rightarrow> rbind (Cloud_Relay.turn (be_relay env) relay hub payload inputs) (\<lambda>response.
        if \<not> is_success (resp_status response)
        then Inl (upstream_error (''Navi task API returned HTTP '' @ be_status_text env (resp_status response)))
        else Inr (resp_body response))
    | None \<Rightarrow> (case reply of
        Inl e \<Rightarrow> Inl (infrastructure (''Could not reach HarborBeacon task API: '' @ e))
      | Inr (status, Inl e) \<Rightarrow> Inl (infrastructure (''Could not read HarborBeacon task API response: '' @ e))
      | Inr (status, Inr body) \<Rightarrow>
          (case (if trim body = [] then Inr (JObj []) else be_from_str env body) of
            Inl e \<Rightarrow> Inl (infrastructure (''HarborBeacon task API returned invalid JSON: '' @ e))
          | Inr value \<Rightarrow> if is_success status then Inr value
              else Inl (upstream_error (''HarborBeacon task API returned HTTP '' @ be_status_text env status @ '': ''
                @ or_else (trim body) (error_detail value))))))"

definition submit_turn_payload ::
  "beacon_env \<Rightarrow> task_client \<Rightarrow> exchange_inputs \<Rightarrow> task_reply \<Rightarrow> json \<Rightarrow> gateway_error + task_turn_result" where
  "submit_turn_payload env client inputs reply request =
     rbind (post_json env client inputs reply request) (\<lambda>response. Inr (map_turn_response request response))"

definition submit_turn ::
  "beacon_env \<Rightarrow> task_client \<Rightarrow> exchange_inputs \<Rightarrow> task_reply \<Rightarrow> inbound_message \<Rightarrow> jmap \<Rightarrow> gateway_error + task_turn_result" where
  "submit_turn env client inputs reply i session_metadata =
     submit_turn_payload env client inputs reply (build_turn_request env i
       (filled_str (oget session_metadata ''conversation_handle'')) (object_member ''continuation'' session_metadata))"

end
