(* ===== verification/Media_Cache.thy ===== *)
theory Media_Cache
  imports Beacon_Client "HOL-Library.AList"
begin

text \<open>
  The attachment cache (\<^verbatim>\<open>AttachmentCacheRoot\<close>, its clean-up and its sweep in \<^verbatim>\<open>src/gateway.rs\<close>) and the
  downloads of \<^verbatim>\<open>src/harborbeacon.rs\<close> that fill it. The cache is a directory capability: every operation works on a
  path relative to it. The state is the tree below it; each operation consumes one step, at which the operating
  system may refuse, with or without having done part of the work, or show that the root was replaced.
\<close>

section \<open>The directory capability\<close>

datatype io_error = NotFound | AlreadyExists | DirectoryNotEmpty | PermissionDenied | InvalidInput | OtherError

datatype io_outcome = Works | FailsBefore | FailsAfter

type_synonym rel_path = "path_component list"

record cache_world =
  cw_visible :: "nat \<Rightarrow> bool"
  cw_outcome :: "nat \<Rightarrow> io_outcome"
  cw_text :: "io_error \<Rightarrow> string"

record cache_state =
  cs_step :: nat
  cs_files :: "(rel_path \<times> string) list"
  cs_dirs :: "rel_path list"

type_synonym 'a cache_op = "cache_state \<Rightarrow> (io_error + 'a) \<times> cache_state"

abbreviation content :: "cache_state \<Rightarrow> rel_path \<Rightarrow> string option" where "content s \<equiv> map_of (cs_files s)"

definition tick :: "cache_state \<Rightarrow> cache_state" where "tick s = s\<lparr>cs_step := Suc (cs_step s)\<rparr>"

text \<open>Opening: only one plain name below the parent; the directory is created when it is missing.\<close>

definition cache_open :: "cache_world \<Rightarrow> string \<Rightarrow> string \<Rightarrow> string cache_op" where
  "cache_open w trusted_parent cache_basename s =
    (case path_components cache_basename of
       [Normal name] \<Rightarrow> (if cw_outcome w (cs_step s) = Works then Inr (path_join trusted_parent cache_basename) else Inl OtherError, tick s)
     | _ \<Rightarrow> (Inl InvalidInput, s))"

definition relative_path :: "string \<Rightarrow> path_component list \<Rightarrow> io_error + rel_path" where
  "relative_path root candidate = (case strip_components (path_components root) candidate of
      None \<Rightarrow> Inl PermissionDenied
    | Some rel \<Rightarrow> if rel = [] \<or> \<not> list_all is_normal rel then Inl PermissionDenied else Inr rel)"

definition parent_exists :: "rel_path \<Rightarrow> cache_state \<Rightarrow> bool" where
  "parent_exists rel s \<longleftrightarrow> butlast rel = [] \<or> butlast rel \<in> set (cs_dirs s)"

definition cache_create_dir :: "cache_world \<Rightarrow> string \<Rightarrow> path_component list \<Rightarrow> unit cache_op" where
  "cache_create_dir w root candidate s =
    (let n = cs_step s; s1 = tick s in
     if \<not> cw_visible w n then (Inl PermissionDenied, s1)
     else (case relative_path root candidate of
         Inl e \<Rightarrow> (Inl e, s1)
       | Inr rel \<Rightarrow>
           if cw_outcome w n = FailsBefore then (Inl OtherError, s1)
           else if content s rel \<noteq> None then (Inl OtherError, s1)
           else if rel \<notin> set (cs_dirs s) \<and> \<not> parent_exists rel s then (Inl NotFound, s1)
           else (if cw_outcome w n = Works then Inr () else Inl OtherError,
                 s1\<lparr>cs_dirs := (if rel \<in> set (cs_dirs s) then cs_dirs s else rel # cs_dirs s)\<rparr>)))"

text \<open>The answer is the open file, known by its place in the tree.\<close>

definition cache_create_new_file :: "cache_world \<Rightarrow> string \<Rightarrow> path_component list \<Rightarrow> rel_path cache_op" where
  "cache_create_new_file w root candidate s =
    (let n = cs_step s; s1 = tick s in
     if \<not> cw_visible w n then (Inl PermissionDenied, s1)
     else (case relative_path root candidate of
         Inl e \<Rightarrow> (Inl e, s1)
       | Inr rel \<Rightarrow>
           if cw_outcome w n \<noteq> Works then (Inl OtherError, s1)
           else if content s rel \<noteq> None \<or> rel \<in> set (cs_dirs s) then (Inl AlreadyExists, s1)
           else if \<not> parent_exists rel s then (Inl NotFound, s1)
           else (Inr rel, s1\<lparr>cs_files := AList.update rel [] (cs_files s)\<rparr>)))"

definition file_write_all :: "cache_world \<Rightarrow> rel_path \<Rightarrow> string \<Rightarrow> unit cache_op" where
  "file_write_all w rel bytes s =
    (let n = cs_step s; s1 = tick s;
         grown = s1\<lparr>cs_files := AList.map_entry rel (\<lambda>old. old @ bytes) (cs_files s)\<rparr> in
     case cw_outcome w n of
       Works \<Rightarrow> (Inr (), grown) | FailsBefore \<Rightarrow> (Inl OtherError, s1) | FailsAfter \<Rightarrow> (Inl OtherError, grown))"

definition file_sync :: "cache_world \<Rightarrow> unit cache_op" where
  "file_sync w s = (if cw_outcome w (cs_step s) = Works then Inr () else Inl OtherError, tick s)"

definition unlink :: "cache_world \<Rightarrow> rel_path \<Rightarrow> unit cache_op" where
  "unlink w rel s =
    (let n = cs_step s; s1 = tick s in
     if cw_outcome w n \<noteq> Works then (Inl OtherError, s1)
     else if content s rel = None then (Inl (if rel \<in> set (cs_dirs s) then OtherError else NotFound), s1)
     else (Inr (), s1\<lparr>cs_files := AList.delete rel (cs_files s)\<rparr>))"

definition cache_remove_file :: "cache_world \<Rightarrow> string \<Rightarrow> path_component list \<Rightarrow> unit cache_op" where
  "cache_remove_file w root candidate s = (case relative_path root candidate of
      Inl e \<Rightarrow> (Inl e, s) | Inr rel \<Rightarrow> unlink w rel s)"

definition dir_empty :: "rel_path \<Rightarrow> cache_state \<Rightarrow> bool" where
  "dir_empty rel s \<longleftrightarrow> \<not> list_ex (\<lambda>p. p \<noteq> [] \<and> butlast p = rel) (map fst (cs_files s) @ cs_dirs s)"

definition cache_remove_dir :: "cache_world \<Rightarrow> string \<Rightarrow> path_component list \<Rightarrow> unit cache_op" where
  "cache_remove_dir w root candidate s = (case relative_path root candidate of
      Inl e \<Rightarrow> (Inl e, s)
    | Inr rel \<Rightarrow>
        (let s1 = tick s in
         if cw_outcome w (cs_step s) \<noteq> Works then (Inl OtherError, s1)
         else if rel \<notin> set (cs_dirs s) then (Inl (if content s rel = None then NotFound else OtherError), s1)
         else if \<not> dir_empty rel s then (Inl DirectoryNotEmpty, s1)
         else (Inr (), s1\<lparr>cs_dirs := removeAll rel (cs_dirs s)\<rparr>)))"

section \<open>Startup: reconciliation and sweep\<close>

fun remove_reconciled_files :: "cache_world \<Rightarrow> string \<Rightarrow> path_component list list \<Rightarrow> unit cache_op" where
  "remove_reconciled_files w root [] s = (Inr (), s)"
| "remove_reconciled_files w root (p # ps) s = (case cache_remove_file w root p s of
      (Inl e, s1) \<Rightarrow> if e = NotFound then remove_reconciled_files w root ps s1 else (Inl e, s1)
    | (Inr u, s1) \<Rightarrow> remove_reconciled_files w root ps s1)"

fun remove_reconciled_dirs :: "cache_world \<Rightarrow> string \<Rightarrow> path_component list list \<Rightarrow> unit cache_op" where
  "remove_reconciled_dirs w root [] s = (Inr (), s)"
| "remove_reconciled_dirs w root (d # ds) s = (case cache_remove_dir w root d s of
      (Inl e, s1) \<Rightarrow> if e = NotFound \<or> e = DirectoryNotEmpty then remove_reconciled_dirs w root ds s1 else (Inl e, s1)
    | (Inr u, s1) \<Rightarrow> remove_reconciled_dirs w root ds s1)"

text \<open>\<open>order\<close> is the order in which the hash set of directories is walked.\<close>

definition remove_reconciled_attachment_cache ::
  "cache_world \<Rightarrow> (path_component list list \<Rightarrow> path_component list list) \<Rightarrow> string \<Rightarrow> string list \<Rightarrow> unit cache_op" where
  "remove_reconciled_attachment_cache w order root paths s =
    (let ps = map path_components paths in
     case remove_reconciled_files w root ps s of
       (Inl e, s1) \<Rightarrow> (Inl e, s1)
     | (Inr u, s1) \<Rightarrow> remove_reconciled_dirs w root (order (remdups (List.map_filter path_parent ps))) s1)"

definition attachment_cache_ttl :: int where "attachment_cache_ttl = 24 * 60 * 60 * 1000000000"

text \<open>
  What the operating system reports of the entries: a listing in some order (an entry may fail to be read),
  the time a directory was modified, whether a name that cannot be opened as a directory is one.
\<close>

record sweep_view =
  sv_entries :: "(io_error + string) list"
  sv_children :: "string \<Rightarrow> (io_error + string) list"
  sv_modified :: "string \<Rightarrow> int option"
  sv_is_dir :: "string \<Rightarrow> io_error + bool"

fun scan_children :: "(string \<Rightarrow> bool) \<Rightarrow> (string \<Rightarrow> bool) \<Rightarrow> (io_error + string) list \<Rightarrow> io_error + (string list \<times> bool \<times> bool)" where
  "scan_children is_file retry [] = Inr ([], True, False)"
| "scan_children is_file retry (Inl e # cs) = Inl e"
| "scan_children is_file retry (Inr c # cs) =
    (if is_file c then rbind (scan_children is_file retry cs) (\<lambda>(children, can, has). Inr (c # children, can, retry c \<or> has))
     else Inr ([], False, retry c))"

fun unlink_all :: "cache_world \<Rightarrow> rel_path list \<Rightarrow> unit cache_op" where
  "unlink_all w [] s = (Inr (), s)"
| "unlink_all w (p # ps) s = (case unlink w p s of (Inl e, s1) \<Rightarrow> (Inl e, s1) | (Inr u, s1) \<Rightarrow> unlink_all w ps s1)"

definition sweep_expired :: "sweep_view \<Rightarrow> int \<Rightarrow> string \<Rightarrow> bool" where
  "sweep_expired v now name = (case sv_modified v name of
      None \<Rightarrow> False | Some t \<Rightarrow> t \<le> now \<and> now - t > attachment_cache_ttl)"

definition sweep_batch ::
  "cache_world \<Rightarrow> sweep_view \<Rightarrow> string \<Rightarrow> path_component list list \<Rightarrow> string \<Rightarrow> unit cache_op" where
  "sweep_batch w v root retryable name s =
    (case scan_children (\<lambda>c. content s [Normal name, Normal c] \<noteq> None)
        (\<lambda>c. path_components root @ [Normal name, Normal c] \<in> set retryable) (sv_children v name) of
       Inl e \<Rightarrow> (Inl e, s)
     | Inr (children, can_remove, has_retryable) \<Rightarrow>
         if has_retryable \<or> \<not> can_remove then (Inr (), s)
         else (case unlink_all w (map (\<lambda>c. [Normal name, Normal c]) children) s of
             (Inl e, s1) \<Rightarrow> (Inl e, s1)
           | (Inr u, s1) \<Rightarrow> cache_remove_dir w root (path_components root @ [Normal name]) s1))"

fun sweep_entries ::
  "cache_world \<Rightarrow> sweep_view \<Rightarrow> int \<Rightarrow> string \<Rightarrow> path_component list list \<Rightarrow> (io_error + string) list \<Rightarrow> unit cache_op" where
  "sweep_entries w v now root retryable [] s = (Inr (), s)"
| "sweep_entries w v now root retryable (Inl e # es) s = (Inl e, s)"
| "sweep_entries w v now root retryable (Inr name # es) s =
    (let opens = [Normal name] \<in> set (cs_dirs s) \<and> cw_outcome w (cs_step s) = Works; s0 = tick s in
     if \<not> opens then (case sv_is_dir v name of
         Inl e \<Rightarrow> (Inl e, s0)
       | Inr is_dir \<Rightarrow> if is_dir then (Inl OtherError, s0) else sweep_entries w v now root retryable es s0)
     else if \<not> sweep_expired v now name then sweep_entries w v now root retryable es s0
     else (case sweep_batch w v root retryable name s0 of
         (Inl e, s1) \<Rightarrow> (Inl e, s1) | (Inr u, s1) \<Rightarrow> sweep_entries w v now root retryable es s1))"

definition sweep_expired_attachment_cache ::
  "cache_world \<Rightarrow> sweep_view \<Rightarrow> string \<Rightarrow> string list \<Rightarrow> int \<Rightarrow> unit cache_op" where
  "sweep_expired_attachment_cache w v root retryable_cache_paths now =
     sweep_entries w v now root (map path_components retryable_cache_paths) (sv_entries v)"

end
