(* ===== verification/Media_Download.thy ===== *)
theory Media_Download
  imports Media_Cache
begin

text \<open>
  Downloading media into the attachment cache (\<^verbatim>\<open>src/harborbeacon.rs\<close>): from the Beacon server as one stream, from
  a Navi device through the relay in verified chunks; the batch of a delivery, which is complete or empty; and the
  permission check for camera media. The replies of the servers and the generated names are inputs.
\<close>

section \<open>From the Beacon server\<close>

record media_reply =
  mr_status :: nat
  mr_content_length :: "nat option"
  mr_content_type :: "string option"
  mr_chunks :: "(string + string) list"

definition over_limit :: gateway_error where
  "over_limit = validation ''Beacon media attachment exceeds the delivery size limit''"

definition cache_failed :: "cache_world \<Rightarrow> string \<Rightarrow> io_error \<Rightarrow> gateway_error" where
  "cache_failed w what e = infrastructure (''Gate media cache '' @ what @ '' failed: '' @ cw_text w e)"

definition flush_and_sync ::
  "cache_world \<Rightarrow> (string \<Rightarrow> io_error \<Rightarrow> gateway_error) \<Rightarrow> cache_state \<Rightarrow> (gateway_error + unit) \<times> cache_state" where
  "flush_and_sync w failed s = (case file_sync w s of
      (Inl e, s1) \<Rightarrow> (Inl (failed ''flush'' e), s1)
    | (Inr u, s1) \<Rightarrow> (case file_sync w s1 of
        (Inl e, s2) \<Rightarrow> (Inl (failed ''sync'' e), s2) | (Inr u, s2) \<Rightarrow> (Inr (), s2)))"

fun stream_chunks ::
  "cache_world \<Rightarrow> rel_path \<Rightarrow> nat \<Rightarrow> (string + string) list \<Rightarrow> cache_state \<Rightarrow> (gateway_error + unit) \<times> cache_state" where
  "stream_chunks w f sofar [] s =
    (if sofar = 0 then (Inl (validation ''Beacon media attachment is empty''), s) else flush_and_sync w (cache_failed w) s)"
| "stream_chunks w f sofar (Inl e # cs) s = (Inl (infrastructure (''Beacon media body read failed: '' @ e)), s)"
| "stream_chunks w f sofar (Inr chunk # cs) s =
    (let sofar' = saturating_add sofar (length chunk) in
     if sofar' > max_media then (Inl over_limit, s)
     else (case file_write_all w f chunk s of
         (Inl e, s1) \<Rightarrow> (Inl (cache_failed w ''write'' e), s1)
       | (Inr u, s1) \<Rightarrow> stream_chunks w f sofar' cs s1))"

definition response_mime :: "media_reply \<Rightarrow> string" where
  "response_mime r = (case mr_content_type r of None \<Rightarrow> [] | Some v \<Rightarrow> trim (hd (split_on CHR '';'' v)))"

definition download_media_artifact ::
  "beacon_env \<Rightarrow> task_client \<Rightarrow> cache_world \<Rightarrow> string \<Rightarrow> string + media_reply \<Rightarrow> string \<Rightarrow> string \<Rightarrow> cache_state \<Rightarrow>
   (gateway_error + unit) \<times> cache_state" where
  "download_media_artifact env client w root reply mime_type destination s =
    (if trim (tc_api_token client) = []
     then (Inl (validation ''HarborBeacon service token is required for media download''), s)
     else (case reply of
       Inl e \<Rightarrow> (Inl (infrastructure (''Beacon media download failed: '' @ e)), s)
     | Inr r \<Rightarrow>
        if \<not> is_success (mr_status r)
        then (Inl (infrastructure (''Beacon media download returned HTTP '' @ be_status_text env (mr_status r))), s)
        else if (case mr_content_length r of None \<Rightarrow> False | Some l \<Rightarrow> l > max_media) then (Inl over_limit, s)
        else if \<not> eq_ignore_case (response_mime r) mime_type
        then (Inl (validation ''Beacon media attachment MIME type does not match the artifact contract''), s)
        else (case cache_create_new_file w root (path_components destination) s of
            (Inl e, s1) \<Rightarrow> (Inl (cache_failed w ''create'' e), s1)
          | (Inr f, s1) \<Rightarrow> stream_chunks w f 0 (mr_chunks r) s1)))"

definition untrusted_url :: gateway_error where "untrusted_url = validation ''Camera attachment URL is not trusted''"

definition download_local_media_artifact ::
  "beacon_env \<Rightarrow> task_client \<Rightarrow> cache_world \<Rightarrow> string \<Rightarrow> string + media_reply \<Rightarrow> json \<Rightarrow> string \<Rightarrow> string \<Rightarrow> cache_state \<Rightarrow>
   (gateway_error + unit) \<times> cache_state" where
  "download_local_media_artifact env client w root reply artifact mime_type destination s =
    (case Option.bind (get_str artifact ''url'') (trusted_media_artifact_url env (tc_base_url client)) of
       None \<Rightarrow> (Inl untrusted_url, s)
     | Some u \<Rightarrow> download_media_artifact env client w root reply mime_type destination s)"

section \<open>From a Navi device\<close>

definition chunk_size :: nat where "chunk_size = 49152"

definition chunk_end :: "nat \<Rightarrow> nat" where "chunk_end offset = min (offset + chunk_size - 1) (max_media - 1)"

definition chunk_request :: "string \<Rightarrow> nat \<Rightarrow> json" where
  "chunk_request artifact_id offset = jobj [(''artifact_id'', JStr artifact_id),
     (''range'', JStr (''bytes='' @ show_nat offset @ ''-'' @ show_nat (chunk_end offset)))]"

definition remote_cache_failed :: "string \<Rightarrow> io_error \<Rightarrow> gateway_error" where
  "remote_cache_failed what e = infrastructure (''Gate media cache '' @ what @ '' failed'')"

definition transfer_timed_out :: gateway_error where "transfer_timed_out = infrastructure ''Camera media transfer timed out''"
definition media_changed :: gateway_error where "media_changed = infrastructure ''Camera media changed during transfer''"

text \<open>
  \<open>inputs\<close> lists the exchanges that complete before the time limit of two minutes; when they run out the
  transfer has timed out.
\<close>

fun transfer ::
  "beacon_env \<Rightarrow> cache_world \<Rightarrow> relay_client \<Rightarrow> string \<Rightarrow> string \<Rightarrow> string \<Rightarrow> rel_path \<Rightarrow> nat \<Rightarrow> nat option \<Rightarrow>
   exchange_inputs list \<Rightarrow> cache_state \<Rightarrow> (gateway_error + unit) \<times> cache_state" where
  "transfer env w relay hub artifact_id mime_type f offset known [] s = (Inl transfer_timed_out, s)"
| "transfer env w relay hub artifact_id mime_type f offset known (i # is) s =
    (case rbind (media_artifact (be_relay env) relay hub (chunk_request artifact_id offset) i)
        (\<lambda>response. decode_remote_media env response offset (chunk_end offset) mime_type) of
       Inl e \<Rightarrow> (Inl e, s)
     | Inr (bytes, reported) \<Rightarrow>
        if known \<noteq> None \<and> known \<noteq> Some reported then (Inl media_changed, s)
        else (case file_write_all w f bytes s of
            (Inl e, s1) \<Rightarrow> (Inl (remote_cache_failed ''write'' e), s1)
          | (Inr u, s1) \<Rightarrow>
              if offset + length bytes = reported then flush_and_sync w remote_cache_failed s1
              else transfer env w relay hub artifact_id mime_type f (offset + length bytes) (Some reported) is s1))"

definition download_remote_media_artifact ::
  "beacon_env \<Rightarrow> cache_world \<Rightarrow> relay_client \<Rightarrow> string \<Rightarrow> string \<Rightarrow> exchange_inputs list \<Rightarrow> string \<Rightarrow> string \<Rightarrow> string \<Rightarrow> cache_state \<Rightarrow>
   (gateway_error + unit) \<times> cache_state" where
  "download_remote_media_artifact env w relay hub artifact_id inputs mime_type root destination s =
    (case cache_create_new_file w root (path_components destination) s of
       (Inl e, s1) \<Rightarrow> (Inl (remote_cache_failed ''create'' e), s1)
     | (Inr f, s1) \<Rightarrow> transfer env w relay hub artifact_id mime_type f 0 None inputs s1)"

section \<open>The batch of a delivery\<close>

record materialized =
  mt_attachments :: "json list"
  mt_cache_files :: "string list"
  mt_cache_dir :: "string option"
  mt_failed_count :: nat

definition empty_batch :: materialized where
  "empty_batch = \<lparr>mt_attachments = [], mt_cache_files = [], mt_cache_dir = None, mt_failed_count = 0\<rparr>"

text \<open>Generated names and replies, by the number of the artifact in the batch.\<close>

record media_inputs =
  mi_dir_uuid :: string
  mi_file_uuid :: "nat \<Rightarrow> string"
  mi_remote :: "nat \<Rightarrow> exchange_inputs list"
  mi_local :: "nat \<Rightarrow> string + media_reply"

definition batch_mime :: "json \<Rightarrow> string option" where
  "batch_mime artifact = Option.bind (get_str artifact ''mime_type'')
     (\<lambda>m. if trusted_attachment_mime (trim m) then Some (trim m) else None)"

definition fetch_artifact ::
  "beacon_env \<Rightarrow> task_client \<Rightarrow> cache_world \<Rightarrow> media_inputs \<Rightarrow> string \<Rightarrow> nat \<Rightarrow> json \<Rightarrow> string \<Rightarrow> string \<Rightarrow> cache_state \<Rightarrow>
   (gateway_error + unit) \<times> cache_state" where
  "fetch_artifact env client w mi root k artifact mime_type destination s = (case tc_cloud_relay client of
      Some (relay, hub) \<Rightarrow> (case Option.bind (get_str artifact ''url'') remote_media_artifact_id of
          None \<Rightarrow> (Inl (validation ''Camera media artifact is not trusted''), s)
        | Some artifact_id \<Rightarrow> download_remote_media_artifact env w relay hub artifact_id (mi_remote mi k) mime_type root destination s)
    | None \<Rightarrow> download_local_media_artifact env client w root (mi_local mi k) artifact mime_type destination s)"

definition with_path :: "string \<Rightarrow> json \<Rightarrow> json" where
  "with_path destination artifact = (case artifact of JObj m \<Rightarrow> JObj (oput ''path'' (JStr destination) m) | _ \<Rightarrow> artifact)"

definition batch_failed :: "materialized \<Rightarrow> materialized" where
  "batch_failed b = b\<lparr>mt_failed_count := mt_failed_count b + 1\<rparr>"

definition batch_dir :: "string \<Rightarrow> media_inputs \<Rightarrow> string \<Rightarrow> materialized \<Rightarrow> string" where
  "batch_dir root mi turn_id b = (case mt_cache_dir b of
      Some d \<Rightarrow> d | None \<Rightarrow> path_join root (''turn-'' @ safe_cache_segment turn_id @ ''-'' @ mi_dir_uuid mi))"

definition materialize_one ::
  "beacon_env \<Rightarrow> task_client \<Rightarrow> cache_world \<Rightarrow> media_inputs \<Rightarrow> string \<Rightarrow> string \<Rightarrow> nat \<Rightarrow> json \<Rightarrow> materialized \<times> cache_state \<Rightarrow>
   materialized \<times> cache_state" where
  "materialize_one env client w mi root turn_id k artifact = (\<lambda>(b, s). case batch_mime artifact of
      None \<Rightarrow> (batch_failed b, s)
    | Some mime_type \<Rightarrow>
       (let d = batch_dir root mi turn_id b; b = b\<lparr>mt_cache_dir := Some d\<rparr> in
        case cache_create_dir w root (path_components d) s of
          (Inl e, s1) \<Rightarrow> (batch_failed b, s1)
        | (Inr u, s1) \<Rightarrow>
           (let destination = path_join d (''attachment-'' @ mi_file_uuid mi k @ ''.'' @ attachment_extension mime_type) in
            case fetch_artifact env client w mi root k artifact mime_type destination s1 of
              (Inr u, s2) \<Rightarrow> (b\<lparr>mt_cache_files := mt_cache_files b @ [destination],
                  mt_attachments := mt_attachments b @ [with_path destination artifact]\<rparr>, s2)
            | (Inl e, s2) \<Rightarrow> (batch_failed b, snd (cache_remove_file w root (path_components destination) s2)))))"

fun materialize_all ::
  "beacon_env \<Rightarrow> task_client \<Rightarrow> cache_world \<Rightarrow> media_inputs \<Rightarrow> string \<Rightarrow> string \<Rightarrow> nat \<Rightarrow> json list \<Rightarrow> materialized \<times> cache_state \<Rightarrow>
   materialized \<times> cache_state" where
  "materialize_all env client w mi root turn_id k [] bs = bs"
| "materialize_all env client w mi root turn_id k (a # as) bs =
     materialize_all env client w mi root turn_id (Suc k) as (materialize_one env client w mi root turn_id k a bs)"

fun remove_files :: "cache_world \<Rightarrow> string \<Rightarrow> string list \<Rightarrow> cache_state \<Rightarrow> cache_state" where
  "remove_files w root [] s = s"
| "remove_files w root (p # ps) s = remove_files w root ps (snd (cache_remove_file w root (path_components p) s))"

definition settle_batch :: "cache_world \<Rightarrow> string \<Rightarrow> materialized \<times> cache_state \<Rightarrow> materialized \<times> cache_state" where
  "settle_batch w root = (\<lambda>(b, s).
    let (b, s) = (if mt_failed_count b > 0
        then (b\<lparr>mt_cache_files := [], mt_attachments := []\<rparr>, remove_files w root (mt_cache_files b) s) else (b, s))
    in if mt_cache_files b = [] then (case mt_cache_dir b of
        None \<Rightarrow> (b, s)
      | Some d \<Rightarrow> (b\<lparr>mt_cache_dir := None\<rparr>, snd (cache_remove_dir w root (path_components d) s)))
    else (b, s))"

definition materialize_attachments_in ::
  "beacon_env \<Rightarrow> task_client \<Rightarrow> cache_world \<Rightarrow> media_inputs \<Rightarrow> string \<Rightarrow> string \<Rightarrow> json list \<Rightarrow> cache_state \<Rightarrow> materialized \<times> cache_state" where
  "materialize_attachments_in env client w mi root turn_id artifacts s =
     settle_batch w root (materialize_all env client w mi root turn_id 0 artifacts (empty_batch, s))"

definition materialize_attachments ::
  "beacon_env \<Rightarrow> task_client \<Rightarrow> cache_world \<Rightarrow> media_inputs \<Rightarrow> string \<Rightarrow> string \<Rightarrow> json list \<Rightarrow> cache_state \<Rightarrow> materialized \<times> cache_state" where
  "materialize_attachments env client w mi cache_root turn_id artifacts s =
    (let trusted_parent = (case parent_text cache_root of Some p \<Rightarrow> if p = [] then ''.'' else p | None \<Rightarrow> ''.'') in
     case (case path_components cache_root of
         [] \<Rightarrow> None | c # cs \<Rightarrow> (case last (c # cs) of Normal name \<Rightarrow> Some name | _ \<Rightarrow> None)) of
       None \<Rightarrow> (empty_batch\<lparr>mt_failed_count := length artifacts\<rparr>, s)
     | Some basename \<Rightarrow> (case cache_open w trusted_parent basename s of
           (Inl e, s1) \<Rightarrow> (empty_batch\<lparr>mt_failed_count := length artifacts\<rparr>, s1)
         | (Inr root, s1) \<Rightarrow> materialize_attachments_in env client w mi root turn_id artifacts s1))"

section \<open>Permission for camera media\<close>

fun authorize_remote ::
  "beacon_env \<Rightarrow> relay_client \<Rightarrow> string \<Rightarrow> (nat \<Rightarrow> exchange_inputs) \<Rightarrow> nat \<Rightarrow> json list \<Rightarrow> gateway_error + unit" where
  "authorize_remote env relay hub inputs k [] = Inr ()"
| "authorize_remote env relay hub inputs k (a # as) =
    rbind (ok_or untrusted_url (Option.bind (as_str (jindex a ''url'')) remote_media_artifact_id)) (\<lambda>artifact_id.
    rbind (media_artifact (be_relay env) relay hub
        (jobj [(''artifact_id'', JStr artifact_id), (''range'', JStr ''bytes=0-0'')]) (inputs k)) (\<lambda>response.
    rbind (ok_or (validation ''Camera attachment MIME type is not trusted'')
        (Option.bind (as_str (jindex a ''mime_type'')) (\<lambda>m. if trusted_attachment_mime m then Some m else None))) (\<lambda>mime_type.
    rbind (decode_remote_media env response 0 0 mime_type) (\<lambda>x.
    authorize_remote env relay hub inputs (Suc k) as))))"

definition camera_unavailable :: gateway_error where
  "camera_unavailable = infrastructure ''Camera media authorization is unavailable''"

fun authorize_local :: "beacon_env \<Rightarrow> task_client \<Rightarrow> (nat \<Rightarrow> nat option) \<Rightarrow> nat \<Rightarrow> json list \<Rightarrow> gateway_error + unit" where
  "authorize_local env client statuses k [] = Inr ()"
| "authorize_local env client statuses k (a # as) = (case as_str (jindex a ''url'') of
      None \<Rightarrow> authorize_local env client statuses (Suc k) as
    | Some raw \<Rightarrow>
        rbind (ok_or untrusted_url (trusted_media_artifact_url env (tc_base_url client) raw)) (\<lambda>u.
        if trim (tc_api_token client) = [] then Inl (infrastructure ''Beacon media authorization is unavailable'')
        else (case statuses k of
            None \<Rightarrow> Inl camera_unavailable
          | Some status \<Rightarrow>
              if is_success status then authorize_local env client statuses (Suc k) as
              else Inl (if status \<in> {401, 403, 404, 410} then camera_denied else camera_unavailable))))"

definition authorize_camera_attachments ::
  "beacon_env \<Rightarrow> task_client \<Rightarrow> (nat \<Rightarrow> exchange_inputs) \<Rightarrow> (nat \<Rightarrow> nat option) \<Rightarrow> json list \<Rightarrow> gateway_error + unit" where
  "authorize_camera_attachments env client inputs statuses artifacts = (case tc_cloud_relay client of
      Some (relay, hub) \<Rightarrow> authorize_remote env relay hub inputs 0 artifacts
    | None \<Rightarrow> authorize_local env client statuses 0 artifacts)"

end
