(* ===== verification/Gateway_Delivery.thy ===== *)
theory Gateway_Delivery
  imports Media_Download Delivery_Safety
begin

text \<open>
  The delivery engine of \<^verbatim>\<open>src/gateway.rs\<close>: a message is split into items, the plan is persisted, and each
  item is materialized, claimed in the ledger, sent through its adapter in one or two stages and settled.
  The state holds the ledger and the list of effects outside it. What the world answers (clocks, tokens,
  storage failures, permission checks, adapters, the media proxy) is a function of the number of the
  interaction, and so are the ledger operations of other processes since the last one. Each ledger call works on the content of the ledger file or fails without changing it, as
  the refinement of the store shows.
\<close>

section \<open>State and world\<close>

record gate_world =
  gw_now :: "nat \<Rightarrow> instant"
  gw_token :: "nat \<Rightarrow> string"
  gw_others :: "nat \<Rightarrow> (instant \<times> ledger_op) list"
  gw_store :: "nat \<Rightarrow> string option"
  gw_authorize :: "nat \<Rightarrow> outbound_message \<Rightarrow> gateway_error + unit"
  gw_prepare :: "nat \<Rightarrow> outbound_message \<Rightarrow> gateway_error + prepared_outbound option"
  gw_send :: "nat \<Rightarrow> outbound_message \<Rightarrow> prepared_outbound option \<Rightarrow> gateway_error + json"
  gw_send_plain :: "nat \<Rightarrow> outbound_message \<Rightarrow> gateway_error + json"
  gw_task_client :: "nat \<Rightarrow> outbound_message \<Rightarrow> task_client option"
  gw_materialize :: "nat \<Rightarrow> task_client \<Rightarrow> json list \<Rightarrow> string \<Rightarrow> materialized"

text \<open>The gateway: its parameters, the adapter in use and the decoder of stored messages.\<close>

record gate =
  ga_env :: gate_env
  ga_content :: content_env
  ga_adapter :: string
  ga_lease :: nat
  ga_instance :: string
  ga_decode :: "json \<Rightarrow> string + outbound_message"

datatype gate_effect =
    Sent string string string outbound_message "prepared_outbound option"
  | SentPlain outbound_message
  | CacheRemoved string
  | CacheDirRemoved "path_component list"

record delivery_state =
  dt_step :: nat
  dt_records :: jmap
  dt_effects :: "gate_effect list"

datatype gate_error = Refused gateway_error | Panicked

type_synonym ('s, 'a) step = "'s \<Rightarrow> (gate_error + 'a) \<times> 's"

type_synonym 'a action = "(delivery_state, 'a) step"

definition sbind :: "('s, 'a) step \<Rightarrow> ('a \<Rightarrow> ('s, 'b) step) \<Rightarrow> ('s, 'b) step" where
  "sbind m f s = (case m s of (Inl e, s') \<Rightarrow> (Inl e, s') | (Inr x, s') \<Rightarrow> f x s')"

definition sreturn :: "'a \<Rightarrow> ('s, 'a) step" where "sreturn x s = (Inr x, s)"
definition sfail :: "gateway_error \<Rightarrow> ('s, 'a) step" where "sfail e s = (Inl (Refused e), s)"

text \<open>Asking the world, and leaving an effect.\<close>

definition ask :: "(nat \<Rightarrow> 'a) \<Rightarrow> 'a action" where
  "ask f s = (Inr (f (dt_step s)), s\<lparr>dt_step := Suc (dt_step s)\<rparr>)"

definition emit :: "gate_effect list \<Rightarrow> unit action" where
  "emit fx s = (Inr (), s\<lparr>dt_effects := dt_effects s @ fx\<rparr>)"

text \<open>
  A ledger call; its error message is turned into the caller's error. Other processes share the ledger file:
  what they did since the last call is there first.
\<close>

definition ledger_call ::
  "gate \<Rightarrow> gate_world \<Rightarrow> (instant \<Rightarrow> string \<Rightarrow> jmap \<Rightarrow> store_error + ('r \<times> jmap option)) \<Rightarrow> (string \<Rightarrow> gateway_error) \<Rightarrow> 'r action" where
  "ledger_call g w act on_error s =
    (let n = dt_step s; records = ledger_run (ga_env g) (gw_others w n) (dt_records s);
         s1 = s\<lparr>dt_step := Suc n, dt_records := records\<rparr> in
     case gw_store w n of
       Some msg \<Rightarrow> (Inl (Refused (on_error msg)), s1)
     | None \<Rightarrow> (case act (gw_now w n) (gw_token w n) records of
           Inl (Bail msg) \<Rightarrow> (Inl (Refused (on_error msg)), s1)
         | Inl (Panic msg) \<Rightarrow> (Inl Panicked, s1)
         | Inr (r, None) \<Rightarrow> (Inr r, s1)
         | Inr (r, Some records') \<Rightarrow> (Inr r, s1\<lparr>dt_records := records'\<rparr>)))"

definition outbound_to_value :: "outbound_message \<Rightarrow> json" where
  "outbound_to_value m = jobj [(''platform'', JStr (out_platform m)), (''chat_id'', JStr (out_chat_id m)),
     (''text'', JStr (out_text m)), (''attachments'', JArr (out_attachments m)),
     (''timestamp'', JStr (out_timestamp m)), (''metadata'', JObj (out_metadata m))]"

section \<open>One stage\<close>

record stage_request =
  sr_claim :: json
  sr_delivery_key :: string
  sr_item_key :: string
  sr_claim_token :: string
  sr_stage :: string

definition prepared_at :: "json \<Rightarrow> prepared_outbound option" where
  "prepared_at v = map_option (\<lambda>media. \<lparr>provider_media_id = media,
       provider_client_id = nonempty_trim (get_str v ''provider_client_id''),
       prepared_state = or_else JNull (jget v ''provider_media_state'')\<rparr>)
     (nonempty_trim (get_str v ''provider_media_id''))"

definition stage_prepared :: "stage_request \<Rightarrow> prepared_outbound option" where
  "stage_prepared r = (case prepared_at (or_else JNull (jpointer [''item'', ''stages'', sr_stage r] (sr_claim r))) of
      Some p \<Rightarrow> Some p
    | None \<Rightarrow> if sr_stage r = ''native'' then prepared_at (or_else JNull (jpointer [''item''] (sr_claim r))) else None)"

text \<open>\<open>Inl\<close> when the upload could not be recorded: the stage then ends without being settled.\<close>

type_synonym attempt = "(gateway_error \<times> prepared_outbound) + ((gateway_error + json) \<times> prepared_outbound option)"

definition send_prepared :: "gate_world \<Rightarrow> stage_request \<Rightarrow> outbound_message \<Rightarrow> prepared_outbound option \<Rightarrow> (gateway_error + json) action" where
  "send_prepared w r m p = sbind (emit [Sent (sr_delivery_key r) (sr_item_key r) (sr_claim_token r) m p]) (\<lambda>u. ask (\<lambda>n. gw_send w n m p))"

definition authorized_send :: "gate_world \<Rightarrow> stage_request \<Rightarrow> outbound_message \<Rightarrow> prepared_outbound option \<Rightarrow> (gateway_error + json) action" where
  "authorized_send w r m p = sbind (ask (\<lambda>n. gw_authorize w n m)) (\<lambda>a. case a of
      Inl e \<Rightarrow> sreturn (Inl e) | Inr u \<Rightarrow> send_prepared w r m p)"

definition record_upload :: "gate \<Rightarrow> gate_world \<Rightarrow> stage_request \<Rightarrow> prepared_outbound \<Rightarrow> (string + unit) action" where
  "record_upload g w r p s = (case ledger_call g w (\<lambda>now token. record_delivery_item_upload_records (ga_env g) now
        \<lparr>iu_delivery_key = sr_delivery_key r, iu_item_key = sr_item_key r, iu_claim_token = sr_claim_token r,
         iu_stage = sr_stage r, iu_provider_media_id = provider_media_id p, iu_provider_media_state = prepared_state p,
         iu_provider_client_id = provider_client_id p\<rparr>) infrastructure s of
      (Inl (Refused e), s1) \<Rightarrow> (Inr (Inl (err_message e)), s1)
    | (Inl Panicked, s1) \<Rightarrow> (Inl Panicked, s1)
    | (Inr u, s1) \<Rightarrow> (Inr (Inr ()), s1))"

definition attempt_stage :: "gate \<Rightarrow> gate_world \<Rightarrow> stage_request \<Rightarrow> outbound_message \<Rightarrow> attempt action" where
  "attempt_stage g w r m =
    (let known = stage_prepared r in
     sbind (ask (\<lambda>n. gw_authorize w n m)) (\<lambda>a. case a of
       Inl e \<Rightarrow> sreturn (Inr (Inl e, known))
     | Inr u \<Rightarrow> (case known of
         Some p \<Rightarrow> sbind (send_prepared w r m (Some p)) (\<lambda>res. sreturn (Inr (res, Some p)))
       | None \<Rightarrow> sbind (ask (\<lambda>n. gw_prepare w n m)) (\<lambda>prep. case prep of
             Inl e \<Rightarrow> sreturn (Inr (Inl e, None))
           | Inr None \<Rightarrow> sbind (authorized_send w r m None) (\<lambda>res. sreturn (Inr (res, None)))
           | Inr (Some p) \<Rightarrow> sbind (record_upload g w r p) (\<lambda>up. case up of
                 Inl msg \<Rightarrow> sreturn (Inl (infrastructure msg, p))
               | Inr v \<Rightarrow> sbind (authorized_send w r m (Some p)) (\<lambda>res. sreturn (Inr (res, Some p))))))))"

definition response_media :: "json \<Rightarrow> string option" where
  "response_media response = Option.bind (or_opt (jget response ''provider_media_id'') (jget response ''media_id'')) as_str"

definition filled :: "string option \<Rightarrow> string option" where
  "filled v = (case v of None \<Rightarrow> None | Some s \<Rightarrow> if trim s = [] then None else Some s)"

definition response_message :: "json \<Rightarrow> string option" where
  "response_message response = filled (Option.bind (or_opt (jget response ''provider_message_id'') (jget response ''message_id'')) as_str)"

definition stage_completion_of :: "gate \<Rightarrow> stage_request \<Rightarrow> gateway_error + json \<Rightarrow> prepared_outbound option \<Rightarrow> stage_completion" where
  "stage_completion_of g r result prepared = (case result of
      Inr response \<Rightarrow> \<lparr>sc_delivery_key = sr_delivery_key r, sc_item_key = sr_item_key r, sc_claim_token = sr_claim_token r,
        sc_stage = sr_stage r, sc_status = ''succeeded'',
        sc_provider_media_id = or_opt (response_media response) (map_option provider_media_id prepared),
        sc_provider_client_id = or_opt (get_str response ''provider_client_id'') (Option.bind prepared provider_client_id),
        sc_provider_message_id = response_message response, sc_retryable = False, sc_last_error = None\<rparr>
    | Inl e \<Rightarrow> \<lparr>sc_delivery_key = sr_delivery_key r, sc_item_key = sr_item_key r, sc_claim_token = sr_claim_token r,
        sc_stage = sr_stage r, sc_status = (if should_fallback_to_file e then ''unsupported'' else ''failed''),
        sc_provider_media_id = map_option provider_media_id prepared,
        sc_provider_client_id = Option.bind prepared provider_client_id, sc_provider_message_id = None,
        sc_retryable = (\<not> should_fallback_to_file e \<and> snd (map_delivery_failure (ga_content g) (err_message e))),
        sc_last_error = Some (err_message e)\<rparr>)"

definition settle_stage :: "gate \<Rightarrow> gate_world \<Rightarrow> stage_request \<Rightarrow> gateway_error + json \<Rightarrow> prepared_outbound option \<Rightarrow> (gateway_error + json) action" where
  "settle_stage g w r result prepared s = (case ledger_call g w (\<lambda>now token.
        finish_delivery_stage_records (ga_env g) now (stage_completion_of g r result prepared)) infrastructure s of
      (Inl (Refused e), s1) \<Rightarrow> (Inr (Inl e), s1)
    | (Inl Panicked, s1) \<Rightarrow> (Inl Panicked, s1)
    | (Inr u, s1) \<Rightarrow> (Inr result, s1))"

definition send_delivery_stage ::
  "gate \<Rightarrow> gate_world \<Rightarrow> stage_request \<Rightarrow> outbound_message \<Rightarrow> ((gateway_error + json) \<times> prepared_outbound option) action" where
  "send_delivery_stage g w r m = sbind (attempt_stage g w r m) (\<lambda>a. case a of
      Inl (e, p) \<Rightarrow> sreturn (Inl e, Some p)
    | Inr (result, prepared) \<Rightarrow> sbind (settle_stage g w r result prepared) (\<lambda>res. sreturn (res, prepared)))"

section \<open>Materialization\<close>

definition materialization_settle ::
  "gate \<Rightarrow> gate_world \<Rightarrow> string \<Rightarrow> string \<Rightarrow> string \<Rightarrow> string \<Rightarrow> json option \<Rightarrow> string option \<Rightarrow> bool \<Rightarrow> string option \<Rightarrow> unit action" where
  "materialization_settle g w dk ik token status outbound cache retryable last_error =
     sbind (ledger_call g w (\<lambda>now t. finish_delivery_materialization_records (ga_env g) now
       \<lparr>mc_delivery_key = dk, mc_item_key = ik, mc_claim_token = token, mc_status = status, mc_materialized_outbound = outbound,
        mc_cache_path = cache, mc_retryable = retryable, mc_last_error = last_error\<rparr>) infrastructure) (\<lambda>x. sreturn ())"

definition guard_drop :: "string list \<Rightarrow> string option \<Rightarrow> gate_effect list" where
  "guard_drop files dir = map CacheRemoved files @ (case dir of None \<Rightarrow> [] | Some d \<Rightarrow> [CacheDirRemoved (path_components d)])"

text \<open>\<^verbatim>\<open>AttachmentCacheGuard::disarm_path\<close>\<close>

definition disarm_path :: "string \<Rightarrow> string list \<times> string option \<Rightarrow> string list \<times> string option" where
  "disarm_path p guard = (let files = filter (\<lambda>f. path_components f \<noteq> path_components p) (fst guard)
     in (files, if files = [] then None else snd guard))"

definition first_path :: "outbound_message \<Rightarrow> string option" where
  "first_path m = (case out_attachments m of [] \<Rightarrow> None | a # as \<Rightarrow> get_str a ''path'')"

definition media_failed :: string where "media_failed = ''media attachment materialization failed''"
definition media_unconfigured :: string where "media_unconfigured = ''HarborBeacon media proxy is not configured''"

text \<open>Whatever happens after the fetch, the guard removes the files that were not handed over.\<close>

definition store_materialized ::
  "gate \<Rightarrow> gate_world \<Rightarrow> string \<Rightarrow> string \<Rightarrow> string \<Rightarrow> outbound_message \<Rightarrow> materialized \<Rightarrow> outbound_message action" where
  "store_materialized g w dk ik token m mat s =
    (let dropped = guard_drop (mt_cache_files mat) (mt_cache_dir mat) in
     if mt_failed_count mat > 0 \<or> length (mt_attachments mat) \<noteq> 1 then
       sbind (\<lambda>s. case materialization_settle g w dk ik token ''failed'' None None True (Some media_failed) s of
           (r, s1) \<Rightarrow> (r, s1\<lparr>dt_effects := dt_effects s1 @ dropped\<rparr>)) (\<lambda>u. sfail (infrastructure media_failed)) s
     else
      (let m' = m\<lparr>out_attachments := mt_attachments mat\<rparr> in
       case first_path m' of
         None \<Rightarrow> sbind (emit dropped) (\<lambda>u. sfail (infrastructure ''materialized delivery item is missing its trusted cache path'')) s
       | Some cache \<Rightarrow> (case materialization_settle g w dk ik token ''materialized'' (Some (outbound_to_value m'))
             (Some cache) True None s of
             (Inl e, s1) \<Rightarrow> (Inl e, s1\<lparr>dt_effects := dt_effects s1 @ dropped\<rparr>)
           | (Inr u, s1) \<Rightarrow> (let (files, dir) = disarm_path cache (mt_cache_files mat, mt_cache_dir mat)
               in (Inr m', s1\<lparr>dt_effects := dt_effects s1 @ guard_drop files dir\<rparr>)))))"

definition fetch_authorized ::
  "gate \<Rightarrow> gate_world \<Rightarrow> string \<Rightarrow> string \<Rightarrow> string \<Rightarrow> outbound_message \<Rightarrow> gateway_error + unit \<Rightarrow> outbound_message action" where
  "fetch_authorized g w dk ik token m auth = (case auth of
      Inl e \<Rightarrow> sbind (materialization_settle g w dk ik token ''failed'' None None
          (snd (map_delivery_failure (ga_content g) (err_message e))) (Some (err_message e))) (\<lambda>u. sfail e)
    | Inr u \<Rightarrow> sbind (ask (\<lambda>n. gw_task_client w n m)) (\<lambda>client. case client of
          None \<Rightarrow> sbind (materialization_settle g w dk ik token ''failed'' None None True (Some media_unconfigured))
            (\<lambda>u. sfail (infrastructure media_unconfigured))
        | Some c \<Rightarrow> sbind (ask (\<lambda>n. gw_materialize w n c (out_attachments m) (delivery_idempotency_cache_segment (ga_content g) dk)))
          (store_materialized g w dk ik token m)))"

definition fetch_media :: "gate \<Rightarrow> gate_world \<Rightarrow> string \<Rightarrow> string \<Rightarrow> string \<Rightarrow> outbound_message \<Rightarrow> outbound_message action" where
  "fetch_media g w dk ik token m =
    sbind (if out_platform m = ''whatsapp'' then ask (\<lambda>n. gw_authorize w n m) else sreturn (Inr ()))
      (fetch_authorized g w dk ik token m)"

definition materialize_delivery_item :: "gate \<Rightarrow> gate_world \<Rightarrow> string \<Rightarrow> string \<Rightarrow> outbound_message \<Rightarrow> outbound_message action" where
  "materialize_delivery_item g w dk ik m =
    (if \<not> delivery_item_requires_materialization (ga_adapter g) m then sreturn m
     else
      sbind (ledger_call g w (\<lambda>now token. claim_delivery_materialization_records (ga_env g) now token dk ik
          (ga_instance g) (ga_lease g)) infrastructure) (\<lambda>claim.
      let verdict = get_str claim ''claim'' in
      if verdict = Some ''materialized'' then (case jpointer [''item'', ''materialized_outbound''] claim of
          None \<Rightarrow> sfail (infrastructure ''materialized delivery item is missing its outbound payload'')
        | Some v \<Rightarrow> (case ga_decode g v of Inl msg \<Rightarrow> sfail (infrastructure msg) | Inr m' \<Rightarrow> sreturn m'))
      else if verdict = Some ''not_required'' then sreturn m
      else if verdict = Some ''terminal_failed'' then
        sfail (gateway_error_new 422 ''DELIVERY_MATERIALIZATION_TERMINAL_FAILED''
          (or_else ''delivery materialization previously failed terminally''
            (point_str [''item'', ''materialization'', ''last_error''] claim)))
      else if verdict = Some ''busy'' then sfail (infrastructure ''delivery item is already being materialized'')
      else if verdict = Some ''claimed'' then (case filled (get_str claim ''claim_token'') of
          None \<Rightarrow> sfail (infrastructure ''delivery materialization claim is missing a fencing token'')
        | Some token \<Rightarrow> fetch_media g w dk ik token m)
      else sfail (infrastructure ''delivery materialization ledger returned an invalid claim'')))"

section \<open>One item\<close>

definition with_item_key :: "string \<Rightarrow> string \<Rightarrow> outbound_message \<Rightarrow> outbound_message" where
  "with_item_key dk ik m = m\<lparr>
     out_metadata := oput ''delivery_item_key'' (JStr ik) (oput ''delivery_key'' (JStr dk) (out_metadata m)),
     out_attachments := (case out_attachments m of
         JObj a # as \<Rightarrow> (case oget a ''metadata'' of
             Some (JObj md) \<Rightarrow> JObj (oput ''metadata'' (JObj (oput ''delivery_item_key'' (JStr ik) md)) a) # as
           | _ \<Rightarrow> JObj a # as)
       | as \<Rightarrow> as)\<rparr>"

text \<open>The native stage and, where it applies, the fallback to a plain file.\<close>

definition send_item ::
  "gate \<Rightarrow> gate_world \<Rightarrow> json \<Rightarrow> string \<Rightarrow> string \<Rightarrow> string \<Rightarrow> outbound_message \<Rightarrow>
   ((gateway_error + json) \<times> prepared_outbound option \<times> bool) action" where
  "send_item g w claim dk ik token m =
    (let m = with_item_key dk ik m; fallback = native_video_file_fallback m;
         request = (\<lambda>stage. \<lparr>sr_claim = claim, sr_delivery_key = dk, sr_item_key = ik, sr_claim_token = token, sr_stage = stage\<rparr>);
         send_fallback = (\<lambda>f. sbind (send_delivery_stage g w (request ''fallback'') f) (\<lambda>(res, p). sreturn (res, p, True))) in
     if point_str [''item'', ''stages'', ''native'', ''status''] claim = Some ''unsupported'' then
       (case fallback of
          Some f \<Rightarrow> send_fallback f
        | None \<Rightarrow> sreturn (Inl (infrastructure ''native delivery is unsupported and no fallback is available''), None, False))
     else sbind (send_delivery_stage g w (request ''native'') m) (\<lambda>(res, p). case (res, fallback) of
         (Inl e, Some f) \<Rightarrow> if should_fallback_to_file e then send_fallback f else sreturn (res, p, False)
       | _ \<Rightarrow> sreturn (res, p, False)))"

definition completion_of ::
  "gate \<Rightarrow> string \<Rightarrow> string \<Rightarrow> string \<Rightarrow> gateway_error + json \<Rightarrow> prepared_outbound option \<Rightarrow> bool \<Rightarrow> item_completion" where
  "completion_of g dk ik token result prepared fallback_used = (case result of
      Inr response \<Rightarrow> \<lparr>ic_delivery_key = dk, ic_item_key = ik, ic_claim_token = token, ic_status = ''succeeded'',
        ic_provider_media_id = or_opt (filled (response_media response)) (map_option provider_media_id prepared),
        ic_provider_client_id = or_opt (filled (get_str response ''provider_client_id'')) (Option.bind prepared provider_client_id),
        ic_provider_message_id = response_message response, ic_retryable = False, ic_last_error = None,
        ic_fallback_used = fallback_used\<rparr>
    | Inl e \<Rightarrow> \<lparr>ic_delivery_key = dk, ic_item_key = ik, ic_claim_token = token, ic_status = ''failed'',
        ic_provider_media_id = map_option provider_media_id prepared,
        ic_provider_client_id = Option.bind prepared provider_client_id, ic_provider_message_id = None,
        ic_retryable = snd (map_delivery_failure (ga_content g) (err_message e)), ic_last_error = Some (err_message e),
        ic_fallback_used = fallback_used\<rparr>)"

definition cleanup_attachment_cache :: "string \<Rightarrow> unit action" where
  "cleanup_attachment_cache p = emit (CacheRemoved p # (case path_parent (path_components p) of
      None \<Rightarrow> [] | Some d \<Rightarrow> [CacheDirRemoved d]))"

definition cleanup_terminal :: "string option \<Rightarrow> unit action" where
  "cleanup_terminal terminal = (case terminal of None \<Rightarrow> sreturn () | Some p \<Rightarrow> cleanup_attachment_cache p)"

definition cleanup_previous :: "json \<Rightarrow> string option \<Rightarrow> unit action" where
  "cleanup_previous claim cache_path = (case get_str claim ''previous_cache_path'' of
      None \<Rightarrow> sreturn ()
    | Some previous \<Rightarrow> if map_option path_components cache_path = Some (path_components previous) then sreturn ()
        else cleanup_attachment_cache previous)"

definition settle_item ::
  "gate \<Rightarrow> gate_world \<Rightarrow> json \<Rightarrow> string option \<Rightarrow> string \<Rightarrow> string \<Rightarrow> string \<Rightarrow>
   (gateway_error + json) \<times> prepared_outbound option \<times> bool \<Rightarrow> json action" where
  "settle_item g w claim cache_path dk ik token sent = (case sent of (result, prepared, fallback_used) \<Rightarrow>
     sbind (ledger_call g w (\<lambda>now t. finish_delivery_item_records (ga_env g) now
        (completion_of g dk ik token result prepared fallback_used)) infrastructure) (\<lambda>terminal.
     sbind (cleanup_terminal terminal) (\<lambda>u.
     case result of
       Inl e \<Rightarrow> sfail e
     | Inr response \<Rightarrow> sbind (cleanup_previous claim cache_path) (\<lambda>u. sreturn response))))"

definition claim_conflict :: "string \<Rightarrow> gateway_error" where
  "claim_conflict msg = (if contains ''fingerprint conflict'' msg \<or> contains ''identity conflict'' msg
     then gateway_error_new 409 ''IDEMPOTENCY_CONFLICT'' ''delivery key was reused with a different effective request''
     else infrastructure msg)"

definition recorded_response :: "json \<Rightarrow> json" where
  "recorded_response claim = (let at = (\<lambda>k. or_else JNull (jpointer [''item'', k] claim)) in
     jobj [(''message_id'', at ''provider_message_id''), (''provider_message_id'', at ''provider_message_id''),
           (''provider_media_id'', at ''provider_media_id''), (''provider_client_id'', at ''provider_client_id'')])"

definition terminal_failure :: "json \<Rightarrow> gateway_error" where
  "terminal_failure claim = (let item = or_else JNull (jget claim ''item'') in
     with_delivery_failure item (gateway_error_new 422 ''DELIVERY_TERMINAL_FAILED''
       (or_else ''delivery item previously failed terminally'' (nonempty_trim (get_str item ''last_error'')))))"

text \<open>What the answer to the claim leads to.\<close>

definition after_claim ::
  "gate \<Rightarrow> gate_world \<Rightarrow> string \<Rightarrow> string \<Rightarrow> string option \<Rightarrow> outbound_message \<Rightarrow> json \<Rightarrow> json action" where
  "after_claim g w dk ik cache_path m claim =
    (let verdict = get_str claim ''claim'' in
     if verdict = Some ''succeeded'' then sreturn (recorded_response claim)
     else if verdict = Some ''terminal_failed'' then sfail (terminal_failure claim)
     else if verdict = Some ''busy'' then sfail (infrastructure ''delivery item is already being sent'')
     else if verdict = Some ''claimed'' then (case nonempty_trim (get_str claim ''claim_token'') of
         None \<Rightarrow> sfail (infrastructure ''delivery item ledger returned a claim without a fencing token'')
       | Some token \<Rightarrow> sbind (send_item g w claim dk ik token m) (settle_item g w claim cache_path dk ik token))
     else sfail (infrastructure ''delivery item ledger returned an invalid claim''))"

definition claim_for :: "gate \<Rightarrow> gate_world \<Rightarrow> string \<Rightarrow> string \<Rightarrow> delivery_item \<Rightarrow> string option \<Rightarrow> json action" where
  "claim_for g w dk request_fingerprint item cache_path = (case item of (identity, artifact_id, kind, m) \<Rightarrow>
     ledger_call g w (\<lambda>now token. claim_delivery_item_records (ga_env g) now token
        \<lparr>cr_delivery_key = dk, cr_request_fingerprint = request_fingerprint,
         cr_item_key = delivery_item_key dk identity, cr_artifact_id = artifact_id, cr_kind = kind,
         cr_owner = ga_instance g, cr_cache_path = cache_path, cr_lease_seconds = ga_lease g\<rparr>) claim_conflict)"

definition deliver_item :: "gate \<Rightarrow> gate_world \<Rightarrow> string \<Rightarrow> string \<Rightarrow> delivery_item \<Rightarrow> json action" where
  "deliver_item g w dk request_fingerprint item = (case item of (identity, artifact_id, kind, m) \<Rightarrow>
     let ik = delivery_item_key dk identity in
     sbind (materialize_delivery_item g w dk ik m) (\<lambda>m'.
     let cache_path = nonempty_trim (first_path m') in
     sbind (claim_for g w dk request_fingerprint item cache_path) (after_claim g w dk ik cache_path m')))"

fun deliver_loop :: "gate \<Rightarrow> gate_world \<Rightarrow> string \<Rightarrow> string \<Rightarrow> json \<Rightarrow> delivery_item list \<Rightarrow> json action" where
  "deliver_loop g w dk fp prev [] = sreturn prev"
| "deliver_loop g w dk fp prev (item # items) = sbind (deliver_item g w dk fp item) (\<lambda>r. deliver_loop g w dk fp r items)"

section \<open>The whole delivery\<close>

definition plan_conflict :: "string \<Rightarrow> gateway_error" where
  "plan_conflict msg = (if contains ''conflict'' msg
     then gateway_error_new 409 ''IDEMPOTENCY_CONFLICT'' ''delivery key was reused with a different effective plan''
     else infrastructure msg)"

definition plan_items :: "gate \<Rightarrow> string \<Rightarrow> delivery_item list \<Rightarrow> plan_item list" where
  "plan_items g dk items = map (\<lambda>(identity, artifact_id, kind, m). \<lparr>pi_item_key = delivery_item_key dk identity,
     pi_artifact_id = artifact_id, pi_kind = kind, pi_planned_outbound = outbound_to_value m,
     pi_materialization_required = delivery_item_requires_materialization (ga_adapter g) m\<rparr>) items"

text \<open>Without a delivery key the message is sent once, outside the ledger.\<close>

definition deliver_unrecorded :: "gate_world \<Rightarrow> outbound_message \<Rightarrow> json action" where
  "deliver_unrecorded w m = sbind (ask (\<lambda>n. gw_authorize w n m)) (\<lambda>a. case a of
      Inl e \<Rightarrow> sfail e
    | Inr u \<Rightarrow> sbind (emit [SentPlain m]) (\<lambda>u. sbind (ask (\<lambda>n. gw_send_plain w n m)) (\<lambda>r. case r of
          Inl e \<Rightarrow> sfail e | Inr v \<Rightarrow> sreturn v)))"

definition deliver_outbound_items :: "gate \<Rightarrow> gate_world \<Rightarrow> outbound_message \<Rightarrow> string \<Rightarrow> string \<Rightarrow> json action" where
  "deliver_outbound_items g w m dk fp =
    (if trim dk = [] then
       (if out_platform m = ''whatsapp'' then sfail (gateway_error_new 403 ''IM_DELIVERY_NOT_ALLOWED''
            ''WhatsApp delivery permission requires a persistent delivery reference'')
        else deliver_unrecorded w m)
     else (case split_outbound_items m of
         Inl e \<Rightarrow> sfail e
       | Inr items \<Rightarrow> sbind (ledger_call g w (\<lambda>now token. persist_delivery_plan_records (ga_env g) now dk fp
             (outbound_to_value m) (plan_items g dk items)) plan_conflict) (\<lambda>u. deliver_loop g w dk fp (JObj []) items)))"

end
