(* ===== verification/Gateway_Engine.thy ===== *)
theory Gateway_Engine
  imports Gateway_Delivery
begin

text \<open>
  What a run of the delivery engine of \<open>Gateway_Delivery\<close> keeps. The locale is the contract between the engine
  and an invariant: a relation between the states before and after that every ledger operation and every allowed
  effect respects is respected by each part of the engine. Its interpretations are the facts on the items of
  the ledger; the postconditions of the parts follow.
\<close>

section \<open>Actions and relations\<close>

definition keeps :: "(delivery_state \<Rightarrow> delivery_state \<Rightarrow> bool) \<Rightarrow> 'a action \<Rightarrow> bool" where
  "keeps R m \<longleftrightarrow> (\<forall>s. R s (snd (m s)))"

text \<open>The ledger part of an action is an operation of the ledger.\<close>

definition ledger_action :: "gate_env \<Rightarrow> (instant \<Rightarrow> string \<Rightarrow> jmap \<Rightarrow> store_error + ('r \<times> jmap option)) \<Rightarrow> bool" where
  "ledger_action env act \<longleftrightarrow> (\<forall>now token r. \<exists>ops. written r (act now token r) = ledger_run env ops r)"

lemma keepsD: "keeps R m \<Longrightarrow> m s = (x, s') \<Longrightarrow> R s s'"
  by (simp add: keeps_def) (metis snd_conv)

lemma ledger_actionI:
  "(\<And>now token r. written r (act now token r) = ledger_step env now (op now token) r) \<Longrightarrow> ledger_action env act"
  unfolding ledger_action_def by (metis ledger_run.simps)

named_theorems ledger_actions

lemma plan_action [ledger_actions]:
  "ledger_action env (\<lambda>now token. persist_delivery_plan_records env now dk fp out items)"
  by (rule ledger_actionI [where op = "\<lambda>now token. Plan dk fp out items"]) simp

lemma claim_action [ledger_actions]: "ledger_action env (\<lambda>now token. claim_delivery_item_records env now token req)"
  by (rule ledger_actionI [where op = "\<lambda>now token. Claim token req"]) simp

lemma claim_materialization_action [ledger_actions]:
  "ledger_action env (\<lambda>now token. claim_delivery_materialization_records env now token dk ik owner lease)"
  by (rule ledger_actionI [where op = "\<lambda>now token. ClaimMaterialization token dk ik owner lease"]) simp

lemma finish_materialization_action:
  "mc_status c = ''materialized'' \<or> mc_status c = ''failed'' \<Longrightarrow>
   ledger_action env (\<lambda>now token. finish_delivery_materialization_records env now c)"
  by (rule ledger_actionI [where op = "\<lambda>now token. FinishMaterialization c"]) auto

lemma upload_action [ledger_actions]: "ledger_action env (\<lambda>now token. record_delivery_item_upload_records env now u)"
  by (rule ledger_actionI [where op = "\<lambda>now token. Upload u"]) simp

lemma finish_stage_action [ledger_actions]: "ledger_action env (\<lambda>now token. finish_delivery_stage_records env now c)"
  by (rule ledger_actionI [where op = "\<lambda>now token. FinishStage c"]) simp

lemma finish_item_action [ledger_actions]: "ledger_action env (\<lambda>now token. finish_delivery_item_records env now c)"
  by (rule ledger_actionI [where op = "\<lambda>now token. FinishItem c"]) simp

lemma ledger_run_append: "ledger_run env (xs @ ys) r = ledger_run env ys (ledger_run env xs r)"
  by (induction env xs r rule: ledger_run.induct) simp_all

text \<open>A ledger call: the operations of the others, then its own unless it failed.\<close>

lemma ledger_call_run:
  assumes "ledger_action (ga_env g) act"
  shows "\<exists>ops. snd (ledger_call g w act err s) = s\<lparr>dt_step := Suc (dt_step s), dt_records := ledger_run (ga_env g) ops (dt_records s)\<rparr>"
proof -
  let ?n = "dt_step s" and ?others = "gw_others w (dt_step s)"
  let ?r = "ledger_run (ga_env g) ?others (dt_records s)"
  obtain ops where ops: "written ?r (act (gw_now w ?n) (gw_token w ?n) ?r) = ledger_run (ga_env g) ops ?r"
    using assms unfolding ledger_action_def by blast
  show ?thesis
  proof (cases "gw_store w ?n")
    case None
    have "snd (ledger_call g w act err s) = s\<lparr>dt_step := Suc ?n, dt_records := ledger_run (ga_env g) (?others @ ops) (dt_records s)\<rparr>"
      using None ops by (auto simp: ledger_call_def Let_def ledger_run_append written_def split: sum.splits option.splits store_error.splits)
    then show ?thesis by blast
  next
    case (Some msg)
    then have "snd (ledger_call g w act err s) = s\<lparr>dt_step := Suc ?n, dt_records := ledger_run (ga_env g) ?others (dt_records s)\<rparr>"
      by (simp add: ledger_call_def Let_def)
    then show ?thesis by blast
  qed
qed

text \<open>A ledger call that answered: what it found and what it left.\<close>

lemma ledger_call_Inr:
  assumes "ledger_call g w act err s = (Inr x, s')"
  defines "r \<equiv> ledger_run (ga_env g) (gw_others w (dt_step s)) (dt_records s)"
  shows "\<exists>o'. act (gw_now w (dt_step s)) (gw_token w (dt_step s)) r = Inr (x, o')
     \<and> s' = s\<lparr>dt_step := Suc (dt_step s), dt_records := (case o' of None \<Rightarrow> r | Some r' \<Rightarrow> r')\<rparr>"
  using assms by (auto simp: ledger_call_def Let_def split: sum.splits option.splits store_error.splits)

lemma sbind_Inr:
  "sbind m f s = (Inr y, s') \<longleftrightarrow> (\<exists>x s1. m s = (Inr x, s1) \<and> f x s1 = (Inr y, s'))"
  by (auto simp: sbind_def split: prod.splits sum.splits)

lemma sbind_cases:
  assumes "sbind m f s = (y, s')"
  obtains e where "m s = (Inl e, s')" "y = Inl e" | x s1 where "m s = (Inr x, s1)" "f x s1 = (y, s')"
  using assms by (auto simp: sbind_def split: prod.splits sum.splits)

section \<open>The contract of an invariant\<close>

locale engine_relation =
  fixes env :: gate_env and allowed :: "gate_effect \<Rightarrow> bool" and R :: "delivery_state \<Rightarrow> delivery_state \<Rightarrow> bool"
  assumes refl: "R s s"
    and trans: "R s t \<Longrightarrow> R t u \<Longrightarrow> R s u"
    and run: "dt_step s \<le> n \<Longrightarrow> R s (s\<lparr>dt_step := n, dt_records := ledger_run env ops (dt_records s)\<rparr>)"
    and effects: "list_all allowed fx \<Longrightarrow> R s (s\<lparr>dt_effects := dt_effects s @ fx\<rparr>)"
    and removal: "allowed (CacheRemoved f)" "allowed (CacheDirRemoved d)"
begin

lemma keeps_bind: "keeps R m \<Longrightarrow> (\<And>x. keeps R (f x)) \<Longrightarrow> keeps R (sbind m f)"
  unfolding keeps_def sbind_def by (auto split: prod.splits sum.splits) (metis snd_conv, metis snd_conv trans)

lemma keeps_return: "keeps R (sreturn x)"
  by (simp add: keeps_def sreturn_def refl)

lemma keeps_fail: "keeps R (sfail e)"
  by (simp add: keeps_def sfail_def refl)

lemma keeps_ask: "keeps R (ask f)"
  unfolding keeps_def ask_def using run [where ops = "[]"] by simp

lemma keeps_emit: "list_all allowed fx \<Longrightarrow> keeps R (emit fx)"
  by (simp add: keeps_def emit_def effects)

lemma keeps_ledger: "ga_env g = env \<Longrightarrow> ledger_action (ga_env g) act \<Longrightarrow> keeps R (ledger_call g w act err)"
  unfolding keeps_def by (metis ledger_call_run run le_SucI le_refl)

lemma keeps_after: "keeps R m \<Longrightarrow> (\<And>s r s1. m s = (r, s1) \<Longrightarrow> R s1 (snd (h r s1))) \<Longrightarrow> keeps R (\<lambda>s. case m s of (r, s1) \<Rightarrow> h r s1)"
  unfolding keeps_def by (auto split: prod.splits) (metis snd_conv trans)

lemmas keeping = keeps_bind keeps_return keeps_fail keeps_ask keeps_emit keeps_ledger

lemma dropped: "list_all allowed (guard_drop files dir)"
  by (auto simp: guard_drop_def removal list_all_iff split: option.splits)

lemma keeps_settle: "ga_env g = env \<Longrightarrow> status = ''materialized'' \<or> status = ''failed'' \<Longrightarrow>
  keeps R (materialization_settle g w dk ik token status out cache retryable err)"
  unfolding materialization_settle_def
  by (intro keeping finish_materialization_action) auto

lemma keeps_store_materialized:
  assumes "ga_env g = env"
  shows "keeps R (store_materialized g w dk ik token m mat)"
proof -
  let ?fx = "guard_drop (mt_cache_files mat) (mt_cache_dir mat)"
  have drop: "R s (s1\<lparr>dt_effects := dt_effects s1 @ guard_drop files dir\<rparr>)" if "R s s1" for s s1 files dir
    using that effects [OF dropped] by (rule trans)
  have failed: "keeps R (\<lambda>s. case materialization_settle g w dk ik token ''failed'' None None True (Some media_failed) s of
      (r, s1) \<Rightarrow> (r, s1\<lparr>dt_effects := dt_effects s1 @ ?fx\<rparr>))"
    by (rule keeps_after) (simp_all add: keeps_settle assms effects [OF dropped])
  have stored: "R s s1" if "materialization_settle g w dk ik token ''materialized'' out cache True None s = (r, s1)" for s r s1 out cache
    using keepsD [OF keeps_settle [OF assms] that] by simp
  have "R s (snd (store_materialized g w dk ik token m mat s))" for s
  proof (cases "mt_failed_count mat > 0 \<or> length (mt_attachments mat) \<noteq> 1")
    case True
    have "keeps R (sbind (\<lambda>s. case materialization_settle g w dk ik token ''failed'' None None True (Some media_failed) s of
      (r, s1) \<Rightarrow> (r, s1\<lparr>dt_effects := dt_effects s1 @ ?fx\<rparr>)) (\<lambda>u. sfail (infrastructure media_failed) :: outbound_message action))"
      by (intro keeps_bind failed keeps_fail)
    with True show ?thesis by (simp add: store_materialized_def Let_def keeps_def)
  next
    case False
    have "keeps R (sbind (emit ?fx) (\<lambda>u. sfail (infrastructure ''materialized delivery item is missing its trusted cache path'') :: outbound_message action))"
      by (intro keeping dropped)
    with False show ?thesis
      by (auto simp: store_materialized_def Let_def keeps_def intro: drop stored split: option.splits prod.splits sum.splits)
  qed
  then show ?thesis by (simp add: keeps_def)
qed

lemma keeps_fetch: "ga_env g = env \<Longrightarrow> keeps R (fetch_media g w dk ik token m)"
  unfolding fetch_media_def fetch_authorized_def
  by (auto intro!: keeping keeps_settle keeps_store_materialized split: sum.splits option.splits)

lemma keeps_materialize: "ga_env g = env \<Longrightarrow> keeps R (materialize_delivery_item g w dk ik m)"
  unfolding materialize_delivery_item_def
  by (auto simp: Let_def intro!: keeping keeps_fetch ledger_actions split: sum.splits option.splits)

lemma keeps_cleanup: "keeps R (cleanup_attachment_cache p)"
  unfolding cleanup_attachment_cache_def by (rule keeps_emit) (simp add: removal split: option.splits)

lemma keeps_settle_item: "ga_env g = env \<Longrightarrow> keeps R (settle_item g w claim cache dk ik token sent)"
  unfolding settle_item_def cleanup_terminal_def cleanup_previous_def
  by (auto intro!: keeping keeps_cleanup ledger_actions split: sum.splits option.splits prod.splits)

lemma keeps_record_upload: "ga_env g = env \<Longrightarrow> keeps R (record_upload g w r p)"
  using keeps_ledger [OF _ upload_action, of g]
  by (auto simp: keeps_def record_upload_def split: prod.splits sum.splits gate_error.splits) (metis snd_conv)+

lemma keeps_settle_stage: "ga_env g = env \<Longrightarrow> keeps R (settle_stage g w r result p)"
  using keeps_ledger [OF _ finish_stage_action, of g]
  by (auto simp: keeps_def settle_stage_def split: prod.splits sum.splits gate_error.splits) (metis snd_conv)+

text \<open>Sending is respected where the relation allows it.\<close>

lemma keeps_send_prepared:
  "(\<And>m p. allowed (Sent (sr_delivery_key r) (sr_item_key r) (sr_claim_token r) m p)) \<Longrightarrow> keeps R (send_prepared w r m p)"
  unfolding send_prepared_def by (intro keeping) simp

lemma keeps_authorized_send:
  "(\<And>m p. allowed (Sent (sr_delivery_key r) (sr_item_key r) (sr_claim_token r) m p)) \<Longrightarrow> keeps R (authorized_send w r m p)"
  unfolding authorized_send_def by (auto intro!: keeping keeps_send_prepared split: sum.splits)

lemma keeps_attempt:
  assumes "ga_env g = env"
    and "\<And>m p. allowed (Sent (sr_delivery_key r) (sr_item_key r) (sr_claim_token r) m p)"
  shows "keeps R (attempt_stage g w r m)"
  unfolding attempt_stage_def Let_def
  by (auto intro!: keeping keeps_send_prepared keeps_authorized_send keeps_record_upload assms split: sum.splits option.splits)

lemma keeps_stage:
  assumes "ga_env g = env" "keeps R (attempt_stage g w r m)"
  shows "keeps R (send_delivery_stage g w r m)"
  unfolding send_delivery_stage_def
  by (auto intro!: keeping keeps_settle_stage assms split: sum.splits prod.splits)

lemma keeps_send_item:
  assumes "ga_env g = env"
    and "\<And>r m. sr_delivery_key r = dk \<Longrightarrow> sr_item_key r = ik \<Longrightarrow> keeps R (attempt_stage g w r m)"
  shows "keeps R (send_item g w claim dk ik token m)"
  unfolding send_item_def Let_def
  by (auto intro!: keeping keeps_stage assms split: sum.splits option.splits prod.splits)

lemma keeps_after_claim:
  assumes "ga_env g = env"
    and "\<And>r m. sr_delivery_key r = dk \<Longrightarrow> sr_item_key r = ik \<Longrightarrow> keeps R (attempt_stage g w r m)"
  shows "keeps R (after_claim g w dk ik cache m claim)"
  unfolding after_claim_def Let_def
  by (auto intro!: keeping keeps_send_item keeps_settle_item assms split: option.splits)

lemma keeps_claim_for: "ga_env g = env \<Longrightarrow> keeps R (claim_for g w dk fp item cache)"
  unfolding claim_for_def by (auto intro!: keeping ledger_actions split: prod.splits)

lemma keeps_deliver_item_if:
  assumes "ga_env g = env"
    and "\<And>r m. sr_delivery_key r = dk \<Longrightarrow> sr_item_key r = delivery_item_key dk (fst item) \<Longrightarrow> keeps R (attempt_stage g w r m)"
  shows "keeps R (deliver_item g w dk fp item)"
  using assms(2) unfolding deliver_item_def Let_def
  by (auto intro!: keeping keeps_materialize keeps_claim_for keeps_after_claim assms(1) split: prod.splits)

lemma keeps_deliver_item:
  assumes "ga_env g = env" "\<And>t m p. allowed (Sent dk (delivery_item_key dk (fst item)) t m p)"
  shows "keeps R (deliver_item g w dk fp item)"
  by (rule keeps_deliver_item_if [OF assms(1)]) (simp add: keeps_attempt assms)

lemma keeps_loop:
  assumes "\<And>item. item \<in> set items \<Longrightarrow> keeps R (deliver_item g w dk fp item)"
  shows "keeps R (deliver_loop g w dk fp prev items)"
  using assms by (induction items arbitrary: prev) (simp_all add: keeping)

lemma keeps_delivery_if:
  assumes "ga_env g = env" "\<And>item. keeps R (deliver_item g w dk fp item)" "keeps R (deliver_unrecorded w m)"
  shows "keeps R (deliver_outbound_items g w m dk fp)"
  unfolding deliver_outbound_items_def
  by (auto intro!: keeping keeps_loop ledger_actions assms split: sum.splits)

lemma keeps_delivery:
  assumes "ga_env g = env" "\<And>item. keeps R (deliver_item g w dk fp item)" "\<And>m. allowed (SentPlain m)"
  shows "keeps R (deliver_outbound_items g w m dk fp)"
proof (rule keeps_delivery_if [OF assms(1,2)])
  show "keeps R (deliver_unrecorded w m)"
    unfolding deliver_unrecorded_def by (auto intro!: keeping assms(3) split: sum.splits)
qed

end

section \<open>What stays true of an item\<close>

definition item_at :: "(json \<Rightarrow> bool) \<Rightarrow> string \<Rightarrow> string \<Rightarrow> delivery_state \<Rightarrow> bool" where
  "item_at P dk ik s \<longleftrightarrow> (\<exists>i. find_item dk ik (dt_records s) = Some i \<and> P i)"

definition is_sent :: "string \<Rightarrow> string \<Rightarrow> gate_effect \<Rightarrow> bool" where
  "is_sent dk ik e \<longleftrightarrow> (\<exists>t m p. e = Sent dk ik t m p)"

definition sends :: "string \<Rightarrow> string \<Rightarrow> delivery_state \<Rightarrow> gate_effect list" where
  "sends dk ik s = filter (is_sent dk ik) (dt_effects s)"

text \<open>An item delivered before stays delivered and is not sent.\<close>

definition not_resent :: "string \<Rightarrow> string \<Rightarrow> delivery_state \<Rightarrow> delivery_state \<Rightarrow> bool" where
  "not_resent dk ik s s' \<longleftrightarrow> (item_at delivered dk ik s \<longrightarrow> item_at delivered dk ik s' \<and> sends dk ik s' = sends dk ik s)"

definition stays :: "(json \<Rightarrow> bool) \<Rightarrow> string \<Rightarrow> string \<Rightarrow> delivery_state \<Rightarrow> delivery_state \<Rightarrow> bool" where
  "stays P dk ik s s' \<longleftrightarrow> (item_at P dk ik s \<longrightarrow> item_at P dk ik s')"

lemma item_at_run:
  assumes "\<And>now op i i'. item_step env now op i i' \<Longrightarrow> P i \<Longrightarrow> P i'" "item_at P dk ik s"
  shows "item_at P dk ik (s\<lparr>dt_step := n, dt_records := ledger_run env ops (dt_records s)\<rparr>)"
proof -
  from assms(2) obtain i where "find_item dk ik (dt_records s) = Some i" "P i" by (auto simp: item_at_def)
  then have "\<exists>i'. find_item dk ik (ledger_run env ops (dt_records s)) = Some i' \<and> P i'"
    by (rule ledger_run_invariant [where P = P, rotated]) (rule assms(1))
  then show ?thesis by (simp add: item_at_def)
qed

lemma item_at_effects: "item_at P dk ik (s\<lparr>dt_effects := fx\<rparr>) = item_at P dk ik s"
  by (simp add: item_at_def)

lemma delivered_step: "item_step env now op i i' \<Longrightarrow> delivered i \<Longrightarrow> delivered i'"
  using item_step_delivered by blast

lemma settled_step: "item_step env now op i i' \<Longrightarrow> materialization_settled i \<Longrightarrow> materialization_settled i'"
  using item_step_settled settled_agree by blast

interpretation resend: engine_relation env "\<lambda>e. \<not> is_sent dk ik e" "not_resent dk ik" for env dk ik
proof unfold_locales
  fix s n ops show "not_resent dk ik s (s\<lparr>dt_step := n, dt_records := ledger_run env ops (dt_records s)\<rparr>)"
    using item_at_run [OF delivered_step] by (simp add: not_resent_def sends_def)
next
  fix fx s assume "list_all (\<lambda>e. \<not> is_sent dk ik e) fx"
  then have "filter (is_sent dk ik) fx = []" by (simp add: list_all_iff filter_empty_conv)
  then show "not_resent dk ik s (s\<lparr>dt_effects := dt_effects s @ fx\<rparr>)"
    by (simp add: not_resent_def sends_def item_at_effects)
qed (auto simp: not_resent_def is_sent_def)

interpretation final: engine_relation env "\<lambda>e. True" "stays delivered dk ik" for env dk ik
  by unfold_locales (auto simp: stays_def item_at_effects intro: item_at_run [OF delivered_step])

interpretation settled: engine_relation env "\<lambda>e. True" "stays materialization_settled dk ik" for env dk ik
  by unfold_locales (auto simp: stays_def item_at_effects intro: item_at_run [OF settled_step])

section \<open>A delivered item is not sent again\<close>

lemma claim_answer_None:
  assumes "claim_item env now token req i = Inr (a, None)"
  shows "get_str a ''claim'' \<noteq> Some ''claimed''"
    and "get_str a ''claim'' = Some ''succeeded'' \<Longrightarrow> get_str i ''status'' = Some ''succeeded''"
  using assms by (auto simp: claim_item_def Let_def get_str_def jobj_def split: if_splits)

lemma claim_records_None:
  assumes "claim_delivery_item_records env now token req r = Inr (a, None)"
  shows "get_str a ''claim'' \<noteq> Some ''claimed''"
    and "get_str a ''claim'' = Some ''succeeded'' \<Longrightarrow>
      \<exists>i. find_item (cr_delivery_key req) (cr_item_key req) r = Some i \<and> get_str i ''status'' = Some ''succeeded''"
proof -
  from assms obtain rm items i1 where rm: "claim_record env now req r = JObj rm" "oget rm ''items'' = Some (JObj items)"
    and bf: "bind_fingerprint (cr_request_fingerprint req) (claim_target env now req items) = Inr i1"
    and ci: "claim_item env now token req i1 = Inr (a, None)"
    by (auto simp: claim_delivery_item_records_def Let_def bind_eq_Some_conv dest!: jget_Some_obj split: option.splits)
  show "get_str a ''claim'' \<noteq> Some ''claimed''" by (rule claim_answer_None [OF ci])
  assume "get_str a ''claim'' = Some ''succeeded''"
  then have "get_str i1 ''status'' = Some ''succeeded''" by (rule claim_answer_None [OF ci])
  then have st: "get_str (claim_target env now req items) ''status'' = Some ''succeeded''"
    using agreeD [OF bind_fingerprint_agree [OF bf], of "''status''"] by (simp add: get_str_def)
  have "oget items (cr_item_key req) \<noteq> None"
  proof
    assume "oget items (cr_item_key req) = None"
    with st show False by (simp add: claim_target_def new_item_def get_str_def jobj_def)
  qed
  then obtain i where i: "oget items (cr_item_key req) = Some i" by blast
  with st show "\<exists>i. find_item (cr_delivery_key req) (cr_item_key req) r = Some i \<and> get_str i ''status'' = Some ''succeeded''"
    using claim_record_find [OF rm] by (simp add: claim_target_def)
qed

lemma delivered_claim_refused:
  assumes "claim_delivery_item_records env now token req r = Inr (a, o')"
    and "find_item (cr_delivery_key req) (cr_item_key req) r = Some i" "delivered i"
  shows "get_str a ''claim'' \<noteq> Some ''claimed''"
proof (cases o')
  case None
  with assms(1) show ?thesis using claim_records_None by blast
next
  case (Some r')
  with assms(1) have c: "claim_delivery_item_records env now token req r = Inr (a, Some r')" by simp
  from claim_records_written [OF c] obtain rm items i1 i' where
    rm: "claim_record env now req r = JObj rm" "oget rm ''items'' = Some (JObj items)"
    and bf: "bind_fingerprint (cr_request_fingerprint req) (claim_target env now req items) = Inr i1"
    and ci: "claim_item env now token req i1 = Inr (a, Some i')" by blast
  have "claim_target env now req items = i"
    using assms(2) claim_record_find [OF rm] by (simp add: claim_target_def)
  then have "delivered i1"
    using delivered_agree [OF assms(3) bind_fingerprint_agree] bf by simp
  with ci show ?thesis using delivered_not_claimed by blast
qed

lemma claim_for_refused:
  assumes "claim_for g w dk fp item cache s = (Inr claim, s1)" "item_at delivered dk (delivery_item_key dk (fst item)) s"
  shows "get_str claim ''claim'' \<noteq> Some ''claimed''"
proof -
  obtain identity artifact_id kind m where item: "item = (identity, artifact_id, kind, m)" by (cases item) blast
  let ?r = "ledger_run (ga_env g) (gw_others w (dt_step s)) (dt_records s)"
  have "item_at delivered dk (delivery_item_key dk identity) (s\<lparr>dt_step := 0, dt_records := ?r\<rparr>)"
    using assms(2) item by (intro item_at_run [OF delivered_step]) simp_all
  then obtain i where i: "find_item dk (delivery_item_key dk identity) ?r = Some i" "delivered i"
    by (auto simp: item_at_def)
  from ledger_call_Inr assms(1) item show ?thesis
    unfolding claim_for_def using delivered_claim_refused i by fastforce
qed

lemma after_claim_idle:
  "get_str claim ''claim'' \<noteq> Some ''claimed'' \<Longrightarrow> snd (after_claim g w dk ik cache m claim s) = s"
  by (simp add: after_claim_def Let_def sreturn_def sfail_def)

lemma not_resent_item: "keeps (not_resent dk ik) (deliver_item g w dk' fp item)"
proof (cases "(dk, ik) = (dk', delivery_item_key dk' (fst item))")
  case False
  then show ?thesis by (intro resend.keeps_deliver_item [OF HOL.refl]) (auto simp: is_sent_def)
next
  case True
  obtain identity artifact_id kind m where item: "item = (identity, artifact_id, kind, m)" by (cases item) blast
  have "keeps (not_resent dk ik) (sbind (claim_for g w dk fp item cache) (after_claim g w dk ik cache m'))" for cache m'
    unfolding keeps_def
  proof
    fix s
    show "not_resent dk ik s (snd (sbind (claim_for g w dk fp item cache) (after_claim g w dk ik cache m') s))"
    proof (cases "claim_for g w dk fp item cache s")
      case (Pair a s1)
      have kept: "not_resent dk ik s s1"
        using keepsD [OF resend.keeps_claim_for [OF HOL.refl] Pair] .
      show ?thesis
      proof (cases a)
        case (Inr claim)
        show ?thesis
        proof (cases "item_at delivered dk ik s")
          case held: True
          with Pair Inr True have "get_str claim ''claim'' \<noteq> Some ''claimed''"
            by (intro claim_for_refused [of g w dk fp item cache s claim s1]) auto
          with Pair Inr kept show ?thesis by (simp add: sbind_def after_claim_idle)
        qed (simp add: not_resent_def)
      qed (use Pair kept in \<open>simp add: sbind_def\<close>)
    qed
  qed
  with True item show ?thesis
    by (auto simp: deliver_item_def Let_def intro: resend.keeps_bind [OF resend.keeps_materialize [OF HOL.refl]])
qed

lemma not_resent_delivery: "keeps (not_resent dk ik) (deliver_outbound_items g w m dk' fp)"
  by (rule resend.keeps_delivery [OF HOL.refl not_resent_item]) (simp add: is_sent_def)

lemma stays_delivered: "keeps (stays delivered dk ik) (deliver_loop g w dk' fp prev items)"
  by (intro final.keeps_loop final.keeps_deliver_item) simp_all

section \<open>An accepted delivery is recorded\<close>

text \<open>No fetch of this item's media is open or still to come.\<close>

definition media_clear :: "json option \<Rightarrow> bool" where
  "media_clear i = (case i of None \<Rightarrow> True | Some i \<Rightarrow> jget i ''materialization'' = None \<or> materialization_settled i)"

lemma plan_one_settles:
  assumes "plan_one env now fp p items = Inr items'" "\<not> pi_materialization_required p" "media_clear (oget items (pi_item_key p))"
  shows "\<exists>i. oget items' (pi_item_key p) = Some i \<and> materialization_settled i"
proof -
  have new: "materialization_settled (planned_item env now fp p)"
    using assms(2) by (simp add: materialization_settled_def planned_item_def materialization_value_def jobj_def)
  define i0 where "i0 = (case oget items (pi_item_key p) of Some i \<Rightarrow> i | None \<Rightarrow> planned_item env now fp p)"
  from assms(1) obtain i1 i2 where i1: "jset_if_missing ''planned_outbound'' (pi_planned_outbound p) i0 = Inr i1"
    and i2: "jset_if_missing ''materialization'' (materialization_value env now False) i1 = Inr i2"
    and items': "items' = oput (pi_item_key p) i2 items"
    using assms(2) by (auto simp: plan_one_def Let_def i0_def)
  have "jget i0 ''materialization'' = None \<or> materialization_settled i0"
    using new assms(3) by (auto simp: i0_def media_clear_def split: option.splits)
  then have "materialization_settled i2"
    using jget_jset_if_missing [OF i1, of "''materialization''"] jget_jset_if_missing [OF i2, of "''materialization''"]
    by (auto simp: materialization_settled_def materialization_value_def jobj_def split: option.splits)
  with items' show ?thesis by simp
qed

lemma plan_one_other: "plan_one env now fp p items = Inr items' \<Longrightarrow> pi_item_key p \<noteq> k \<Longrightarrow> oget items' k = oget items k"
  by (auto simp: plan_one_def Let_def)

lemma plan_all_settles:
  assumes "plan_all env now fp ps items = Inr items'" "p \<in> set ps" "distinct (map pi_item_key ps)"
    and "\<not> pi_materialization_required p" "media_clear (oget items (pi_item_key p))"
  shows "\<exists>i. oget items' (pi_item_key p) = Some i \<and> materialization_settled i"
  using assms
proof (induction ps arbitrary: items)
  case (Cons q ps)
  from Cons.prems(1) obtain items1 where one: "plan_one env now fp q items = Inr items1"
    and rest: "plan_all env now fp ps items1 = Inr items'" by auto
  show ?case
  proof (cases "p = q")
    case True
    from plan_one_settles [OF one] Cons.prems(4,5) True obtain i where
      i: "oget items1 (pi_item_key p) = Some i" "materialization_settled i" by auto
    from plan_all_keeps [OF rest i(1)] i(2) show ?thesis by (fastforce simp: materialization_settled_def)
  next
    case False
    with Cons.prems have "p \<in> set ps" "pi_item_key q \<noteq> pi_item_key p" by auto
    with Cons rest plan_one_other [OF one] show ?thesis by auto
  qed
qed simp

lemma plan_settles:
  assumes "persist_delivery_plan_records env now dk fp out ps r = Inr (u, o')" "p \<in> set ps" "distinct (map pi_item_key ps)"
    and "\<not> pi_materialization_required p" "media_clear (find_item dk (pi_item_key p) r)"
  shows "\<exists>r' i. o' = Some r' \<and> find_item dk (pi_item_key p) r' = Some i \<and> materialization_settled i"
proof -
  from assms(1) obtain record1 items0 items1 record2 record3 where
    r1: "jset_if_missing ''planned_outbound'' out (plan_record env now dk fp out r) = Inr record1"
    and it: "jget record1 ''items'' = Some (JObj items0)"
    and pl: "plan_all env now fp ps items0 = Inr items1"
    and r2: "jset ''items'' (JObj items1) record1 = Inr record2"
    and r3: "jset ''updated_at'' (JStr (utc_now_iso env now)) record2 = Inr record3"
    and o': "o' = Some (oput dk record3 r)"
    by (auto simp: persist_delivery_plan_records_def Let_def bind_eq_Some_conv)
  have "jget (plan_record env now dk fp out r) ''items'' = Some (JObj items0)"
    using jget_jset_if_missing [OF r1, of "''items''"] it by simp
  then have "oget items0 (pi_item_key p) = find_item dk (pi_item_key p) r"
    by (auto simp: plan_record_def find_item_def new_record_def jobj_def split: option.splits)
  with assms(5) have "media_clear (oget items0 (pi_item_key p))" by simp
  from plan_all_settles [OF pl assms(2-4) this] obtain i where
    i: "oget items1 (pi_item_key p) = Some i" "materialization_settled i" by blast
  have "jget record3 ''items'' = Some (JObj items1)"
    using jget_jset [OF r3, of "''items''"] jget_jset [OF r2, of "''items''"] by simp
  with o' i show ?thesis by (simp add: find_item_def)
qed

lemma materialized_settled:
  assumes "materialization_finished env now c mat i = Inr i'" "mc_status c = ''materialized''"
  shows "materialization_settled i'"
proof -
  have "jget i' ''materialization'' = Some (JObj (oputs
        [(''status'', JStr (mc_status c)), (''retryable'', JBool (mc_retryable c)),
         (''last_error'', jstr_opt (mc_last_error c)), (''owner'', JNull), (''claim_token'', JNull),
         (''claim_expires_at'', JNull), (''updated_at'', JStr (utc_now_iso env now))] mat))"
    using assms(1) by (auto simp: materialization_finished_def Let_def jget_jset split: option.splits)
  with assms(2) show ?thesis by (simp add: materialization_settled_def)
qed

lemma settle_settles:
  assumes "materialization_settle g w dk ik token ''materialized'' out cache retryable err s = (Inr u, s1)"
  shows "item_at materialization_settled dk ik s1"
proof -
  from assms obtain x where c: "ledger_call g w (\<lambda>now t. finish_delivery_materialization_records (ga_env g) now
       \<lparr>mc_delivery_key = dk, mc_item_key = ik, mc_claim_token = token, mc_status = ''materialized'',
        mc_materialized_outbound = out, mc_cache_path = cache, mc_retryable = retryable, mc_last_error = err\<rparr>) infrastructure s
      = (Inr x, s1)"
    by (auto simp: materialization_settle_def sbind_Inr sreturn_def)
  from ledger_call_Inr [OF c] obtain now r o' where
    f: "finish_delivery_materialization_records (ga_env g) now
       \<lparr>mc_delivery_key = dk, mc_item_key = ik, mc_claim_token = token, mc_status = ''materialized'',
        mc_materialized_outbound = out, mc_cache_path = cache, mc_retryable = retryable, mc_last_error = err\<rparr> r = Inr (x, o')"
    and s1: "dt_records s1 = (case o' of None \<Rightarrow> r | Some r' \<Rightarrow> r')" by force
  from f obtain i mat i' where i: "find_item dk ik r = Some i"
    and i': "materialization_finished (ga_env g) now
       \<lparr>mc_delivery_key = dk, mc_item_key = ik, mc_claim_token = token, mc_status = ''materialized'',
        mc_materialized_outbound = out, mc_cache_path = cache, mc_retryable = retryable, mc_last_error = err\<rparr> mat i = Inr i'"
    and o': "o' = Some (put_item dk ik i' r)"
    by (auto simp: finish_delivery_materialization_records_def)
  have "find_item dk ik (dt_records s1) = Some i'" using s1 o' find_item_put_same [OF i] by simp
  moreover have "materialization_settled i'" by (rule materialized_settled [OF i']) simp
  ultimately show ?thesis by (simp add: item_at_def)
qed

lemma store_materialized_settles:
  "store_materialized g w dk ik token m mat s = (Inr m', s1) \<Longrightarrow> item_at materialization_settled dk ik s1"
  by (auto simp: store_materialized_def Let_def sbind_Inr sfail_def item_at_effects
      dest: settle_settles split: if_splits option.splits prod.splits sum.splits)

lemma fetch_authorized_settles:
  "fetch_authorized g w dk ik token m auth s = (Inr m', s1) \<Longrightarrow> item_at materialization_settled dk ik s1"
  by (cases auth) (auto simp: fetch_authorized_def sbind_Inr sfail_def dest: store_materialized_settles split: if_splits option.splits)

lemma fetch_settles: "fetch_media g w dk ik token m s = (Inr m', s1) \<Longrightarrow> item_at materialization_settled dk ik s1"
  by (auto simp: fetch_media_def sbind_Inr dest: fetch_authorized_settles)

lemma materialization_claim_kept:
  assumes "materialization_claim env now token owner lease i = Inr (a, o')"
  shows "(case o' of Some i' \<Rightarrow> get_str a ''claim'' = Some ''claimed''
     | None \<Rightarrow> get_str a ''claim'' \<in> {Some ''terminal_failed'', Some ''busy''} \<or> materialization_settled i)"
proof -
  from assms obtain mat where m: "jget i ''materialization'' = Some (JObj mat)"
    by (auto simp: materialization_claim_def bind_eq_Some_conv)
  define status where "status = (case get_str (JObj mat) ''status'' of Some s \<Rightarrow> s | None \<Rightarrow> [])"
  show ?thesis
  proof (cases "status = ''materialized'' \<or> status = ''not_required''")
    case True
    then have "jget (JObj mat) ''status'' = Some (JStr status)"
      unfolding status_def by (auto split: option.splits)
    with True m have "materialization_settled i" by (auto simp: materialization_settled_def)
    with True assms m show ?thesis by (simp add: materialization_claim_def Let_def status_def [symmetric] split: if_splits)
  next
    case False
    with assms m show ?thesis
      by (auto simp: materialization_claim_def Let_def status_def [symmetric] jobj_def split: if_splits)
  qed
qed

lemma materialization_claim_verdict:
  assumes "materialization_claim env now token owner lease i = Inr (a, o')"
    and "get_str a ''claim'' = Some ''materialized'' \<or> get_str a ''claim'' = Some ''not_required''"
  shows "o' = None \<and> materialization_settled i"
  using materialization_claim_kept [OF assms(1)] assms(2) by (auto split: option.splits)

lemma materialize_settles:
  assumes "materialize_delivery_item g w dk ik m s = (Inr m', s1)" "delivery_item_requires_materialization (ga_adapter g) m"
  shows "item_at materialization_settled dk ik s1"
proof -
  from assms obtain claim s0 where
    c: "ledger_call g w (\<lambda>now token. claim_delivery_materialization_records (ga_env g) now token dk ik
          (ga_instance g) (ga_lease g)) infrastructure s = (Inr claim, s0)"
    and rest: "(get_str claim ''claim'' = Some ''materialized'' \<or> get_str claim ''claim'' = Some ''not_required'') \<and> s1 = s0
       \<or> (\<exists>token. fetch_media g w dk ik token m s0 = (Inr m', s1))"
    by (auto simp: materialize_delivery_item_def Let_def sbind_Inr sreturn_def sfail_def split: if_splits option.splits sum.splits)
  from ledger_call_Inr [OF c] obtain now token r o' where
    f: "claim_delivery_materialization_records (ga_env g) now token dk ik (ga_instance g) (ga_lease g) r = Inr (claim, o')"
    and s0: "dt_records s0 = (case o' of None \<Rightarrow> r | Some r' \<Rightarrow> r')" by force
  from f obtain i c' where i: "find_item dk ik r = Some i"
    and mc: "materialization_claim (ga_env g) now token (ga_instance g) (ga_lease g) i = Inr (claim, c')"
    and o': "o' = map_option (\<lambda>i. put_item dk ik i r) c'"
    by (auto simp: claim_delivery_materialization_records_def)
  from rest show ?thesis
  proof
    assume "(get_str claim ''claim'' = Some ''materialized'' \<or> get_str claim ''claim'' = Some ''not_required'') \<and> s1 = s0"
    with materialization_claim_verdict [OF mc] i o' s0 show ?thesis by (auto simp: item_at_def)
  qed (blast dest: fetch_settles)
qed

text \<open>An answer to an item means a success on record.\<close>

definition succeeded :: "json \<Rightarrow> bool" where
  "succeeded i \<longleftrightarrow> jget i ''status'' = Some (JStr ''succeeded'')"

lemma cleanup_records: "cleanup_attachment_cache p s = (x, s') \<Longrightarrow> dt_records s' = dt_records s"
  by (auto simp: cleanup_attachment_cache_def emit_def)

lemma cleanup_terminal_records: "cleanup_terminal terminal s = (x, s') \<Longrightarrow> dt_records s' = dt_records s"
  by (cases terminal) (auto simp: cleanup_terminal_def sreturn_def dest: cleanup_records)

lemma cleanup_previous_records: "cleanup_previous claim cache s = (x, s') \<Longrightarrow> dt_records s' = dt_records s"
  by (auto simp: cleanup_previous_def sreturn_def dest: cleanup_records split: if_splits option.splits)

lemma settle_item_succeeds:
  assumes "settle_item g w claim cache dk ik token (Inr response, p, fb) s = (Inr v, s')"
  shows "item_at succeeded dk ik s'"
proof -
  from assms obtain x s1 where
    c: "ledger_call g w (\<lambda>now t. finish_delivery_item_records (ga_env g) now (completion_of g dk ik token (Inr response) p fb))
        infrastructure s = (Inr x, s1)" and same: "dt_records s' = dt_records s1"
    by (force simp: settle_item_def sbind_Inr sreturn_def dest: cleanup_terminal_records cleanup_previous_records)
  from ledger_call_Inr [OF c] obtain now r o' where
    f: "finish_delivery_item_records (ga_env g) now (completion_of g dk ik token (Inr response) p fb) r = Inr (x, o')"
    and s1: "dt_records s1 = (case o' of None \<Rightarrow> r | Some r' \<Rightarrow> r')" by force
  from with_active_item_written [OF f [unfolded finish_delivery_item_records_def]] obtain m m' where
    m: "find_item dk ik r = Some (JObj m)" "o' = Some (put_item dk ik (JObj m') r)"
    and m': "m' = oput ''cache_path'' JNull (completed_item (ga_env g) now (completion_of g dk ik token (Inr response) p fb) m)"
    by (auto simp: completion_of_def Let_def)
  have "succeeded (JObj m')" by (simp add: m' succeeded_def completed_item_def completion_of_def)
  with m s1 same show ?thesis by (simp add: item_at_def find_item_put_same)
qed

lemma settle_item_failed: "settle_item g w claim cache dk ik token (Inl e, p, fb) s \<noteq> (Inr v, s')"
  by (auto simp: settle_item_def sbind_Inr sfail_def)

lemma after_claim_succeeds:
  assumes "claim_for g w dk fp item cache s = (Inr claim, s1)"
    and "after_claim g w dk (delivery_item_key dk (fst item)) cache m claim s1 = (Inr v, s')"
  shows "item_at succeeded dk (delivery_item_key dk (fst item)) s'"
proof (cases "get_str claim ''claim'' = Some ''succeeded''")
  case True
  then have s': "s' = s1" using assms(2) by (simp add: after_claim_def Let_def sreturn_def)
  obtain identity artifact_id kind m0 where item: "item = (identity, artifact_id, kind, m0)" by (cases item) blast
  from ledger_call_Inr [OF assms(1) [unfolded item claim_for_def prod.case]] obtain now token r o' req where
    f: "claim_delivery_item_records (ga_env g) now token req r = Inr (claim, o')"
    and req: "cr_delivery_key req = dk" "cr_item_key req = delivery_item_key dk identity"
    and s1: "dt_records s1 = (case o' of None \<Rightarrow> r | Some r' \<Rightarrow> r')" by force
  have "o' = None"
  proof (cases o')
    case (Some r')
    with f have "claim_delivery_item_records (ga_env g) now token req r = Inr (claim, Some r')" by simp
    from claim_records_written [OF this] obtain i1 i' where "claim_item (ga_env g) now token req i1 = Inr (claim, Some i')"
      by blast
    from claim_item_answer(1) [OF this] True show ?thesis by simp
  qed
  with f have "claim_delivery_item_records (ga_env g) now token req r = Inr (claim, None)" by simp
  from claim_records_None(2) [OF this True] s1 \<open>o' = None\<close> s' item req show ?thesis
    by (auto simp: item_at_def succeeded_def)
next
  case False
  with assms(2) obtain token sent s2 where
    "settle_item g w claim cache dk (delivery_item_key dk (fst item)) token sent s2 = (Inr v, s')"
    by (auto simp: after_claim_def Let_def sbind_Inr sfail_def split: if_splits option.splits)
  moreover obtain result p fb where "sent = (result, p, fb)" by (cases sent) blast
  ultimately show ?thesis
    by (cases result) (auto simp: settle_item_failed intro: settle_item_succeeds)
qed

lemma item_at_both: "item_at materialization_settled dk ik s \<Longrightarrow> item_at succeeded dk ik s \<Longrightarrow> item_at delivered dk ik s"
  by (auto simp: item_at_def delivered_def succeeded_def)

lemma deliver_item_delivers:
  assumes "deliver_item g w dk fp item s = (Inr v, s')"
    and "\<not> delivery_item_requires_materialization (ga_adapter g) (snd (snd (snd item))) \<Longrightarrow>
      item_at materialization_settled dk (delivery_item_key dk (fst item)) s"
  shows "item_at delivered dk (delivery_item_key dk (fst item)) s'"
proof -
  let ?ik = "delivery_item_key dk (fst item)"
  obtain m where m: "m = snd (snd (snd item))" by blast
  from assms(1) obtain m' s1 claim s2 where
    s1: "materialize_delivery_item g w dk ?ik m s = (Inr m', s1)"
    and s2: "claim_for g w dk fp item (nonempty_trim (first_path m')) s1 = (Inr claim, s2)"
    and s': "after_claim g w dk ?ik (nonempty_trim (first_path m')) m' claim s2 = (Inr v, s')"
    by (cases item) (auto simp: m deliver_item_def Let_def sbind_Inr)
  have "item_at materialization_settled dk ?ik s1"
  proof (cases "delivery_item_requires_materialization (ga_adapter g) m")
    case True
    then show ?thesis by (rule materialize_settles [OF s1])
  next
    case False
    with s1 assms(2) m show ?thesis by (simp add: materialize_delivery_item_def sreturn_def)
  qed
  then have "item_at materialization_settled dk ?ik s2"
    using keepsD [OF settled.keeps_claim_for [OF HOL.refl] s2] by (simp add: stays_def)
  then have "item_at materialization_settled dk ?ik s'"
    using keepsD [OF settled.keeps_after_claim [OF HOL.refl settled.keeps_attempt [OF HOL.refl TrueI]] s'] by (simp add: stays_def)
  then show ?thesis by (rule item_at_both) (rule after_claim_succeeds [OF s2 s'])
qed

lemma deliver_loop_delivers:
  assumes "deliver_loop g w dk fp prev items s = (Inr v, s')" "item \<in> set items"
    and "\<And>item. item \<in> set items \<Longrightarrow> \<not> delivery_item_requires_materialization (ga_adapter g) (snd (snd (snd item))) \<Longrightarrow>
      item_at materialization_settled dk (delivery_item_key dk (fst item)) s"
  shows "item_at delivered dk (delivery_item_key dk (fst item)) s'"
  using assms
proof (induction items arbitrary: prev s)
  case (Cons x items)
  from Cons.prems(1) obtain r s1 where one: "deliver_item g w dk fp x s = (Inr r, s1)"
    and rest: "deliver_loop g w dk fp r items s1 = (Inr v, s')" by (auto simp: sbind_Inr)
  have settled1: "item_at materialization_settled dk (delivery_item_key dk (fst y)) s1"
    if "y \<in> set items" "\<not> delivery_item_requires_materialization (ga_adapter g) (snd (snd (snd y)))" for y
    using keepsD [OF settled.keeps_deliver_item [OF HOL.refl] one] Cons.prems(3) [OF _ that(2)] that(1)
    by (simp add: stays_def)
  show ?case
  proof (cases "item = x")
    case True
    have "item_at delivered dk (delivery_item_key dk (fst x)) s1"
      by (rule deliver_item_delivers [OF one]) (simp add: Cons.prems(3))
    with True show ?thesis using keepsD [OF stays_delivered rest] by (simp add: stays_def)
  next
    case False
    with Cons.prems(2) Cons.IH [OF rest _ settled1] show ?thesis by simp
  qed
qed simp

lemma plan_item_of:
  assumes "item \<in> set items"
  shows "\<exists>p \<in> set (plan_items g dk items). pi_item_key p = delivery_item_key dk (fst item)
    \<and> pi_materialization_required p = delivery_item_requires_materialization (ga_adapter g) (snd (snd (snd item)))"
  using imageI [OF assms] unfolding plan_items_def set_map by (rule rev_bexI) (simp add: case_prod_beta)

lemma plan_keys_distinct: "distinct (map fst items) \<Longrightarrow> distinct (map pi_item_key (plan_items g dk items))"
proof -
  assume d: "distinct (map fst items)"
  have "map pi_item_key (plan_items g dk items) = map (delivery_item_key dk) (map fst items)"
    by (auto simp: plan_items_def)
  moreover have "distinct (map (delivery_item_key dk) (map fst items))"
    by (rule distinct_map [THEN iffD2]) (simp add: d inj_on_def)
  ultimately show ?thesis by (simp only:)
qed

text \<open>The ledger as the delivery finds it.\<close>

definition found :: "gate \<Rightarrow> gate_world \<Rightarrow> delivery_state \<Rightarrow> jmap" where
  "found g w s = ledger_run (ga_env g) (gw_others w (dt_step s)) (dt_records s)"

lemma delivery_delivers:
  assumes "deliver_outbound_items g w m dk fp s = (Inr v, s')" "trim dk \<noteq> []" "split_outbound_items m = Inr items"
    and "item \<in> set items"
    and clear: "\<And>item. item \<in> set items \<Longrightarrow> \<not> delivery_item_requires_materialization (ga_adapter g) (snd (snd (snd item))) \<Longrightarrow>
      media_clear (find_item dk (delivery_item_key dk (fst item)) (found g w s))"
  shows "item_at delivered dk (delivery_item_key dk (fst item)) s'"
proof -
  from assms(1-3) obtain u s1 where
    c: "ledger_call g w (\<lambda>now token. persist_delivery_plan_records (ga_env g) now dk fp
         (outbound_to_value m) (plan_items g dk items)) plan_conflict s = (Inr u, s1)"
    and loop: "deliver_loop g w dk fp (JObj []) items s1 = (Inr v, s')"
    by (auto simp: deliver_outbound_items_def sbind_Inr)
  from ledger_call_Inr [OF c, folded found_def] obtain now o' where
    pl: "persist_delivery_plan_records (ga_env g) now dk fp (outbound_to_value m) (plan_items g dk items) (found g w s) = Inr (u, o')"
    and s1: "dt_records s1 = (case o' of None \<Rightarrow> found g w s | Some r' \<Rightarrow> r')" by force
  have "item_at materialization_settled dk (delivery_item_key dk (fst y)) s1"
    if y: "y \<in> set items" "\<not> delivery_item_requires_materialization (ga_adapter g) (snd (snd (snd y)))" for y
  proof -
    from plan_item_of [OF y(1)] y(2) obtain p where p: "p \<in> set (plan_items g dk items)"
      "pi_item_key p = delivery_item_key dk (fst y)" "\<not> pi_materialization_required p" by metis
    have "media_clear (find_item dk (pi_item_key p) (found g w s))" using clear [OF y] p(2) by simp
    from plan_settles [OF pl p(1) plan_keys_distinct [OF split_items(2) [OF assms(3)]] p(3) this] p(2) s1
    show ?thesis by (auto simp: item_at_def)
  qed
  then show ?thesis by (rule deliver_loop_delivers [OF loop assms(4)])
qed

section \<open>What is sent\<close>

fun is_send :: "gate_effect \<Rightarrow> bool" where
  "is_send (Sent dk ik t m p) = True"
| "is_send (SentPlain m) = True"
| "is_send (CacheRemoved f) = False"
| "is_send (CacheDirRemoved d) = False"

definition provider_sends :: "delivery_state \<Rightarrow> gate_effect list" where
  "provider_sends s = filter is_send (dt_effects s)"

definition sends_within :: "(string \<times> string) set \<Rightarrow> gate_effect \<Rightarrow> bool" where
  "sends_within K e \<longleftrightarrow> (is_send e \<longrightarrow> (\<exists>dk ik. (dk, ik) \<in> K \<and> is_sent dk ik e))"

definition adds_within :: "(string \<times> string) set \<Rightarrow> delivery_state \<Rightarrow> delivery_state \<Rightarrow> bool" where
  "adds_within K s s' \<longleftrightarrow> (\<exists>fx. dt_effects s' = dt_effects s @ fx \<and> list_all (sends_within K) fx)"

interpretation scope: engine_relation env "sends_within K" "adds_within K" for env K
proof unfold_locales
  fix s t u assume "adds_within K s t" "adds_within K t u"
  then show "adds_within K s u" unfolding adds_within_def by (metis append.assoc list_all_append)
qed (auto simp: adds_within_def sends_within_def)

lemma delivery_scope:
  assumes "deliver_outbound_items g w m dk fp s = (r, s')" "trim dk \<noteq> []" "split_outbound_items m = Inr items"
  shows "adds_within ((\<lambda>item. (dk, delivery_item_key dk (fst item))) ` set items) s s'"
proof -
  let ?K = "(\<lambda>item. (dk, delivery_item_key dk (fst item))) ` set items"
  have "keeps (adds_within ?K) (deliver_loop g w dk fp prev items)" for prev
    by (intro scope.keeps_loop scope.keeps_deliver_item) (auto simp: sends_within_def is_sent_def)
  then have "keeps (adds_within ?K) (deliver_outbound_items g w m dk fp)"
    using assms(2,3) by (auto simp: deliver_outbound_items_def intro!: scope.keeping ledger_actions)
  from keepsD [OF this assms(1)] show ?thesis .
qed

text \<open>An attempt over delivered items only sends nothing.\<close>

lemma delivered_sends_nothing:
  assumes "deliver_outbound_items g w m dk fp s = (r, s')" "trim dk \<noteq> []" "split_outbound_items m = Inr items"
    and "\<And>item. item \<in> set items \<Longrightarrow> item_at delivered dk (delivery_item_key dk (fst item)) s"
  shows "provider_sends s' = provider_sends s"
proof -
  from delivery_scope [OF assms(1-3)] obtain fx where fx: "dt_effects s' = dt_effects s @ fx"
    and within: "list_all (sends_within ((\<lambda>item. (dk, delivery_item_key dk (fst item))) ` set items)) fx"
    by (auto simp: adds_within_def)
  have "\<not> is_send e" if "e \<in> set fx" for e
  proof
    assume "is_send e"
    with within that obtain item where item: "item \<in> set items" "is_sent dk (delivery_item_key dk (fst item)) e"
      by (auto simp: list_all_iff sends_within_def)
    have "sends dk (delivery_item_key dk (fst item)) s' = sends dk (delivery_item_key dk (fst item)) s"
      using keepsD [OF not_resent_delivery assms(1)] assms(4) [OF item(1)] by (simp add: not_resent_def)
    with fx have "filter (is_sent dk (delivery_item_key dk (fst item))) fx = []" by (simp add: sends_def)
    with item that show False by (auto simp: filter_empty_conv)
  qed
  then show ?thesis by (simp add: provider_sends_def fx filter_empty_conv)
qed


section \<open>Every send has its own permission\<close>

fun permitted :: "gate_world \<Rightarrow> nat \<Rightarrow> nat \<Rightarrow> gate_effect \<Rightarrow> bool" where
  "permitted w a b (Sent dk ik token m p) \<longleftrightarrow> (\<exists>n. a \<le> n \<and> n < b \<and> gw_authorize w n m = Inr ())"
| "permitted w a b (SentPlain m) \<longleftrightarrow> (\<exists>n. a \<le> n \<and> n < b \<and> gw_authorize w n m = Inr ())"
| "permitted w a b _ \<longleftrightarrow> True"

lemma permitted_mono: "permitted w a b e \<Longrightarrow> a' \<le> a \<Longrightarrow> b \<le> b' \<Longrightarrow> permitted w a' b' e"
  by (cases e) (auto intro: le_trans less_le_trans)

definition sends_permitted :: "gate_world \<Rightarrow> delivery_state \<Rightarrow> delivery_state \<Rightarrow> bool" where
  "sends_permitted w s s' \<longleftrightarrow> dt_step s \<le> dt_step s' \<and>
     (\<exists>fx. dt_effects s' = dt_effects s @ fx \<and> list_all (permitted w (dt_step s) (dt_step s')) fx)"

fun is_removal :: "gate_effect \<Rightarrow> bool" where
  "is_removal (CacheRemoved f) = True"
| "is_removal (CacheDirRemoved d) = True"
| "is_removal _ = False"

lemma removal_permitted: "is_removal e \<Longrightarrow> permitted w a b e"
  by (cases e) simp_all

interpretation permission: engine_relation env is_removal "sends_permitted w" for env w
proof unfold_locales
  fix s t u assume "sends_permitted w s t" "sends_permitted w t u"
  then obtain fx gx where st: "dt_step s \<le> dt_step t" "dt_step t \<le> dt_step u"
    and fx: "dt_effects t = dt_effects s @ fx" "list_all (permitted w (dt_step s) (dt_step t)) fx"
    and gx: "dt_effects u = dt_effects t @ gx" "list_all (permitted w (dt_step t) (dt_step u)) gx"
    by (auto simp: sends_permitted_def)
  have "list_all (permitted w (dt_step s) (dt_step u)) (fx @ gx)"
    using fx(2) gx(2) st permitted_mono by (fastforce simp: list_all_iff)
  with st fx(1) gx(1) show "sends_permitted w s u" by (auto simp: sends_permitted_def)
next
  fix fx and s :: delivery_state assume "list_all is_removal fx"
  then have "list_all (permitted w (dt_step s) (dt_step s)) fx" by (auto simp: list_all_iff removal_permitted)
  then show "sends_permitted w s (s\<lparr>dt_effects := dt_effects s @ fx\<rparr>)" by (auto simp: sends_permitted_def)
qed (auto simp: sends_permitted_def)

text \<open>A check, and what follows it knows that the check passed.\<close>

lemma after_check:
  assumes "keeps (sends_permitted w) act"
  shows "sends_permitted w s (snd (act (s\<lparr>dt_step := Suc (dt_step s)\<rparr>)))"
proof (rule permission.trans)
  show "sends_permitted w s (s\<lparr>dt_step := Suc (dt_step s)\<rparr>)" by (simp add: sends_permitted_def)
  show "sends_permitted w (s\<lparr>dt_step := Suc (dt_step s)\<rparr>) (snd (act (s\<lparr>dt_step := Suc (dt_step s)\<rparr>)))"
    using assms by (simp add: keeps_def)
qed

lemma checked_keeps:
  assumes "\<And>e. keeps (sends_permitted w) (failed e)"
    and "\<And>s. gw_authorize w (dt_step s) m = Inr () \<Longrightarrow> sends_permitted w s (snd (act (s\<lparr>dt_step := Suc (dt_step s)\<rparr>)))"
  shows "keeps (sends_permitted w) (sbind (ask (\<lambda>n. gw_authorize w n m)) (\<lambda>a. case a of Inl e \<Rightarrow> failed e | Inr u \<Rightarrow> act))"
  unfolding keeps_def
proof
  fix s :: delivery_state
  let ?s = "s\<lparr>dt_step := Suc (dt_step s)\<rparr>"
  have "sends_permitted w s (snd (failed e ?s))" for e
    by (rule after_check [OF assms(1)])
  with assms(2) show "sends_permitted w s (snd (sbind (ask (\<lambda>n. gw_authorize w n m)) (\<lambda>a. case a of Inl e \<Rightarrow> failed e | Inr u \<Rightarrow> act) s))"
    by (cases "gw_authorize w (dt_step s) m") (simp_all add: sbind_def ask_def)
qed

lemma send_after_check:
  "gw_authorize w (dt_step s) m = Inr () \<Longrightarrow> sends_permitted w s (snd (send_prepared w r m p (s\<lparr>dt_step := Suc (dt_step s)\<rparr>)))"
  by (auto simp: send_prepared_def sbind_def emit_def ask_def sends_permitted_def)

lemma permitted_send: "keeps (sends_permitted w) (authorized_send w r m p)"
  unfolding authorized_send_def by (rule checked_keeps) (simp_all add: permission.keeps_return send_after_check)

lemma permitted_attempt: "keeps (sends_permitted w) (attempt_stage g w r m)"
  unfolding attempt_stage_def Let_def
proof (rule checked_keeps)
  fix s :: delivery_state assume a: "gw_authorize w (dt_step s) m = Inr ()"
  show "sends_permitted w s (snd ((case stage_prepared r of
      Some p \<Rightarrow> sbind (send_prepared w r m (Some p)) (\<lambda>res. sreturn (Inr (res, Some p)))
    | None \<Rightarrow> sbind (ask (\<lambda>n. gw_prepare w n m)) (\<lambda>prep. case prep of
          Inl e \<Rightarrow> sreturn (Inr (Inl e, None))
        | Inr None \<Rightarrow> sbind (authorized_send w r m None) (\<lambda>res. sreturn (Inr (res, None)))
        | Inr (Some p) \<Rightarrow> sbind (record_upload g w r p) (\<lambda>up. case up of
              Inl msg \<Rightarrow> sreturn (Inl (infrastructure msg, p))
            | Inr v \<Rightarrow> sbind (authorized_send w r m (Some p)) (\<lambda>res. sreturn (Inr (res, Some p))))))
    (s\<lparr>dt_step := Suc (dt_step s)\<rparr>)))"
  proof (cases "stage_prepared r")
    case None
    then show ?thesis
      by (auto intro!: after_check permission.keeping permitted_send permission.keeps_record_upload split: sum.splits option.splits)
  next
    case (Some p)
    with send_after_check [OF a, of r "Some p"] show ?thesis by (auto simp: sbind_def sreturn_def split: prod.splits sum.splits)
  qed
qed (simp add: permission.keeps_return)

lemma permitted_unrecorded: "keeps (sends_permitted w) (deliver_unrecorded w m)"
  unfolding deliver_unrecorded_def
proof (rule checked_keeps)
  fix s :: delivery_state assume "gw_authorize w (dt_step s) m = Inr ()"
  then show "sends_permitted w s (snd (sbind (emit [SentPlain m]) (\<lambda>u. sbind (ask (\<lambda>n. gw_send_plain w n m))
      (\<lambda>r. case r of Inl e \<Rightarrow> sfail e | Inr v \<Rightarrow> sreturn v)) (s\<lparr>dt_step := Suc (dt_step s)\<rparr>)))"
    by (auto simp: sbind_def emit_def ask_def sfail_def sreturn_def sends_permitted_def split: sum.splits)
qed (simp add: permission.keeps_fail)

lemma permitted_delivery: "keeps (sends_permitted w) (deliver_outbound_items g w m dk fp)"
  by (intro permission.keeps_delivery_if [OF HOL.refl] permission.keeps_deliver_item_if [OF HOL.refl] permitted_attempt permitted_unrecorded)

end
