(* ===== verification/Gateway_Properties.thy ===== *)
theory Gateway_Properties
  imports Gateway_Engine Model_Env
begin

text \<open>
  The properties of the delivery engine, over the facts of \<open>Gateway_Engine\<close>. The other processes that
  share the ledger, the provider, storage and the clocks behave as they like unless a hypothesis says otherwise.
\<close>

section \<open>A run to look at\<close>

definition demo_content :: content_env where
  "demo_content = \<lparr>ce_sha256_hex = (\<lambda>s. s), ce_lowercase = ascii_lower, ce_scalar = (\<lambda>v. [])\<rparr>"

text \<open>Instants in decimal; the engine neither reads nor prints JSON text.\<close>

definition demo_env :: gate_env where
  "demo_env = \<lparr>parse_rfc3339 = scan_int, to_rfc3339 = print_int, rfc3339_secs = (\<lambda>t. print_int (t - t mod 1000000000)),
     max_utc = 8210266876799999999999, from_str = (\<lambda>s. None), to_vec_pretty = (\<lambda>v. []), f64_text = (\<lambda>t. True),
     to_lowercase = ascii_lower\<rparr>"

definition demo_gate :: gate where
  "demo_gate = \<lparr>ga_env = demo_env, ga_content = demo_content, ga_adapter = ''weixin'', ga_lease = 600,
     ga_instance = ''gate-1'', ga_decode = (\<lambda>v. Inl ''not used'')\<rparr>"

definition demo_reply :: json where "demo_reply = JObj [(''message_id'', JStr ''m-1'')]"

text \<open>The provider accepts, the clock shows one second more at each call.\<close>

definition demo_world :: gate_world where
  "demo_world = \<lparr>gw_now = (\<lambda>n. int n * 1000000000), gw_token = (\<lambda>n. ''token-'' @ show_nat n), gw_others = (\<lambda>n. []),
     gw_store = (\<lambda>n. None), gw_authorize = (\<lambda>n m. Inr ()), gw_prepare = (\<lambda>n m. Inr None),
     gw_send = (\<lambda>n m p. Inr demo_reply), gw_send_plain = (\<lambda>n m. Inr JNull),
     gw_task_client = (\<lambda>n m. None),
     gw_materialize = (\<lambda>n c as dir. \<lparr>mt_attachments = [], mt_cache_files = [], mt_cache_dir = None, mt_failed_count = 0\<rparr>)\<rparr>"

definition demo_message :: outbound_message where
  "demo_message = \<lparr>out_platform = ''weixin'', out_chat_id = ''c'', out_text = ''hi'', out_attachments = [],
     out_timestamp = ''t'', out_metadata = []\<rparr>"

definition demo_start :: delivery_state where
  "demo_start = \<lparr>dt_step = 0, dt_records = [], dt_effects = []\<rparr>"

definition demo_run :: "(gate_error + json) \<times> delivery_state" where
  "demo_run = deliver_outbound_items demo_gate demo_world demo_message ''d'' ''f'' demo_start"

text \<open>
  Evaluation by rewriting: a bind evaluates its first part before the continuation is touched. The run goes
  through the plan, the claim, one native stage and the completion.
\<close>

lemma rbind_weak: "m = m' \<Longrightarrow> rbind m f = rbind m' f"
  by simp

lemma action_weak:
  "s = s' \<Longrightarrow> sbind m f s = sbind m f s'" "s = s' \<Longrightarrow> ledger_call g w act err s = ledger_call g w act err s'"
  "s = s' \<Longrightarrow> ask q s = ask q s'"
  by simp_all

lemmas weak_congs = rbind_weak action_weak let_weak_cong

lemmas ledger_evaluation = persist_delivery_plan_records_def plan_record_def new_record_def jobj_def plan_items_def plan_one_def
  jset_if_missing_def planned_item_def materialization_value_def stages_value_def delivery_stage_value_def
  claim_delivery_item_records_def claim_record_def claim_target_def bind_fingerprint_def claim_item_def item_terminal_failed_def
  attempts_of_def claimed_fields_def delivery_claim_expires_at_def nanos_def i64_max_def finish_delivery_stage_records_def
  with_active_item_def delivery_stage_object_def finish_delivery_item_records_def completed_item_def
  require_active_delivery_claim_def delivery_claim_is_unexpired_def claim_is_unexpired_def put_item_def find_item_def
  oput_opt_def item_cache_path_def token_matches_def get_str_def get_bool_def get_u64_def saturating_add_def u64_max_def
  utc_now_iso_def jindex_def jstr_opt_def

lemmas action_evaluation = sbind_def sreturn_def ask_def emit_def ledger_call_def Let_def nonempty_trim_def filled_def

lemma demo_env_sel [simp]:
  "parse_rfc3339 demo_env = scan_int" "to_rfc3339 demo_env = print_int" "max_utc demo_env = 8210266876799999999999"
  "rfc3339_secs demo_env t = print_int (t - t mod 1000000000)"
  by (simp_all add: demo_env_def)

lemma demo_gate_sel [simp]:
  "ga_env demo_gate = demo_env" "ga_adapter demo_gate = ''weixin''" "ga_lease demo_gate = 600" "ga_instance demo_gate = ''gate-1''"
  by (simp_all add: demo_gate_def)

lemma demo_world_sel [simp]:
  "gw_now demo_world n = int n * 1000000000" "gw_token demo_world n = ''token-'' @ show_nat n" "gw_others demo_world n = []"
  "gw_store demo_world n = None" "gw_authorize demo_world n m = Inr ()" "gw_prepare demo_world n m = Inr None"
  "gw_send demo_world n m p = Inr demo_reply"
  by (simp_all add: demo_world_def)

lemma demo_text [simp]: "trim ''d'' = ''d''" "trim ''hi'' = ''hi''" "trim ''token-1'' = ''token-1''" "trim ''m-1'' = ''m-1''"
    "show_nat (Suc 0) = ''1''"
  by code_simp+

lemma demo_message_plain [simp]:
  "out_attachments demo_message = []" "delivery_item_requires_materialization ''weixin'' demo_message = False"
  "first_path demo_message = None" "native_video_file_fallback (with_item_key dk ik demo_message) = None"
  by (simp_all add: demo_message_def delivery_item_requires_materialization_def first_path_def native_video_file_fallback_def
      with_item_key_def)

lemma demo_split: "split_outbound_items demo_message = Inr [(text_item_identity, text_artifact, ''text'', demo_message)]"
  by (simp add: split_outbound_items_def demo_message_def)

lemma text_run:
  assumes g: "parse_rfc3339 (ga_env g) = scan_int" "to_rfc3339 (ga_env g) = print_int"
      "\<And>t. rfc3339_secs (ga_env g) t = print_int (t - t mod 1000000000)" "max_utc (ga_env g) = 8210266876799999999999"
      "ga_lease g = 600" "ga_instance g = ''gate-1''"
    and w: "\<And>n. gw_now w n = int n * 1000000000" "gw_token w (Suc k) = ''token-1''" "\<And>n. gw_others w n = []"
      "\<And>n. gw_store w n = None" "\<And>n m. gw_prepare w n m = Inr None" "\<And>n m p. gw_send w n m p = Inr demo_reply"
    and a: "\<And>n. gw_authorize w n (with_item_key ''d'' (delivery_item_key ''d'' text_item_identity) m) = Inr ()"
    and m: "out_attachments m = []" "out_text m = ''hi''" and k: "int k \<le> 2"
  shows "\<exists>s. deliver_outbound_items g w m ''d'' ''f'' (demo_start\<lparr>dt_step := k\<rparr>) = (Inr demo_reply, s) \<and> dt_effects s =
    [Sent ''d'' (delivery_item_key ''d'' text_item_identity) ''token-1'' (with_item_key ''d'' (delivery_item_key ''d'' text_item_identity) m) None]"
proof -
  have plain: "delivery_item_requires_materialization a m = False" "first_path m = None"
    "native_video_file_fallback (with_item_key dk ik m) = None" for a dk ik
    using m by (simp_all add: delivery_item_requires_materialization_def first_path_def native_video_file_fallback_def with_item_key_def)
  have split: "split_outbound_items m = Inr [(text_item_identity, text_artifact, ''text'', m)]"
    using m by (simp add: split_outbound_items_def)
  note run = g w a m plain split
  show ?thesis
    apply (simp add: run demo_start_def ledger_evaluation deliver_outbound_items_def action_evaluation
        cong: weak_congs)
    apply (simp add: run ledger_evaluation deliver_item_def claim_for_def materialize_delivery_item_def action_evaluation
        cong: weak_congs)
    apply (simp add: run after_claim_def send_item_def point_str_def get_str_def action_evaluation cong: weak_congs)
    apply (simp add: run send_delivery_stage_def attempt_stage_def stage_prepared_def prepared_at_def authorized_send_def
        send_prepared_def get_str_def action_evaluation cong: weak_congs)
    apply (simp add: run settle_stage_def stage_completion_of_def ledger_evaluation response_media_def response_message_def
        demo_reply_def action_evaluation cong: weak_congs)
    apply (simp add: run settle_item_def completion_of_def ledger_evaluation response_media_def response_message_def
        cleanup_terminal_def cleanup_previous_def action_evaluation cong: weak_congs)
    using k apply linarith
    done
qed

lemma demo_run_value: "\<exists>s. demo_run = (Inr demo_reply, s) \<and> length (provider_sends s) = 1"
proof -
  have "out_text demo_message = ''hi''" by (simp add: demo_message_def)
  then show ?thesis
    using text_run [of demo_gate demo_world 0 demo_message] by (auto simp: demo_run_def provider_sends_def demo_start_def)
qed

lemma demo_delivers: "deliver_outbound_items demo_gate demo_world demo_message ''d'' ''f'' demo_start = (Inr demo_reply, snd demo_run)"
  using demo_run_value unfolding demo_run_def by (metis snd_conv)

lemma demo_clear:
  "\<forall>item \<in> set [(text_item_identity, text_artifact, ''text'', demo_message)].
     \<not> delivery_item_requires_materialization (ga_adapter demo_gate) (snd (snd (snd item))) \<longrightarrow>
     media_clear (find_item ''d'' (delivery_item_key ''d'' (fst item)) (found demo_gate demo_world demo_start))"
  by (simp add: found_def demo_start_def find_item_def media_clear_def)

definition demo_key :: string where "demo_key = delivery_item_key ''d'' text_item_identity"

definition demo_record :: json where
  "demo_record = JObj [(''items'', JObj [(demo_key, JObj [(''status'', JStr ''succeeded''),
     (''materialization'', JObj [(''status'', JStr ''not_required'')])])])]"

section \<open>Properties\<close>

text \<open>C7: a delivered item is never sent again. When the ledger records an item as delivered, no delivery of any
  message under any delivery key sends that item through an adapter, whatever the other processes, the provider,
  the clock and storage do meanwhile, and whether the delivery succeeds or fails.\<close>

theorem delivered_item_not_resent:
  assumes "find_item dk ik (dt_records s) = Some i" "delivered i"
    and "deliver_outbound_items g w m dk' fp s = (res, s')"
  shows "sends dk ik s' = sends dk ik s"
  using keepsD [OF not_resent_delivery assms(3)] assms(1,2) by (auto simp: not_resent_def item_at_def)

theorem delivered_item_not_resent_witness:
  "\<exists>i. find_item ''d'' demo_key [(''d'', demo_record)] = Some i \<and> delivered i
     \<and> sends ''d'' demo_key (snd (deliver_outbound_items demo_gate demo_world demo_message ''d'' ''f''
          (demo_start\<lparr>dt_records := [(''d'', demo_record)]\<rparr>))) = []"
proof -
  let ?s = "demo_start\<lparr>dt_records := [(''d'', demo_record)]\<rparr>"
  obtain i where i: "find_item ''d'' demo_key (dt_records ?s) = Some i" "delivered i"
    by (simp add: demo_record_def find_item_def delivered_def materialization_settled_def)
  from delivered_item_not_resent [OF i prod.collapse [symmetric]] i show ?thesis
    by (auto simp: sends_def demo_start_def)
qed

text \<open>C6: a successful delivery is on record. When the delivery of a message under a key returns a response, every item
  the message was split into (its text and each identified attachment) is in the ledger as delivered. The hypothesis
  on the ledger as the delivery finds it: an item that needs no download now was not planned as a download before.\<close>

theorem accepted_delivery_recorded:
  assumes "deliver_outbound_items g w m dk fp s = (Inr v, s')" "trim dk \<noteq> []" "split_outbound_items m = Inr items"
    and "\<forall>item \<in> set items. \<not> delivery_item_requires_materialization (ga_adapter g) (snd (snd (snd item))) \<longrightarrow>
      media_clear (find_item dk (delivery_item_key dk (fst item)) (found g w s))"
  shows "\<forall>item \<in> set items. \<exists>i. find_item dk (delivery_item_key dk (fst item)) (dt_records s') = Some i \<and> delivered i"
  using delivery_delivers [OF assms(1-3)] assms(4) by (auto simp: item_at_def)

theorem accepted_delivery_recorded_witness:
  "\<exists>i. find_item ''d'' demo_key (dt_records (snd demo_run)) = Some i \<and> delivered i"
proof -
  have "\<forall>item \<in> set [(text_item_identity, text_artifact, ''text'', demo_message)].
     \<exists>i. find_item ''d'' (delivery_item_key ''d'' (fst item)) (dt_records (snd demo_run)) = Some i \<and> delivered i"
    by (rule accepted_delivery_recorded [OF demo_delivers _ demo_split demo_clear]) simp
  then show ?thesis by (simp add: demo_key_def)
qed

text \<open>C2: exactly once. After a delivery that returned a response, delivering the same message under the same key
  again, by this or another process with any fingerprint, sends nothing to any provider, whatever happened to the
  ledger in between by the operations of other processes.\<close>

theorem repeated_delivery_sends_nothing:
  assumes "deliver_outbound_items g w m dk fp s = (Inr v, s1)" "trim dk \<noteq> []" "split_outbound_items m = Inr items"
    and "\<forall>item \<in> set items. \<not> delivery_item_requires_materialization (ga_adapter g) (snd (snd (snd item))) \<longrightarrow>
      media_clear (find_item dk (delivery_item_key dk (fst item)) (found g w s))"
    and "deliver_outbound_items g' w' m dk fp' s1 = (res, s2)"
  shows "provider_sends s2 = provider_sends s1"
  by (rule delivered_sends_nothing [OF assms(5,2,3)]) (use delivery_delivers [OF assms(1-3)] assms(4) in blast)

theorem repeated_delivery_sends_nothing_witness:
  "length (provider_sends (snd (deliver_outbound_items demo_gate demo_world demo_message ''d'' ''f'' (snd demo_run)))) = 1"
proof -
  let ?again = "deliver_outbound_items demo_gate demo_world demo_message ''d'' ''f'' (snd demo_run)"
  have "provider_sends (snd ?again) = provider_sends (snd demo_run)"
    by (rule repeated_delivery_sends_nothing [OF demo_delivers _ demo_split demo_clear prod.collapse [symmetric]]) simp
  with demo_run_value show ?thesis by (metis snd_conv)
qed

end
