(* ===== verification/Media_Facts.thy ===== *)
theory Media_Facts
  imports Media_Download
begin

text \<open>
  What the operations of \<open>Media_Cache\<close> and \<open>Media_Download\<close> guarantee: a remote transfer makes progress with every
  chunk and assembles exactly the reported bytes; an operation of the cache touches only the path it is given; a
  batch is complete or leaves nothing behind; the sweep keeps what deliveries still need.
\<close>

section \<open>Chunks\<close>

lemma decode_remote_media_Inr:
  assumes "decode_remote_media env response offset e mime_type = Inr (bytes, n)"
  shows "offset < n" "n \<le> max_media" "length bytes = min (e + 1) n - offset"
    "as_str (jindex (resp_body response) ''sha256'') = Some (be_sha256 env bytes)"
  using assms by (auto simp: decode_remote_media_def Let_def split: if_splits option.splits)

lemma chunk_end_Suc: "offset < max_media \<Longrightarrow> chunk_end offset + 1 = min (offset + chunk_size) max_media"
  by (auto simp: chunk_end_def chunk_size_def max_media_def)

lemma chunk_progress:
  assumes "decode_remote_media env response offset (chunk_end offset) mime_type = Inr (bytes, n)"
  shows "offset + length bytes = min (offset + chunk_size) n"
  using decode_remote_media_Inr [OF assms] chunk_end_Suc [of offset] by (simp add: min_def split: if_splits)

section \<open>Transfers\<close>

text \<open>
  \<open>received\<close>: the chunks \<open>bs\<close> came, one per exchange, each verified at its own offset and all with the same
  total, and they end exactly there.
\<close>

fun received ::
  "beacon_env \<Rightarrow> relay_client \<Rightarrow> string \<Rightarrow> string \<Rightarrow> string \<Rightarrow> nat \<Rightarrow> nat \<Rightarrow> exchange_inputs list \<Rightarrow> string list \<Rightarrow> bool" where
  "received env relay hub artifact_id mime_type n offset is [] = (offset = n)"
| "received env relay hub artifact_id mime_type n offset [] (b # bs) = False"
| "received env relay hub artifact_id mime_type n offset (i # is) (b # bs) =
    (rbind (media_artifact (be_relay env) relay hub (chunk_request artifact_id offset) i)
        (\<lambda>response. decode_remote_media env response offset (chunk_end offset) mime_type) = Inr (b, n)
     \<and> received env relay hub artifact_id mime_type n (offset + length b) is bs)"

lemma file_write_all_Inr:
  "file_write_all w f bytes s = (Inr u, s1) \<Longrightarrow>
   content s1 g = (if g = f then map_option (\<lambda>old. old @ bytes) (content s f) else content s g)"
  by (auto simp: file_write_all_def Let_def tick_def map_of_map_entry split: io_outcome.splits option.splits)

lemma flush_files: "cs_files (snd (flush_and_sync w failed s)) = cs_files s"
  by (auto simp: flush_and_sync_def file_sync_def tick_def)

lemma transfer_received:
  assumes "transfer env w relay hub artifact_id mime_type f offset known is s = (Inr (), s')" "content s f = Some old"
  shows "\<exists>bs n. bs \<noteq> [] \<and> received env relay hub artifact_id mime_type n offset is bs \<and> n \<le> max_media
     \<and> (known = None \<or> known = Some n) \<and> offset + length (concat bs) = n
     \<and> content s' f = Some (old @ concat bs) \<and> (\<forall>g. g \<noteq> f \<longrightarrow> content s' g = content s g)"
  using assms
proof (induction "is" arbitrary: offset known s old)
  case (Cons i "is")
  from Cons.prems(1) obtain bytes n s1 where
    d: "rbind (media_artifact (be_relay env) relay hub (chunk_request artifact_id offset) i)
        (\<lambda>response. decode_remote_media env response offset (chunk_end offset) mime_type) = Inr (bytes, n)"
    and k: "known = None \<or> known = Some n"
    and w: "file_write_all w f bytes s = (Inr (), s1)"
    and rest: "(if offset + length bytes = n then flush_and_sync w remote_cache_failed s1
      else transfer env w relay hub artifact_id mime_type f (offset + length bytes) (Some n) is s1) = (Inr (), s')"
    by (auto split: sum.splits prod.splits if_splits)
  from d obtain response where "decode_remote_media env response offset (chunk_end offset) mime_type = Inr (bytes, n)" by auto
  note n = decode_remote_media_Inr [OF this]
  have c1: "content s1 f = Some (old @ bytes)" using file_write_all_Inr [OF w, of f] Cons.prems(2) by simp
  have other: "g \<noteq> f \<Longrightarrow> content s1 g = content s g" for g using file_write_all_Inr [OF w, of g] by simp
  show ?case
  proof (cases "offset + length bytes = n")
    case True
    with rest flush_files [of w remote_cache_failed s1] have "cs_files s' = cs_files s1" by simp
    with True c1 other n d k show ?thesis by (intro exI [of _ "[bytes]"] exI [of _ n]) simp
  next
    case False
    with rest have "transfer env w relay hub artifact_id mime_type f (offset + length bytes) (Some n) is s1 = (Inr (), s')" by simp
    from Cons.IH [OF this c1] obtain bs where
      bs: "received env relay hub artifact_id mime_type n (offset + length bytes) is bs" "n \<le> max_media"
      "offset + length bytes + length (concat bs) = n" "content s' f = Some ((old @ bytes) @ concat bs)"
      "\<forall>g. g \<noteq> f \<longrightarrow> content s' g = content s1 g" by auto
    with d k other show ?thesis by (intro exI [of _ "bytes # bs"] exI [of _ n]) auto
  qed
qed simp

text \<open>Conversely, chunks that are received are written.\<close>

lemma transfer_complete:
  assumes "received env relay hub artifact_id mime_type n offset is bs" "bs \<noteq> []" "known = None \<or> known = Some n"
    and "\<forall>m. cw_outcome w m = Works" "content s f = Some old"
  shows "\<exists>s'. transfer env w relay hub artifact_id mime_type f offset known is s = (Inr (), s')
    \<and> content s' f = Some (old @ concat bs)"
  using assms(1,2,3,5)
proof (induction bs arbitrary: offset "is" known s old)
  case (Cons b bs)
  then obtain i js where "is": "is = i # js" by (cases "is") auto
  with Cons.prems(1) have d: "rbind (media_artifact (be_relay env) relay hub (chunk_request artifact_id offset) i)
      (\<lambda>response. decode_remote_media env response offset (chunk_end offset) mime_type) = Inr (b, n)"
    and r: "received env relay hub artifact_id mime_type n (offset + length b) js bs" by simp_all
  obtain s1 where w: "file_write_all w f b s = (Inr (), s1)" using assms(4) by (auto simp: file_write_all_def Let_def)
  have c1: "content s1 f = Some (old @ b)" using file_write_all_Inr [OF w, of f] Cons.prems(4) by simp
  show ?case
  proof (cases "bs = []")
    case True
    with r have "offset + length b = n" by simp
    moreover have "fst (flush_and_sync w remote_cache_failed s1) = Inr ()"
      using assms(4) by (simp add: flush_and_sync_def file_sync_def)
    ultimately show ?thesis using True "is" d w c1 Cons.prems(3) flush_files [of w remote_cache_failed s1]
      by (cases "flush_and_sync w remote_cache_failed s1") auto
  next
    case False
    then obtain b' bs' where "bs = b' # bs'" by (cases bs) auto
    with r have "offset + length b \<noteq> n" by (cases js) (auto dest: decode_remote_media_Inr)
    with Cons.IH [OF r False, of "Some n" s1 "old @ b"] "is" d w c1 Cons.prems(3) show ?thesis by auto
  qed
qed simp

text \<open>Enough exchanges for the largest medium are enough: more of them change nothing.\<close>

lemma transfer_enough:
  assumes "offset < max_media" "max_media \<le> offset + length is * chunk_size"
  shows "transfer env w relay hub artifact_id mime_type f offset known (is @ rest) s =
    transfer env w relay hub artifact_id mime_type f offset known is s"
  using assms
proof (induction "is" arbitrary: offset known s)
  case (Cons i "is")
  have step: "transfer env w relay hub artifact_id mime_type f (offset + length bytes) (Some n) (is @ rest) s1 =
      transfer env w relay hub artifact_id mime_type f (offset + length bytes) (Some n) is s1"
    if "rbind (media_artifact (be_relay env) relay hub (chunk_request artifact_id offset) i)
        (\<lambda>response. decode_remote_media env response offset (chunk_end offset) mime_type) = Inr (bytes, n)"
      "offset + length bytes \<noteq> n" for bytes n s1
  proof -
    from that(1) obtain response where d: "decode_remote_media env response offset (chunk_end offset) mime_type = Inr (bytes, n)" by auto
    have "offset + length bytes = offset + chunk_size" "offset + chunk_size < max_media"
      using chunk_progress [OF d] that(2) decode_remote_media_Inr(2) [OF d] by (auto simp: min_def split: if_splits)
    with Cons.prems(2) show ?thesis by (intro Cons.IH) simp_all
  qed
  show ?case
  proof (cases "rbind (media_artifact (be_relay env) relay hub (chunk_request artifact_id offset) i)
        (\<lambda>response. decode_remote_media env response offset (chunk_end offset) mime_type)")
    case (Inr p)
    obtain bytes n where p: "p = (bytes, n)" by fastforce
    have next': "transfer env w relay hub artifact_id mime_type f (offset + length bytes) (Some n) (is @ rest) s1 =
        transfer env w relay hub artifact_id mime_type f (offset + length bytes) (Some n) is s1"
      if "offset + length bytes \<noteq> n" for s1
      using step Inr p that by blast
    show ?thesis
      unfolding append_Cons transfer.simps Inr p sum.case prod.case
      by (simp only: split: prod.split sum.split if_split) (simp add: next')
  qed simp
qed simp

section \<open>What an operation of the cache leaves alone\<close>

lemma content_delete [simp]: "map_of (AList.delete k m) p = (if p = k then None else map_of m p)"
  by (simp add: delete_conv')

lemma content_update [simp]: "map_of (AList.update k v m) p = (if p = k then Some v else map_of m p)"
  by (simp add: update_conv')

lemma tick_sel [simp]: "cs_files (tick s) = cs_files s" "cs_dirs (tick s) = cs_dirs s" "cs_step (tick s) = Suc (cs_step s)"
  by (simp_all add: tick_def)

lemma unlink_other: "p \<noteq> f \<Longrightarrow> content (snd (unlink w f s)) p = content s p"
  by (simp add: unlink_def Let_def)

lemma remove_dir_files: "cs_files (snd (cache_remove_dir w root d s)) = cs_files s"
  by (simp add: cache_remove_dir_def Let_def split: sum.splits)

lemma remove_file_other:
  "relative_path root candidate \<noteq> Inr p \<Longrightarrow> content (snd (cache_remove_file w root candidate s)) p = content s p"
  by (auto simp: cache_remove_file_def unlink_other split: sum.splits)

lemma unlink_all_other: "p \<notin> set fs \<Longrightarrow> content (snd (unlink_all w fs s)) p = content s p"
proof (induction fs arbitrary: s)
  case (Cons f fs)
  obtain r s1 where u: "unlink w f s = (r, s1)" by fastforce
  have "content s1 p = content s p" using unlink_other [of p f w s] Cons.prems u by simp
  with Cons u show ?case by (cases r) auto
qed simp

lemma strip_components_append [simp]: "strip_components ps (ps @ r) = Some r"
  by (induction ps) simp_all

lemma relative_path_Inr: "relative_path root cs = Inr rel \<longleftrightarrow> cs = path_components root @ rel \<and> rel \<noteq> [] \<and> list_all is_normal rel"
  by (auto simp: relative_path_def split: option.splits)

section \<open>The sweep\<close>

lemma scan_children_keeps:
  "scan_children is_file retry cs = Inr (children, True, False) \<Longrightarrow> c \<in> set children \<Longrightarrow> \<not> retry c"
proof (induction cs arbitrary: children)
  case (Cons x cs)
  then show ?case by (cases x) (auto split: if_splits)
qed simp

lemma sweep_batch_keeps:
  assumes "path_components root @ [Normal n, Normal c] \<in> set retryable \<or> name \<noteq> n"
  shows "content (snd (sweep_batch w v root retryable name s)) [Normal n, Normal c] = content s [Normal n, Normal c]"
proof (cases "scan_children (\<lambda>c. content s [Normal name, Normal c] \<noteq> None)
        (\<lambda>c. path_components root @ [Normal name, Normal c] \<in> set retryable) (sv_children v name)")
  case (Inr r)
  obtain children can has where r: "r = (children, can, has)" by (cases r)
  show ?thesis
  proof (cases "has \<or> \<not> can")
    case True
    with Inr r show ?thesis by (simp add: sweep_batch_def)
  next
    case False
    with Inr r have sc: "scan_children (\<lambda>c. content s [Normal name, Normal c] \<noteq> None)
        (\<lambda>c. path_components root @ [Normal name, Normal c] \<in> set retryable) (sv_children v name) = Inr (children, True, False)" by simp
    have "[Normal n, Normal c] \<notin> set (map (\<lambda>c. [Normal name, Normal c]) children)"
      using scan_children_keeps [OF sc, of c] assms by auto
    then have "content (snd (unlink_all w (map (\<lambda>c. [Normal name, Normal c]) children) s)) [Normal n, Normal c] = content s [Normal n, Normal c]"
      by (rule unlink_all_other)
    with Inr r False show ?thesis by (auto simp: sweep_batch_def remove_dir_files split: prod.splits sum.splits)
  qed
qed (simp add: sweep_batch_def)

lemma sweep_entries_keeps:
  assumes "path_components root @ [Normal n, Normal c] \<in> set retryable \<or> \<not> sweep_expired v now n"
  shows "content (snd (sweep_entries w v now root retryable es s)) [Normal n, Normal c] = content s [Normal n, Normal c]"
proof (induction es arbitrary: s)
  case (Cons e es)
  show ?case
  proof (cases e)
    case (Inr name)
    let ?b = "sweep_batch w v root retryable name (tick s)"
    have b: "content (snd ?b) [Normal n, Normal c] = content s [Normal n, Normal c]" if "sweep_expired v now name"
      using sweep_batch_keeps [of root n c retryable name w v "tick s"] assms that by auto
    show ?thesis
    proof (cases ?b)
      case (Pair r s1)
      with b Cons Inr show ?thesis by (cases r) (auto simp: Let_def split: sum.splits)
    qed
  qed simp
qed simp

lemma remove_reconciled_files_keeps:
  "path_components root @ p \<notin> set ps \<Longrightarrow> content (snd (remove_reconciled_files w root ps s)) p = content s p"
proof (induction ps arbitrary: s)
  case (Cons x ps)
  obtain r s1 where x: "cache_remove_file w root x s = (r, s1)" by fastforce
  have "content s1 p = content s p"
    using remove_file_other [of root x p w s] Cons.prems x by (auto simp: relative_path_Inr)
  with Cons x show ?case by (cases r) auto
qed simp

lemma remove_reconciled_dirs_files: "cs_files (snd (remove_reconciled_dirs w root ds s)) = cs_files s"
proof (induction ds arbitrary: s)
  case (Cons d ds)
  obtain r s1 where d: "cache_remove_dir w root d s = (r, s1)" by fastforce
  with remove_dir_files [of w root d s] Cons show ?case by (cases r) auto
qed simp

lemma remove_reconciled_keeps:
  "path_components root @ p \<notin> path_components ` set paths \<Longrightarrow>
   content (snd (remove_reconciled_attachment_cache w order root paths s)) p = content s p"
  using remove_reconciled_files_keeps [of root p "map path_components paths" w s]
  by (auto simp: remove_reconciled_attachment_cache_def Let_def remove_reconciled_dirs_files split: prod.splits sum.splits)

section \<open>Downloads\<close>

text \<open>A download touches its own file only.\<close>

definition only_file :: "rel_path option \<Rightarrow> cache_state \<Rightarrow> cache_state \<Rightarrow> bool" where
  "only_file f s s' \<longleftrightarrow> (\<forall>p. f \<noteq> Some p \<longrightarrow> content s' p = content s p) \<and> cs_dirs s' = cs_dirs s"

lemma only_file_refl [simp]: "only_file f s s"
  by (simp add: only_file_def)

lemma only_file_trans: "only_file f s s1 \<Longrightarrow> only_file f s1 s2 \<Longrightarrow> only_file f s s2"
  by (simp add: only_file_def)

lemma only_file_flush: "only_file f s (snd (flush_and_sync w failed s))"
  by (auto simp: only_file_def flush_and_sync_def file_sync_def split: prod.splits sum.splits)

lemma only_file_write: "only_file (Some f) s (snd (file_write_all w f bytes s))"
  by (auto simp: only_file_def file_write_all_def Let_def map_of_map_entry split: io_outcome.splits)

lemma only_file_stream: "only_file (Some f) s (snd (stream_chunks w f n cs s))"
proof (induction cs arbitrary: n s)
  case (Cons c cs)
  show ?case
  proof (cases c)
    case (Inr chunk)
    obtain r s1 where w: "file_write_all w f chunk s = (r, s1)" by fastforce
    have "only_file (Some f) s s1" using only_file_write [of f s w chunk] w by simp
    with Cons Inr w show ?thesis by (cases r) (auto simp: Let_def intro: only_file_trans)
  qed simp
qed (simp add: only_file_flush)

lemma only_file_transfer: "only_file (Some f) s (snd (transfer env w relay hub artifact_id mime_type f n known is s))"
proof (induction "is" arbitrary: n known s)
  case (Cons i "is")
  have "only_file (Some f) s (snd (case file_write_all w f bytes s of
      (Inl e, s1) \<Rightarrow> (Inl (remote_cache_failed ''write'' e), s1)
    | (Inr u, s1) \<Rightarrow> if n + length bytes = reported then flush_and_sync w remote_cache_failed s1
        else transfer env w relay hub artifact_id mime_type f (n + length bytes) (Some reported) is s1))" for bytes reported
  proof -
    obtain r s1 where w: "file_write_all w f bytes s = (r, s1)" by fastforce
    have "only_file (Some f) s s1" using only_file_write [of f s w bytes] w by simp
    with w Cons only_file_flush show ?thesis by (cases r) (auto intro: only_file_trans)
  qed
  then show ?case by (simp split: sum.split prod.split)
qed simp

lemma create_new_file_Inr:
  assumes "cache_create_new_file w root cand s = (Inr f, s1)"
  shows "relative_path root cand = Inr f" "content s f = None" "content s1 f = Some []" "only_file (Some f) s s1"
  using assms by (auto simp: cache_create_new_file_def Let_def only_file_def split: if_splits sum.splits)

lemma create_new_file_Inl: "cache_create_new_file w root cand s = (Inl e, s1) \<Longrightarrow> only_file f s s1"
  by (auto simp: cache_create_new_file_def Let_def only_file_def split: if_splits sum.splits)

lemma stream_chunks_Inr:
  "stream_chunks w f n cs s = (Inr (), s') \<Longrightarrow> content s f = Some old \<Longrightarrow> length old = n \<Longrightarrow> n \<le> max_media \<Longrightarrow>
   \<exists>bytes. content s' f = Some bytes \<and> bytes \<noteq> [] \<and> length bytes \<le> max_media"
proof (induction cs arbitrary: n s old)
  case Nil
  then have "cs_files s' = cs_files s" "n \<noteq> 0"
    using flush_files [of w "cache_failed w" s] by (auto split: if_splits)
  with Nil show ?case by auto
next
  case (Cons c cs)
  from Cons.prems(1) obtain chunk s1 where c: "c = Inr chunk" and le: "saturating_add n (length chunk) \<le> max_media"
    and w: "file_write_all w f chunk s = (Inr (), s1)"
    and rest: "stream_chunks w f (saturating_add n (length chunk)) cs s1 = (Inr (), s')"
    by (cases c) (auto simp: Let_def not_less split: if_splits prod.splits sum.splits)
  have "saturating_add n (length chunk) = n + length chunk"
    using le by (auto simp: saturating_add_def max_media_def u64_max_def)
  moreover have "content s1 f = Some (old @ chunk)" using file_write_all_Inr [OF w, of f] Cons.prems(2) by simp
  ultimately show ?case using Cons.IH [OF rest] Cons.prems(3) le by simp
qed

definition place :: "string \<Rightarrow> string \<Rightarrow> rel_path option" where
  "place root p = (case relative_path root (path_components p) of Inl e \<Rightarrow> None | Inr rel \<Rightarrow> Some rel)"

lemma place_Some: "place root p = Some rel \<longleftrightarrow> relative_path root (path_components p) = Inr rel"
  by (auto simp: place_def split: sum.splits)

lemma fetch_artifact_frame:
  "only_file (place root destination) s (snd (fetch_artifact env client w mi root k artifact mime_type destination s))"
proof -
  have created: "only_file (place root destination) s s2"
    if "cache_create_new_file w root (path_components destination) s = (Inr f, s1)" "only_file (Some f) s1 s2" for f s1 s2
    using create_new_file_Inr [OF that(1)] that(2) only_file_trans by (simp add: only_file_def place_def)
  show ?thesis
    by (auto simp: fetch_artifact_def download_remote_media_artifact_def download_local_media_artifact_def
        download_media_artifact_def intro: create_new_file_Inl created only_file_transfer only_file_stream
        split: option.splits sum.splits prod.splits)
qed

lemma fetch_artifact_Inr:
  assumes "fetch_artifact env client w mi root k artifact mime_type destination s = (Inr (), s2)"
  shows "\<exists>rel bytes. place root destination = Some rel \<and> content s rel = None \<and> content s2 rel = Some bytes
    \<and> bytes \<noteq> [] \<and> length bytes \<le> max_media"
proof -
  from assms obtain f s1 where c: "cache_create_new_file w root (path_components destination) s = (Inr f, s1)"
    and r: "(\<exists>relay hub artifact_id. transfer env w relay hub artifact_id mime_type f 0 None (mi_remote mi k) s1 = (Inr (), s2))
      \<or> (\<exists>cs. stream_chunks w f 0 cs s1 = (Inr (), s2))"
    by (auto simp: fetch_artifact_def download_remote_media_artifact_def download_local_media_artifact_def
        download_media_artifact_def split: option.splits sum.splits prod.splits if_splits)
  note f = create_new_file_Inr [OF c]
  from r have "\<exists>bytes. content s2 f = Some bytes \<and> bytes \<noteq> [] \<and> length bytes \<le> max_media"
  proof
    assume "\<exists>relay hub artifact_id. transfer env w relay hub artifact_id mime_type f 0 None (mi_remote mi k) s1 = (Inr (), s2)"
    then obtain relay hub artifact_id where
      "transfer env w relay hub artifact_id mime_type f 0 None (mi_remote mi k) s1 = (Inr (), s2)" by blast
    from transfer_received [OF this f(3)] obtain bs n where b: "bs \<noteq> []"
      "received env relay hub artifact_id mime_type n 0 (mi_remote mi k) bs" "n \<le> max_media" "length (concat bs) = n"
      "content s2 f = Some (concat bs)" by auto
    then have "0 < n" by (cases bs; cases "mi_remote mi k") (auto dest: decode_remote_media_Inr)
    with b show ?thesis by auto
  next
    assume "\<exists>cs. stream_chunks w f 0 cs s1 = (Inr (), s2)"
    with f(3) show ?thesis using stream_chunks_Inr by fastforce
  qed
  with f show ?thesis by (auto simp: place_Some)
qed

lemma download_received:
  assumes "\<forall>n. cw_outcome w n = Works" "\<forall>n. cw_visible w n"
    and "relative_path root (path_components destination) = Inr rel" "content s rel = None" "rel \<notin> set (cs_dirs s)"
      "parent_exists rel s"
    and "received env relay hub artifact_id mime_type n 0 inputs bs" "bs \<noteq> []"
  shows "\<exists>s'. download_remote_media_artifact env w relay hub artifact_id inputs mime_type root destination s = (Inr (), s')
    \<and> content s' rel = Some (concat bs)"
proof -
  let ?s = "(tick s)\<lparr>cs_files := AList.update rel [] (cs_files s)\<rparr>"
  have "cache_create_new_file w root (path_components destination) s = (Inr rel, ?s)"
    using assms(1-6) by (simp add: cache_create_new_file_def Let_def)
  moreover obtain s' where "transfer env w relay hub artifact_id mime_type rel 0 None inputs ?s = (Inr (), s')"
    "content s' rel = Some ([] @ concat bs)"
    using transfer_complete [OF assms(7,8), of None w ?s rel "[]"] assms(1) by auto
  ultimately show ?thesis by (simp add: download_remote_media_artifact_def)
qed

section \<open>Batches\<close>

text \<open>
  \<open>batch_ok\<close>, for a batch that started in \<open>s0\<close>: the files it lists are new, everything else is as it was, and while
  nothing has failed each artifact has its file with the downloaded bytes.
\<close>

definition batch_ok :: "string \<Rightarrow> string \<Rightarrow> cache_state \<Rightarrow> nat \<Rightarrow> materialized \<Rightarrow> cache_state \<Rightarrow> bool" where
  "batch_ok root d s0 k b s \<longleftrightarrow>
     (\<forall>f \<in> set (mt_cache_files b). \<exists>rel. place root f = Some rel \<and> content s0 rel = None)
   \<and> (\<forall>p. Some p \<notin> place root ` set (mt_cache_files b) \<longrightarrow> content s p = content s0 p)
   \<and> (mt_failed_count b = 0 \<longrightarrow> length (mt_attachments b) = k \<and> length (mt_cache_files b) = k
       \<and> (\<forall>f \<in> set (mt_cache_files b). \<exists>rel bytes. place root f = Some rel \<and> content s rel = Some bytes \<and> bytes \<noteq> []
            \<and> length bytes \<le> max_media))
   \<and> mt_cache_dir b \<in> {None, Some d}
   \<and> (mt_cache_dir b = None \<longrightarrow> mt_cache_files b = [])
   \<and> (\<forall>p. p \<in> set (cs_dirs s) \<longleftrightarrow> p \<in> set (cs_dirs s0) \<or> (p \<in> set (cs_dirs s) \<and> mt_cache_dir b \<noteq> None \<and> place root d = Some p))"

definition destination_of :: "media_inputs \<Rightarrow> string \<Rightarrow> nat \<Rightarrow> string \<Rightarrow> string" where
  "destination_of mi d k mime_type = path_join d (''attachment-'' @ mi_file_uuid mi k @ ''.'' @ attachment_extension mime_type)"

text \<open>The generated names are new to the cache.\<close>

definition fresh_names :: "string \<Rightarrow> media_inputs \<Rightarrow> string \<Rightarrow> cache_state \<Rightarrow> bool" where
  "fresh_names root mi d s \<longleftrightarrow>
     (\<forall>k mime_type. case place root (destination_of mi d k mime_type) of None \<Rightarrow> True | Some rel \<Rightarrow> content s rel = None)
   \<and> (case place root d of None \<Rightarrow> True | Some rel \<Rightarrow> rel \<notin> set (cs_dirs s) \<and> dir_empty rel s)"

lemma create_dir_files: "cs_files (snd (cache_create_dir w root cand s)) = cs_files s"
  by (simp add: cache_create_dir_def Let_def split: sum.splits)

lemma create_dir_dirs:
  "p \<in> set (cs_dirs (snd (cache_create_dir w root cand s))) \<longleftrightarrow>
   p \<in> set (cs_dirs s) \<or> (p \<in> set (cs_dirs (snd (cache_create_dir w root cand s))) \<and> relative_path root cand = Inr p)"
  by (auto simp: cache_create_dir_def Let_def split: sum.splits if_splits)

lemma remove_file_works:
  assumes "\<And>n. cw_outcome w n = Works"
  shows "content (snd (cache_remove_file w root (path_components f) s)) p = (if place root f = Some p then None else content s p)"
    "cs_dirs (snd (cache_remove_file w root cand s)) = cs_dirs s"
  using assms by (auto simp: cache_remove_file_def unlink_def Let_def place_def split: sum.splits)

lemma batch_ok_failed: "batch_ok root d s0 k b s \<Longrightarrow> batch_ok root d s0 k' (batch_failed b) s"
  by (simp add: batch_ok_def batch_failed_def)

lemma batch_ok_dir:
  assumes "batch_ok root d s0 k b s"
  shows "batch_ok root d s0 k (b\<lparr>mt_cache_dir := Some d\<rparr>) (snd (cache_create_dir w root (path_components d) s))"
proof -
  have dirs: "p \<in> set (cs_dirs (snd (cache_create_dir w root (path_components d) s))) \<longleftrightarrow>
      p \<in> set (cs_dirs s0) \<or> (p \<in> set (cs_dirs (snd (cache_create_dir w root (path_components d) s))) \<and> place root d = Some p)" for p
    using create_dir_dirs [of p w root "path_components d" s] assms unfolding batch_ok_def place_Some by blast
  show ?thesis
    using assms dirs by (simp add: batch_ok_def create_dir_files)
qed

lemma batch_ok_fetch:
  assumes "batch_ok root d s0 k b s" "mt_cache_dir b = Some d" "only_file (place root f) s s2"
    and "place root f = Some rel" "content s rel = None" "content s2 rel = Some bytes" "bytes \<noteq> []" "length bytes \<le> max_media"
    and "content s0 rel = None"
  shows "batch_ok root d s0 (Suc k) (b\<lparr>mt_cache_files := mt_cache_files b @ [f], mt_attachments := mt_attachments b @ [a]\<rparr>) s2"
proof -
  have same: "p \<noteq> rel \<Longrightarrow> content s2 p = content s p" for p using assms(3,4) by (simp add: only_file_def)
  have dirs: "cs_dirs s2 = cs_dirs s" using assms(3) by (simp add: only_file_def)
  have old: "\<exists>rel bytes. place root g = Some rel \<and> content s2 rel = Some bytes \<and> bytes \<noteq> [] \<and> length bytes \<le> max_media"
    if "g \<in> set (mt_cache_files b)" "mt_failed_count b = 0" for g
  proof -
    from assms(1) that obtain rel' bytes' where g: "place root g = Some rel'" "content s rel' = Some bytes'" "bytes' \<noteq> []"
      "length bytes' \<le> max_media" unfolding batch_ok_def by blast
    with assms(5) have "rel' \<noteq> rel" by auto
    with g same show ?thesis by auto
  qed
  show ?thesis
    using assms same old dirs by (auto simp: batch_ok_def)
qed

lemma batch_ok_drop:
  assumes "batch_ok root d s0 k b s" "only_file (place root f) s s2" "\<And>n. cw_outcome w n = Works"
    and "case place root f of None \<Rightarrow> True | Some rel \<Rightarrow> content s0 rel = None" "mt_failed_count b' > 0"
    and "b' = batch_failed b"
  shows "batch_ok root d s0 k' b' (snd (cache_remove_file w root (path_components f) s2))"
proof -
  have c: "content (snd (cache_remove_file w root (path_components f) s2)) p =
      (if place root f = Some p then content s0 p else content s p)" for p
    using assms(2,4) remove_file_works(1) [OF assms(3), of root f s2 p] by (auto simp: only_file_def split: option.splits)
  have dirs: "cs_dirs (snd (cache_remove_file w root (path_components f) s2)) = cs_dirs s"
    using assms(2) remove_file_works(2) [OF assms(3)] by (simp add: only_file_def)
  show ?thesis
    using assms(1) c dirs by (simp add: batch_ok_def assms(6) batch_failed_def)
qed

lemma materialize_one_ok:
  assumes "batch_ok root d s0 k b s" "fresh_names root mi d s0" "\<And>n. cw_outcome w n = Works"
    and "d = batch_dir root mi turn_id b" "materialize_one env client w mi root turn_id k artifact (b, s) = (b', s')"
  shows "batch_ok root d s0 (Suc k) b' s'"
proof (cases "batch_mime artifact")
  case None
  with assms show ?thesis by (auto simp: materialize_one_def intro: batch_ok_failed)
next
  case (Some mime_type)
  let ?f = "destination_of mi d k mime_type" and ?b = "b\<lparr>mt_cache_dir := Some d\<rparr>"
  obtain r s1 where c: "cache_create_dir w root (path_components d) s = (r, s1)" by fastforce
  have b1: "batch_ok root d s0 k ?b s1" using batch_ok_dir [OF assms(1), of w] c by simp
  have fr: "case place root ?f of None \<Rightarrow> True | Some rel \<Rightarrow> content s0 rel = None"
    using assms(2) by (simp add: fresh_names_def)
  show ?thesis
  proof (cases r)
    case (Inl e)
    with assms(4,5) Some c b1 batch_ok_failed show ?thesis by (auto simp: materialize_one_def Let_def)
  next
    case (Inr u)
    obtain q s2 where q: "fetch_artifact env client w mi root k artifact mime_type ?f s1 = (q, s2)" by fastforce
    have of: "only_file (place root ?f) s1 s2"
      using fetch_artifact_frame [of root ?f s1 env client w mi k artifact mime_type] q by simp
    show ?thesis
    proof (cases q)
      case Err: (Inl e)
      then have "b' = batch_failed ?b" "s' = snd (cache_remove_file w root (path_components ?f) s2)"
        using assms(4,5) Some c Inr q by (auto simp: materialize_one_def Let_def destination_of_def)
      with batch_ok_drop [OF b1 of assms(3) fr] show ?thesis by (simp add: batch_failed_def)
    next
      case Ok: (Inr u)
      then have b': "b' = ?b\<lparr>mt_cache_files := mt_cache_files ?b @ [?f], mt_attachments := mt_attachments ?b @ [with_path ?f artifact]\<rparr>" "s' = s2"
        using assms(4,5) Some c Inr q by (auto simp: materialize_one_def Let_def destination_of_def)
      from fetch_artifact_Inr q Ok obtain rel bytes where "place root ?f = Some rel" "content s1 rel = None"
        "content s2 rel = Some bytes" "bytes \<noteq> []" "length bytes \<le> max_media" by fastforce
      with batch_ok_fetch [OF b1 _ of] fr show ?thesis unfolding b' by simp
    qed
  qed
qed

lemma materialize_all_ok:
  assumes "batch_ok root d s0 k b s" "fresh_names root mi d s0" "\<And>n. cw_outcome w n = Works"
    and "d = path_join root (''turn-'' @ safe_cache_segment turn_id @ ''-'' @ mi_dir_uuid mi)"
    and "materialize_all env client w mi root turn_id k artifacts (b, s) = (b', s')"
  shows "batch_ok root d s0 (k + length artifacts) b' s'"
  using assms(1,5)
proof (induction artifacts arbitrary: k b s)
  case (Cons a as)
  obtain b1 s1 where one: "materialize_one env client w mi root turn_id k a (b, s) = (b1, s1)" by fastforce
  have "d = batch_dir root mi turn_id b"
    using Cons.prems(1) assms(4) by (auto simp: batch_ok_def batch_dir_def split: option.splits)
  from materialize_one_ok [OF Cons.prems(1) assms(2,3) this one] Cons.IH [of "Suc k" b1 s1] Cons.prems(2) one
  show ?case by simp
qed simp

lemma remove_files_works:
  assumes "\<And>n. cw_outcome w n = Works"
  shows "content (remove_files w root fs s) p = (if Some p \<in> place root ` set fs then None else content s p)"
    "cs_dirs (remove_files w root fs s) = cs_dirs s"
  by (induction fs arbitrary: s) (auto simp: remove_file_works [OF assms])

lemma dir_empty_content: "content s = content s' \<Longrightarrow> set (cs_dirs s) \<subseteq> insert rel (set (cs_dirs s')) \<Longrightarrow>
   rel \<noteq> [] \<Longrightarrow> dir_empty rel s' \<Longrightarrow> dir_empty rel s"
proof -
  assume c: "content s = content s'" and d: "set (cs_dirs s) \<subseteq> insert rel (set (cs_dirs s'))" and e: "rel \<noteq> []" "dir_empty rel s'"
  have "fst ` set (cs_files s) = fst ` set (cs_files s')" using c by (simp add: dom_map_of_conv_image_fst [symmetric])
  moreover have "butlast rel \<noteq> rel" using e(1) by (metis length_butlast length_greater_0_conv diff_less less_irrefl less_one)
  ultimately show ?thesis using d e by (auto simp: dir_empty_def list_ex_iff)
qed


lemma failed_batch_removed:
  assumes "batch_ok root d s0 k b s" "fresh_names root mi d s0" "\<And>n. cw_outcome w n = Works" "mt_cache_dir b = Some d"
    and "s1 = remove_files w root (mt_cache_files b) s" "s' = snd (cache_remove_dir w root (path_components d) s1)"
  shows "content s' = content s0" "set (cs_dirs s') = set (cs_dirs s0)"
proof -
  have c: "content s1 = content s0"
  proof
    fix p
    show "content s1 p = content s0 p"
      using assms(1) unfolding assms(5) remove_files_works [OF assms(3)] batch_ok_def by (auto; fastforce)
  qed
  have d1: "cs_dirs s1 = cs_dirs s" by (simp add: assms(5) remove_files_works [OF assms(3)])
  then show "content s' = content s0" using c by (simp add: assms(6) remove_dir_files)
  from assms(1) have dirs: "p \<in> set (cs_dirs s) \<longleftrightarrow> p \<in> set (cs_dirs s0) \<or> (p \<in> set (cs_dirs s) \<and> place root d = Some p)" for p
    unfolding batch_ok_def assms(4) by blast
  show "set (cs_dirs s') = set (cs_dirs s0)"
  proof (cases "relative_path root (path_components d)")
    case (Inl e)
    with dirs d1 show ?thesis by (auto simp: assms(6) cache_remove_dir_def place_def)
  next
    case (Inr rel)
    then have p: "place root d = Some rel" by (simp add: place_Some)
    have new: "rel \<notin> set (cs_dirs s0)" "dir_empty rel s0" using assms(2) p by (simp_all add: fresh_names_def)
    have "rel \<noteq> []" using Inr by (simp add: relative_path_Inr)
    moreover have "set (cs_dirs s1) \<subseteq> insert rel (set (cs_dirs s0))" using dirs p d1 by auto
    ultimately have "dir_empty rel s1" using dir_empty_content c new by blast
    with Inr dirs p d1 new assms(3) show ?thesis by (auto simp: assms(6) cache_remove_dir_def Let_def)
  qed
qed

end
