(* ===== verification/Media_Properties.thy ===== *)
theory Media_Properties
  imports Media_Facts Model_Env
begin

text \<open>
  The properties of the downloads and of the attachment cache, each with a witness.
\<close>

section \<open>Downloads from a device\<close>


text \<open>C34: a medium that a device serves correctly is downloaded. While the cache works and the destination is a
  new file in an existing directory, chunks that are received in this sense make the download succeed with exactly
  these bytes.\<close>

theorem remote_media_complete:
  assumes "\<forall>n. cw_outcome w n = Works" "\<forall>n. cw_visible w n"
    and "relative_path root (path_components destination) = Inr rel" "content s rel = None" "rel \<notin> set (cs_dirs s)"
      "parent_exists rel s"
    and "received env relay hub artifact_id mime_type n 0 inputs bs" "bs \<noteq> []"
  shows "\<exists>s'. download_remote_media_artifact env w relay hub artifact_id inputs mime_type root destination s = (Inr (), s')
    \<and> content s' rel = Some (concat bs)"
  using download_received [OF assms] by blast

section \<open>A device with one medium in two chunks\<close>

definition demo_chunk :: "nat \<Rightarrow> nat \<Rightarrow> string \<Rightarrow> json" where
  "demo_chunk offset len encoded = jobj [(''requestId'', JStr ''gate_1''), (''hubIdentity'', JStr (replicate 64 CHR ''a'')),
     (''deadlineUnixMs'', JInt 9000), (''status'', JStr ''complete''),
     (''result'', jobj [(''status'', JStr ''complete''), (''httpStatus'', JInt 206),
       (''body'', jobj [(''totalBytes'', JInt 49153), (''artifactOffset'', JInt (int offset)), (''bytes'', JInt (int len)),
          (''contentType'', JStr ''image/jpeg''), (''dataBase64'', JStr encoded),
          (''sha256'', JStr (if len = 1 then ''s1'' else ''s2''))])])]"

definition demo_media_env :: beacon_env where
  "demo_media_env = \<lparr>be_content = \<lparr>ce_sha256_hex = (\<lambda>b. if length b = 1 then ''s1'' else ''s2''), ce_lowercase = (\<lambda>s. s), ce_scalar = print_json\<rparr>,
     be_relay = \<lparr>url_parse = (\<lambda>s. None), url_join = (\<lambda>u s. Some u),
       from_slice = (\<lambda>b. Some (if b = ''a'' then demo_chunk 0 49152 ''A'' else demo_chunk 49152 1 ''B'')),
       to_vec = (\<lambda>v. []), relay_rfc3339 = scan_int\<rparr>,
     be_status_text = (\<lambda>n. []), be_from_str = (\<lambda>s. Inr JNull), be_url_decode = Some,
     be_base64 = (\<lambda>e. Some (if e = ''A'' then replicate 49152 CHR ''x'' else ''y''))\<rparr>"

definition demo_relay :: relay_client where
  "demo_relay = \<lparr>expected_hub_identity = Some (replicate 64 CHR ''a''), relay_endpoint = undefined, relay_region = []\<rparr>"

definition demo_inputs :: "exchange_inputs list" where
  "demo_inputs = map (\<lambda>b. (''gate_1'', 0, [\<lparr>at_start = 0, at_end = 1, at_wall = 100, at_response = Inr (200, b)\<rparr>])) [''a'', ''b'']"

definition demo_bytes :: "string list" where
  "demo_bytes = [replicate 49152 CHR ''x'', ''y'']"

definition working :: cache_world where
  "working = \<lparr>cw_visible = (\<lambda>n. True), cw_outcome = (\<lambda>n. Works), cw_text = (\<lambda>e. [])\<rparr>"

definition demo_cache :: cache_state where
  "demo_cache = \<lparr>cs_step = 0, cs_files = [], cs_dirs = [[Normal ''t'']]\<rparr>"

lemma demo_identity: "valid_identity (replicate 64 CHR ''a'')" "valid_hub_id ''hub''"
  by (simp_all add: valid_identity_def valid_hub_id_def is_ascii_hexdigit_def list_all_iff is_ascii_digit_def
      less_eq_char_def is_ascii_alphanumeric_def is_ascii_lowercase_def)

lemma demo_media_exchange:
  "b = ''a'' \<or> b = ''b'' \<Longrightarrow>
   media_artifact (be_relay demo_media_env) demo_relay ''hub'' (jobj kvs)
     (''gate_1'', 0, [\<lparr>at_start = 0, at_end = 1, at_wall = 100, at_response = Inr (200, b)\<rparr>]) =
   Inr \<lparr>resp_hub_identity = replicate 64 CHR ''a'', resp_status = 206,
     resp_body = jindex (jindex (if b = ''a'' then demo_chunk 0 49152 ''A'' else demo_chunk 49152 1 ''B'') ''result'') ''body''\<rparr>"
  by (auto simp: media_artifact_def run_exchange_def relay_exchange_def demo_relay_def demo_media_env_def Let_def is_object_def
      jobj_def max_response_def media_ttl_def poll_step_def is_server_error_def accept_payload_def demo_chunk_def jindex_def
      i64_min_def i64_max_def demo_identity complete_response_def u64_max_def)

lemma demo_received: "received demo_media_env demo_relay ''hub'' ''m1'' ''image/jpeg'' 49153 0 demo_inputs demo_bytes"
  by (simp add: demo_inputs_def demo_bytes_def chunk_request_def demo_media_exchange)
     (simp add: decode_remote_media_def demo_chunk_def jobj_def jindex_def Let_def u64_max_def max_media_def chunk_end_def chunk_size_def
      demo_media_env_def eq_ignore_case_def)

lemma demo_place:
  "relative_path ''/c'' (path_components ''/c/t/f'') = Inr [Normal ''t'', Normal ''f'']"
  by code_simp

lemmas demo_received_run = download_received [OF _ _ demo_place _ _ _ demo_received]

lemma demo_downloads:
  "\<exists>s'. download_remote_media_artifact demo_media_env working demo_relay ''hub'' ''m1'' demo_inputs ''image/jpeg'' ''/c'' ''/c/t/f'' demo_cache
      = (Inr (), s')"
  using demo_received_run [of working demo_cache] by (auto simp: working_def demo_cache_def parent_exists_def demo_bytes_def)

theorem remote_media_complete_witness:
  "\<exists>s'. download_remote_media_artifact demo_media_env working demo_relay ''hub'' ''m1'' demo_inputs ''image/jpeg'' ''/c'' ''/c/t/f'' demo_cache
      = (Inr (), s') \<and> content s' [Normal ''t'', Normal ''f''] = Some (concat demo_bytes)"
  by (rule remote_media_complete [OF _ _ demo_place _ _ _ demo_received])
     (simp_all add: working_def demo_cache_def parent_exists_def demo_bytes_def)



section \<open>The batch of a delivery\<close>



definition demo_client :: task_client where
  "demo_client = \<lparr>tc_cloud_relay = Some (demo_relay, ''hub''), tc_base_url = [], tc_api_token = [],
     tc_turn_endpoint = default_turn_endpoint, tc_contract_version = default_contract_version\<rparr>"

definition demo_names :: media_inputs where
  "demo_names = \<lparr>mi_dir_uuid = ''u'', mi_file_uuid = (\<lambda>k. replicate (Suc k) CHR ''f''),
     mi_remote = (\<lambda>k. if k = 0 then demo_inputs else []), mi_local = (\<lambda>k. Inl ''unused'')\<rparr>"

definition demo_artifact :: "string \<Rightarrow> json" where
  "demo_artifact i = jobj [(''mime_type'', JStr ''image/jpeg''), (''url'', JStr (''/api/cameras/artifacts/'' @ i))]"


end
