(* ===== verification/Gateway_Service.thy ===== *)
theory Gateway_Service
  imports Gateway_Delivery Session_Store Navi_Fleet
begin

text \<open>
  The service of \<^verbatim>\<open>src/gateway.rs\<close>: start-up of the attachment cache, inbound messages, turns of channel edges,
  notifications, recovery, the permission checks before every send, and the work for Navi devices. It composes the
  session store, the route directory, the HarborBeacon client and the delivery engine. The state holds the files of
  the session store, the files of the route directory and the state of the deliveries; one counter numbers the
  interactions with the world. Other tasks and processes change the route directory while a delivery runs, so the
  checks before a send find it as the world shows it at that point.
\<close>

section \<open>The service and its world\<close>

record service =
  se_env :: gate_env
  se_beacon :: beacon_env
  se_fleet_env :: fleet_env
  se_fleet :: "relay_client option"
  se_task_client :: "task_client option"
  se_adapters :: "string list"
  se_normalize :: "string \<Rightarrow> json \<Rightarrow> gateway_error + inbound_message"
  se_lease :: "string \<Rightarrow> nat"
  se_decode :: "json \<Rightarrow> string + outbound_message"
  se_instance :: string
  se_public_origin :: string
  se_cache_root :: string

text \<open>
  \<open>sw_fleet_now\<close>, \<open>sw_fleet_io\<close> and \<open>sw_exchange\<close> are numbered within an interaction; \<open>sw_fleet\<close> is the route
  directory a check finds and \<open>sw_meanwhile\<close> what others do to it while the check asks the device.
\<close>

record service_world =
  sw_gate :: gate_world
  sw_io :: "nat \<Rightarrow> io"
  sw_fleet_now :: "nat \<Rightarrow> nat \<Rightarrow> int"
  sw_fleet_io :: "nat \<Rightarrow> nat \<Rightarrow> fleet_io"
  sw_fleet :: "nat \<Rightarrow> disk"
  sw_meanwhile :: "nat \<Rightarrow> nat \<Rightarrow> disk \<Rightarrow> disk"
  sw_exchange :: "nat \<Rightarrow> nat \<Rightarrow> exchange_inputs"
  sw_reply :: "nat \<Rightarrow> http_reply option"
  sw_statuses :: "nat \<Rightarrow> nat \<Rightarrow> nat option"
  sw_task_reply :: "nat \<Rightarrow> task_reply"
  sw_cache :: "nat \<Rightarrow> cache_world \<times> media_inputs \<times> cache_state"

record service_state =
  ss_disk :: disk
  ss_fleet :: disk
  ss_delivery :: delivery_state

abbreviation se_content :: "service \<Rightarrow> content_env" where "se_content sv \<equiv> be_content (se_beacon sv)"

definition gate_for :: "service \<Rightarrow> string \<Rightarrow> gate" where
  "gate_for sv adapter = \<lparr>ga_env = se_env sv, ga_content = se_content sv, ga_adapter = adapter,
     ga_lease = se_lease sv adapter, ga_instance = se_instance sv, ga_decode = se_decode sv\<rparr>"

section \<open>Permission checks\<close>

definition selected_client :: "relay_client \<Rightarrow> selection \<Rightarrow> gateway_error + task_client" where
  "selected_client relay sel = rbind (with_hub_identity (sel_hub_identity sel) relay) (\<lambda>r. from_cloud_relay r (sel_hub_id sel))"

definition outbound_task_client ::
  "service \<Rightarrow> fleet_io \<Rightarrow> int \<Rightarrow> outbound_message \<Rightarrow> disk \<Rightarrow> (gateway_error + task_client) \<times> disk" where
  "outbound_task_client sv io now m d =
    (let configured = (ok_or wa_delivery_unavailable (se_task_client sv), d) in
     if out_platform m = ''whatsapp'' then (case se_fleet sv of
         Some relay \<Rightarrow> (case check_route (se_fleet_env sv) io now m d of
             (Inl e, d1) \<Rightarrow> (Inl e, d1) | (Inr sel, d1) \<Rightarrow> (selected_client relay sel, d1))
       | None \<Rightarrow> if oget (out_metadata m) ''navi_selection'' \<noteq> None then (Inl fleet_unavailable, d) else configured)
     else configured)"

definition camera_attachments :: "outbound_message \<Rightarrow> json list" where
  "camera_attachments m = filter (\<lambda>a. case as_str (jindex a ''url'') of
      None \<Rightarrow> False | Some u \<Rightarrow> contains ''/api/cameras/recordings/artifacts/'' u) (out_attachments m)"

definition authorize_camera_delivery ::
  "service \<Rightarrow> service_world \<Rightarrow> nat \<Rightarrow> outbound_message \<Rightarrow> disk \<Rightarrow> (gateway_error + unit) \<times> disk" where
  "authorize_camera_delivery sv wo n m d =
    (let cameras = camera_attachments m in
     if cameras = [] then (Inr (), d)
     else (case outbound_task_client sv (sw_fleet_io wo n 0) (sw_fleet_now wo n 0) m d of
         (Inl e, d1) \<Rightarrow> (Inl e, d1)
       | (Inr client, d1) \<Rightarrow> (authorize_camera_attachments (se_beacon sv) client (\<lambda>k. sw_exchange wo n (Suc k)) (sw_statuses wo n) cameras, d1)))"

definition authorize_channel ::
  "service \<Rightarrow> service_world \<Rightarrow> nat \<Rightarrow> outbound_message \<Rightarrow> disk \<Rightarrow> (gateway_error + unit) \<times> disk" where
  "authorize_channel sv wo n m d =
    (if out_platform m \<noteq> ''whatsapp'' then (Inr (), d)
     else (case outbound_task_client sv (sw_fleet_io wo n 1) (sw_fleet_now wo n 1) m d of
         (Inl e, d1) \<Rightarrow> (Inl e, d1)
       | (Inr client, d1) \<Rightarrow> (case authorize_whatsapp_delivery (se_beacon sv) client (sw_exchange wo n 0) (sw_reply wo n) m of
           Inl e \<Rightarrow> (Inl e, d1)
         | Inr u \<Rightarrow> (case se_fleet sv of
             None \<Rightarrow> (Inr (), d1)
           | Some relay \<Rightarrow> (case check_route (se_fleet_env sv) (sw_fleet_io wo n 2) (sw_fleet_now wo n 2) m (sw_meanwhile wo n 1 d1) of
               (Inl e, d2) \<Rightarrow> (Inl e, d2) | (Inr sel, d2) \<Rightarrow> (Inr (), d2))))))"

text \<open>A device whose identity changed loses its routes; an error of that takes the place of the result.\<close>

definition forget_device ::
  "service \<Rightarrow> service_world \<Rightarrow> nat \<Rightarrow> outbound_message \<Rightarrow> gateway_error + unit \<Rightarrow> disk \<Rightarrow> (gateway_error + unit) \<times> disk" where
  "forget_device sv wo n m res d = (case res of
      Inr u \<Rightarrow> (res, d)
    | Inl e \<Rightarrow>
        if err_code e \<noteq> ''NAVI_IDENTITY_CHANGED'' \<or> se_fleet sv = None then (res, d)
        else (case Option.bind (oget (out_metadata m) ''navi_selection'') selection_of_json of
            None \<Rightarrow> (res, d)
          | Some sel \<Rightarrow> (case invalidate_identity (se_fleet_env sv) (sw_fleet_io wo n 3) sel d of
                (Inl e', d1) \<Rightarrow> (Inl e', d1) | (Inr u, d1) \<Rightarrow> (res, d1))))"

definition authorize_delivery_context ::
  "service \<Rightarrow> service_world \<Rightarrow> nat \<Rightarrow> outbound_message \<Rightarrow> disk \<Rightarrow> (gateway_error + unit) \<times> disk" where
  "authorize_delivery_context sv wo n m d = (case authorize_camera_delivery sv wo n m d of
      (Inl e, d1) \<Rightarrow> forget_device sv wo n m (Inl e) d1
    | (Inr u, d1) \<Rightarrow> (case authorize_channel sv wo n m (sw_meanwhile wo n 0 d1) of (res, d2) \<Rightarrow> forget_device sv wo n m res d2))"

section \<open>Deliveries\<close>

text \<open>The world of a delivery, with the service's own checks, client and cache.\<close>

definition delivery_world :: "service \<Rightarrow> service_world \<Rightarrow> gate_world" where
  "delivery_world sv wo = (sw_gate wo)\<lparr>
     gw_authorize := (\<lambda>n m. fst (authorize_delivery_context sv wo n m (sw_fleet wo n))),
     gw_task_client := (\<lambda>n m. case fst (outbound_task_client sv (sw_fleet_io wo n 0) (sw_fleet_now wo n 0) m (sw_fleet wo n)) of
         Inl e \<Rightarrow> None | Inr client \<Rightarrow> Some client),
     gw_materialize := (\<lambda>n client artifacts turn_id. case sw_cache wo n of (w, mi, s) \<Rightarrow>
         fst (materialize_attachments_in (se_beacon sv) client w mi (se_cache_root sv) turn_id artifacts s))\<rparr>"

definition deliver ::
  "service \<Rightarrow> service_world \<Rightarrow> string \<Rightarrow> outbound_message \<Rightarrow> string \<Rightarrow> string \<Rightarrow> (service_state, json) step" where
  "deliver sv wo adapter m dk fp s =
    (case deliver_outbound_items (gate_for sv adapter) (delivery_world sv wo) m dk fp (ss_delivery s) of
       (r, ds) \<Rightarrow> (r, s\<lparr>ss_delivery := ds\<rparr>))"

section \<open>Steps of the handlers\<close>

abbreviation step_of :: "service_state \<Rightarrow> nat" where "step_of s \<equiv> dt_step (ss_delivery s)"

definition advance :: "service_state \<Rightarrow> service_state" where
  "advance s = s\<lparr>ss_delivery := (ss_delivery s)\<lparr>dt_step := Suc (step_of s)\<rparr>\<rparr>"

text \<open>A call of the session store; its error message is turned into the caller's error.\<close>

definition store_call ::
  "service_world \<Rightarrow> (io \<Rightarrow> instant \<Rightarrow> disk \<Rightarrow> (store_error + 'r) \<times> disk) \<Rightarrow> (string \<Rightarrow> gateway_error) \<Rightarrow> (service_state, 'r) step" where
  "store_call wo act on_error s = (let n = step_of s in
     case act (sw_io wo n) (gw_now (sw_gate wo) n) (ss_disk s) of (res, d) \<Rightarrow>
      (case res of Inl (Bail msg) \<Rightarrow> Inl (Refused (on_error msg)) | Inl (Panic msg) \<Rightarrow> Inl Panicked | Inr r \<Rightarrow> Inr r,
       (advance s)\<lparr>ss_disk := d\<rparr>))"

definition reading :: "(io \<Rightarrow> instant \<Rightarrow> disk \<Rightarrow> store_error + 'r) \<Rightarrow> io \<Rightarrow> instant \<Rightarrow> disk \<Rightarrow> (store_error + 'r) \<times> disk" where
  "reading act io now d = (act io now d, d)"

definition fleet_call ::
  "service_world \<Rightarrow> (fleet_io \<Rightarrow> int \<Rightarrow> disk \<Rightarrow> (gateway_error + 'r) \<times> disk) \<Rightarrow> (service_state, 'r) step" where
  "fleet_call wo act s = (let n = step_of s in
     case act (sw_fleet_io wo n 0) (sw_fleet_now wo n 0) (ss_fleet s) of (res, d) \<Rightarrow>
      (case res of Inl e \<Rightarrow> Inl (Refused e) | Inr r \<Rightarrow> Inr r, (advance s)\<lparr>ss_fleet := d\<rparr>))"

definition ask_world :: "(nat \<Rightarrow> 'a) \<Rightarrow> (service_state, 'a) step" where
  "ask_world f s = (Inr (f (step_of s)), advance s)"

definition or_fail :: "gateway_error + 'a \<Rightarrow> (service_state, 'a) step" where
  "or_fail r = (case r of Inl e \<Rightarrow> sfail e | Inr x \<Rightarrow> sreturn x)"


section \<open>Inbound messages\<close>

definition selection_to_json :: "selection \<Rightarrow> json" where
  "selection_to_json sel = jobj [(''hub_id'', JStr (sel_hub_id sel)), (''hub_identity'', JStr (sel_hub_identity sel)),
     (''binding_id'', JStr (sel_binding_id sel)), (''generation'', JStr (sel_generation sel)), (''selected_at'', JInt (sel_selected_at sel))]"

definition route_entries :: "string \<Rightarrow> string \<Rightarrow> string \<Rightarrow> inbound_message \<Rightarrow> (string \<times> json) list" where
  "route_entries rk session_id adapter_name i = [(''route_key'', JStr rk), (''platform'', JStr (in_platform i)),
     (''chat_id'', JStr (in_chat_id i)), (''user_id'', JStr (in_user_id i)), (''adapter_name'', JStr adapter_name),
     (''session_id'', JStr session_id), (''status'', JStr ''active'')]"

text \<open>A binding command is accepted when its proof can begin; another message of a fleet needs a selected device.\<close>

definition begin_binding ::
  "service \<Rightarrow> service_world \<Rightarrow> string \<Rightarrow> inbound_message \<Rightarrow> (service_state, json) step" where
  "begin_binding sv wo adapter_name i =
     sbind (fleet_call wo (\<lambda>io now. begin_route_proof (se_fleet_env sv) io now i)) (\<lambda>u.
     sbind (store_call wo (\<lambda>io now. register_route (se_env sv) io (in_route_key i)
         (jobj (route_entries (in_route_key i) (in_session_id i) adapter_name i))) infrastructure) (\<lambda>u.
     sreturn (jobj [(''accepted'', JBool True), (''status'', JStr ''awaiting_navi_confirmation'')])))"

definition put_continuation :: "json option \<Rightarrow> jmap \<Rightarrow> jmap" where
  "put_continuation c m = (case c of Some v \<Rightarrow> oput ''continuation'' v m | None \<Rightarrow> odel ''continuation'' m)"

definition message_turns :: "inbound_message \<Rightarrow> task_turn_result \<Rightarrow> jmap \<Rightarrow> json" where
  "message_turns i t session_metadata = JObj (oput (in_message_id i) (JStr (tr_task_id t))
     (or_else [] (Option.bind (oget session_metadata ''message_turn_ids'') as_object)))"

definition turn_session_metadata :: "inbound_message \<Rightarrow> task_turn_result \<Rightarrow> string \<Rightarrow> jmap \<Rightarrow> jmap" where
  "turn_session_metadata i t session_id session_metadata =
    (let has_id = trim (in_message_id i) \<noteq> [];
         m = oputs [(''route_key'', JStr (tr_route_key t)), (''session_id'', JStr session_id),
           (''last_turn_id'', JStr (tr_task_id t)), (''last_trace_id'', JStr (tr_trace_id t))] session_metadata;
         m = (if has_id then oput ''last_message_id'' (JStr (in_message_id i)) m else m);
         m = put_some ''conversation_handle'' (map_option JStr (tr_conversation_handle t)) m;
         m = put_continuation (tr_continuation t) m
     in if has_id then oput ''message_turn_ids'' (message_turns i t session_metadata) m else m)"

definition turn_outbound_metadata :: "content_env \<Rightarrow> string \<Rightarrow> task_turn_result \<Rightarrow> json list \<Rightarrow> jmap" where
  "turn_outbound_metadata env adapter_name t candidates = oputs [(''adapter'', JStr adapter_name), (''source'', JStr ''harborbeacon''),
     (''turn_id'', JStr (tr_task_id t)), (''task_id'', JStr (tr_task_id t)), (''trace_id'', JStr (tr_trace_id t)),
     (''status'', JStr (tr_status t)), (''route_key'', JStr (tr_route_key t)),
     (''delivery_request_fingerprint'', JStr (fingerprint env (tr_response_payload t))),
     (''conversation_handle'', jstr_opt (tr_conversation_handle t)), (''active_frame'', or_else JNull (tr_active_frame t)),
     (''continuation'', or_else JNull (tr_continuation t)), (''next_actions'', JArr (map JStr (tr_next_actions t))),
     (''native_attachment_count'', JInt (int (length candidates))), (''native_attachment_materialize_failed'', JInt 0)] []"

text \<open>The reply: its text, its attachments, the metadata of the message and of the session.\<close>

type_synonym inbound_reply = "string \<times> json list \<times> jmap \<times> jmap"

definition answer_turn ::
  "service \<Rightarrow> service_world \<Rightarrow> string \<Rightarrow> inbound_message \<Rightarrow> task_client \<Rightarrow> string \<Rightarrow> jmap \<Rightarrow> (service_state, inbound_reply) step" where
  "answer_turn sv wo adapter_name i client session_id session_metadata =
     sbind (ask_world (\<lambda>n. submit_turn (se_beacon sv) client (sw_exchange wo n 0) (sw_task_reply wo n) i session_metadata)) (\<lambda>res.
     sbind (or_fail res) (\<lambda>t.
     let candidates = native_source_bound_attachments (se_content sv) adapter_name (tr_response_payload t) in
     sreturn (render_retrieval_reply (tr_text t) (tr_response_payload t) (candidates \<noteq> []) (se_public_origin sv), candidates,
       turn_outbound_metadata (se_content sv) adapter_name t candidates, turn_session_metadata i t session_id session_metadata)))"

definition answer_fallback :: "string \<Rightarrow> inbound_message \<Rightarrow> 't list \<Rightarrow> string \<Rightarrow> string \<Rightarrow> jmap \<Rightarrow> inbound_reply" where
  "answer_fallback adapter_name i history rk session_id session_metadata =
     (fallback_reply history i, [], oputs [(''adapter'', JStr adapter_name), (''source'', JStr ''rule_based_fallback'')] [],
      oputs [(''route_key'', JStr rk), (''session_id'', JStr session_id)] session_metadata)"

definition conversation_turns :: "gate_env \<Rightarrow> instant \<Rightarrow> string \<Rightarrow> string \<Rightarrow> conversation_turn list" where
  "conversation_turns env now question answer =
     [\<lparr>turn_role = ''user'', turn_content = question, turn_timestamp = utc_now_iso env now\<rparr>,
      \<lparr>turn_role = ''assistant'', turn_content = answer, turn_timestamp = utc_now_iso env now\<rparr>]"

text \<open>The session keeps the metadata, the route and the two turns.\<close>

definition keep_session ::
  "service \<Rightarrow> service_world \<Rightarrow> string \<Rightarrow> string \<Rightarrow> jmap \<Rightarrow> string \<Rightarrow> json \<Rightarrow> string \<Rightarrow> string \<Rightarrow> (service_state, unit) step" where
  "keep_session sv wo platform key metadata rk route question answer =
     sbind (store_call wo (\<lambda>io now. set_metadata (se_env sv) io platform key metadata) infrastructure) (\<lambda>u.
     sbind (store_call wo (\<lambda>io now. register_route (se_env sv) io rk route) infrastructure) (\<lambda>u.
     store_call wo (\<lambda>io now. append_turns (se_env sv) io now platform key (conversation_turns (se_env sv) now question answer)) infrastructure))"

definition inbound_outbound ::
  "service \<Rightarrow> inbound_message \<Rightarrow> selection option \<Rightarrow> string \<Rightarrow> inbound_reply \<Rightarrow> string \<Rightarrow> outbound_message" where
  "inbound_outbound sv i sel rk answer now_iso = (case answer of (reply_text, attachments, metadata, next_metadata) \<Rightarrow>
     \<lparr>out_platform = in_platform i, out_chat_id = in_chat_id i, out_text = reply_text, out_attachments = attachments,
      out_timestamp = now_iso,
      out_metadata = put_some ''navi_selection'' (map_option selection_to_json sel) (oput ''route_key'' (JStr rk) metadata)\<rparr>)"

definition metadata_str :: "jmap \<Rightarrow> string \<Rightarrow> string" where
  "metadata_str m k = or_else [] (Option.bind (oget m k) as_str)"

definition reply_to_inbound ::
  "service \<Rightarrow> service_world \<Rightarrow> string \<Rightarrow> inbound_message \<Rightarrow> selection option \<Rightarrow> task_client option \<Rightarrow> (service_state, json) step" where
  "reply_to_inbound sv wo adapter_name i sel client =
    (let key = (case sel of Some s \<Rightarrow> session_key (se_fleet_env sv) s i | None \<Rightarrow> in_chat_id i) in
     sbind (store_call wo (reading (\<lambda>io now. load_history (se_env sv) io now (in_platform i) key)) infrastructure) (\<lambda>history.
     sbind (store_call wo (reading (\<lambda>io now. load_metadata (se_env sv) io (in_platform i) key)) infrastructure) (\<lambda>session_metadata.
     let rk = if_empty_then (if_empty_then (trim (in_route_key i)) (trim (metadata_str session_metadata ''route_key'')))
           (derive_route_key (se_beacon sv) i);
         session_id = if_empty_then (trim (in_session_id i)) (derive_session_id (se_beacon sv) i) in
     sbind (case client of
         Some c \<Rightarrow> answer_turn sv wo adapter_name i c session_id session_metadata
       | None \<Rightarrow> sreturn (answer_fallback adapter_name i history rk session_id session_metadata)) (\<lambda>answer.
     sbind (keep_session sv wo (in_platform i) key (snd (snd (snd answer))) rk
         (jobj (route_entries rk session_id adapter_name i)) (in_text i) (fst answer)) (\<lambda>u.
     sbind (ask_world (\<lambda>n. utc_now_iso (se_env sv) (gw_now (sw_gate wo) n))) (\<lambda>now_iso.
     let m = inbound_outbound sv i sel rk answer now_iso; dk = metadata_str (out_metadata m) ''turn_id'' in
     deliver sv wo adapter_name m dk (if_empty_then (metadata_str (out_metadata m) ''delivery_request_fingerprint'')
       (fingerprint (se_content sv) (jobj [(''turn_id'', JStr dk)])))))))))"

definition handle_inbound ::
  "service \<Rightarrow> service_world \<Rightarrow> string \<Rightarrow> json \<Rightarrow> (service_state, json) step" where
  "handle_inbound sv wo adapter_name payload =
    (if adapter_name \<notin> set (se_adapters sv) then sfail (validation (''Unknown adapter: '' @ adapter_name))
     else sbind (or_fail (se_normalize sv adapter_name payload)) (\<lambda>i.
      case (if in_platform i = ''whatsapp'' then se_fleet sv else None) of
        None \<Rightarrow> reply_to_inbound sv wo adapter_name i None (se_task_client sv)
      | Some relay \<Rightarrow>
          if starts_with ''NAVI '' (trim (in_text i)) then begin_binding sv wo adapter_name i
          else sbind (fleet_call wo (\<lambda>io now. select_route (se_fleet_env sv) io now i)) (\<lambda>sel.
            sbind (or_fail (selected_client relay sel)) (\<lambda>client.
            reply_to_inbound sv wo adapter_name i (Some sel) (Some client)))))"


section \<open>Turns of channel edges\<close>

definition beacon_disabled :: gateway_error where
  "beacon_disabled = gateway_error_new 503 ''HARBORBEACON_DISABLED'' ''HarborBeacon turn forwarding is not configured''"

definition channel_session_metadata :: "json \<Rightarrow> jmap \<Rightarrow> jmap" where
  "channel_session_metadata payload m =
     put_some ''continuation'' (Option.bind (jget payload ''continuation'') (\<lambda>v. if is_object v then Some v else None))
      (put_filled ''conversation_handle'' (jpointer [''conversation'', ''handle''] payload) m)"

definition channel_next_metadata :: "inbound_message \<Rightarrow> task_turn_result \<Rightarrow> string \<Rightarrow> string \<Rightarrow> jmap \<Rightarrow> jmap" where
  "channel_next_metadata i t rk session_id session_metadata =
    (let m = oputs [(''route_key'', JStr rk), (''session_id'', JStr session_id), (''last_turn_id'', JStr (tr_task_id t)),
           (''last_trace_id'', JStr (tr_trace_id t))] session_metadata;
         m = put_some ''conversation_handle'' (map_option JStr (tr_conversation_handle t)) m;
         m = put_continuation (tr_continuation t) m
     in if trim (in_message_id i) \<noteq> [] then oput ''last_message_id'' (JStr (in_message_id i)) m else m)"

definition handle_gateway_turn :: "service \<Rightarrow> service_world \<Rightarrow> json \<Rightarrow> (service_state, json) step" where
  "handle_gateway_turn sv wo payload = (case se_task_client sv of
      None \<Rightarrow> sfail beacon_disabled
    | Some client \<Rightarrow>
       sbind (ask_world (\<lambda>n. gateway_turn_to_inbound (se_content sv) (utc_now_iso (se_env sv) (gw_now (sw_gate wo) n)) payload)) (\<lambda>res.
       sbind (or_fail res) (\<lambda>i.
       if in_platform i = ''whatsapp'' \<and> se_fleet sv \<noteq> None
       then sfail (validation ''Use the official WhatsApp inbox for Navi conversations'')
       else sbind (or_fail (reject_unbound_dlna_turn payload)) (\<lambda>u.
       sbind (store_call wo (reading (\<lambda>io now. load_metadata (se_env sv) io (in_platform i) (in_chat_id i))) infrastructure) (\<lambda>stored.
       let session_metadata = channel_session_metadata payload stored;
           request = build_channel_turn_request (se_beacon sv) i payload (filled_str (oget session_metadata ''conversation_handle''))
             (object_member ''continuation'' session_metadata) in
       sbind (ask_world (\<lambda>n. submit_turn_payload (se_beacon sv) client (sw_exchange wo n 0) (sw_task_reply wo n) request)) (\<lambda>answer.
       sbind (or_fail answer) (\<lambda>t.
       let rk = if_empty_then (trim (tr_route_key t)) (derive_route_key (se_beacon sv) i);
           session_id = derive_session_id (se_beacon sv) i in
       sbind (keep_session sv wo (in_platform i) (in_chat_id i) (channel_next_metadata i t rk session_id session_metadata) rk
           (jobj (route_entries rk session_id (in_platform i) i
             @ [(''route_mode'', JStr ''channel_edge''), (''route_source'', JStr ''gateway_turn'')]))
           (in_text i) (tr_text t)) (\<lambda>u. sreturn (tr_response_payload t)))))))))"

section \<open>Notifications\<close>

definition dget :: "jmap \<Rightarrow> string \<Rightarrow> string" where "dget m k = trim (metadata_str m k)"

definition route_not_found :: "string \<Rightarrow> gateway_error" where
  "route_not_found rk = gateway_error_new 404 ''ROUTE_NOT_FOUND'' (''route_key not found: '' @ rk)"

definition route_expired :: "string \<Rightarrow> gateway_error" where
  "route_expired rk = gateway_error_new 410 ''ROUTE_EXPIRED'' (''route_key expired: '' @ rk)"

definition bound_route_of :: "json \<Rightarrow> json" where
  "bound_route_of route =
    (let m = oputs [(''route_mode'', JStr ''source_bound''), (''route_source'', JStr ''route_key'')] (or_else [] (as_object route))
     in JObj (if oget m ''adapter_name'' = None then oput ''adapter_name'' (or_else JNull (oget m ''platform'')) m else m))"

definition recipient_field :: "jmap \<Rightarrow> string \<Rightarrow> string option" where
  "recipient_field destination k = Option.bind (oget (or_else [] (Option.bind (oget destination ''recipient'') as_object)) k) as_str"

definition proactive_route :: "jmap \<Rightarrow> gateway_error + json" where
  "proactive_route destination =
    (let str = (\<lambda>k. Option.bind (oget destination k) as_str); recipient = recipient_field destination;
         platform = trim (or_else [] (or_opt (str ''platform'') (recipient ''platform'')));
         chat_id = trim (or_else [] (or_opt (str ''id'') (or_opt (recipient ''recipient_id'')
           (or_opt (recipient ''email'') (recipient ''mail_address''))))) in
     if platform = [] \<or> chat_id = [] then Inl (validation ''destination.route_key is preferred; otherwise destination.platform with destination.id or destination.recipient is required'')
     else Inr (jobj [(''platform'', JStr platform), (''chat_id'', JStr chat_id), (''adapter_name'', JStr platform),
       (''status'', JStr ''active''), (''route_mode'', JStr ''proactive''),
       (''route_source'', JStr (if oget destination ''id'' \<noteq> None then ''platform_id'' else ''recipient''))]))"

definition traced :: "string \<Rightarrow> gateway_error + 'a \<Rightarrow> gateway_error + 'a" where
  "traced trace_id r = (case r of Inl e \<Rightarrow> Inl (with_trace trace_id e) | Inr x \<Rightarrow> Inr x)"

definition resolve_notification_route ::
  "service \<Rightarrow> service_world \<Rightarrow> jmap \<Rightarrow> string \<Rightarrow> string \<Rightarrow> (service_state, json) step" where
  "resolve_notification_route sv wo destination rk trace_id =
    (if rk = [] then or_fail (traced trace_id (proactive_route destination))
     else sbind (store_call wo (\<lambda>io now. resolve_route (se_env sv) io rk) (\<lambda>msg. with_trace trace_id (infrastructure msg))) (\<lambda>found.
      or_fail (traced trace_id (case found of
          None \<Rightarrow> Inl (route_not_found rk)
        | Some route \<Rightarrow> if or_else ''active'' (get_str route ''status'') = ''expired'' then Inl (route_expired rk)
            else Inr (bound_route_of route)))))"

text \<open>What the handler reads from the payload.\<close>

record notification =
  no_id :: string
  no_trace :: string
  no_destination :: jmap
  no_mode :: string
  no_idempotency_key :: string
  no_reply_to :: string
  no_update :: string

definition read_notification :: "content_env \<Rightarrow> json \<Rightarrow> gateway_error + notification" where
  "read_notification env payload =
    (let trace_id = notification_trace_id payload; nid = notification_id payload in
     if nid = [] then Inl (with_trace trace_id (validation ''notification_id is required''))
     else rbind (ok_or (with_trace trace_id (validation ''destination must be an object''))
         (Option.bind (jget payload ''destination'') as_object)) (\<lambda>destination.
      rbind (ok_or (with_trace trace_id (validation ''delivery must be an object''))
         (Option.bind (jget payload ''delivery'') as_object)) (\<lambda>delivery.
      let mode = ce_lowercase env (dget delivery ''mode'') in
      rbind (validate_delivery_mode mode (dget delivery ''reply_to_message_id'') (dget delivery ''update_message_id'') trace_id) (\<lambda>u.
      if dget delivery ''idempotency_key'' = [] then Inl (with_trace trace_id (validation ''delivery.idempotency_key is required''))
      else Inr \<lparr>no_id = nid, no_trace = trace_id, no_destination = destination, no_mode = mode,
        no_idempotency_key = dget delivery ''idempotency_key'', no_reply_to = dget delivery ''reply_to_message_id'',
        no_update = dget delivery ''update_message_id''\<rparr>))))"

definition effective_request :: "notification \<Rightarrow> string \<Rightarrow> json \<Rightarrow> json \<Rightarrow> selection option \<Rightarrow> json" where
  "effective_request n rk route payload sel = jobj ([(''notification_id'', JStr (no_id n)), (''trace_id'', JStr (no_trace n)),
      (''destination'', jobj [(''route_key'', JStr rk), (''platform'', jindex route ''platform''), (''chat_id'', jindex route ''chat_id''),
         (''recipient'', or_else JNull (oget (no_destination n) ''recipient''))]),
      (''content'', delivery_content payload),
      (''delivery'', jobj [(''mode'', JStr (no_mode n)), (''reply_to_message_id'', JStr (no_reply_to n)),
         (''update_message_id'', JStr (no_update n))])]
     @ (if jindex route ''platform'' = JStr ''whatsapp'' then [(''conversation'', jindex payload ''conversation'')] else [])
     @ (case sel of None \<Rightarrow> [] | Some s \<Rightarrow> [(''navi_selection'', selection_to_json s)]))"

text \<open>What the record of an earlier delivery decides: a conflict, a recorded answer, or (\<open>None\<close>) to deliver.\<close>

definition earlier_answer :: "string \<Rightarrow> json option \<Rightarrow> gateway_error + json option" where
  "earlier_answer fp found = (case found of
      None \<Rightarrow> Inr None
    | Some r \<Rightarrow>
        if or_else [] (get_str r ''request_fingerprint'') \<noteq> fp
        then Inl (gateway_error_new 409 ''IDEMPOTENCY_CONFLICT'' ''delivery.idempotency_key was reused with a different effective request'')
        else Inr (Option.bind (jget r ''response_payload'') (\<lambda>resp.
          if get_bool resp ''ok'' = Some False \<and> or_else False (get_bool resp ''retryable'') then None else Some resp)))"

definition notification_outbound ::
  "notification \<Rightarrow> string \<Rightarrow> json \<Rightarrow> string \<Rightarrow> json \<Rightarrow> selection option \<Rightarrow> string \<Rightarrow> outbound_message" where
  "notification_outbound n rk route adapter_name payload sel now_iso =
    (let content = delivery_content payload; platform = or_else adapter_name (get_str route ''platform'');
         metadata = outbound_delivery_metadata \<lparr>nm_notification_id = no_id n, nm_trace_id = no_trace n, nm_mode = no_mode n,
           nm_route_key = rk, nm_reply_to_message_id = no_reply_to n, nm_update_message_id = no_update n, nm_route = route,
           nm_content = content, nm_destination = no_destination n, nm_idempotency_key = no_idempotency_key n\<rparr>;
         metadata = (if platform = ''whatsapp''
           then oput ''conversation_handle'' (or_else JNull (jpointer [''conversation'', ''handle''] payload)) metadata else metadata)
     in \<lparr>out_platform = platform, out_chat_id = or_else [] (get_str route ''chat_id''), out_text = notification_text content,
        out_attachments = hinted_notification_attachments content, out_timestamp = now_iso,
        out_metadata = put_some ''navi_selection'' (map_option selection_to_json sel) metadata\<rparr>)"

definition delivered_response :: "content_env \<Rightarrow> notification \<Rightarrow> json \<Rightarrow> string \<Rightarrow> json \<Rightarrow> json" where
  "delivered_response env n route adapter_name resp =
    (let provider = trim (or_else [] (Option.bind (or_opt (jget resp ''message_id'') (jget resp ''provider_message_id'')) as_str)) in
     jobj [(''delivery_id'', JStr (stable_id (ce_sha256_hex env) ''delivery_'' (no_idempotency_key n) 24)),
       (''notification_id'', JStr (no_id n)), (''trace_id'', JStr (no_trace n)), (''ok'', JBool True),
       (''status'', JStr (or_else ''sent'' (get_str resp ''placeholder_status''))),
       (''platform'', JStr (or_else adapter_name (get_str route ''platform''))),
       (''provider_message_id'', if provider = [] then JNull else JStr provider), (''retryable'', JBool False), (''error'', JNull)])"

definition failed_response :: "content_env \<Rightarrow> notification \<Rightarrow> json \<Rightarrow> string \<Rightarrow> gateway_error \<Rightarrow> json" where
  "failed_response env n route adapter_name e =
    (let (code, retryable) = map_delivery_failure env (err_message e) in
     jobj [(''delivery_id'', JStr (stable_id (ce_sha256_hex env) ''delivery_'' (no_idempotency_key n) 24)),
       (''notification_id'', JStr (no_id n)), (''trace_id'', JStr (no_trace n)), (''ok'', JBool False), (''status'', JStr ''failed''),
       (''platform'', JStr (or_else adapter_name (get_str route ''platform''))),
       (''provider_message_id'', or_else JNull (Option.bind (err_delivery_failure e) (\<lambda>item. jget item ''provider_message_id''))),
       (''retryable'', JBool retryable), (''error'', jobj [(''code'', JStr code), (''message'', JStr (err_message e))])])"

text \<open>Only an accepted delivery is recorded under its idempotency key.\<close>

definition send_notification ::
  "service \<Rightarrow> service_world \<Rightarrow> notification \<Rightarrow> json \<Rightarrow> string \<Rightarrow> string \<Rightarrow> outbound_message \<Rightarrow> (service_state, json) step" where
  "send_notification sv wo n route adapter_name fp m s =
    (case deliver sv wo adapter_name m (no_idempotency_key n) fp s of
       (Inl Panicked, s1) \<Rightarrow> (Inl Panicked, s1)
     | (Inl (Refused e), s1) \<Rightarrow>
         if err_code e = ''IDEMPOTENCY_CONFLICT'' then (Inl (Refused (with_trace (no_trace n) e)), s1)
         else (Inr (failed_response (se_content sv) n route adapter_name e), s1)
     | (Inr resp, s1) \<Rightarrow>
         (let response = delivered_response (se_content sv) n route adapter_name resp in
          sbind (store_call wo (\<lambda>io now. save_delivery_record (se_env sv) io (no_idempotency_key n) fp response
              (classify_delivery_attempt route response)) (\<lambda>msg. with_trace (no_trace n) (infrastructure msg)))
            (\<lambda>u. sreturn response) s1))"

definition remote_notification_required :: gateway_error where
  "remote_notification_required = gateway_error_new 503 ''NAVI_REMOTE_NOTIFICATION_REQUIRED''
     ''Navi notifications require their originating device connection''"

definition route_adapter :: "json \<Rightarrow> string" where
  "route_adapter route = trim (or_else [] (Option.bind (or_opt (jget route ''adapter_name'') (jget route ''platform'')) as_str))"

definition no_adapter :: "string \<Rightarrow> gateway_error" where
  "no_adapter adapter_name = validation (''No adapter is enabled for outbound platform route: '' @
     (if adapter_name = [] then ''unknown'' else adapter_name))"

definition deliver_notification ::
  "service \<Rightarrow> service_world \<Rightarrow> notification \<Rightarrow> string \<Rightarrow> json \<Rightarrow> json \<Rightarrow> selection option \<Rightarrow> (service_state, json) step" where
  "deliver_notification sv wo n rk route payload sel =
    (let adapter_name = route_adapter route; fp = fingerprint (se_content sv) (effective_request n rk route payload sel) in
     if adapter_name \<notin> set (se_adapters sv) then sfail (with_trace (no_trace n) (no_adapter adapter_name))
     else if jindex route ''platform'' = JStr ''whatsapp'' \<and> se_fleet sv \<noteq> None \<and> sel = None then sfail remote_notification_required
     else sbind (store_call wo (\<lambda>io now. load_delivery_record (se_env sv) io (no_idempotency_key n))
         (\<lambda>msg. with_trace (no_trace n) (infrastructure msg))) (\<lambda>found.
      sbind (or_fail (traced (no_trace n) (earlier_answer fp found))) (\<lambda>earlier. case earlier of
          Some response \<Rightarrow> sreturn response
        | None \<Rightarrow> sbind (ask_world (\<lambda>k. utc_now_iso (se_env sv) (gw_now (sw_gate wo) k))) (\<lambda>now_iso.
            send_notification sv wo n route adapter_name fp (notification_outbound n rk route adapter_name payload sel now_iso)))))"

definition handle_notification_delivery_from ::
  "service \<Rightarrow> service_world \<Rightarrow> json \<Rightarrow> selection option \<Rightarrow> (service_state, json) step" where
  "handle_notification_delivery_from sv wo payload sel =
     sbind (or_fail (read_notification (se_content sv) payload)) (\<lambda>n.
     let rk = dget (no_destination n) ''route_key'' in
     sbind (resolve_notification_route sv wo (no_destination n) rk (no_trace n)) (\<lambda>route.
     deliver_notification sv wo n rk route payload sel))"

definition handle_notification_delivery :: "service \<Rightarrow> service_world \<Rightarrow> json \<Rightarrow> (service_state, json) step" where
  "handle_notification_delivery sv wo payload = handle_notification_delivery_from sv wo payload None"


section \<open>Recovery\<close>

definition plan_adapter :: "outbound_message \<Rightarrow> string" where
  "plan_adapter m = or_else (out_platform m) (filled_str (oget (out_metadata m) ''adapter''))"

text \<open>A failed recovery is only logged; a plan that cannot be decoded ends the round.\<close>

fun retry_plans :: "service \<Rightarrow> service_world \<Rightarrow> nat \<Rightarrow> json list \<Rightarrow> (service_state, nat) step" where
  "retry_plans sv wo attempted [] s = (Inr attempted, s)"
| "retry_plans sv wo attempted (p # ps) s =
    (let str = (\<lambda>k. or_else [] (get_str p k)) in
     case se_decode sv (jindex p ''planned_outbound'') of
       Inl msg \<Rightarrow> (Inl (Refused (infrastructure msg)), s)
     | Inr m \<Rightarrow>
         if plan_adapter m \<notin> set (se_adapters sv) then retry_plans sv wo attempted ps s
         else (case deliver sv wo (plan_adapter m) m (str ''delivery_key'') (str ''request_fingerprint'') s of
             (Inl Panicked, s1) \<Rightarrow> (Inl Panicked, s1)
           | (_, s1) \<Rightarrow> retry_plans sv wo (saturating_add attempted 1) ps s1))"

definition on_ledger :: "service \<Rightarrow> service_world \<Rightarrow> (jmap \<Rightarrow> 'r) \<Rightarrow> (service_state, 'r) step" where
  "on_ledger sv wo look s = (case ledger_call (gate_for sv []) (sw_gate wo) (\<lambda>now token records. Inr (look records, None))
      infrastructure (ss_delivery s) of (r, ds) \<Rightarrow> (r, s\<lparr>ss_delivery := ds\<rparr>))"

definition retry_pending_deliveries :: "service \<Rightarrow> service_world \<Rightarrow> (service_state, nat) step" where
  "retry_pending_deliveries sv wo =
     sbind (on_ledger sv wo retryable_delivery_plans_records) (retry_plans sv wo 0)"

section \<open>Navi devices\<close>

definition refresh_navi_binding :: "service \<Rightarrow> service_world \<Rightarrow> string \<Rightarrow> (service_state, bool) step" where
  "refresh_navi_binding sv wo generation = (case se_fleet sv of
      None \<Rightarrow> sreturn False
    | Some relay \<Rightarrow> (\<lambda>s.
       let n = step_of s; relay_env = be_relay (se_beacon sv); fenv = se_fleet_env sv; io = sw_fleet_io wo n;
           (proof', d1) = refresh_one fenv (io 0) (io 1) (sw_fleet_now wo n 0) (sw_fleet_now wo n 1) generation relay
             (\<lambda>c hub body. binding_proof relay_env c hub body (sw_exchange wo n 0)) (ss_fleet s);
           (route, d2) = refresh_route_update fenv (io 2) (io 3) (sw_fleet_now wo n 2) relay
             (\<lambda>c hub body. binding_route relay_env c hub body (sw_exchange wo n 1)) d1
       in (case rbind proof' (\<lambda>a. rbind route (\<lambda>b. Inr (a \<or> b))) of Inl e \<Rightarrow> Inl (Refused e) | Inr b \<Rightarrow> Inr b,
           (advance s)\<lparr>ss_fleet := d2\<rparr>)))"

definition invalid_scope :: gateway_error where "invalid_scope = infrastructure ''Invalid Navi notification scope''"

definition scope_matches :: "json \<Rightarrow> json \<Rightarrow> bool" where
  "scope_matches scope item \<longleftrightarrow>
     (case as_str (jindex item ''queue_id'') of None \<Rightarrow> False | Some q \<Rightarrow> q \<noteq> [] \<and> length q \<le> 128)
   \<and> jindex (jindex (jindex item ''payload'') ''notification'') ''notification_id'' = jindex item ''queue_id''
   \<and> jindex (jindex (jindex item ''payload'') ''destination'') ''route_key'' = jindex scope ''route_key''"

definition put_member :: "string \<Rightarrow> json \<Rightarrow> json \<Rightarrow> (service_state, json) step" where
  "put_member k v j s = (case jset k v j of Inl e \<Rightarrow> (Inl Panicked, s) | Inr j' \<Rightarrow> (Inr j', s))"

definition route_of_scope :: "json \<Rightarrow> json option \<Rightarrow> bool" where
  "route_of_scope scope route = (case route of None \<Rightarrow> False
    | Some r \<Rightarrow> jindex r ''platform'' = JStr ''whatsapp'' \<and> jindex r ''chat_id'' = jindex scope ''recipient'')"

definition deliver_queued ::
  "service \<Rightarrow> service_world \<Rightarrow> relay_client \<Rightarrow> selection \<Rightarrow> json \<Rightarrow> json \<Rightarrow> (service_state, unit) step" where
  "deliver_queued sv wo relay sel scope item =
    (if \<not> scope_matches scope item then sfail invalid_scope
     else sbind (store_call wo (\<lambda>io now. resolve_route (se_env sv) io (or_else [] (as_str (jindex scope ''route_key''))))
         (\<lambda>msg. infrastructure ''Navi notification route is unavailable'')) (\<lambda>route.
      if \<not> route_of_scope scope route then sfail (infrastructure ''Navi notification route has changed'')
      else sbind (handle_notification_delivery_from sv wo (jindex item ''payload'') (Some sel)) (\<lambda>receipt.
       sbind (put_member ''queue_id'' (jindex item ''queue_id'') scope) (\<lambda>request.
       sbind (put_member ''receipt'' receipt request) (\<lambda>request.
       sbind (ask_world (\<lambda>n. notification_receipt (be_relay (se_beacon sv)) relay (sel_hub_id sel) request (sw_exchange wo n 0))) (\<lambda>res.
       sbind (or_fail res) (\<lambda>answer.
       if jindex answer ''acknowledged'' \<noteq> JBool True then sfail (infrastructure ''Navi did not acknowledge notification receipt'')
       else sreturn ())))))))"

fun deliver_queue ::
  "service \<Rightarrow> service_world \<Rightarrow> relay_client \<Rightarrow> selection \<Rightarrow> json \<Rightarrow> nat \<Rightarrow> json list \<Rightarrow> (service_state, nat) step" where
  "deliver_queue sv wo relay sel scope acknowledged [] = sreturn acknowledged"
| "deliver_queue sv wo relay sel scope acknowledged (item # items) =
     sbind (deliver_queued sv wo relay sel scope item) (\<lambda>u. deliver_queue sv wo relay sel scope (Suc acknowledged) items)"

definition fetch_outbox ::
  "service \<Rightarrow> service_world \<Rightarrow> relay_client \<Rightarrow> selection \<Rightarrow> json \<Rightarrow> (service_state, json) step" where
  "fetch_outbox sv wo relay sel scope =
     sbind (ask_world (\<lambda>n. notification_outbox (be_relay (se_beacon sv)) relay (sel_hub_id sel) scope (sw_exchange wo n 0))) (\<lambda>res.
     case res of
       Inr batch \<Rightarrow> sreturn batch
     | Inl e \<Rightarrow> if err_code e = ''NAVI_IDENTITY_CHANGED''
         then sbind (fleet_call wo (\<lambda>io now. invalidate_identity (se_fleet_env sv) io sel)) (\<lambda>u. sfail e) else sfail e)"

definition poll_navi_notifications :: "service \<Rightarrow> service_world \<Rightarrow> (service_state, nat) step" where
  "poll_navi_notifications sv wo = (case se_fleet sv of
      None \<Rightarrow> sreturn 0
    | Some fleet_relay \<Rightarrow> sbind (fleet_call wo (\<lambda>io now. notification_target (se_fleet_env sv) io now)) (\<lambda>target. case target of
        None \<Rightarrow> sreturn 0
      | Some (sel, scope) \<Rightarrow>
         sbind (or_fail (with_hub_identity (sel_hub_identity sel) fleet_relay)) (\<lambda>relay.
         sbind (fetch_outbox sv wo relay sel scope) (\<lambda>batch.
         case as_array (jindex batch ''items'') of
           None \<Rightarrow> sfail (infrastructure ''Invalid Navi notification batch'')
         | Some items \<Rightarrow> if length items > 4 then sfail (infrastructure ''Invalid Navi notification batch'')
             else deliver_queue sv wo relay sel scope 0 items))))"

section \<open>Status\<close>

text \<open>\<open>describe\<close> gives the profile and the transport status of an adapter; the health is empty when the store fails.\<close>

definition gateway_status :: "service \<Rightarrow> service_world \<Rightarrow> (string \<Rightarrow> json \<times> json) \<Rightarrow> (service_state, json) step" where
  "gateway_status sv wo describe s = (case store_call wo (\<lambda>io now. delivery_health (se_env sv) io) infrastructure s of
      (Inl Panicked, s1) \<Rightarrow> (Inl Panicked, s1)
    | (r, s1) \<Rightarrow> (Inr (jobj [(''status'', JStr ''ok''), (''runtime'', JStr ''rust''), (''contract_version'', JStr ''2.0''),
        (''gateway_turn_contract_version'', JStr ''3.0''), (''gateway_turn_endpoint'', JStr ''/api/gateway/turns''),
        (''beacon_proxy_prefix'', JStr ''/api/beacon''), (''harbor_assistant_proxy_prefix'', JStr ''/api/harbor-assistant''),
        (''turn_endpoint'', JStr ''/api/web/turns''),
        (''adapters'', jobj (map (\<lambda>name. (name, jobj [(''name'', JStr name), (''enabled'', JBool True),
           (''profile'', fst (describe name)), (''transport'', snd (describe name))])) (se_adapters sv))),
        (''delivery_health'', case r of Inr health \<Rightarrow> health | Inl e \<Rightarrow> jobj [(''record_count'', JInt 0)])]), s1))"

section \<open>Start-up of the cache\<close>

datatype start_error = StoreFailed store_error | CacheFailed io_error

definition start_cache ::
  "gate_env \<Rightarrow> io \<Rightarrow> cache_world \<Rightarrow> sweep_view \<Rightarrow> (path_component list list \<Rightarrow> path_component list list) \<Rightarrow> string \<Rightarrow>
   instant \<Rightarrow> int \<Rightarrow> disk \<times> cache_state \<Rightarrow> (start_error + string) \<times> disk \<times> cache_state" where
  "start_cache env io w v order state_dir now system_now = (\<lambda>(d, s). case cache_open w state_dir ''attachment-cache'' s of
      (Inl e, s1) \<Rightarrow> (Inl (CacheFailed e), d, s1)
    | (Inr root, s1) \<Rightarrow> (case reconcile_delivery_cache env io now attachment_cache_ttl d of
        (Inl e, d1) \<Rightarrow> (Inl (StoreFailed e), d1, s1)
      | (Inr (retained, deleted), d1) \<Rightarrow> (case remove_reconciled_attachment_cache w order root deleted s1 of
          (Inl e, s2) \<Rightarrow> (Inl (CacheFailed e), d1, s2)
        | (Inr u, s2) \<Rightarrow> (case sweep_expired_attachment_cache w v root retained system_now s2 of
            (Inl e, s3) \<Rightarrow> (Inl (CacheFailed e), d1, s3) | (Inr u, s3) \<Rightarrow> (Inr root, d1, s3)))))"

end
