(* ===== verification/Service_Facts.thy ===== *)
theory Service_Facts
  imports Gateway_Service Gateway_Engine
begin

text \<open>
  What a notification does to the session store: looking up a route or the record of an earlier delivery changes
  neither, an accepted delivery is recorded under its key, and the record answers the next request.
\<close>

section \<open>Lookups\<close>

text \<open>Two disks with the same routes and the same records of deliveries.\<close>

definition same_views :: "gate_env \<Rightarrow> disk \<Rightarrow> disk \<Rightarrow> bool" where
  "same_views env d d' \<longleftrightarrow> shared_view env routes_file d' = shared_view env routes_file d
     \<and> shared_view env deliveries_file d' = shared_view env deliveries_file d"

lemma load_shared_frame:
  "load_shared_map_unlocked env io f d = (r, d') \<Longrightarrow> g \<noteq> f \<Longrightarrow> g \<noteq> backup_path f \<Longrightarrow> d' g = d g"
  by (auto simp: load_shared_map_unlocked_def recover_backup_def split: option.splits if_splits)

lemma load_shared_good:
  assumes "shared_view env f d = Some m" "backup_path f \<noteq> f"
  shows "\<exists>d'. load_shared_map_unlocked env io_good f d = (Inr m, d')"
  using assms by (auto simp: load_shared_map_unlocked_def recover_backup_def shared_view_def io_good_def split: option.splits sum.splits)

lemma files_apart:
  "deliveries_file \<noteq> routes_file" "deliveries_file \<noteq> ''_routes.bak''" "''_deliveries.bak'' \<noteq> routes_file"
  "''_deliveries.bak'' \<noteq> ''_routes.bak''" "routes_file \<noteq> deliveries_file" "routes_file \<noteq> ''_deliveries.bak''"
  "''_routes.bak'' \<noteq> deliveries_file" "''_routes.bak'' \<noteq> routes_file" "''_deliveries.bak'' \<noteq> deliveries_file"
  by (simp_all add: deliveries_file_def routes_file_def)

lemma shared_view_cong: "d' f = d f \<Longrightarrow> d' (backup_path f) = d (backup_path f) \<Longrightarrow> shared_view env f d' = shared_view env f d"
  by (simp only: shared_view_def)

lemma load_shared_view: "load_shared_map_unlocked env io f d = (r, d') \<Longrightarrow> shared_view env f d' = shared_view env f d"
  by (cases r) (auto dest: load_shared_ok load_shared_err)

lemma load_other_view:
  "load_shared_map_unlocked env io f d = (r, d') \<Longrightarrow> g \<notin> {f, backup_path f} \<Longrightarrow> backup_path g \<notin> {f, backup_path f} \<Longrightarrow>
   shared_view env g d' = shared_view env g d"
  by (rule shared_view_cong) (auto dest: load_shared_frame)

lemma load_routes_views: "load_shared_map_unlocked env io routes_file d = (r, d') \<Longrightarrow> same_views env d d'"
  by (simp add: same_views_def load_shared_view load_other_view files_apart)

lemma load_deliveries_views: "load_shared_map_unlocked env io deliveries_file d = (r, d') \<Longrightarrow> same_views env d d'"
  by (simp add: same_views_def load_shared_view load_other_view files_apart)

lemma lookup_transact:
  "transact load save (\<lambda>m. Inr (look m, None)) d = (case load d of (Inl e, d1) \<Rightarrow> (Inl e, d1) | (Inr m, d1) \<Rightarrow> (Inr (look m), d1))"
  by (simp add: transact_def split: prod.splits sum.splits)

lemma resolve_route_views:
  assumes "resolve_route env io rk d = (r, d')"
  shows "same_views env d d'"
    "r = Inr (Some route) \<Longrightarrow> \<exists>m. shared_view env routes_file d = Some m \<and> oget m rk = Some route \<and> trim rk \<noteq> []"
  using assms by (auto simp: resolve_route_def lookup_transact same_views_def dest: load_routes_views load_shared_ok
      split: prod.splits sum.splits if_splits)

lemma resolve_route_good:
  "shared_view env routes_file d = Some m \<Longrightarrow> oget m rk = Some route \<Longrightarrow> trim rk \<noteq> [] \<Longrightarrow>
   \<exists>d'. resolve_route env io_good rk d = (Inr (Some route), d')"
  using load_shared_good [of env routes_file d m] by (auto simp: resolve_route_def lookup_transact files_apart)

lemma load_record_views:
  assumes "load_delivery_record env io key d = (r, d')"
  shows "same_views env d d'"
    "r = Inr q \<Longrightarrow> trim key \<noteq> [] \<Longrightarrow> \<exists>m. shared_view env deliveries_file d = Some m \<and> oget m key = q"
  using assms by (auto simp: load_delivery_record_def lookup_transact same_views_def dest: load_deliveries_views load_shared_ok
      split: prod.splits sum.splits if_splits)

lemma load_record_good:
  "shared_view env deliveries_file d = Some m \<Longrightarrow> trim key \<noteq> [] \<Longrightarrow> \<exists>d'. load_delivery_record env io_good key d = (Inr (oget m key), d')"
  using load_shared_good [of env deliveries_file d m] by (auto simp: load_delivery_record_def lookup_transact files_apart)


section \<open>The record of an accepted delivery\<close>

lemma delivered_response_ok:
  "jwf ft (delivered_response env n route adapter_name resp)" "jdepth (delivered_response env n route adapter_name resp) \<le> 1"
  "get_bool (delivered_response env n route adapter_name resp) ''ok'' = Some True"
  unfolding delivered_response_def Let_def
  by (rule jwf_jobj, simp) (unfold jobj_def, rule jdepth_oputs, simp_all add: get_bool_def)

lemma failed_response_ok: "get_bool (failed_response env n route adapter_name e) ''ok'' = Some False"
  by (simp add: failed_response_def get_bool_def jobj_def split: prod.splits)

lemma classification_ok: "jwf ft (classify_delivery_attempt route resp)" "jdepth (classify_delivery_attempt route resp) \<le> 1"
  unfolding classify_delivery_attempt_def Let_def
  by (rule jwf_jobj, simp) (unfold jobj_def, rule jdepth_oputs, simp_all)

lemma save_record_views:
  assumes "save_delivery_record env io key fp resp classification d = (Inr u, d')" "serde_ok env"
    and "jwf (f64_text env) resp" "jdepth resp \<le> 1" "jwf (f64_text env) classification" "jdepth classification \<le> 1"
  shows "trim key \<noteq> []" "shared_view env routes_file d' = shared_view env routes_file d"
    "\<exists>m r. shared_view env deliveries_file d' = Some m \<and> oget m key = Some r
      \<and> get_str r ''request_fingerprint'' = Some fp \<and> jget r ''response_payload'' = Some resp"
proof -
  let ?r = "jobj [(''request_fingerprint'', JStr fp), (''response_payload'', resp), (''classification'', classification)]"
  show k: "trim key \<noteq> []" using assms(1) by (auto simp: save_delivery_record_def split: if_splits)
  with assms(1) have t: "transact (load_shared_map_unlocked env io deliveries_file) (write_shared_map_unlocked env io deliveries_file)
      (\<lambda>m. Inr ((), Some (oput key ?r m))) d = (Inr u, d')" by (simp add: save_delivery_record_def)
  have r: "jwf (f64_text env) ?r" by (rule jwf_jobj) (simp add: assms)
  have "jdepth ?r \<le> 2" unfolding jobj_def by (rule jdepth_oputs) (use assms in \<open>simp_all add: less_eq_Suc_le [symmetric] le_imp_less_Suc numeral_2_eq_2\<close>)
  note r = r this
  have st: "storable env (oput key ?r m)" if "shared_view env deliveries_file d = Some m" for m
    using shared_view_jwf [OF assms(2) that] shared_view_depth [OF assms(2) that] r
    by (intro storable_jwf [OF assms(2)] jwf_oput jdepth_oput) auto
  from deliveries.transact_ok_view [OF t] st obtain m where "shared_view env deliveries_file d' = Some (oput key ?r m)" by auto
  then show "\<exists>m r. shared_view env deliveries_file d' = Some m \<and> oget m key = Some r
      \<and> get_str r ''request_fingerprint'' = Some fp \<and> jget r ''response_payload'' = Some resp"
    by (intro exI [of _ "oput key ?r m"] exI [of _ ?r]) (simp add: get_str_def jobj_def)
  from t obtain m d1 where l: "load_shared_map_unlocked env io deliveries_file d = (Inr m, d1)"
    and w: "write_shared_map_unlocked env io deliveries_file (oput key ?r m) d1 = (Inr (), d')"
    by (auto simp: transact_def split: prod.splits sum.splits)
  have "d' g = d1 g" if "g \<noteq> deliveries_file" "g \<noteq> ''_deliveries.bak''" for g
    using write_json_frame [OF w [unfolded write_shared_map_unlocked_def]] that by simp
  then have "shared_view env routes_file d' = shared_view env routes_file d1" by (intro shared_view_cong) (simp_all add: files_apart)
  with load_deliveries_views [OF l] show "shared_view env routes_file d' = shared_view env routes_file d" by (simp add: same_views_def)
qed


section \<open>Steps of a notification\<close>

lemma step_of_advance [simp]: "ss_disk (advance s) = ss_disk s" "dt_effects (ss_delivery (advance s)) = dt_effects (ss_delivery s)"
  by (simp_all add: advance_def)

lemma store_call_cases:
  assumes "store_call wo act err s = (r, s')"
  shows "\<exists>x d. act (sw_io wo (step_of s)) (gw_now (sw_gate wo) (step_of s)) (ss_disk s) = (x, d) \<and> s' = (advance s)\<lparr>ss_disk := d\<rparr>
    \<and> (\<forall>v. r = Inr v \<longleftrightarrow> x = Inr v)"
  using assms by (auto simp: store_call_def Let_def split: prod.splits sum.splits store_error.splits)

lemma store_call_Inr:
  "store_call wo act err s = (Inr v, s') \<Longrightarrow>
   act (sw_io wo (step_of s)) (gw_now (sw_gate wo) (step_of s)) (ss_disk s) = (Inr v, ss_disk s')"
  by (auto simp: store_call_def Let_def split: prod.splits sum.splits store_error.splits)

lemma or_fail_Inr: "or_fail x s = (Inr v, s') \<longleftrightarrow> x = Inr v \<and> s' = s"
  by (auto simp: or_fail_def sfail_def sreturn_def split: sum.splits)

lemma traced_Inr [simp]: "traced t x = Inr v \<longleftrightarrow> x = Inr v"
  by (simp add: traced_def split: sum.splits)

lemma or_fail_state: "snd (or_fail x s) = s"
  by (simp add: or_fail_def sfail_def sreturn_def split: sum.splits)

text \<open>The route a request resolves to, given what the store holds.\<close>

definition routed :: "gate_env \<Rightarrow> jmap \<Rightarrow> string \<Rightarrow> disk \<Rightarrow> json \<Rightarrow> bool" where
  "routed env destination rk d route \<longleftrightarrow> (if rk = [] then proactive_route destination = Inr route
     else \<exists>m r. shared_view env routes_file d = Some m \<and> oget m rk = Some r \<and> trim rk \<noteq> []
       \<and> or_else ''active'' (get_str r ''status'') \<noteq> ''expired'' \<and> route = bound_route_of r)"

definition quiet :: "gate_env \<Rightarrow> service_state \<Rightarrow> service_state \<Rightarrow> bool" where
  "quiet env s s' \<longleftrightarrow> same_views env (ss_disk s) (ss_disk s') \<and> dt_effects (ss_delivery s') = dt_effects (ss_delivery s)"

lemma quiet_refl [simp]: "quiet env s s" by (simp add: quiet_def same_views_def)

lemma quiet_trans: "quiet env s t \<Longrightarrow> quiet env t u \<Longrightarrow> quiet env s u"
  by (simp add: quiet_def same_views_def)

lemma resolve_quiet:
  assumes "resolve_notification_route sv wo destination rk trace s = (r, s')"
  shows "quiet (se_env sv) s s'" "r = Inr route \<Longrightarrow> routed (se_env sv) destination rk (ss_disk s) route"
proof -
  have "quiet (se_env sv) s s' \<and> (r = Inr route \<longrightarrow> routed (se_env sv) destination rk (ss_disk s) route)"
  proof (cases "rk = []")
    case True
    with assms show ?thesis
      by (auto simp: resolve_notification_route_def routed_def or_fail_def sfail_def sreturn_def split: sum.splits)
  next
    case False
    let ?err = "\<lambda>msg. with_trace trace (infrastructure msg)" and ?act = "\<lambda>io now. resolve_route (se_env sv) io rk"
    obtain a s1 where a: "store_call wo ?act ?err s = (a, s1)" by fastforce
    from store_call_cases [OF this] obtain x d where x: "resolve_route (se_env sv) (sw_io wo (step_of s)) rk (ss_disk s) = (x, d)"
      and s1: "s1 = (advance s)\<lparr>ss_disk := d\<rparr>" "\<forall>v. a = Inr v \<longleftrightarrow> x = Inr v" by blast
    have q: "quiet (se_env sv) s s1" using resolve_route_views(1) [OF x] s1(1) by (simp add: quiet_def)
    show ?thesis
    proof (cases a)
      case (Inl e)
      with assms False a q show ?thesis by (auto simp: resolve_notification_route_def sbind_def)
    next
      case (Inr got)
      with s1(2) have g: "x = Inr got" by blast
      with assms False a Inr have "s' = s1" "r = Inr route \<Longrightarrow> (\<exists>v. got = Some v
          \<and> or_else ''active'' (get_str v ''status'') \<noteq> ''expired'' \<and> route = bound_route_of v)"
        by (auto simp: resolve_notification_route_def sbind_def or_fail_def sfail_def sreturn_def traced_def
            split: option.splits if_splits)
      with q g resolve_route_views(2) [OF x] False show ?thesis by (auto simp: routed_def)
    qed
  qed
  then show "quiet (se_env sv) s s'" "r = Inr route \<Longrightarrow> routed (se_env sv) destination rk (ss_disk s) route" by blast+
qed


lemma resolve_again:
  assumes "routed (se_env sv) destination rk (ss_disk s) route"
    and "resolve_notification_route sv wo destination rk trace s = (r, s')"
  shows "r = Inr route \<or> (\<exists>e. r = Inl e)" "(\<forall>n. sw_io wo n = io_good) \<Longrightarrow> r = Inr route"
proof -
  show "r = Inr route \<or> (\<exists>e. r = Inl e)"
    using assms resolve_quiet(2) [OF assms(2)] by (cases r) (auto simp: routed_def split: if_splits)
  assume io: "\<forall>n. sw_io wo n = io_good"
  show "r = Inr route"
  proof (cases "rk = []")
    case True
    with assms show ?thesis by (simp add: routed_def resolve_notification_route_def or_fail_def traced_def sreturn_def)
  next
    case False
    with assms(1) obtain m v where v: "shared_view (se_env sv) routes_file (ss_disk s) = Some m" "oget m rk = Some v" "trim rk \<noteq> []"
      "or_else ''active'' (get_str v ''status'') \<noteq> ''expired''" "route = bound_route_of v" by (auto simp: routed_def)
    from resolve_route_good [OF v(1-3)] obtain d where "resolve_route (se_env sv) io_good rk (ss_disk s) = (Inr (Some v), d)" by blast
    with assms(2) False io v(4,5) show ?thesis
      by (auto simp: resolve_notification_route_def sbind_def store_call_def Let_def or_fail_def traced_def sreturn_def)
  qed
qed

text \<open>An answer on record, and what a request with it gets.\<close>

definition on_record :: "gate_env \<Rightarrow> disk \<Rightarrow> string \<Rightarrow> string \<Rightarrow> json \<Rightarrow> bool" where
  "on_record env d key fp v \<longleftrightarrow> trim key \<noteq> [] \<and> (\<exists>m r. shared_view env deliveries_file d = Some m \<and> oget m key = Some r
     \<and> or_else [] (get_str r ''request_fingerprint'') = fp \<and> jget r ''response_payload'' = Some v)"

lemma on_record_answer:
  assumes "on_record env d key fp v" "get_bool v ''ok'' = Some True" "load_delivery_record env io key d = (Inr q, d')"
  shows "earlier_answer fp q = Inr (Some v)"
    and "earlier_answer fp' q = Inr (Some v) \<or> (\<exists>e. earlier_answer fp' q = Inl e)"
proof -
  from assms(1) obtain m r where m: "shared_view env deliveries_file d = Some m" "oget m key = Some r"
    "or_else [] (get_str r ''request_fingerprint'') = fp" "jget r ''response_payload'' = Some v" by (auto simp: on_record_def)
  from load_record_views(2) [OF assms(3) refl] assms(1) m have "q = Some r" by (auto simp: on_record_def)
  with m assms(2) show "earlier_answer fp q = Inr (Some v)" "earlier_answer fp' q = Inr (Some v) \<or> (\<exists>e. earlier_answer fp' q = Inl e)"
    by (auto simp: earlier_answer_def)
qed

text \<open>A request for a key on record: the recorded answer or an error, and nothing is sent.\<close>

lemma deliver_recorded:
  assumes "deliver_notification sv wo n rk route payload sel s = (res, s')"
    and "on_record (se_env sv) (ss_disk s) (no_idempotency_key n) fp v" "get_bool v ''ok'' = Some True"
  shows "quiet (se_env sv) s s'" "res = Inr v \<or> (\<exists>e. res = Inl e)"
proof -
  let ?fp = "fingerprint (se_content sv) (effective_request n rk route payload sel)"
  let ?err = "\<lambda>msg. with_trace (no_trace n) (infrastructure msg)"
  obtain a s1 where a: "store_call wo (\<lambda>io now. load_delivery_record (se_env sv) io (no_idempotency_key n)) ?err s = (a, s1)" by fastforce
  from store_call_cases [OF this] obtain x d where
    x: "load_delivery_record (se_env sv) (sw_io wo (step_of s)) (no_idempotency_key n) (ss_disk s) = (x, d)"
    and s1: "s1 = (advance s)\<lparr>ss_disk := d\<rparr>" "\<forall>v. a = Inr v \<longleftrightarrow> x = Inr v" by blast
  have q: "quiet (se_env sv) s s1" using load_record_views(1) [OF x] s1(1) by (simp add: quiet_def)
  have "quiet (se_env sv) s s' \<and> (res = Inr v \<or> (\<exists>e. res = Inl e))"
  proof (cases a)
    case (Inl e)
    with assms(1) a q show ?thesis by (auto simp: deliver_notification_def Let_def sfail_def sbind_def split: if_splits)
  next
    case (Inr got)
    with s1(2) x have g: "load_delivery_record (se_env sv) (sw_io wo (step_of s)) (no_idempotency_key n) (ss_disk s) = (Inr got, d)" by metis
    from on_record_answer(2) [OF assms(2,3) g, of ?fp] assms(1) a Inr q show ?thesis
      by (auto simp: deliver_notification_def Let_def sfail_def sbind_def or_fail_def traced_def sreturn_def split: if_splits)
  qed
  then show "quiet (se_env sv) s s'" "res = Inr v \<or> (\<exists>e. res = Inl e)" by blast+
qed


lemma recorded_good:
  assumes "on_record (se_env sv) (ss_disk s) (no_idempotency_key n) (fingerprint (se_content sv) (effective_request n rk route payload sel)) v"
    and "get_bool v ''ok'' = Some True" "sw_io wo (step_of s) = io_good" "route_adapter route \<in> set (se_adapters sv)"
    and "\<not> (jindex route ''platform'' = JStr ''whatsapp'' \<and> se_fleet sv \<noteq> None \<and> sel = None)"
  shows "fst (deliver_notification sv wo n rk route payload sel s) = Inr v"
proof -
  from assms(1) obtain m where m: "shared_view (se_env sv) deliveries_file (ss_disk s) = Some m" "trim (no_idempotency_key n) \<noteq> []"
    by (auto simp: on_record_def)
  from load_record_good [OF this] obtain d where
    d: "load_delivery_record (se_env sv) io_good (no_idempotency_key n) (ss_disk s) = (Inr (oget m (no_idempotency_key n)), d)" by blast
  from on_record_answer(1) [OF assms(1,2) d] d assms(3-5) show ?thesis
    by (auto simp: deliver_notification_def Let_def sbind_def store_call_def or_fail_def traced_def sreturn_def)
qed

lemma deliver_disk: "deliver sv wo adapter m dk fp s = (r, s') \<Longrightarrow> ss_disk s' = ss_disk s"
  by (auto simp: deliver_def split: prod.splits)

lemma send_recorded:
  assumes "send_notification sv wo n route adapter_name fp m s = (Inr v, s')" "get_bool v ''ok'' = Some True" "serde_ok (se_env sv)"
  shows "on_record (se_env sv) (ss_disk s') (no_idempotency_key n) fp v"
    "shared_view (se_env sv) routes_file (ss_disk s') = shared_view (se_env sv) routes_file (ss_disk s)"
proof -
  have nf: "v \<noteq> failed_response (se_content sv) n route adapter_name e" for e
    using failed_response_ok [of "se_content sv" n route adapter_name e] assms(2) by auto
  with assms(1) obtain resp t where t: "deliver sv wo adapter_name m (no_idempotency_key n) fp s = (Inr resp, t)"
    and v: "v = delivered_response (se_content sv) n route adapter_name resp"
    and st: "\<exists>u. store_call wo (\<lambda>io now. save_delivery_record (se_env sv) io (no_idempotency_key n) fp v
        (classify_delivery_attempt route v)) (\<lambda>msg. with_trace (no_trace n) (infrastructure msg)) t = (Inr u, s')"
    by (auto simp: send_notification_def Let_def sbind_Inr sreturn_def split: prod.splits sum.splits gate_error.splits if_splits)
  from st obtain u where u: "store_call wo (\<lambda>io now. save_delivery_record (se_env sv) io (no_idempotency_key n) fp v
        (classify_delivery_attempt route v)) (\<lambda>msg. with_trace (no_trace n) (infrastructure msg)) t = (Inr u, s')" by blast
  from save_record_views [OF store_call_Inr [OF u] assms(3)] deliver_disk [OF t]
  show "on_record (se_env sv) (ss_disk s') (no_idempotency_key n) fp v"
    "shared_view (se_env sv) routes_file (ss_disk s') = shared_view (se_env sv) routes_file (ss_disk s)"
    using delivered_response_ok classification_ok v by (auto simp: on_record_def get_str_def)
qed

lemma accepted_recorded:
  assumes "deliver_notification sv wo n rk route payload sel s = (Inr v, s')" "get_bool v ''ok'' = Some True" "serde_ok (se_env sv)"
  shows "on_record (se_env sv) (ss_disk s') (no_idempotency_key n) (fingerprint (se_content sv) (effective_request n rk route payload sel)) v"
    "shared_view (se_env sv) routes_file (ss_disk s') = shared_view (se_env sv) routes_file (ss_disk s)"
    "route_adapter route \<in> set (se_adapters sv)"
    "\<not> (jindex route ''platform'' = JStr ''whatsapp'' \<and> se_fleet sv \<noteq> None \<and> sel = None)"
proof -
  let ?fp = "fingerprint (se_content sv) (effective_request n rk route payload sel)" and ?key = "no_idempotency_key n"
  show ad: "route_adapter route \<in> set (se_adapters sv)" "\<not> (jindex route ''platform'' = JStr ''whatsapp'' \<and> se_fleet sv \<noteq> None \<and> sel = None)"
    using assms(1) by (auto simp: deliver_notification_def Let_def sfail_def split: if_splits)
  let ?load = "store_call wo (\<lambda>io now. load_delivery_record (se_env sv) io ?key) (\<lambda>msg. with_trace (no_trace n) (infrastructure msg))"
  let ?send = "\<lambda>now_iso. send_notification sv wo n route (route_adapter route) ?fp (notification_outbound n rk route (route_adapter route) payload sel now_iso)"
  let ?go = "\<lambda>earlier. case earlier of Some response \<Rightarrow> sreturn response
      | None \<Rightarrow> sbind (ask_world (\<lambda>k. utc_now_iso (se_env sv) (gw_now (sw_gate wo) k))) ?send"
  have "deliver_notification sv wo n rk route payload sel =
      sbind ?load (\<lambda>q. sbind (or_fail (traced (no_trace n) (earlier_answer ?fp q))) ?go)"
    using ad by (auto simp: deliver_notification_def Let_def)
  with assms(1) obtain q s1 earlier where l: "?load s = (Inr q, s1)" and e: "earlier_answer ?fp q = Inr earlier"
    and c: "?go earlier s1 = (Inr v, s')"
    by (simp only: sbind_Inr or_fail_Inr traced_Inr) blast
  note x = store_call_Inr [OF l]
  note views = load_record_views(1) [OF x]
  have "on_record (se_env sv) (ss_disk s') ?key ?fp v \<and> shared_view (se_env sv) routes_file (ss_disk s') = shared_view (se_env sv) routes_file (ss_disk s)"
  proof (cases earlier)
    case None
    with c obtain m t where "send_notification sv wo n route (route_adapter route) ?fp m t = (Inr v, s')" "ss_disk t = ss_disk s1"
      by (auto simp: sbind_Inr ask_world_def)
    with send_recorded [OF _ assms(2,3)] views show ?thesis by (auto simp: same_views_def)
  next
    case (Some w)
    with e c obtain r where r: "q = Some r" "or_else [] (get_str r ''request_fingerprint'') = ?fp" "jget r ''response_payload'' = Some v" "s' = s1"
      by (auto simp: earlier_answer_def bind_eq_Some_conv sreturn_def split: option.splits if_splits)
    have "trim ?key \<noteq> []" using x r(1) by (auto simp: load_delivery_record_def)
    with load_record_views(2) [OF x refl] r views show ?thesis by (auto simp: on_record_def same_views_def)
  qed
  then show "on_record (se_env sv) (ss_disk s') ?key ?fp v" "shared_view (se_env sv) routes_file (ss_disk s') = shared_view (se_env sv) routes_file (ss_disk s)"
    by blast+
qed


lemma routed_views: "shared_view env routes_file d' = shared_view env routes_file d \<Longrightarrow> routed env destination rk d' route = routed env destination rk d route"
  by (simp add: routed_def)

text \<open>The same request again, after its answer was recorded.\<close>

lemma repeated_notification:
  assumes "serde_ok (se_env sv)" "handle_notification_delivery_from sv wo payload sel s = (Inr v, s1)" "get_bool v ''ok'' = Some True"
    and "handle_notification_delivery_from sv wo' payload sel s1 = (res, s2)"
  shows "quiet (se_env sv) s1 s2" "(\<forall>n. sw_io wo' n = io_good) \<Longrightarrow> res = Inr v"
proof -
  from assms(2) obtain n route t where n: "read_notification (se_content sv) payload = Inr n"
    and r: "resolve_notification_route sv wo (no_destination n) (dget (no_destination n) ''route_key'') (no_trace n) s = (Inr route, t)"
    and d: "deliver_notification sv wo n (dget (no_destination n) ''route_key'') route payload sel t = (Inr v, s1)"
    by (auto simp: handle_notification_delivery_from_def Let_def sbind_Inr or_fail_Inr)
  let ?rk = "dget (no_destination n) ''route_key''"
  note rec = accepted_recorded [OF d assms(3,1)]
  have "routed (se_env sv) (no_destination n) ?rk (ss_disk s1) route"
    using resolve_quiet(2) [OF r refl] resolve_quiet(1) [OF r] rec(2) routed_views [of "se_env sv" "ss_disk s1" "ss_disk s"]
    by (simp add: quiet_def same_views_def)
  note again = resolve_again [OF this]
  obtain a u where a: "resolve_notification_route sv wo' (no_destination n) ?rk (no_trace n) s1 = (a, u)" by fastforce
  have q: "quiet (se_env sv) s1 u" using resolve_quiet(1) [OF a] .
  have kept: "on_record (se_env sv) (ss_disk u) (no_idempotency_key n) (fingerprint (se_content sv) (effective_request n ?rk route payload sel)) v"
    using rec(1) q by (simp add: on_record_def quiet_def same_views_def)
  have h: "(case a of Inl e \<Rightarrow> (Inl e, u) | Inr x \<Rightarrow> deliver_notification sv wo' n ?rk x payload sel u) = (res, s2)"
    using assms(4) n a by (simp add: handle_notification_delivery_from_def Let_def sbind_def or_fail_def sreturn_def split: sum.splits)
  show "quiet (se_env sv) s1 s2"
  proof (cases a)
    case (Inr x)
    with h have "deliver_notification sv wo' n ?rk x payload sel u = (res, s2)" by simp
    from quiet_trans [OF q deliver_recorded(1) [OF this kept assms(3)]] show ?thesis .
  qed (use h q in simp)
  assume io: "\<forall>n. sw_io wo' n = io_good"
  have "a = Inr route" by (rule again(2) [OF a io])
  with h have "fst (deliver_notification sv wo' n ?rk route payload sel u) = res" by simp
  with recorded_good [OF kept assms(3) _ rec(3,4), of wo'] io show "res = Inr v" by simp
qed

end
