(* ===== verification/Service_Properties.thy ===== *)
theory Service_Properties
  imports Service_Facts Gateway_Properties Media_Facts
begin

text \<open>
  The properties of the gateway service: no message leaves without a permission of its own, which for WhatsApp
  comes from the selected device itself; a notification is delivered once per idempotency key; starting the
  service keeps the files that deliveries still need.
\<close>

section \<open>The permission of a send\<close>

lemma check_route_Inr:
  assumes "check_route env io now m d = (Inr sel, d')"
  shows "\<exists>rk dir r. check_prepare m = Inr (sel, rk) \<and> fleet_view env d = Some dir
    \<and> oget dir (fleet_key env (out_chat_id m) rk) = Some r \<and> rt_active r = Some sel \<and> \<not> pending_open now r"
proof -
  from assms obtain original rk where p: "check_prepare m = Inr (original, rk)"
    and t: "transaction env io (check_dir env now m original rk) d = (Inr sel, d')"
    by (auto simp: check_route_def split: sum.splits prod.splits)
  from t have "transact (fleet_load env io) (fleet_save env io)
      (\<lambda>dir. rbind (check_dir env now m original rk dir) (\<lambda>(r, dir'). Inr (r, Some dir')))
      (d(routes_lock \<mapsto> (case d routes_lock of Some b \<Rightarrow> b | None \<Rightarrow> []))) = (Inr sel, d')"
    by (auto simp: transaction_def Let_def split: if_splits)
  from fleet.transact_ok_read [OF this] obtain dir where
    v: "fleet_view env (d(routes_lock \<mapsto> (case d routes_lock of Some b \<Rightarrow> b | None \<Rightarrow> []))) = Some dir"
    and c: "\<exists>dir'. check_dir env now m original rk dir = Inr (sel, dir')" by auto
  have "fleet_view env d = Some dir" using v by (simp add: fleet_view_def routes_lock_def routes_json_def)
  moreover from c obtain r where "oget dir (fleet_key env (out_chat_id m) rk) = Some r" "rt_active r = Some sel"
    "\<not> pending_open now r" "original = sel"
    by (auto simp: check_dir_def split: if_splits)
  ultimately show ?thesis using p by blast
qed

lemma exchange_identity:
  assumes "run_exchange env client hub operation body ttl inputs = Inr resp" "expected_hub_identity client = Some identity"
  shows "resp_hub_identity resp = identity"
proof -
  obtain rid start attempts where i: "inputs = (rid, start, attempts)" by (cases inputs)
  have "fst (exchange_loop env rid (start + ttl) attempts
      \<lparr>accepted = False, cloud_deadline = None, cloud_identity = expected_hub_identity client, last_publish = start\<rparr>) = Inr resp"
    using assms(1) by (auto simp: run_exchange_def relay_exchange_def i Let_def split: if_splits)
  from exchange_loop_sound [OF this] assms(2) show ?thesis by auto
qed

text \<open>The route directory as the last check before a send finds it.\<close>

definition directory_at_check :: "service \<Rightarrow> service_world \<Rightarrow> nat \<Rightarrow> outbound_message \<Rightarrow> disk" where
  "directory_at_check sv wo n m = sw_meanwhile wo n 1 (snd (outbound_task_client sv (sw_fleet_io wo n 1) (sw_fleet_now wo n 1) m
     (sw_meanwhile wo n 0 (snd (authorize_camera_delivery sv wo n m (sw_fleet wo n))))))"

text \<open>What the device is asked.\<close>

definition permission_request :: "outbound_message \<Rightarrow> string \<Rightarrow> string \<Rightarrow> json" where
  "permission_request m rk handle = jobj [(''recipient'', JStr (out_chat_id m)), (''route_key'', JStr rk),
     (''conversation_handle'', JStr handle), (''text'', JStr (out_text m)), (''has_attachments'', JBool (out_attachments m \<noteq> []))]"

definition device_allows :: "service \<Rightarrow> service_world \<Rightarrow> nat \<Rightarrow> outbound_message \<Rightarrow> selection \<Rightarrow> string \<Rightarrow> bool" where
  "device_allows sv wo n m sel rk \<longleftrightarrow> (\<exists>relay client handle resp. se_fleet sv = Some relay
     \<and> with_hub_identity (sel_hub_identity sel) relay = Inr client
     \<and> authorize_delivery (be_relay (se_beacon sv)) client (sel_hub_id sel) (permission_request m rk handle) (sw_exchange wo n 0) = Inr resp
     \<and> resp_hub_identity resp = sel_hub_identity sel \<and> resp_status resp = 200 \<and> jindex (resp_body resp) ''allowed'' = JBool True)"

lemma authorize_whatsapp_Inr:
  assumes "authorize_whatsapp_delivery env client inputs reply m = Inr ()" "tc_cloud_relay client = Some (relay, hub)"
    and "check_prepare m = Inr (sel, rk)"
  shows "\<exists>handle resp. authorize_delivery (be_relay env) relay hub (permission_request m rk handle) inputs = Inr resp
    \<and> resp_status resp = 200 \<and> jindex (resp_body resp) ''allowed'' = JBool True"
proof -
  from assms(1) obtain handle route where "nonempty_entry ''conversation_handle'' (out_metadata m) = Some handle"
    and route: "nonempty_entry ''route_key'' (out_metadata m) = Some route"
    by (auto simp: authorize_whatsapp_delivery_def)
  moreover have "route = rk"
    using assms(3) route by (auto simp: check_prepare_def nonempty_entry_def bind_eq_Some_conv split: if_splits)
  ultimately have "(case authorize_delivery (be_relay env) relay hub (permission_request m rk handle) inputs of
      Inl e \<Rightarrow> Inl (if err_code e = ''NAVI_IDENTITY_CHANGED'' then wa_delivery_denied else wa_delivery_unavailable)
    | Inr response \<Rightarrow>
        if resp_status response \<in> refused_statuses then Inl wa_delivery_denied
        else if resp_status response \<noteq> 200 \<or> length (to_vec (be_relay env) (resp_body response)) > 4096
        then Inl wa_delivery_unavailable
        else if jindex (resp_body response) ''allowed'' \<noteq> JBool True then Inl wa_delivery_denied
        else Inr ()) = Inr ()"
    using assms(1,2) by (simp add: authorize_whatsapp_delivery_def permission_request_def Let_def)
  then show ?thesis by (cases "authorize_delivery (be_relay env) relay hub (permission_request m rk handle) inputs") (auto split: if_splits)
qed

lemma authorize_context_channel:
  assumes "fst (authorize_delivery_context sv wo n m d) = Inr ()"
  shows "fst (authorize_channel sv wo n m (sw_meanwhile wo n 0 (snd (authorize_camera_delivery sv wo n m d)))) = Inr ()"
  using assms by (auto simp: authorize_delivery_context_def forget_device_def split: prod.splits sum.splits option.splits if_splits)

lemma permitted_by_device:
  assumes "fst (authorize_delivery_context sv wo n m (sw_fleet wo n)) = Inr ()" "out_platform m = ''whatsapp''" "se_fleet sv = Some relay"
  shows "\<exists>sel rk dir r. check_prepare m = Inr (sel, rk) \<and> device_allows sv wo n m sel rk
    \<and> fleet_view (se_fleet_env sv) (directory_at_check sv wo n m) = Some dir
    \<and> oget dir (fleet_key (se_fleet_env sv) (out_chat_id m) rk) = Some r \<and> rt_active r = Some sel
    \<and> \<not> pending_open (sw_fleet_now wo n 2) r"
proof -
  let ?d = "sw_meanwhile wo n 0 (snd (authorize_camera_delivery sv wo n m (sw_fleet wo n)))"
  from authorize_context_channel [OF assms(1)] assms(2,3) obtain client d1 sel' d2 where
    cl: "outbound_task_client sv (sw_fleet_io wo n 1) (sw_fleet_now wo n 1) m ?d = (Inr client, d1)"
    and au: "authorize_whatsapp_delivery (se_beacon sv) client (sw_exchange wo n 0) (sw_reply wo n) m = Inr ()"
    and ch: "check_route (se_fleet_env sv) (sw_fleet_io wo n 2) (sw_fleet_now wo n 2) m (sw_meanwhile wo n 1 d1) = (Inr sel', d2)"
    by (auto simp: authorize_channel_def split: prod.splits sum.splits)
  from check_route_Inr [OF ch] obtain rk dir r where prep: "check_prepare m = Inr (sel', rk)"
    and dir: "fleet_view (se_fleet_env sv) (sw_meanwhile wo n 1 d1) = Some dir"
      "oget dir (fleet_key (se_fleet_env sv) (out_chat_id m) rk) = Some r" "rt_active r = Some sel'"
      "\<not> pending_open (sw_fleet_now wo n 2) r" by blast
  from cl assms(2,3) obtain sel where c1: "check_route (se_fleet_env sv) (sw_fleet_io wo n 1) (sw_fleet_now wo n 1) m ?d = (Inr sel, d1)"
    and sc: "selected_client relay sel = Inr client"
    by (auto simp: outbound_task_client_def Let_def split: prod.splits sum.splits)
  from check_route_Inr [OF c1] prep have same: "sel = sel'" by auto
  from sc obtain rc where rc: "with_hub_identity (sel_hub_identity sel) relay = Inr rc" "tc_cloud_relay client = Some (rc, sel_hub_id sel)"
    by (auto simp: selected_client_def from_cloud_relay_def split: if_splits)
  from authorize_whatsapp_Inr [OF au rc(2) prep] obtain handle resp where
    resp: "authorize_delivery (be_relay (se_beacon sv)) rc (sel_hub_id sel) (permission_request m rk handle) (sw_exchange wo n 0) = Inr resp"
    "resp_status resp = 200" "jindex (resp_body resp) ''allowed'' = JBool True" by blast
  have "expected_hub_identity rc = Some (sel_hub_identity sel)" using rc(1) by (auto simp: with_hub_identity_def split: if_splits)
  with resp(1) have "resp_hub_identity resp = sel_hub_identity sel"
    unfolding authorize_delivery_def by (rule exchange_identity)
  with resp rc(1) assms(3) same have "device_allows sv wo n m sel' rk" by (auto simp: device_allows_def)
  moreover have "directory_at_check sv wo n m = sw_meanwhile wo n 1 d1" unfolding directory_at_check_def cl by simp
  ultimately show ?thesis using prep dir by auto
qed

text \<open>C4: a WhatsApp message of a fleet leaves only with the permission of its own device. Whatever a delivery sends
  through WhatsApp (in any stage, after any retry, upload or fall-back, with other processes at work) was checked
  within that delivery: the device the message was written for, answering under the pinned identity, allowed this
  text for this recipient and route, and after its answer the route directory still had that device as the active
  selection of the recipient, with no other selection pending.\<close>

theorem whatsapp_send_permitted:
  assumes "deliver sv wo adapter m dk fp s = (res, s')" "se_fleet sv = Some relay"
    and "dt_effects (ss_delivery s') = dt_effects (ss_delivery s) @ fx" "Sent dk' ik token m' p \<in> set fx"
    and "out_platform m' = ''whatsapp''"
  shows "\<exists>n sel rk dir r. step_of s \<le> n \<and> n < step_of s' \<and> check_prepare m' = Inr (sel, rk) \<and> device_allows sv wo n m' sel rk
    \<and> fleet_view (se_fleet_env sv) (directory_at_check sv wo n m') = Some dir
    \<and> oget dir (fleet_key (se_fleet_env sv) (out_chat_id m') rk) = Some r \<and> rt_active r = Some sel
    \<and> \<not> pending_open (sw_fleet_now wo n 2) r"
proof -
  from assms(1) have d: "deliver_outbound_items (gate_for sv adapter) (delivery_world sv wo) m dk fp (ss_delivery s) = (res, ss_delivery s')"
    by (auto simp: deliver_def split: prod.splits)
  from keepsD [OF permitted_delivery d] assms(3,4) obtain n where
    n: "step_of s \<le> n" "n < step_of s'" "gw_authorize (delivery_world sv wo) n m' = Inr ()"
    by (auto simp: sends_permitted_def list_all_iff dest!: bspec)
  then have "fst (authorize_delivery_context sv wo n m' (sw_fleet wo n)) = Inr ()" by (simp add: delivery_world_def)
  from permitted_by_device [OF this assms(5,2)] n show ?thesis by blast
qed


text \<open>The check for WhatsApp never reports a change of identity, so only the check for camera media can make the service
  forget a device.\<close>

lemma whatsapp_check_hides_identity_change:
  assumes "authorize_whatsapp_delivery env client inputs reply m = Inl e"
  shows "err_code e \<noteq> ''NAVI_IDENTITY_CHANGED''"
proof -
  have chunks: "read_chunks x x n b cs = Inl e' \<Longrightarrow> e' = x" for x e' :: gateway_error and n b cs
    by (induction x x n b cs rule: read_chunks.induct) (auto split: if_splits)
  have missing: "ok_or x v = Inl e' \<longleftrightarrow> v = None \<and> e' = x" for x e' :: gateway_error and v :: "'z option"
    by (cases v) auto
  from assms have "e = wa_delivery_denied \<or> e = wa_delivery_unavailable"
    by (cases "tc_cloud_relay client")
      (auto simp: authorize_whatsapp_delivery_def Let_def rbind_eq_Inl missing dest: chunks split: sum.splits if_splits)
  then show ?thesis by (auto simp: wa_delivery_denied_def wa_delivery_unavailable_def gateway_error_new_def infrastructure_def)
qed

section \<open>A service to look at\<close>

definition home_identity :: string where "home_identity = replicate 64 CHR ''a''"

definition home :: selection where
  "home = \<lparr>sel_hub_id = ''hub'', sel_hub_identity = home_identity, sel_binding_id = ''b'', sel_generation = ''g'', sel_selected_at = 5\<rparr>"

definition home_dir :: directory where
  "home_dir = [(''k'', default_route\<lparr>rt_active := Some home, rt_recipient := ''c'', rt_route_key := ''r''\<rparr>)]"

definition home_answer :: json where
  "home_answer = jobj [(''requestId'', JStr ''gate_1''), (''hubIdentity'', JStr home_identity), (''deadlineUnixMs'', JInt 9000),
     (''status'', JStr ''complete''), (''result'', jobj [(''status'', JStr ''complete''), (''httpStatus'', JInt 200),
       (''body'', jobj [(''allowed'', JBool True)])])]"

definition home_env :: beacon_env where
  "home_env = \<lparr>be_content = demo_content,
     be_relay = \<lparr>url_parse = (\<lambda>s. None), url_join = (\<lambda>u s. Some u), from_slice = (\<lambda>b. Some home_answer),
       to_vec = (\<lambda>v. []), relay_rfc3339 = scan_int\<rparr>,
     be_status_text = (\<lambda>n. []), be_from_str = (\<lambda>s. Inr JNull), be_url_decode = Some, be_base64 = (\<lambda>e. None)\<rparr>"

definition home_service :: service where
  "home_service = \<lparr>se_env = demo_env, se_beacon = home_env,
     se_fleet_env = \<lparr>fleet_rfc3339 = scan_int, fleet_hash = (\<lambda>v. ''k''), decode_dir = (\<lambda>b. Some home_dir), encode_dir = (\<lambda>dir. [])\<rparr>,
     se_fleet = Some \<lparr>expected_hub_identity = None, relay_endpoint = undefined, relay_region = []\<rparr>, se_task_client = None,
     se_adapters = [''whatsapp''], se_normalize = (\<lambda>a v. Inl fleet_denied), se_lease = (\<lambda>a. 600),
     se_decode = (\<lambda>v. Inl ''not used''), se_instance = ''gate-1'', se_public_origin = [], se_cache_root = ''/c''\<rparr>"

definition home_io :: fleet_io where
  "home_io = \<lparr>fi_mkdir = True, fi_is_dir = True, fi_chmod = True, fi_plain_files = True, fi_open = True, fi_lock = True,
     fi_read = True, fi_write = True\<rparr>"

definition home_world :: service_world where
  "home_world = \<lparr>sw_gate = demo_world, sw_io = (\<lambda>n. io_good), sw_fleet_now = (\<lambda>n k. 100), sw_fleet_io = (\<lambda>n k. home_io),
     sw_fleet = (\<lambda>n. [routes_json \<mapsto> ''x'']), sw_meanwhile = (\<lambda>n k d. d),
     sw_exchange = (\<lambda>n k. (''gate_1'', 0, [\<lparr>at_start = 0, at_end = 1, at_wall = 100, at_response = Inr (200, [])\<rparr>])),
     sw_reply = (\<lambda>n. None), sw_statuses = (\<lambda>n k. None), sw_task_reply = (\<lambda>n. Inl ''not used''), sw_cache = undefined\<rparr>"

definition home_message :: outbound_message where
  "home_message = \<lparr>out_platform = ''whatsapp'', out_chat_id = ''c'', out_text = ''hi'', out_attachments = [], out_timestamp = ''t'',
     out_metadata = [(''conversation_handle'', JStr ''h''), (''navi_selection'', selection_to_json home), (''route_key'', JStr ''r'')]\<rparr>"

definition home_start :: service_state where
  "home_start = \<lparr>ss_disk = Map.empty, ss_fleet = [routes_json \<mapsto> ''x''], ss_delivery = demo_start\<rparr>"

lemma home_ids: "valid_identity home_identity" "valid_hub_id ''hub''"
  by (simp_all add: home_identity_def valid_identity_def valid_hub_id_def is_ascii_hexdigit_def list_all_iff is_ascii_digit_def
      less_eq_char_def is_ascii_alphanumeric_def is_ascii_lowercase_def)

lemma home_check:
  assumes "d routes_json = Some bytes" "length bytes \<le> max_file" "d routes_lock = None \<or> d routes_lock = Some []"
    and "out_chat_id m = ''c''" "check_prepare m = Inr (home, ''r'')"
  shows "\<exists>d'. check_route (se_fleet_env home_service) home_io 100 m d = (Inr home, d') \<and> d' routes_json = Some [] \<and> d' routes_lock = Some []"
  using assms
  by (auto simp: check_route_def transaction_def home_io_def home_service_def Let_def small_file_def transact_def fleet_load_def
      fleet_save_def check_dir_def home_dir_def fleet_key_def pending_open_def default_route_def routes_json_def routes_lock_def
      oget_def max_file_def split: option.splits)

lemma home_asks:
  assumes "with_hub_identity home_identity \<lparr>expected_hub_identity = None, relay_endpoint = undefined, relay_region = []\<rparr> = Inr rc"
  shows "authorize_delivery (be_relay home_env) rc ''hub'' (jobj kvs)
      (''gate_1'', 0, [\<lparr>at_start = 0, at_end = 1, at_wall = 100, at_response = Inr (200, [])\<rparr>]) =
    Inr \<lparr>resp_hub_identity = home_identity, resp_status = 200, resp_body = jobj [(''allowed'', JBool True)]\<rparr>"
  using assms
  by (auto simp: authorize_delivery_def run_exchange_def relay_exchange_def home_env_def Let_def is_object_def
      jobj_def max_response_def auth_ttl_def poll_step_def is_server_error_def accept_payload_def home_answer_def jindex_def
      i64_min_def i64_max_def home_ids complete_response_def u64_max_def with_hub_identity_def)


lemma home_prepare: "check_prepare (with_item_key dk ik home_message) = Inr (home, ''r'')"
  by (simp add: check_prepare_def with_item_key_def home_message_def selection_to_json_def jobj_def home_def i64_min_def i64_max_def)

lemma home_client:
  "\<exists>rc. with_hub_identity home_identity \<lparr>expected_hub_identity = None, relay_endpoint = undefined, relay_region = []\<rparr> = Inr rc
    \<and> selected_client \<lparr>expected_hub_identity = None, relay_endpoint = undefined, relay_region = []\<rparr> home
      = Inr \<lparr>tc_cloud_relay = Some (rc, ''hub''), tc_base_url = [], tc_api_token = [],
       tc_turn_endpoint = default_turn_endpoint, tc_contract_version = default_contract_version\<rparr>"
  by (simp add: with_hub_identity_def home_ids selected_client_def home_def from_cloud_relay_def)

lemma home_allows:
  assumes "with_hub_identity home_identity \<lparr>expected_hub_identity = None, relay_endpoint = undefined, relay_region = []\<rparr> = Inr rc"
    and "tc_cloud_relay client = Some (rc, ''hub'')"
  shows "authorize_whatsapp_delivery home_env client
      (''gate_1'', 0, [\<lparr>at_start = 0, at_end = 1, at_wall = 100, at_response = Inr (200, [])\<rparr>]) reply (with_item_key dk ik home_message) = Inr ()"
proof -
  have "nonempty_entry ''conversation_handle'' (out_metadata (with_item_key dk ik home_message)) = Some ''h''"
    "nonempty_entry ''route_key'' (out_metadata (with_item_key dk ik home_message)) = Some ''r''"
    by (simp_all add: nonempty_entry_def with_item_key_def home_message_def)
  then show ?thesis
    using assms(2) home_asks [OF assms(1)]
    by (simp add: authorize_whatsapp_delivery_def refused_statuses_def) (simp add: home_env_def jobj_def jindex_def)
qed

lemma home_permits: "gw_authorize (delivery_world home_service home_world) n (with_item_key dk ik home_message) = Inr ()"
proof -
  let ?m = "with_item_key dk ik home_message" and ?relay = "\<lparr>expected_hub_identity = None, relay_endpoint = undefined, relay_region = []\<rparr>"
  let ?d = "[routes_json \<mapsto> ''x'']"
  have m: "out_platform ?m = ''whatsapp''" "out_chat_id ?m = ''c''" "camera_attachments ?m = []"
    by (simp_all add: with_item_key_def home_message_def camera_attachments_def)
  have w: "sw_fleet_io home_world n k = home_io" "sw_fleet_now home_world n k = 100" "sw_meanwhile home_world n k d = d"
    "sw_fleet home_world n = ?d" "sw_exchange home_world n k = (''gate_1'', 0, [\<lparr>at_start = 0, at_end = 1, at_wall = 100, at_response = Inr (200, [])\<rparr>])" for k d
    by (simp_all add: home_world_def)
  have sv: "se_fleet home_service = Some ?relay" "se_beacon home_service = home_env" by (simp_all add: home_service_def)
  obtain d1 where d1: "check_route (se_fleet_env home_service) home_io 100 ?m ?d = (Inr home, d1)" "d1 routes_json = Some []" "d1 routes_lock = Some []"
    using home_check [of ?d "''x''" ?m] m home_prepare by (auto simp: routes_json_def routes_lock_def max_file_def)
  obtain d2 where d2: "check_route (se_fleet_env home_service) home_io 100 ?m d1 = (Inr home, d2)"
    using home_check [of d1 "[]" ?m] m home_prepare d1 by auto
  obtain rc where rc: "with_hub_identity home_identity ?relay = Inr rc" "selected_client ?relay home = Inr \<lparr>tc_cloud_relay = Some (rc, ''hub''),
      tc_base_url = [], tc_api_token = [], tc_turn_endpoint = default_turn_endpoint, tc_contract_version = default_contract_version\<rparr>"
    using home_client by blast
  have "fst (authorize_channel home_service home_world n ?m ?d) = Inr ()"
    using home_allows [OF rc(1)] by (simp add: authorize_channel_def outbound_task_client_def Let_def m w sv d1 d2 rc)
  then show ?thesis
    by (cases "authorize_channel home_service home_world n ?m ?d")
      (simp add: delivery_world_def authorize_delivery_context_def authorize_camera_delivery_def m w Let_def forget_device_def)
qed

lemma demo_start_again: "demo_start = demo_start\<lparr>dt_step := 0\<rparr>"
  by (simp add: demo_start_def)

theorem whatsapp_send_permitted_witness:
  "\<exists>s' m'. deliver home_service home_world ''whatsapp'' home_message ''d'' ''f'' home_start = (Inr demo_reply, s')
    \<and> out_platform m' = ''whatsapp'' \<and> dt_effects (ss_delivery s') = [Sent ''d'' demo_key ''token-1'' m' None]
    \<and> (\<exists>n sel rk. n < step_of s' \<and> check_prepare m' = Inr (sel, rk) \<and> device_allows home_service home_world n m' sel rk)"
proof -
  let ?g = "gate_for home_service ''whatsapp''" and ?w = "delivery_world home_service home_world"
  let ?m = "with_item_key ''d'' demo_key home_message"
  have "\<exists>s. deliver_outbound_items ?g ?w home_message ''d'' ''f'' (demo_start\<lparr>dt_step := 0\<rparr>) = (Inr demo_reply, s)
      \<and> dt_effects s = [Sent ''d'' demo_key ''token-1'' ?m None]"
    unfolding demo_key_def
    by (rule text_run) (simp_all add: home_permits, simp_all add: gate_for_def home_service_def delivery_world_def home_world_def home_message_def)
  then obtain ds where ds: "deliver_outbound_items ?g ?w home_message ''d'' ''f'' demo_start = (Inr demo_reply, ds)"
    "dt_effects ds = [Sent ''d'' demo_key ''token-1'' ?m None]" using demo_start_again by auto
  let ?s = "home_start\<lparr>ss_delivery := ds\<rparr>"
  have d: "deliver home_service home_world ''whatsapp'' home_message ''d'' ''f'' home_start = (Inr demo_reply, ?s)"
    by (simp add: deliver_def ds home_start_def)
  have "out_platform ?m = ''whatsapp''" by (simp add: with_item_key_def home_message_def)
  with whatsapp_send_permitted [OF d, of _ "dt_effects ds" "''d''" demo_key "''token-1''" ?m None] d ds show ?thesis
    by (auto simp: home_start_def demo_start_def home_service_def)
qed

section \<open>Notifications\<close>

text \<open>C5: a notification is delivered once per idempotency key. After a request was answered with an accepted delivery, the
  same request sends nothing, whatever storage does; and while storage works it is answered with the recorded response.\<close>

theorem notification_delivered_once:
  assumes "serde_ok (se_env sv)" "handle_notification_delivery_from sv wo payload sel s = (Inr v, s1)" "get_bool v ''ok'' = Some True"
    and "handle_notification_delivery_from sv wo' payload sel s1 = (res, s2)"
  shows "dt_effects (ss_delivery s2) = dt_effects (ss_delivery s1) \<and> ((\<forall>n. sw_io wo' n = io_good) \<longrightarrow> res = Inr v)"
  using repeated_notification [OF assms] by (simp add: quiet_def)


definition note_payload :: json where
  "note_payload = JObj [(''content'', JObj [(''body'', JStr ''hi'')]),
     (''delivery'', JObj [(''idempotency_key'', JStr ''d''), (''mode'', JStr ''send'')]),
     (''destination'', JObj [(''id'', JStr ''c''), (''platform'', JStr ''webhook'')]), (''notification_id'', JStr ''n'')]"

definition note_route :: json where
  "note_route = jobj [(''platform'', JStr ''webhook''), (''chat_id'', JStr ''c''), (''adapter_name'', JStr ''webhook''),
     (''status'', JStr ''active''), (''route_mode'', JStr ''proactive''), (''route_source'', JStr ''platform_id'')]"

definition note_service :: service where
  "note_service = home_service\<lparr>se_env := model_env, se_fleet := None, se_adapters := [''webhook''],
     se_beacon := home_env\<lparr>be_content := \<lparr>ce_sha256_hex = (\<lambda>s. ''f''), ce_lowercase = (\<lambda>s. s), ce_scalar = (\<lambda>v. [])\<rparr>\<rparr>\<rparr>"

definition note_start :: service_state where
  "note_start = \<lparr>ss_disk = Map.empty, ss_fleet = Map.empty, ss_delivery = demo_start\<rparr>"

definition note_request :: notification where
  "note_request = \<lparr>no_id = ''n'', no_trace = [], no_destination = [(''id'', JStr ''c''), (''platform'', JStr ''webhook'')], no_mode = ''send'',
     no_idempotency_key = ''d'', no_reply_to = [], no_update = []\<rparr>"

lemma note_text [simp]: "trim [] = []" "trim ''n'' = ''n''" "trim ''c'' = ''c''" "trim ''send'' = ''send''" "trim ''webhook'' = ''webhook''"
  by code_simp+

lemma note_read: "read_notification (se_content note_service) note_payload = Inr note_request"
  by (simp add: read_notification_def note_payload_def Let_def notification_id_def notification_trace_id_def point_str_def get_str_def
      dget_def metadata_str_def note_service_def validate_delivery_mode_def note_request_def or_opt_def)

lemma note_resolve: "resolve_notification_route note_service wo (no_destination note_request) [] trace s = (Inr note_route, s)"
  by (simp add: resolve_notification_route_def proactive_route_def note_request_def or_fail_def traced_def sreturn_def or_opt_def
      recipient_field_def note_route_def Let_def)

lemma note_message:
  "out_attachments (notification_outbound note_request rk note_route a note_payload None t) = []"
  "out_text (notification_outbound note_request rk note_route a note_payload None t) = ''hi''"
  "out_platform (notification_outbound note_request rk note_route a note_payload None t) = ''webhook''"
  by (simp_all add: notification_outbound_def Let_def note_payload_def delivery_content_def hinted_notification_attachments_def
      hinted_native_videos_def array_or_empty_def native_image_limit_def notification_text_def get_str_def note_route_def jobj_def)

definition note_world :: service_world where
  "note_world = home_world\<lparr>sw_gate := demo_world\<lparr>gw_token := (\<lambda>n. ''token-1'')\<rparr>\<rparr>"

lemma note_permits:
  "gw_authorize (delivery_world note_service note_world) n (with_item_key dk ik (notification_outbound note_request rk note_route a note_payload None t)) = Inr ()"
proof -
  let ?m = "with_item_key dk ik (notification_outbound note_request rk note_route a note_payload None t)"
  have "camera_attachments ?m = []" "out_platform ?m = ''webhook''"
    using note_message [of rk a t] by (simp_all add: with_item_key_def camera_attachments_def)
  then show ?thesis
    by (simp add: delivery_world_def authorize_delivery_context_def authorize_camera_delivery_def authorize_channel_def forget_device_def)
qed

lemma note_delivered:
  "\<exists>s. deliver note_service note_world ''webhook'' (notification_outbound note_request rk note_route ''webhook'' note_payload None t) ''d'' ''f''
      (note_start\<lparr>ss_delivery := demo_start\<lparr>dt_step := 2\<rparr>\<rparr>) = (Inr demo_reply, s) \<and> ss_disk s = Map.empty"
proof -
  let ?m = "notification_outbound note_request rk note_route ''webhook'' note_payload None t"
  have "\<exists>s. deliver_outbound_items (gate_for note_service ''webhook'') (delivery_world note_service note_world) ?m ''d'' ''f''
      (demo_start\<lparr>dt_step := 2\<rparr>) = (Inr demo_reply, s) \<and> dt_effects s =
    [Sent ''d'' (delivery_item_key ''d'' text_item_identity) ''token-1'' (with_item_key ''d'' (delivery_item_key ''d'' text_item_identity) ?m) None]"
    by (rule text_run) (simp_all add: note_permits note_message, simp_all add: gate_for_def note_service_def home_service_def delivery_world_def
        note_world_def home_world_def)
  then show ?thesis by (auto simp: deliver_def note_start_def)
qed

lemma note_saved: "\<exists>d. save_delivery_record model_env io_good ''d'' fp v c Map.empty = (Inr (), d)"
  by (simp add: save_delivery_record_def transact_def load_shared_map_unlocked_def recover_backup_def write_shared_map_unlocked_def
      write_json_def io_good_def)

lemma note_store:
  "store_call note_world (\<lambda>io now. load_delivery_record model_env io ''d'') err note_start = (Inr None, note_start\<lparr>ss_delivery := demo_start\<lparr>dt_step := 1\<rparr>\<rparr>)"
  by (simp add: store_call_def note_world_def home_world_def load_delivery_record_def transact_def load_shared_map_unlocked_def
      recover_backup_def note_start_def demo_start_def advance_def Let_def)

lemma note_clock:
  "ask_world f (note_start\<lparr>ss_delivery := demo_start\<lparr>dt_step := Suc 0\<rparr>\<rparr>) = (Inr (f (Suc 0)), note_start\<lparr>ss_delivery := demo_start\<lparr>dt_step := 2\<rparr>\<rparr>)"
  by (simp add: ask_world_def advance_def note_start_def demo_start_def)

lemma note_accepted:
  "\<exists>v s. handle_notification_delivery_from note_service note_world note_payload None note_start = (Inr v, s) \<and> get_bool v ''ok'' = Some True"
proof -
  have fp: "fingerprint (se_content note_service) p = ''f''" for p by (simp add: fingerprint_def note_service_def)
  have ad: "route_adapter note_route = ''webhook''" "jindex note_route ''platform'' = JStr ''webhook''" "se_adapters note_service = [''webhook'']"
    "no_idempotency_key note_request = ''d''" "dget (no_destination note_request) ''route_key'' = []" "se_env note_service = model_env"
    by (simp_all add: route_adapter_def note_route_def jobj_def or_opt_def jindex_def note_service_def note_request_def dget_def metadata_str_def)
  let ?t = "utc_now_iso model_env (gw_now (sw_gate note_world) (Suc 0))" and ?s = "note_start\<lparr>ss_delivery := demo_start\<lparr>dt_step := 2\<rparr>\<rparr>"
  have io: "sw_io note_world n = io_good" for n by (simp add: note_world_def home_world_def)
  obtain s where s: "deliver note_service note_world ''webhook'' (notification_outbound note_request [] note_route ''webhook'' note_payload None ?t) ''d'' ''f'' ?s
      = (Inr demo_reply, s)" "ss_disk s = Map.empty" using note_delivered by blast
  let ?v = "delivered_response (se_content note_service) note_request note_route ''webhook'' demo_reply"
  obtain d where d: "save_delivery_record model_env io_good ''d'' ''f'' ?v (classify_delivery_attempt note_route ?v) Map.empty = (Inr (), d)"
    using note_saved by blast
  have "send_notification note_service note_world note_request note_route ''webhook'' ''f''
      (notification_outbound note_request [] note_route ''webhook'' note_payload None ?t) ?s = (Inr ?v, (advance s)\<lparr>ss_disk := d\<rparr>)"
    by (simp add: send_notification_def ad s Let_def sbind_def store_call_def io d sreturn_def)
  then have "handle_notification_delivery_from note_service note_world note_payload None note_start = (Inr ?v, (advance s)\<lparr>ss_disk := d\<rparr>)"
    by (simp add: handle_notification_delivery_from_def note_read note_resolve or_fail_def sreturn_def sbind_def ad Let_def
        deliver_notification_def fp note_store [simplified] earlier_answer_def traced_def note_clock)
  with delivered_response_ok(3) show ?thesis by blast
qed

theorem notification_delivered_once_witness:
  "\<exists>v s1. handle_notification_delivery_from note_service note_world note_payload None note_start = (Inr v, s1)
    \<and> get_bool v ''ok'' = Some True \<and> fst (handle_notification_delivery_from note_service note_world note_payload None s1) = Inr v
    \<and> dt_effects (ss_delivery (snd (handle_notification_delivery_from note_service note_world note_payload None s1))) = dt_effects (ss_delivery s1)"
proof -
  obtain v s1 where v: "handle_notification_delivery_from note_service note_world note_payload None note_start = (Inr v, s1)"
    "get_bool v ''ok'' = Some True" using note_accepted by blast
  have "serde_ok (se_env note_service)" using model_serde_ok by (simp add: note_service_def)
  from notification_delivered_once [OF this v prod.collapse [symmetric], of note_world] v show ?thesis
    by (auto simp: note_world_def home_world_def)
qed

section \<open>Start-up\<close>

definition still_needed :: "gate_env \<Rightarrow> instant \<Rightarrow> json \<Rightarrow> bool" where
  "still_needed env now item \<longleftrightarrow> item_retryable_state item \<and> \<not> item_expired env now attachment_cache_ttl item"

lemma cache_path_object: "item_cache_path item = Some p \<Longrightarrow> \<exists>m. item = JObj m"
  by (cases item) (auto simp: item_cache_path_def get_str_def)

lemma reconcile_item_split:
  "snd (reconcile_item env now attachment_cache_ttl item) = \<lparr>rc_retained = rr, rc_deleted = dd, rc_changed = c\<rparr> \<Longrightarrow>
   rr = (if still_needed env now item then List.map_filter item_cache_path [item] else [])
   \<and> dd = (if still_needed env now item then [] else List.map_filter item_cache_path [item])"
  using cache_path_object [of item]
  by (cases "item_cache_path item") (auto simp: reconcile_item_def still_needed_def List.map_filter_simps split: if_splits)

lemma reconcile_items_split:
  "rc_retained (snd (reconcile_items env now attachment_cache_ttl m)) = List.map_filter item_cache_path (filter (still_needed env now) (map snd m))
   \<and> rc_deleted (snd (reconcile_items env now attachment_cache_ttl m)) = List.map_filter item_cache_path (filter (\<lambda>i. \<not> still_needed env now i) (map snd m))"
proof (induction m)
  case (Cons ki m)
  obtain k i where ki: "ki = (k, i)" by fastforce
  obtain rr dd c where "snd (reconcile_item env now attachment_cache_ttl i) = \<lparr>rc_retained = rr, rc_deleted = dd, rc_changed = c\<rparr>"
    by (cases "snd (reconcile_item env now attachment_cache_ttl i)")
  with reconcile_item_split [OF this] Cons ki show ?case
    by (auto simp: reconcile_join_def List.map_filter_def split: prod.splits)
qed (simp add: reconcile_nothing_def List.map_filter_def)

lemma reconcile_records_split:
  "rc_retained (snd (reconcile_records env now attachment_cache_ttl r)) = List.map_filter item_cache_path (filter (still_needed env now) (all_items r))
   \<and> rc_deleted (snd (reconcile_records env now attachment_cache_ttl r)) = List.map_filter item_cache_path (filter (\<lambda>i. \<not> still_needed env now i) (all_items r))"
proof (induction r)
  case (Cons kr r)
  obtain k v where kr: "kr = (k, v)" by fastforce
  have "rc_retained (snd (reconcile_record env now attachment_cache_ttl v)) = List.map_filter item_cache_path (filter (still_needed env now) (record_items v))"
    "rc_deleted (snd (reconcile_record env now attachment_cache_ttl v)) = List.map_filter item_cache_path (filter (\<lambda>i. \<not> still_needed env now i) (record_items v))"
    by (auto simp: reconcile_record_def record_items_def reconcile_nothing_def reconcile_items_split case_prod_unfold
        List.map_filter_simps Let_def split: json.splits option.splits)
  with Cons kr show ?case by (auto simp: all_items_def reconcile_join_def List.map_filter_def case_prod_unfold Let_def)
qed (simp add: reconcile_nothing_def List.map_filter_def all_items_def)


lemma reconcile_cache_paths:
  assumes "reconcile_delivery_cache env io now attachment_cache_ttl d = (Inr (retained, deleted), d1)"
    and "shared_view env delivery_items_file d = Some records"
  shows "retained = List.map_filter item_cache_path (filter (still_needed env now) (all_items records))"
    "deleted = List.map_filter item_cache_path (filter (\<lambda>i. \<not> still_needed env now i) (all_items records))"
proof -
  let ?d1 = "d(delivery_items_lock_file \<mapsto> (case d delivery_items_lock_file of Some b \<Rightarrow> b | None \<Rightarrow> []))"
  from assms(1) have "transact (load_shared_map_unlocked env io delivery_items_file) (write_shared_map_unlocked env io delivery_items_file)
      (reconcile_delivery_cache_records env now attachment_cache_ttl) ?d1 = (Inr (retained, deleted), d1)"
    by (auto simp: reconcile_delivery_cache_def with_ledger_def Let_def split: if_splits)
  from ledger.transact_ok_read [OF this] assms(2) obtain u where
    "reconcile_delivery_cache_records env now attachment_cache_ttl records = Inr ((retained, deleted), u)"
    by (auto simp: lock_file_view)
  then show "retained = List.map_filter item_cache_path (filter (still_needed env now) (all_items records))"
    "deleted = List.map_filter item_cache_path (filter (\<lambda>i. \<not> still_needed env now i) (all_items records))"
    using reconcile_records_split [of env now records]
    by (auto simp: reconcile_delivery_cache_records_def split: prod.splits)
qed

definition names_file :: "string \<Rightarrow> rel_path \<Rightarrow> json \<Rightarrow> bool" where
  "names_file root rel item \<longleftrightarrow> map_option path_components (item_cache_path item) = Some (path_components root @ rel)"

text \<open>C36: starting the service keeps the media that deliveries still need. A cached file that an item of the ledger names,
  and that no item names which is settled or whose time has passed, has the same content after the start, whether
  the start succeeds or fails at any point, in whatever order the cache is walked, and however old its directory is.\<close>

theorem startup_keeps_needed_media:
  assumes "shared_view env delivery_items_file d = Some records" "item \<in> set (all_items records)"
    and "names_file (path_join state_dir ''attachment-cache'') [Normal b, Normal f] item"
    and "\<forall>i \<in> set (all_items records). names_file (path_join state_dir ''attachment-cache'') [Normal b, Normal f] i \<longrightarrow> still_needed env now i"
  shows "content (snd (snd (start_cache env io w v order state_dir now system_now (d, s)))) [Normal b, Normal f] = content s [Normal b, Normal f]"
proof -
  let ?p = "[Normal b, Normal f]" and ?root = "path_join state_dir ''attachment-cache''"
  obtain r s1 where o: "cache_open w state_dir ''attachment-cache'' s = (r, s1)" by fastforce
  then have s1: "content s1 = content s" "\<And>root. r = Inr root \<Longrightarrow> root = ?root"
    by (auto simp: cache_open_def split: list.splits path_component.splits if_splits)
  obtain c d1 where c: "reconcile_delivery_cache env io now attachment_cache_ttl d = (c, d1)" by fastforce
  have kept: "content (snd (remove_reconciled_attachment_cache w order ?root deleted s1)) ?p = content s ?p"
      "content (snd (sweep_expired_attachment_cache w v ?root retained system_now s2)) ?p = content s2 ?p"
    if "c = Inr (retained, deleted)" for retained deleted s2
  proof -
    note paths = reconcile_cache_paths [OF c [unfolded that] assms(1)]
    have "path_components ?root @ ?p \<notin> path_components ` set deleted"
      using assms(4) unfolding paths(2) by (auto simp: List.map_filter_def names_file_def)
    from remove_reconciled_keeps [OF this] s1(1)
    show "content (snd (remove_reconciled_attachment_cache w order ?root deleted s1)) ?p = content s ?p" by simp
    have "path_components ?root @ ?p \<in> set (map path_components retained)"
      using assms(2,3,4) unfolding paths(1) by (auto simp: List.map_filter_def names_file_def intro!: image_eqI)
    then show "content (snd (sweep_expired_attachment_cache w v ?root retained system_now s2)) ?p = content s2 ?p"
      unfolding sweep_expired_attachment_cache_def by (intro sweep_entries_keeps) simp
  qed
  show ?thesis
    using o c s1 kept by (auto simp: start_cache_def split: prod.splits sum.splits) (metis snd_conv)+
qed

definition cached_item :: json where
  "cached_item = JObj [(''cache_path'', JStr ''/s/attachment-cache/t/f''), (''status'', JStr ''pending'')]"

definition cached_ledger :: jmap where
  "cached_ledger = [(''d'', JObj [(''items'', JObj [(''i'', cached_item)])])]"

definition cached_disk :: disk where
  "cached_disk = [delivery_items_file \<mapsto> print_json (JObj cached_ledger)]"

lemma cached_view: "shared_view model_env delivery_items_file cached_disk = Some cached_ledger"
proof -
  have "jwf (\<lambda>_. True) (JObj cached_ledger)" "jdepth (JObj cached_ledger) \<le> 127"
    by (simp_all add: cached_ledger_def cached_item_def owf_def)
  then have "read_json (print_json (JObj cached_ledger)) = Some (JObj cached_ledger)"
    using model_serde_ok by (simp only: serde_ok_def model_env_sel)
  then show ?thesis by (simp add: shared_view_def cached_disk_def decode_shared_map_def)
qed

lemma cached_items: "all_items cached_ledger = [cached_item]"
  by (simp add: all_items_def cached_ledger_def record_items_def)

lemma cached_names: "names_file (path_join ''/s'' ''attachment-cache'') [Normal ''t'', Normal ''f''] cached_item"
  by code_simp

lemma cached_needed: "still_needed model_env now cached_item"
  by (simp add: still_needed_def item_retryable_state_def status_in_def cached_item_def get_str_def get_bool_def item_expired_def)

definition old_view :: sweep_view where
  "old_view = \<lparr>sv_entries = [Inr ''t''], sv_children = (\<lambda>n. [Inr ''f'']), sv_modified = (\<lambda>n. Some 0), sv_is_dir = (\<lambda>n. Inr True)\<rparr>"

definition cached_files :: cache_state where
  "cached_files = \<lparr>cs_step = 0, cs_files = [([Normal ''t'', Normal ''f''], ''bytes'')], cs_dirs = [[Normal ''t'']]\<rparr>"

definition disk_works :: cache_world where
  "disk_works = \<lparr>cw_visible = (\<lambda>n. True), cw_outcome = (\<lambda>n. Works), cw_text = (\<lambda>e. [])\<rparr>"

theorem startup_keeps_needed_media_witness:
  "content (snd (snd (start_cache model_env io_good disk_works old_view (\<lambda>ds. ds) ''/s'' 0 (attachment_cache_ttl + 1) (cached_disk, cached_files))))
     [Normal ''t'', Normal ''f''] = Some ''bytes''"
proof -
  have "content (snd (snd (start_cache model_env io_good disk_works old_view (\<lambda>ds. ds) ''/s'' 0 (attachment_cache_ttl + 1) (cached_disk, cached_files))))
      [Normal ''t'', Normal ''f''] = content cached_files [Normal ''t'', Normal ''f'']"
    by (rule startup_keeps_needed_media [OF cached_view _ cached_names]) (simp_all add: cached_items cached_needed)
  then show ?thesis by (simp add: cached_files_def)
qed

end
