(* ===== verification/Weixin_Text.thy ===== *)
theory Weixin_Text
  imports App_Config WhatsApp_Adapter
begin

text \<open>
  The functions of \<^verbatim>\<open>src/adapters/weixin.rs\<close> that compute on texts and JSON values: file names, the chunks of a
  text, message items and payloads, delivery items, attachments and the redaction of errors.

  A character is the list of its UTF-8 bytes. Unicode classes and case, MD5, SHA-256, base64 and percent
  encoding, the text of an I/O error and of an HTTP status are fields of \<open>wx_env\<close>.
\<close>

record wx_env =
  wxe_gate :: gate_env
  wxe_alphanumeric :: "string \<Rightarrow> bool"
  wxe_sha256 :: "string \<Rightarrow> string"
  wxe_md5 :: "string \<Rightarrow> string"
  wxe_to_vec :: "json \<Rightarrow> string"
  wxe_base64 :: "string \<Rightarrow> string"
  wxe_url_encode :: "string \<Rightarrow> string"
  wxe_os_text :: string
  wxe_status_text :: "nat \<Rightarrow> string"

section \<open>Characters\<close>

function chars :: "string \<Rightarrow> string list" where
  "chars [] = []"
| "chars (b # bs) = (b # takeWhile is_cont_byte bs) # chars (dropWhile is_cont_byte bs)"
  by pat_completeness auto
termination
  by (relation "measure length") (auto simp: less_Suc_eq_le length_dropWhile_le)

definition safe_slug_char :: "wx_env \<Rightarrow> string \<Rightarrow> string" where
  "safe_slug_char env c = (if wxe_alphanumeric env c \<or> c \<in> {''.'', ''_'', ''-''} then c else ''_'')"

definition safe_slug :: "wx_env \<Rightarrow> string \<Rightarrow> string" where
  "safe_slug env value = (let t = trim value; t = (if t = [] then ''default'' else t)
     in concat (map (safe_slug_char env) (chars t)))"

text \<open>\<^verbatim>\<open>str::replace\<close>, for a pattern that is not empty.\<close>

function replace_all :: "string \<Rightarrow> string \<Rightarrow> string \<Rightarrow> string" where
  "replace_all pat rep [] = []"
| "replace_all pat rep (c # cs) = (case strip_prefix pat (c # cs) of
      None \<Rightarrow> c # replace_all pat rep cs
    | Some rest \<Rightarrow> if pat = [] then c # cs else rep @ replace_all pat rep rest)"
  by pat_completeness auto
termination
  by (relation "measure (\<lambda>(pat, rep, s). length s)") (auto simp: Cons_eq_append_conv)

fun redact_each :: "string list \<Rightarrow> string \<Rightarrow> string" where
  "redact_each [] s = s"
| "redact_each (secret # rest) s =
     redact_each rest (if trim secret = [] then s else replace_all (trim secret) ''[REDACTED]'' s)"

definition redact_sensitive_text :: "string list \<Rightarrow> string \<Rightarrow> string" where
  "redact_sensitive_text secrets value = replace_all ''Bearer '' ''Bearer [REDACTED] '' (redact_each secrets value)"

text \<open>Slicing a string inside a character panics (\<open>None\<close>).\<close>

definition char_boundary :: "string \<Rightarrow> nat \<Rightarrow> bool" where
  "char_boundary s i \<longleftrightarrow> i = length s \<or> i < length s \<and> \<not> is_cont_byte (s ! i)"

definition mask_secret :: "string \<Rightarrow> string option" where
  "mask_secret value = (let t = trim value in
     if length t \<le> 6 then Some (replicate (length t) CHR ''*'')
     else if char_boundary t 4 \<and> char_boundary t (length t - 2) then Some (take 4 t @ ''***'' @ drop (length t - 2) t)
     else None)"

definition join_endpoint :: "string \<Rightarrow> string \<Rightarrow> string" where
  "join_endpoint base_url endpoint = trim_end_matches CHR ''/'' base_url @ ''/'' @ dropWhile (\<lambda>c. c = CHR ''/'') endpoint"

definition poll_status_for_error :: "wx_env \<Rightarrow> string \<Rightarrow> string" where
  "poll_status_for_error env error_text = (let normalized = to_lowercase (wxe_gate env) error_text in
     if contains ''read operation timed out'' normalized then ''idle_timeout''
     else if contains ''timed out'' normalized \<or> contains ''timeout'' normalized then ''timeout''
     else ''error'')"

definition is_weixin_dns_resolution_error :: "wx_env \<Rightarrow> string \<Rightarrow> bool" where
  "is_weixin_dns_resolution_error env error_text \<longleftrightarrow> list_ex (\<lambda>marker. contains marker (to_lowercase (wxe_gate env) error_text))
     [''getaddrinfo'', ''name resolution'', ''temporary failure in name resolution'', ''name or service not known'',
      ''nameresolutionerror'', ''socket.gaierror'']"

definition is_weixin_provider_auth_error :: "wx_env \<Rightarrow> string \<Rightarrow> bool" where
  "is_weixin_provider_auth_error env error_text \<longleftrightarrow> list_ex (\<lambda>marker. contains marker (to_lowercase (wxe_gate env) error_text))
     [''401'', ''403'', ''auth'', ''token'', ''forbidden'']"

section \<open>Chunks of a text\<close>

fun split_inclusive :: "char \<Rightarrow> string \<Rightarrow> string list" where
  "split_inclusive sep [] = []"
| "split_inclusive sep (c # cs) =
     (if c = sep then [c] # split_inclusive sep cs
      else case split_inclusive sep cs of [] \<Rightarrow> [[c]] | l # ls \<Rightarrow> (c # l) # ls)"

text \<open>A line that is too long is cut after every \<open>n\<close> characters; the rest is returned.\<close>

fun break_line :: "nat \<Rightarrow> string list \<Rightarrow> string \<Rightarrow> string list \<Rightarrow> string list \<times> string" where
  "break_line n chunks segment [] = (chunks, segment)"
| "break_line n chunks segment (c # cs) =
     (if chars_count segment \<ge> n then break_line n (chunks @ [trim_end segment]) c cs
      else break_line n chunks (segment @ c) cs)"

fun split_lines :: "nat \<Rightarrow> string list \<Rightarrow> string \<Rightarrow> string list \<Rightarrow> string list \<times> string" where
  "split_lines n chunks current [] = (chunks, current)"
| "split_lines n chunks current (line # rest) =
     (if chars_count current + chars_count line \<le> n then split_lines n chunks (current @ line) rest
      else (case break_line n (if trim current = [] then chunks else chunks @ [trim_end current]) [] (chars line) of
          (chunks1, segment) \<Rightarrow> split_lines n chunks1 segment rest))"

definition split_text_for_weixin :: "string \<Rightarrow> nat \<Rightarrow> string list" where
  "split_text_for_weixin value n = (let content = trim value in
     if content = [] then []
     else if chars_count content \<le> n then [content]
     else (case split_lines n [] [] (split_inclusive CHR 0x0A content) of
         (chunks, current) \<Rightarrow>
           let chunks = (if trim current = [] then chunks else chunks @ [trim_end current]) in
           if chunks = [] then [concat (take n (chars content))] else chunks))"

definition max_text_chunk_length :: nat where "max_text_chunk_length = 900"

section \<open>Messages\<close>

definition extract_weixin_message_id :: "json \<Rightarrow> string" where
  "extract_weixin_message_id payload =
     trim (or_else [] (Option.bind (or_opt (jget payload ''msg_id'') (jget payload ''client_id'')) as_str))"

definition item_text :: int where "item_text = 1"
definition item_image :: int where "item_image = 2"
definition item_file :: int where "item_file = 4"
definition item_video :: int where "item_video = 5"

definition text_of_item :: "json \<Rightarrow> string option" where
  "text_of_item item =
     (if or_else 0 (Option.bind (jget item ''type'') as_i64) \<noteq> item_text then None
      else nonempty_trim (Option.bind (jpointer [''text_item'', ''text''] item) as_str))"

definition extract_text_from_item_list :: "json list option \<Rightarrow> string" where
  "extract_text_from_item_list item_list = (case item_list of
      None \<Rightarrow> [] | Some items \<Rightarrow> join_with [CHR 0x0A] (List.map_filter text_of_item items))"

definition build_text_message_item :: "string \<Rightarrow> json" where
  "build_text_message_item t = jobj [(''type'', JInt item_text), (''text_item'', jobj [(''text'', JStr t)])]"

text \<open>\<open>fresh\<close> is the client id drawn when the caller has none.\<close>

definition build_send_message_payload_items ::
  "string \<Rightarrow> string \<Rightarrow> json list \<Rightarrow> string option \<Rightarrow> string option \<Rightarrow> json" where
  "build_send_message_payload_items fresh to_user_id item_list context_token client_id =
    (let msg = oputs [(''from_user_id'', JStr []), (''to_user_id'', JStr to_user_id),
           (''client_id'', JStr (or_else (''harborgate-'' @ fresh) client_id)), (''message_type'', JInt 2), (''message_state'', JInt 2)] [];
         msg = (if item_list = [] then msg else oput ''item_list'' (JArr item_list) msg);
         msg = (case context_token of
             None \<Rightarrow> msg | Some t \<Rightarrow> if trim t = [] then msg else oput ''context_token'' (JStr t) msg)
     in jobj [(''msg'', JObj msg)])"

definition build_send_message_payload :: "string \<Rightarrow> string \<Rightarrow> string \<Rightarrow> string option \<Rightarrow> string option \<Rightarrow> json" where
  "build_send_message_payload fresh to_user_id t context_token client_id =
     build_send_message_payload_items fresh to_user_id (if t = [] then [] else [build_text_message_item t]) context_token client_id"

definition stable_weixin_delivery_id :: "wx_env \<Rightarrow> string \<Rightarrow> string \<Rightarrow> nat \<Rightarrow> string" where
  "stable_weixin_delivery_id env prfx delivery_item_key index =
     prfx @ ''_'' @ take 24 (wxe_md5 env (delivery_item_key @ ''|'' @ show_nat index))"

definition weixin_provider_message_id :: "json \<Rightarrow> string option" where
  "weixin_provider_message_id response =
     nonempty_trim (Option.bind (or_opt (jget response ''message_id'') (jpointer [''data'', ''msg_id''] response)) as_str)"

definition show_int :: "int \<Rightarrow> string" where
  "show_int i = (if i < 0 then CHR ''-'' # show_nat (nat (- i)) else show_nat (nat i))"

definition validate_send_message_response :: "json \<Rightarrow> string list \<Rightarrow> gateway_error + unit" where
  "validate_send_message_response response secrets = (case jget response ''ret'' of
      None \<Rightarrow> Inr ()
    | Some ret_value \<Rightarrow> (case as_i64 ret_value of
          None \<Rightarrow> Inl (gateway_error_new 502 ''PLATFORM_UNAVAILABLE'' ''Weixin sendmessage returned an invalid ret field'')
        | Some ret \<Rightarrow>
            if ret = 0 then Inr ()
            else Inl (gateway_error_new 502 ''PLATFORM_UNAVAILABLE'' (redact_sensitive_text secrets
              (''Weixin sendmessage failed with ret='' @ show_int ret @ '': ''
                @ or_else ''unknown provider error'' (nonempty_trim (get_str response ''errmsg'')))))))"

section \<open>Uploaded media\<close>

record weixin_uploaded_image =
  ui_media_id :: string
  ui_download_param :: string
  ui_aeskey_hex :: string
  ui_ciphertext_size :: nat

record weixin_uploaded_media =
  um_media_id :: string
  um_download_param :: string
  um_aeskey_hex :: string
  um_plaintext_size :: nat
  um_ciphertext_size :: nat

definition aes_ecb_padded_size :: "nat \<Rightarrow> nat" where
  "aes_ecb_padded_size plaintext_size = (plaintext_size div 16 + 1) * 16"

definition build_native_image_message_item :: "wx_env \<Rightarrow> weixin_uploaded_image \<Rightarrow> json" where
  "build_native_image_message_item env uploaded = jobj [(''type'', JInt item_image), (''image_item'', jobj
     [(''media'', jobj [(''encrypt_query_param'', JStr (ui_download_param uploaded)),
        (''aes_key'', JStr (wxe_base64 env (ui_aeskey_hex uploaded))), (''encrypt_type'', JInt 1)]),
      (''mid_size'', JInt (int (ui_ciphertext_size uploaded)))])]"

definition build_cdn_media_reference :: "wx_env \<Rightarrow> string \<Rightarrow> string \<Rightarrow> json" where
  "build_cdn_media_reference env download_param aeskey_hex = jobj [(''encrypt_query_param'', JStr download_param),
     (''aes_key'', JStr (wxe_base64 env aeskey_hex)), (''encrypt_type'', JInt 1)]"

definition build_native_video_message_item :: "wx_env \<Rightarrow> weixin_uploaded_media \<Rightarrow> json" where
  "build_native_video_message_item env uploaded = jobj [(''type'', JInt item_video), (''video_item'', jobj
     [(''media'', build_cdn_media_reference env (um_download_param uploaded) (um_aeskey_hex uploaded)),
      (''video_size'', JInt (int (um_ciphertext_size uploaded)))])]"

definition build_native_file_message_item :: "wx_env \<Rightarrow> weixin_uploaded_media \<Rightarrow> string \<Rightarrow> json" where
  "build_native_file_message_item env uploaded file_name = jobj [(''type'', JInt item_file), (''file_item'', jobj
     [(''media'', build_cdn_media_reference env (um_download_param uploaded) (um_aeskey_hex uploaded)),
      (''file_name'', JStr file_name), (''len'', JStr (show_nat (um_plaintext_size uploaded)))])]"

section \<open>Delivery items\<close>

text \<open>\<^verbatim>\<open>{:03}\<close>\<close>

definition show_padded :: "nat \<Rightarrow> string" where
  "show_padded n = replicate (3 - length (show_nat n)) CHR ''0'' @ show_nat n"

definition planned_delivery_items :: "string \<Rightarrow> string list \<Rightarrow> json list" where
  "planned_delivery_items batch_id kinds = map (\<lambda>(index, kind). jobj
     [(''item_id'', JStr (batch_id @ ''-'' @ show_padded (index + 1))), (''index'', JInt (int index)), (''kind'', JStr kind),
      (''status'', JStr ''planned''), (''provider_message_id'', JNull), (''retryable'', JBool False), (''error'', JNull)])
     (enumerate 0 kinds)"

definition nonblank :: "string option \<Rightarrow> json" where
  "nonblank v = (case v of None \<Rightarrow> JNull | Some s \<Rightarrow> if trim s = [] then JNull else JStr s)"

definition mark_delivery_item ::
  "nat \<Rightarrow> string \<Rightarrow> string option \<Rightarrow> bool \<Rightarrow> string option \<Rightarrow> json list \<Rightarrow> json list" where
  "mark_delivery_item index status message_id retryable err items =
    (if index \<ge> length items then items
     else (case as_object (items ! index) of
         None \<Rightarrow> items
       | Some m \<Rightarrow> items[index := JObj (oputs [(''status'', JStr status), (''provider_message_id'', nonblank message_id),
             (''retryable'', JBool retryable), (''error'', nonblank err)] m)]))"

fun mark_each_pending_retry :: "nat list \<Rightarrow> json list \<Rightarrow> json list" where
  "mark_each_pending_retry [] items = items"
| "mark_each_pending_retry (index # rest) items = mark_each_pending_retry rest
     (if get_str (items ! index) ''status'' = Some ''planned'' then mark_delivery_item index ''pending_retry'' None True None items else items)"

definition mark_remaining_delivery_items_pending_retry :: "nat \<Rightarrow> json list \<Rightarrow> json list" where
  "mark_remaining_delivery_items_pending_retry start items = mark_each_pending_retry [start..<length items] items"

definition delivery_artifact_ref :: "json \<Rightarrow> string option" where
  "delivery_artifact_ref attachment = nonempty_trim (Option.bind
     (or_opt (jpointer [''metadata'', ''harborlink_artifact_id''] attachment)
       (or_opt (jget attachment ''media_asset_id'') (jget attachment ''label''))) as_str)"

fun attach_delivery_item_references :: "nat \<Rightarrow> json list \<Rightarrow> json list \<Rightarrow> json list" where
  "attach_delivery_item_references offset [] items = items"
| "attach_delivery_item_references offset (attachment # rest) items = (case delivery_artifact_ref attachment of
      None \<Rightarrow> attach_delivery_item_references (Suc offset) rest items
    | Some artifact_ref \<Rightarrow>
        if offset \<ge> length items then items
        else (case as_object (items ! offset) of
            None \<Rightarrow> items
          | Some m \<Rightarrow> attach_delivery_item_references (Suc offset) rest
              (items[offset := JObj (oput ''artifact_ref'' (JStr artifact_ref) m)])))"

definition count_status :: "string \<Rightarrow> json list \<Rightarrow> nat" where
  "count_status expected items = length (filter (\<lambda>item. get_str item ''status'' = Some expected) items)"

definition delivery_batch_snapshot :: "wx_env \<Rightarrow> instant \<Rightarrow> string \<Rightarrow> string \<Rightarrow> json list \<Rightarrow> json" where
  "delivery_batch_snapshot env now batch_id status items = jobj
     [(''delivery_batch_id'', JStr batch_id), (''status'', JStr status), (''item_count'', JInt (int (length items))),
      (''planned_count'', JInt (int (count_status ''planned'' items))), (''sent_count'', JInt (int (count_status ''sent'' items))),
      (''failed_count'', JInt (int (count_status ''failed'' items))),
      (''pending_retry_count'', JInt (int (count_status ''pending_retry'' items))),
      (''items'', JArr items), (''updated_at'', JStr (utc_now_iso (wxe_gate env) now))]"

section \<open>Attachments\<close>

record native_weixin_attachment =
  na_delivery_kind :: string
  na_path :: string
  na_file_name :: string

definition delivery_kind :: "string \<Rightarrow> string \<Rightarrow> string" where
  "delivery_kind kind mime_type =
    (if kind = ''image'' \<or> starts_with ''image/'' mime_type then ''image''
     else if kind = ''video'' \<or> starts_with ''video/'' mime_type then ''video''
     else ''file'')"

definition attachment_delivery_kind_from_value :: "json \<Rightarrow> string" where
  "attachment_delivery_kind_from_value value = delivery_kind
     (ascii_lower (trim (or_else [] (Option.bind (or_opt (jget value ''kind'') (jget value ''type'')) as_str))))
     (ascii_lower (trim (or_else [] (get_str value ''mime_type''))))"

text \<open>The file system as an attachment meets it: which paths are files, and the roots of relative paths.\<close>

record wx_files =
  wf_is_file :: "string \<Rightarrow> bool"
  wf_env_var :: "string \<Rightarrow> string option"
  wf_current_dir :: "string option"
  wf_content :: "string \<Rightarrow> string option"

definition attachment_roots :: "wx_files \<Rightarrow> string list" where
  "attachment_roots fs = filter (\<lambda>root. trim root \<noteq> []) (List.map_filter (wf_env_var fs)
     [''HARBOR_CAPTURE_ROOT'', ''HARBOR_HARBOROS_WRITABLE_ROOT'', ''HARBOR_RELEASE_INSTALL_ROOT'', ''WORKSPACE_ROOT''])"

definition resolve_local_attachment_path :: "wx_files \<Rightarrow> string \<Rightarrow> string option" where
  "resolve_local_attachment_path fs raw_path = (let normalized = trim raw_path in
     if normalized = [] then None
     else if wf_is_file fs normalized then Some normalized
     else if starts_with ''/'' normalized then None
     else Option.bind (wf_current_dir fs) (\<lambda>cwd.
       find (wf_is_file fs) (map (\<lambda>root. path_join root normalized) (attachment_roots fs @ [cwd]))))"

text \<open>\<^verbatim>\<open>Path::file_name\<close>\<close>

definition path_file_name :: "string \<Rightarrow> string option" where
  "path_file_name p = (case rev (path_components p) of Normal n # _ \<Rightarrow> Some n | _ \<Rightarrow> None)"

definition native_media_attachment_from_value ::
  "wx_env \<Rightarrow> wx_files \<Rightarrow> json \<Rightarrow> gateway_error + native_weixin_attachment" where
  "native_media_attachment_from_value env fs value =
    rbind (ok_or (validation ''Weixin attachment must be an object'') (as_object value)) (\<lambda>object.
    let kind = to_lowercase (wxe_gate env) (or_else [] (or_opt (str_field object ''kind'') (str_field object ''type'')));
        mime_type = to_lowercase (wxe_gate env) (or_else [] (str_field object ''mime_type'')) in
    rbind (ok_or (validation ''Weixin native media reply requires a readable same-host attachment path'')
      (resolve_local_attachment_path fs (or_else [] (str_field object ''path'')))) (\<lambda>path.
    Inr \<lparr>na_delivery_kind = delivery_kind kind mime_type, na_path = path,
      na_file_name = or_else (or_else ''attachment'' (path_file_name path)) (nonempty_trim
        (or_opt (Option.bind (Option.bind (Option.bind (oget object ''metadata'') as_object) (\<lambda>m. oget m ''file_name'')) as_str)
          (Option.bind (oget object ''label'') as_str)))\<rparr>))"

fun resolve_each :: "wx_env \<Rightarrow> wx_files \<Rightarrow> json list \<Rightarrow> gateway_error + native_weixin_attachment list" where
  "resolve_each env fs [] = Inr []"
| "resolve_each env fs (a # rest) =
     rbind (native_media_attachment_from_value env fs a) (\<lambda>r. rbind (resolve_each env fs rest) (\<lambda>rs. Inr (r # rs)))"

definition resolve_native_media_attachments ::
  "wx_env \<Rightarrow> wx_files \<Rightarrow> outbound_message \<Rightarrow> gateway_error + native_weixin_attachment list" where
  "resolve_native_media_attachments env fs m =
    rbind (resolve_each env fs (filter is_object (out_attachments m))) (\<lambda>resolved.
    if resolved = [] then Inl (validation ''Weixin native media reply requires at least one attachment'') else Inr resolved)"

definition should_send_native_attachment_reply :: "outbound_message \<Rightarrow> bool" where
  "should_send_native_attachment_reply m \<longleftrightarrow>
     Option.bind (oget (out_metadata m) ''source'') as_str \<in> {Some ''harborbeacon'', Some ''notification_delivery''}
     \<and> out_attachments m \<noteq> []"

end
