(* ===== verification/Weixin_State.thy ===== *)
theory Weixin_State
  imports Weixin_Text Delivery_Ledger
begin

text \<open>
  The state of \<^verbatim>\<open>WeixinAdapter\<close> (\<^verbatim>\<open>src/adapters/weixin.rs\<close>): the account and the transport status in memory, and
  the files of the account directory. The operations follow the source; \<open>wx_world\<close> is what one operation meets:
  the clock, which system calls succeed, the listing of the directory, and what other threads and processes do in
  the gaps between the critical sections (\<open>ww_between\<close>, numbered in the order of the code).
\<close>

record weixin_account =
  acct_id :: string
  acct_token :: string
  acct_base_url :: string
  acct_user_id :: string

definition default_account :: weixin_account where
  "default_account = \<lparr>acct_id = [], acct_token = [], acct_base_url = [], acct_user_id = []\<rparr>"

definition account_configured :: "weixin_account \<Rightarrow> bool" where
  "account_configured a \<longleftrightarrow> trim (acct_id a) \<noteq> [] \<and> trim (acct_token a) \<noteq> []"

record wx_adapter =
  wxa_account :: weixin_account
  wxa_transport :: jmap
  wxa_files :: disk

text \<open>
  \<open>ww_write\<close> is a plain write: \<open>Some left\<close> makes it fail and leave \<open>left\<close> in the file. \<open>ww_replace\<close> is an atomic
  replacement. \<open>ww_stat\<close> is whether a file can be examined at all.
\<close>

record wx_world =
  ww_now :: instant
  ww_mkdir :: bool
  ww_lock :: bool
  ww_stat :: "string \<Rightarrow> bool"
  ww_read :: "string \<Rightarrow> bool"
  ww_write :: "string \<Rightarrow> string option option"
  ww_replace :: "string \<Rightarrow> bool"
  ww_unlink :: "string \<Rightarrow> bool"
  ww_listing :: "(string \<times> int option) list option"
  ww_between :: "nat \<Rightarrow> wx_adapter \<Rightarrow> wx_adapter"

section \<open>Files\<close>

definition account_file :: "wx_env \<Rightarrow> string \<Rightarrow> string" where
  "account_file env i = safe_slug env i @ ''.json''"

definition sync_file :: "wx_env \<Rightarrow> string \<Rightarrow> string" where
  "sync_file env i = safe_slug env i @ ''.sync.json''"

definition context_file :: "wx_env \<Rightarrow> string \<Rightarrow> string" where
  "context_file env i = safe_slug env i @ ''.context_tokens.json''"

definition processed_file :: "wx_env \<Rightarrow> string \<Rightarrow> string" where
  "processed_file env i = safe_slug env i @ ''.processed_messages.json''"

definition inbox_file :: "wx_env \<Rightarrow> string \<Rightarrow> string" where
  "inbox_file env i = safe_slug env i @ ''.inbox.json''"

definition transport_state_file :: "wx_env \<Rightarrow> string \<Rightarrow> string" where
  "transport_state_file env i = safe_slug env i @ ''.runtime.json''"

definition wx_os_error :: "wx_env \<Rightarrow> gateway_error" where
  "wx_os_error env = infrastructure (wxe_os_text env)"

definition wx_now :: "wx_env \<Rightarrow> wx_world \<Rightarrow> string" where
  "wx_now env w = utc_now_iso (wxe_gate env) (ww_now w)"

definition read_text :: "wx_world \<Rightarrow> string \<Rightarrow> disk \<Rightarrow> string option" where
  "read_text w f d = (if ww_read w f then d f else None)"

definition read_value :: "wx_env \<Rightarrow> wx_world \<Rightarrow> string \<Rightarrow> disk \<Rightarrow> json option" where
  "read_value env w f d = Option.bind (read_text w f d) (from_str (wxe_gate env))"

text \<open>\<^verbatim>\<open>fs::create_dir_all\<close> followed by \<^verbatim>\<open>fs::write\<close>, respectively by \<^verbatim>\<open>AtomicFile::write\<close>.\<close>

definition write_file :: "wx_env \<Rightarrow> wx_world \<Rightarrow> string \<Rightarrow> json \<Rightarrow> disk \<Rightarrow> (gateway_error + unit) \<times> disk" where
  "write_file env w f v d =
    (if \<not> ww_mkdir w then (Inl (wx_os_error env), d)
     else (case ww_write w f of
         None \<Rightarrow> (Inr (), d(f := Some (to_vec_pretty (wxe_gate env) v)))
       | Some left \<Rightarrow> (Inl (wx_os_error env), d(f := left))))"

definition replace_file :: "wx_env \<Rightarrow> wx_world \<Rightarrow> string \<Rightarrow> json \<Rightarrow> disk \<Rightarrow> (gateway_error + unit) \<times> disk" where
  "replace_file env w f v d =
    (if ww_mkdir w \<and> ww_replace w f then (Inr (), d(f := Some (to_vec_pretty (wxe_gate env) v)))
     else (Inl (wx_os_error env), d))"

text \<open>Opening creates the lock file; \<open>name\<close> is \<^verbatim>\<open>context_tokens\<close> or \<^verbatim>\<open>account\<close>.\<close>

definition with_state_lock ::
  "wx_env \<Rightarrow> wx_world \<Rightarrow> string \<Rightarrow> string \<Rightarrow> (wx_adapter \<Rightarrow> (gateway_error + 'a) \<times> wx_adapter) \<Rightarrow> wx_adapter \<Rightarrow>
   (gateway_error + 'a) \<times> wx_adapter" where
  "with_state_lock env w name i operation s =
    (let f = safe_slug env i @ ''.'' @ name @ ''.lock'' in
     if ww_mkdir w \<and> ww_lock w then operation (s\<lparr>wxa_files := (wxa_files s)(f := Some (or_else [] (wxa_files s f)))\<rparr>)
     else (Inl (wx_os_error env), s))"

definition with_context_token_lock where "with_context_token_lock env w = with_state_lock env w ''context_tokens''"
definition with_account_state_lock where "with_account_state_lock env w = with_state_lock env w ''account''"

section \<open>Accounts\<close>

definition load_weixin_account_path :: "wx_env \<Rightarrow> wx_world \<Rightarrow> string \<Rightarrow> disk \<Rightarrow> weixin_account option" where
  "load_weixin_account_path env w f d =
    Option.bind (read_value env w f d) (\<lambda>payload.
    Option.bind (get_str payload ''account_id'') (\<lambda>i.
    Option.bind (get_str payload ''token'') (\<lambda>token.
    Some \<lparr>acct_id = trim i, acct_token = trim token,
      acct_base_url = trim (or_else ilink_base_url (get_str payload ''base_url'')),
      acct_user_id = trim (or_else [] (get_str payload ''user_id''))\<rparr>)))"

definition load_weixin_account :: "wx_env \<Rightarrow> wx_world \<Rightarrow> string \<Rightarrow> disk \<Rightarrow> weixin_account option" where
  "load_weixin_account env w i d = load_weixin_account_path env w (account_file env i) d"

definition ends_with :: "string \<Rightarrow> string \<Rightarrow> bool" where
  "ends_with suf s \<longleftrightarrow> starts_with (rev suf) (rev s)"

definition is_account_name :: "string \<Rightarrow> bool" where
  "is_account_name f \<longleftrightarrow> ends_with ''.json'' f \<and> \<not> ends_with ''.sync.json'' f \<and> \<not> ends_with ''.context_tokens.json'' f
     \<and> \<not> ends_with ''.processed_messages.json'' f \<and> \<not> ends_with ''.runtime.json'' f"

text \<open>The order of the candidates: by modification time (a missing one first), then by name; the last one is taken.\<close>

fun older_time :: "int option \<Rightarrow> int option \<Rightarrow> bool" where
  "older_time None b = (b \<noteq> None)"
| "older_time (Some a) None = False"
| "older_time (Some a) (Some b) = (a < b)"

fun last_candidate :: "(int option \<times> string \<times> weixin_account) option \<Rightarrow> (int option \<times> string \<times> weixin_account) list \<Rightarrow>
    weixin_account option" where
  "last_candidate best [] = map_option (\<lambda>(m, n, a). a) best"
| "last_candidate best ((m, n, a) # rest) = last_candidate (case best of
      None \<Rightarrow> Some (m, n, a)
    | Some (m', n', a') \<Rightarrow> if older_time m m' \<or> m = m' \<and> n < n' then Some (m', n', a') else Some (m, n, a)) rest"

definition discover_weixin_account :: "wx_env \<Rightarrow> wx_world \<Rightarrow> string \<Rightarrow> disk \<Rightarrow> weixin_account option" where
  "discover_weixin_account env w i d =
    (if trim i \<noteq> [] then load_weixin_account env w i d
     else Option.bind (ww_listing w) (\<lambda>entries. last_candidate None (List.map_filter (\<lambda>(f, modified).
       if \<not> is_account_name f then None
       else (case load_weixin_account_path env w f d of
           None \<Rightarrow> None
         | Some a \<Rightarrow> if account_configured a then Some (modified, f, a) else None)) entries)))"

definition save_weixin_account :: "wx_env \<Rightarrow> wx_world \<Rightarrow> weixin_account \<Rightarrow> disk \<Rightarrow> (gateway_error + unit) \<times> disk" where
  "save_weixin_account env w a d =
    (let v = jobj [(''account_id'', JStr (acct_id a)), (''token'', JStr (acct_token a)), (''base_url'', JStr (acct_base_url a)),
           (''user_id'', JStr (acct_user_id a)), (''saved_at'', JStr (wx_now env w))] in
     if \<not> ww_mkdir w then (Inl (infrastructure (''create weixin state dir failed: '' @ wxe_os_text env)), d)
     else (case write_file env w (account_file env (acct_id a)) v d of
         (Inl e, d1) \<Rightarrow> (Inl (infrastructure (''save weixin account failed: '' @ wxe_os_text env)), d1)
       | (Inr u, d1) \<Rightarrow> (Inr (), d1)))"

fun clear_files :: "wx_env \<Rightarrow> wx_world \<Rightarrow> string list \<Rightarrow> disk \<Rightarrow> (gateway_error + string list) \<times> disk" where
  "clear_files env w [] d = (Inr [], d)"
| "clear_files env w (f # fs) d =
     (if \<not> ww_unlink w f then (Inl (wx_os_error env), d)
      else if d f = None then clear_files env w fs d
      else (case clear_files env w fs (d(f := None)) of
          (Inl e, d1) \<Rightarrow> (Inl e, d1) | (Inr deleted, d1) \<Rightarrow> (Inr (f # deleted), d1)))"

definition state_files :: "wx_env \<Rightarrow> string \<Rightarrow> string list" where
  "state_files env i = [sync_file env i, context_file env i, processed_file env i, inbox_file env i, transport_state_file env i,
     account_file env i]"

definition clear_weixin_account_state :: "wx_env \<Rightarrow> wx_world \<Rightarrow> string \<Rightarrow> disk \<Rightarrow> (gateway_error + string list) \<times> disk" where
  "clear_weixin_account_state env w i d = clear_files env w (state_files env i) d"

section \<open>The transport status\<close>

definition default_transport_state :: "bool \<Rightarrow> jmap" where
  "default_transport_state conf = oputs
    [(''mode'', JStr ''polling''), (''status'', JStr (if conf then ''polling_idle'' else ''waiting_for_credentials'')),
     (''connected'', JBool conf), (''last_error'', JStr []),
     (''last_poll_outcome'', JStr (if conf then ''never_polled'' else ''waiting_for_credentials'')),
     (''last_poll_at'', JStr []), (''last_getupdates_at'', JStr []), (''last_getupdates_buf'', JStr []),
     (''last_getupdates_count'', JInt 0), (''last_private_text_message_count'', JInt 0),
     (''last_private_text_message_at'', JStr []), (''last_getupdates_message_ids'', JArr []),
     (''last_getupdates_private_message_ids'', JArr []), (''last_getupdates_error'', JStr []),
     (''last_context_token_at'', JStr []), (''last_send_at'', JStr []), (''last_send_chunk_count'', JInt 0),
     (''last_send_status'', JStr []), (''last_send_error'', JStr []), (''last_send_retryable'', JBool False),
     (''last_send_provider_message_id'', JStr []), (''last_send_context_token_used'', JBool False),
     (''last_send_attachment_count'', JInt 0), (''last_send_content_kind'', JStr []), (''last_delivery_batch_id'', JStr []),
     (''last_delivery_batch'', JNull), (''last_inbound_at'', JStr []), (''last_inbound_message_id'', JStr []),
     (''last_inbound_chat_id'', JStr [])] []"

definition load_weixin_transport_state :: "wx_env \<Rightarrow> wx_world \<Rightarrow> string \<Rightarrow> disk \<Rightarrow> jmap option" where
  "load_weixin_transport_state env w i d = Option.bind (read_value env w (transport_state_file env i) d) as_object"

definition save_weixin_transport_state :: "wx_env \<Rightarrow> wx_world \<Rightarrow> string \<Rightarrow> jmap \<Rightarrow> disk \<Rightarrow> (gateway_error + unit) \<times> disk" where
  "save_weixin_transport_state env w i payload d = write_file env w (transport_state_file env i) (JObj payload) d"

definition update_transport :: "wx_env \<Rightarrow> wx_world \<Rightarrow> (string \<times> json) list \<Rightarrow> wx_adapter \<Rightarrow> wx_adapter" where
  "update_transport env w updates s =
    (let transport = oput ''mode'' (JStr ''polling'') (oputs updates (wxa_transport s));
         i = acct_id (wxa_account s);
         s1 = s\<lparr>wxa_transport := transport\<rparr> in
     if i = [] then s1
     else s1\<lparr>wxa_files := snd (save_weixin_transport_state env w i transport (wxa_files s))\<rparr>)"

definition update_delivery_batch :: "wx_env \<Rightarrow> wx_world \<Rightarrow> string \<Rightarrow> string \<Rightarrow> json list \<Rightarrow> wx_adapter \<Rightarrow> wx_adapter" where
  "update_delivery_batch env w batch_id status items = update_transport env w
     [(''last_delivery_batch_id'', JStr batch_id),
      (''last_delivery_batch'', delivery_batch_snapshot env (ww_now w) batch_id status items)]"

section \<open>The adapter and its account\<close>

definition weixin_new :: "wx_env \<Rightarrow> wx_world \<Rightarrow> weixin_config \<Rightarrow> disk \<Rightarrow> wx_adapter" where
  "weixin_new env w config d =
    (let account = or_else \<lparr>acct_id = wx_account_id config, acct_token = wx_token config,
           acct_base_url = (if trim (wx_base_url config) = [] then ilink_base_url else wx_base_url config),
           acct_user_id = wx_user_id config\<rparr> (discover_weixin_account env w (wx_account_id config) d);
         transport = default_transport_state (account_configured account);
         transport = (if account_configured account
           then (case load_weixin_transport_state env w (acct_id account) d of
               None \<Rightarrow> transport | Some persisted \<Rightarrow> oput ''mode'' (JStr ''polling'') (oputs persisted transport))
           else transport)
     in \<lparr>wxa_account = account, wxa_transport = transport, wxa_files = d\<rparr>)"

text \<open>The gap \<open>g\<close> lies between reading the account file and taking the state lock.\<close>

definition refresh_account_from_disk :: "wx_env \<Rightarrow> wx_world \<Rightarrow> weixin_config \<Rightarrow> nat \<Rightarrow> wx_adapter \<Rightarrow> wx_adapter" where
  "refresh_account_from_disk env w config g s =
    (case or_opt (discover_weixin_account env w (acct_id (wxa_account s)) (wxa_files s))
        (discover_weixin_account env w (wx_account_id config) (wxa_files s)) of
      None \<Rightarrow> s
    | Some account \<Rightarrow>
        let s1 = ww_between w g s in
        (case load_weixin_account env w (acct_id account) (wxa_files s1) of
            None \<Rightarrow> s1
          | Some current \<Rightarrow>
              if acct_token current \<noteq> acct_token account then s1
              else if acct_id (wxa_account s1) = acct_id account \<and> acct_token (wxa_account s1) = acct_token account then s1
              else s1\<lparr>wxa_account := account, wxa_transport := oputs
                  (or_else [] (load_weixin_transport_state env w (acct_id account) (wxa_files s1))) (default_transport_state True)\<rparr>))"

definition account_is_current :: "weixin_account \<Rightarrow> wx_adapter \<Rightarrow> bool" where
  "account_is_current a s \<longleftrightarrow> acct_id a \<noteq> [] \<and> acct_id (wxa_account s) = acct_id a \<and> acct_token (wxa_account s) = acct_token a"

definition weixin_error :: "wx_adapter \<Rightarrow> string \<Rightarrow> gateway_error" where
  "weixin_error s message = gateway_error_new 502 ''PLATFORM_UNAVAILABLE''
     (redact_sensitive_text [acct_id (wxa_account s), acct_token (wxa_account s)] message)"

definition save_account ::
  "wx_env \<Rightarrow> wx_world \<Rightarrow> weixin_account \<Rightarrow> wx_adapter \<Rightarrow> (gateway_error + unit) \<times> wx_adapter" where
  "save_account env w a = with_account_state_lock env w (acct_id a) (\<lambda>s.
     case save_weixin_account env w a (wxa_files s) of
       (Inl e, d1) \<Rightarrow> (Inl e, s\<lparr>wxa_files := d1\<rparr>)
     | (Inr u, d1) \<Rightarrow> (Inr (), s\<lparr>wxa_account := a, wxa_transport := default_transport_state True, wxa_files := d1\<rparr>))"

definition account_changed :: "string \<Rightarrow> gateway_error" where
  "account_changed during = validation (''Weixin account changed '' @ during)"

text \<open>The critical section of \<^verbatim>\<open>unbind\<close>, under the account lock.\<close>

definition unbind_locked ::
  "wx_env \<Rightarrow> wx_world \<Rightarrow> weixin_account \<Rightarrow> wx_adapter \<Rightarrow> (gateway_error + string list) \<times> wx_adapter" where
  "unbind_locked env w a s =
    (if (case load_weixin_account env w (acct_id a) (wxa_files s) of
          None \<Rightarrow> True | Some current \<Rightarrow> acct_id current \<noteq> acct_id a \<or> acct_token current \<noteq> acct_token a)
     then (Inl (account_changed ''during unbind''), s)
     else with_context_token_lock env w (acct_id a) (\<lambda>s1.
       if acct_id (wxa_account s1) \<noteq> acct_id a \<or> acct_token (wxa_account s1) \<noteq> acct_token a
       then (Inl (account_changed ''during unbind''), s1)
       else (case clear_weixin_account_state env w (acct_id a) (wxa_files s1) of
           (Inl e, d1) \<Rightarrow> (Inl e, s1\<lparr>wxa_files := d1\<rparr>)
         | (Inr deleted, d1) \<Rightarrow> (Inr deleted, s1\<lparr>wxa_account := default_account,
             wxa_transport := default_transport_state False, wxa_files := d1\<rparr>))) s)"

definition unbind_account ::
  "wx_env \<Rightarrow> wx_world \<Rightarrow> weixin_account \<Rightarrow> wx_adapter \<Rightarrow> (gateway_error + string list) \<times> wx_adapter" where
  "unbind_account env w a s =
    (if trim (acct_id a) = []
     then (Inr [], s\<lparr>wxa_account := default_account, wxa_transport := default_transport_state False\<rparr>)
     else with_account_state_lock env w (acct_id a) (unbind_locked env w a) s)"

text \<open>The answer of \<^verbatim>\<open>unbind\<close>; masking an account id that is not cut at character boundaries panics (\<open>None\<close>).\<close>

definition unbind_answer :: "weixin_account \<Rightarrow> gateway_error + string list \<Rightarrow> json option" where
  "unbind_answer a outcome = (case outcome of
      Inr deleted \<Rightarrow> map_option (\<lambda>masked. jobj [(''ok'', JBool True), (''platform'', JStr ''weixin''),
        (''account_id_configured'', JBool (trim (acct_id a) \<noteq> [])), (''account_id_masked'', JStr masked),
        (''deleted_state_files'', JArr (map JStr deleted)), (''configured'', JBool False),
        (''status'', JStr ''waiting_for_credentials'')]) (mask_secret (acct_id a))
    | Inl e \<Rightarrow> Some (jobj [(''ok'', JBool False), (''platform'', JStr ''weixin''), (''configured'', JBool True),
        (''status'', JStr ''unbind_failed''), (''message'', JStr ''Weixin account could not be unbound'')]))"

definition unbind :: "wx_env \<Rightarrow> wx_world \<Rightarrow> weixin_config \<Rightarrow> wx_adapter \<Rightarrow> json option \<times> wx_adapter" where
  "unbind env w config s =
    (let s1 = refresh_account_from_disk env w config 0 s; a = wxa_account s1 in
     case unbind_account env w a (ww_between w 1 s1) of (outcome, s2) \<Rightarrow> (unbind_answer a outcome, s2))"

definition transport_status_value :: "wx_env \<Rightarrow> wx_world \<Rightarrow> weixin_config \<Rightarrow> wx_adapter \<Rightarrow> json \<times> wx_adapter" where
  "transport_status_value env w config s =
    (let s1 = refresh_account_from_disk env w config 0 s; a = wxa_account s1; transport = wxa_transport s1;
         redacted = List.map_filter (\<lambda>k. map_option (\<lambda>v. (k, JStr (redact_sensitive_text [acct_id a, acct_token a] v)))
           (Option.bind (oget transport k) as_str)) [''last_error'', ''last_getupdates_error'', ''last_send_error''];
         transport = oputs redacted transport;
         transport = (case Option.bind (oget transport ''last_getupdates_buf'') as_str of
             None \<Rightarrow> transport
           | Some v \<Rightarrow> if trim v = [] then transport else oput ''last_getupdates_buf'' (JStr ''[REDACTED]'') transport)
     in (JObj (oput ''configured'' (JBool (account_configured a)) transport), s1))"

end
