(* ===== verification/Weixin_Inbox.thy ===== *)
theory Weixin_Inbox
  imports Weixin_State
begin

text \<open>
  The durable inbox of \<^verbatim>\<open>src/adapters/weixin.rs\<close>: polled updates are stored in one JSON file before the polling
  cursor is committed, claimed one at a time under a lease, and kept as tombstones once they are finished. Beside
  it the cursor, the list of processed messages, the context tokens of the chats with their recovery from the
  inbox, the normalisation of an update and the poll itself.

  A panic is the value \<open>WxPanicked\<close>.
\<close>

datatype wx_error = WxFailed gateway_error | WxPanicked string

section \<open>The inbox file\<close>

definition load_inbox :: "wx_env \<Rightarrow> wx_world \<Rightarrow> string \<Rightarrow> disk \<Rightarrow> gateway_error + jmap" where
  "load_inbox env w i d = (let f = inbox_file env i in
     if \<not> ww_stat w f \<or> d f = None
     then Inr (oputs [(''version'', JInt 1), (''items'', JObj []), (''updated_at'', JStr (wx_now env w))] [])
     else rbind (ok_or (wx_os_error env) (read_text w f d)) (\<lambda>raw.
       rbind (ok_or (infrastructure (''Weixin inbox '' @ f @ '' contains invalid JSON'')) (from_str (wxe_gate env) raw)) (\<lambda>value.
       ok_or (infrastructure (''Weixin inbox '' @ f @ '' must be a JSON object'')) (as_object value))))"

definition save_inbox :: "wx_env \<Rightarrow> wx_world \<Rightarrow> string \<Rightarrow> jmap \<Rightarrow> disk \<Rightarrow> (gateway_error + unit) \<times> disk" where
  "save_inbox env w i inbox d = replace_file env w (inbox_file env i) (JObj inbox) d"

definition weixin_payload_fingerprint :: "wx_env \<Rightarrow> json \<Rightarrow> string" where
  "weixin_payload_fingerprint env payload = ''sha256:'' @ wxe_sha256 env (wxe_to_vec env payload)"

text \<open>\<^verbatim>\<open>(part.len() as u64).to_be_bytes()\<close>\<close>

definition be_bytes :: "nat \<Rightarrow> string" where
  "be_bytes n = map (\<lambda>k. char_of ((n div 256 ^ k) mod 256)) [7, 6, 5, 4, 3, 2, 1, 0]"

definition stable_weixin_inbox_id :: "wx_env \<Rightarrow> string \<Rightarrow> json \<Rightarrow> string" where
  "stable_weixin_inbox_id env i payload =
    (let message_id = extract_weixin_message_id payload;
         source = (if message_id = [] then weixin_payload_fingerprint env payload else message_id)
     in ''wxinbox_'' @ wxe_sha256 env (be_bytes (length i) @ i @ be_bytes (length source) @ source))"

definition weixin_inbox_claim_is_unexpired :: "wx_env \<Rightarrow> instant \<Rightarrow> json \<Rightarrow> bool" where
  "weixin_inbox_claim_is_unexpired env now item =
    (case Option.bind (get_str item ''claim_expires_at'') (parse_rfc3339 (wxe_gate env)) of
      None \<Rightarrow> False | Some expires_at \<Rightarrow> expires_at > now)"

text \<open>\<^verbatim>\<open>inbox.entry("items").or_insert_with(...).as_object_mut()\<close>\<close>

definition inbox_items :: "jmap \<Rightarrow> jmap option" where
  "inbox_items inbox = (case oget inbox ''items'' of None \<Rightarrow> Some [] | Some v \<Rightarrow> as_object v)"

definition put_items :: "wx_env \<Rightarrow> wx_world \<Rightarrow> jmap \<Rightarrow> jmap \<Rightarrow> jmap" where
  "put_items env w items inbox = oput ''updated_at'' (JStr (wx_now env w)) (oput ''items'' (JObj items) inbox)"

section \<open>Storing a batch of updates\<close>

definition new_inbox_item :: "wx_env \<Rightarrow> wx_world \<Rightarrow> string \<Rightarrow> json \<Rightarrow> json" where
  "new_inbox_item env w inbox_id payload = jobj
    [(''inbox_id'', JStr inbox_id), (''provider_message_id'', JStr (extract_weixin_message_id payload)),
     (''payload_fingerprint'', JStr (weixin_payload_fingerprint env payload)), (''payload'', payload), (''status'', JStr ''pending''),
     (''retryable'', JBool True), (''attempts'', JInt 0), (''owner'', JNull), (''claim_token'', JNull), (''claim_expires_at'', JNull),
     (''last_error'', JNull), (''created_at'', JStr (wx_now env w)), (''updated_at'', JStr (wx_now env w))]"

definition identity_conflict :: gateway_error where
  "identity_conflict = gateway_error_new 409 ''WEIXIN_INBOX_IDENTITY_CONFLICT''
     ''Weixin provider message identity was reused with a different payload''"

fun store_updates :: "wx_env \<Rightarrow> wx_world \<Rightarrow> string \<Rightarrow> json list \<Rightarrow> jmap \<Rightarrow> gateway_error + jmap" where
  "store_updates env w i [] items = Inr items"
| "store_updates env w i (payload # rest) items =
    (let inbox_id = stable_weixin_inbox_id env i payload in
     case oget items inbox_id of
       Some existing \<Rightarrow>
         if get_str existing ''payload_fingerprint'' \<noteq> Some (weixin_payload_fingerprint env payload) then Inl identity_conflict
         else store_updates env w i rest items
     | None \<Rightarrow> store_updates env w i rest (oput inbox_id (new_inbox_item env w inbox_id payload) items))"

definition store_batch :: "wx_env \<Rightarrow> wx_world \<Rightarrow> string \<Rightarrow> json list \<Rightarrow> wx_adapter \<Rightarrow> (gateway_error + unit) \<times> wx_adapter" where
  "store_batch env w i updates s =
    (case rbind (load_inbox env w i (wxa_files s)) (\<lambda>inbox.
          rbind (ok_or (weixin_error s ''Weixin inbox items are invalid'') (inbox_items inbox)) (\<lambda>items.
          rbind (store_updates env w i (filter is_object updates) items) (\<lambda>items.
          Inr (oput ''version'' (JInt 1) (put_items env w items inbox))))) of
        Inl e \<Rightarrow> (Inl e, s)
      | Inr inbox \<Rightarrow> (case save_inbox env w i inbox (wxa_files s) of (res, d1) \<Rightarrow> (res, s\<lparr>wxa_files := d1\<rparr>)))"

definition persist_inbound_batch ::
  "wx_env \<Rightarrow> wx_world \<Rightarrow> weixin_config \<Rightarrow> json list \<Rightarrow> wx_adapter \<Rightarrow> (gateway_error + unit) \<times> wx_adapter" where
  "persist_inbound_batch env w config updates s =
    (let s1 = refresh_account_from_disk env w config 0 s; a = wxa_account s1 in
     if trim (acct_id a) = [] then (Inl (weixin_error s1 ''Weixin account is not configured''), s1)
     else let s2 = ww_between w 1 s1 in
       if \<not> account_is_current a s2 then (Inl (account_changed ''before inbox commit''), s2)
       else store_batch env w (acct_id a) updates s2)"

section \<open>The polling cursor\<close>

definition load_sync_buf :: "wx_env \<Rightarrow> wx_world \<Rightarrow> string \<Rightarrow> disk \<Rightarrow> string" where
  "load_sync_buf env w i d =
     or_else [] (Option.bind (read_value env w (sync_file env i) d) (\<lambda>v. get_str v ''get_updates_buf''))"

definition save_sync_buf :: "wx_env \<Rightarrow> wx_world \<Rightarrow> string \<Rightarrow> string \<Rightarrow> disk \<Rightarrow> (gateway_error + unit) \<times> disk" where
  "save_sync_buf env w i sync_buf d = replace_file env w (sync_file env i) (jobj [(''get_updates_buf'', JStr sync_buf)]) d"

definition commit_poll_cursor ::
  "wx_env \<Rightarrow> wx_world \<Rightarrow> weixin_config \<Rightarrow> string \<Rightarrow> wx_adapter \<Rightarrow> (gateway_error + unit) \<times> wx_adapter" where
  "commit_poll_cursor env w config next_cursor s =
    (let s1 = refresh_account_from_disk env w config 0 s; a = wxa_account s1 in
     if trim (acct_id a) = [] then (Inl (weixin_error s1 ''Weixin account is not configured''), s1)
     else let s2 = ww_between w 1 s1 in
       if \<not> account_is_current a s2 then (Inl (account_changed ''before cursor commit''), s2)
       else (case save_sync_buf env w (acct_id a) next_cursor (wxa_files s2) of (res, d1) \<Rightarrow> (res, s2\<lparr>wxa_files := d1\<rparr>)))"

section \<open>Claims\<close>

definition inbox_claimable :: "wx_env \<Rightarrow> instant \<Rightarrow> json \<Rightarrow> bool" where
  "inbox_claimable env now item =
    (let status = or_else [] (get_str item ''status'') in
     status \<in> {''pending'', ''failed''} \<and> get_bool item ''retryable'' \<noteq> Some False
     \<or> status = ''processing'' \<and> \<not> weixin_inbox_claim_is_unexpired env now item)"

definition claimed_inbox_item :: "wx_env \<Rightarrow> wx_world \<Rightarrow> string \<Rightarrow> string \<Rightarrow> string \<Rightarrow> json \<Rightarrow> json" where
  "claimed_inbox_item env w owner token expires item = JObj (oputs
    [(''status'', JStr ''processing''), (''attempts'', JInt (int (saturating_add (or_else 0 (get_u64 item ''attempts'')) 1))),
     (''owner'', JStr owner), (''claim_token'', JStr token), (''claim_expires_at'', JStr expires),
     (''updated_at'', JStr (wx_now env w))] (or_else [] (as_object item)))"

definition claim_answer :: "string \<Rightarrow> string \<Rightarrow> json \<Rightarrow> json" where
  "claim_answer inbox_id token claimed = jobj [(''inbox_id'', JStr inbox_id), (''claim_token'', JStr token),
     (''payload'', jindex claimed ''payload''), (''item'', claimed)]"

definition claim_first ::
  "wx_env \<Rightarrow> wx_world \<Rightarrow> string \<Rightarrow> string \<Rightarrow> nat \<Rightarrow> string \<Rightarrow> wx_adapter \<Rightarrow> (wx_error + json option) \<times> wx_adapter" where
  "claim_first env w i owner lease token s =
    (case rbind (load_inbox env w i (wxa_files s)) (\<lambda>inbox.
          rbind (ok_or (weixin_error s ''Weixin inbox items are invalid'') (inbox_items inbox)) (\<lambda>items. Inr (inbox, items))) of
        Inl e \<Rightarrow> (Inl (WxFailed e), s)
      | Inr (inbox, items) \<Rightarrow> (case find (\<lambda>(k, item). inbox_claimable env (ww_now w) item) items of
            None \<Rightarrow> (Inr None, s)
          | Some (inbox_id, item) \<Rightarrow> (case delivery_claim_expires_at (wxe_gate env) (ww_now w) lease of
                Inl e \<Rightarrow> (Inl (WxPanicked ''claim expiry''), s)
              | Inr expires \<Rightarrow>
                  let claimed = claimed_inbox_item env w owner token expires item in
                  (case save_inbox env w i (put_items env w (oput inbox_id claimed items) inbox) (wxa_files s) of
                      (Inl e, d1) \<Rightarrow> (Inl (WxFailed e), s\<lparr>wxa_files := d1\<rparr>)
                    | (Inr u, d1) \<Rightarrow> (Inr (Some (claim_answer inbox_id token claimed)), s\<lparr>wxa_files := d1\<rparr>)))))"

definition claim_inbound ::
  "wx_env \<Rightarrow> wx_world \<Rightarrow> weixin_config \<Rightarrow> string \<Rightarrow> nat \<Rightarrow> string \<Rightarrow> wx_adapter \<Rightarrow> (wx_error + json option) \<times> wx_adapter" where
  "claim_inbound env w config owner lease token s =
    (let s1 = refresh_account_from_disk env w config 0 s; a = wxa_account s1 in
     if trim (acct_id a) = [] then (Inr None, s1)
     else let s2 = ww_between w 1 s1 in
       if \<not> account_is_current a s2 then (Inr None, s2)
       else claim_first env w (acct_id a) owner lease token s2)"

definition finished_inbox_item :: "wx_env \<Rightarrow> wx_world \<Rightarrow> bool \<Rightarrow> bool \<Rightarrow> string option \<Rightarrow> json \<Rightarrow> json" where
  "finished_inbox_item env w succeeded retryable last_error item = JObj (oputs
    [(''status'', JStr (if succeeded then ''succeeded'' else if retryable then ''failed'' else ''terminal_failed'')),
     (''retryable'', JBool (\<not> succeeded \<and> retryable)), (''last_error'', jstr_opt last_error), (''owner'', JNull),
     (''claim_token'', JNull), (''claim_expires_at'', JNull), (''updated_at'', JStr (wx_now env w))] (or_else [] (as_object item)))"

definition finish_claim ::
  "wx_env \<Rightarrow> wx_world \<Rightarrow> string \<Rightarrow> string \<Rightarrow> string \<Rightarrow> bool \<Rightarrow> bool \<Rightarrow> string option \<Rightarrow> wx_adapter \<Rightarrow>
   (gateway_error + unit) \<times> wx_adapter" where
  "finish_claim env w i inbox_id token succeeded retryable last_error s =
    (case rbind (load_inbox env w i (wxa_files s)) (\<lambda>inbox.
          rbind (ok_or (weixin_error s ''Weixin inbox claim is missing'')
            (Option.bind (oget inbox ''items'') as_object)) (\<lambda>items.
          rbind (ok_or (weixin_error s ''Weixin inbox claim is missing'') (oget items inbox_id)) (\<lambda>item.
          if get_str item ''status'' \<noteq> Some ''processing'' \<or> get_str item ''claim_token'' \<noteq> Some token
          then Inl (weixin_error s ''stale Weixin inbox claim'')
          else Inr (put_items env w (oput inbox_id (finished_inbox_item env w succeeded retryable last_error item) items) inbox)))) of
        Inl e \<Rightarrow> (Inl e, s)
      | Inr inbox \<Rightarrow> (case save_inbox env w i inbox (wxa_files s) of (res, d1) \<Rightarrow> (res, s\<lparr>wxa_files := d1\<rparr>)))"

definition finish_inbound ::
  "wx_env \<Rightarrow> wx_world \<Rightarrow> weixin_config \<Rightarrow> string \<Rightarrow> string \<Rightarrow> bool \<Rightarrow> bool \<Rightarrow> string option \<Rightarrow> wx_adapter \<Rightarrow>
   (gateway_error + unit) \<times> wx_adapter" where
  "finish_inbound env w config inbox_id token succeeded retryable last_error s =
    (let s1 = refresh_account_from_disk env w config 0 s; a = wxa_account s1; s2 = ww_between w 1 s1 in
     if \<not> account_is_current a s2 then (Inl (account_changed ''before inbox completion''), s2)
     else finish_claim env w (acct_id a) inbox_id token succeeded retryable last_error s2)"

definition inbox_count ::
  "wx_env \<Rightarrow> wx_world \<Rightarrow> weixin_config \<Rightarrow> (json \<Rightarrow> bool) \<Rightarrow> wx_adapter \<Rightarrow> (gateway_error + nat) \<times> wx_adapter" where
  "inbox_count env w config counted s =
    (let s1 = refresh_account_from_disk env w config 0 s; s2 = ww_between w 1 s1 in
     (rbind (load_inbox env w (acct_id (wxa_account s1)) (wxa_files s2)) (\<lambda>inbox.
        Inr (case Option.bind (oget inbox ''items'') as_object of
            None \<Rightarrow> 0 | Some items \<Rightarrow> length (filter counted (map snd items)))), s2))"

definition retryable_inbox_count where
  "retryable_inbox_count env w config = inbox_count env w config (\<lambda>item.
     get_str item ''status'' \<in> {Some ''pending'', Some ''processing'', Some ''failed''} \<and> get_bool item ''retryable'' \<noteq> Some False)"

definition inbox_status_count where
  "inbox_status_count env w config expected = inbox_count env w config (\<lambda>item. get_str item ''status'' = Some expected)"

section \<open>Processed messages\<close>

definition load_processed_messages :: "wx_env \<Rightarrow> wx_world \<Rightarrow> string \<Rightarrow> disk \<Rightarrow> string list" where
  "load_processed_messages env w i d =
    (let payload = or_else (JArr []) (read_value env w (processed_file env i) d) in
     List.map_filter as_str (or_else [] (or_opt (as_array payload) (Option.bind (jget payload ''message_ids'') as_array))))"

definition save_processed_messages :: "wx_env \<Rightarrow> wx_world \<Rightarrow> string \<Rightarrow> string list \<Rightarrow> disk \<Rightarrow> (gateway_error + unit) \<times> disk" where
  "save_processed_messages env w i messages d = write_file env w (processed_file env i) (JArr (map JStr messages)) d"

definition is_duplicate_update :: "wx_env \<Rightarrow> wx_world \<Rightarrow> weixin_config \<Rightarrow> json \<Rightarrow> wx_adapter \<Rightarrow> bool \<times> wx_adapter" where
  "is_duplicate_update env w config payload s =
    (let s1 = refresh_account_from_disk env w config 0 s; i = acct_id (wxa_account s1);
         message_id = extract_weixin_message_id payload in
     (message_id \<noteq> [] \<and> i \<noteq> [] \<and> message_id \<in> set (load_processed_messages env w i (wxa_files s1)), s1))"

definition remember_message :: "string \<Rightarrow> string list \<Rightarrow> string list" where
  "remember_message message_id messages =
    (let messages = filter (\<lambda>item. item \<noteq> message_id) messages @ [message_id] in drop (length messages - 500) messages)"

definition mark_update_processed ::
  "wx_env \<Rightarrow> wx_world \<Rightarrow> weixin_config \<Rightarrow> json \<Rightarrow> wx_adapter \<Rightarrow> (gateway_error + unit) \<times> wx_adapter" where
  "mark_update_processed env w config payload s =
    (let s1 = refresh_account_from_disk env w config 0 s; a = wxa_account s1;
         message_id = extract_weixin_message_id payload in
     if message_id = [] \<or> acct_id a = [] then (Inr (), s1)
     else let s2 = ww_between w 1 s1 in
       if \<not> account_is_current a s2 then (Inr (), s2)
       else (case save_processed_messages env w (acct_id a)
           (remember_message message_id (load_processed_messages env w (acct_id a) (wxa_files s2))) (wxa_files s2) of
         (res, d1) \<Rightarrow> (res, s2\<lparr>wxa_files := d1\<rparr>)))"

section \<open>Context tokens\<close>

definition load_context_tokens :: "wx_env \<Rightarrow> wx_world \<Rightarrow> string \<Rightarrow> disk \<Rightarrow> jmap" where
  "load_context_tokens env w i d = or_else [] (Option.bind (read_value env w (context_file env i) d) as_object)"

definition context_token_count :: "wx_env \<Rightarrow> wx_world \<Rightarrow> weixin_config \<Rightarrow> wx_adapter \<Rightarrow> nat \<times> wx_adapter" where
  "context_token_count env w config s =
    (let s1 = refresh_account_from_disk env w config 0 s; i = acct_id (wxa_account s1) in
     (if trim i = [] then 0 else length (load_context_tokens env w i (wxa_files s1)), s1))"

definition save_context_tokens :: "wx_env \<Rightarrow> wx_world \<Rightarrow> string \<Rightarrow> jmap \<Rightarrow> disk \<Rightarrow> (gateway_error + unit) \<times> disk" where
  "save_context_tokens env w i tokens d = replace_file env w (context_file env i) (JObj tokens) d"

definition save_context_token_unlocked ::
  "wx_env \<Rightarrow> wx_world \<Rightarrow> string \<Rightarrow> string \<Rightarrow> string \<Rightarrow> disk \<Rightarrow> (gateway_error + unit) \<times> disk" where
  "save_context_token_unlocked env w i chat_id token d =
     save_context_tokens env w i (oput chat_id (JStr token) (load_context_tokens env w i d)) d"

text \<open>The time, message id, chat and token that an inbox item offers.\<close>

definition token_candidate :: "wx_env \<Rightarrow> json \<Rightarrow> (string \<times> int \<times> string \<times> string) option" where
  "token_candidate env item =
    Option.bind (Option.bind (jget item ''payload'') as_object) (\<lambda>payload.
    let chat_id = trim (or_else [] (Option.bind (oget payload ''from_user_id'') as_str));
        token = trim (or_else [] (Option.bind (oget payload ''context_token'') as_str)) in
    if trim (or_else [] (Option.bind (oget payload ''room_id'') as_str)) \<noteq> [] \<or> chat_id = [] \<or> token = [] then None
    else Some (chat_id,
      or_else 0 (or_opt (Option.bind (oget payload ''create_time_ms'') as_i64)
        (map_option (\<lambda>t. t div 1000000) (Option.bind (get_str item ''created_at'') (parse_rfc3339 (wxe_gate env))))),
      extract_weixin_message_id (JObj payload), token))"

definition newer_candidate :: "int \<times> string \<Rightarrow> (int \<times> string \<times> string) option \<Rightarrow> bool" where
  "newer_candidate c best = (case best of
      None \<Rightarrow> True | Some (t, m, tok) \<Rightarrow> fst c > t \<or> fst c = t \<and> snd c > m)"

fun latest_by_chat ::
  "wx_env \<Rightarrow> json list \<Rightarrow> (string \<rightharpoonup> int \<times> string \<times> string) \<Rightarrow> (string \<rightharpoonup> int \<times> string \<times> string)" where
  "latest_by_chat env [] best = best"
| "latest_by_chat env (item # rest) best = (case token_candidate env item of
      None \<Rightarrow> latest_by_chat env rest best
    | Some (chat_id, t, m, tok) \<Rightarrow>
        latest_by_chat env rest (if newer_candidate (t, m) (best chat_id) then best(chat_id \<mapsto> (t, m, tok)) else best))"

definition recover_context_tokens_from_inbox ::
  "wx_env \<Rightarrow> wx_world \<Rightarrow> string \<Rightarrow> disk \<Rightarrow> gateway_error + (string \<rightharpoonup> string)" where
  "recover_context_tokens_from_inbox env w i d =
    rbind (load_inbox env w i d) (\<lambda>inbox. Inr (case Option.bind (oget inbox ''items'') as_object of
      None \<Rightarrow> Map.empty
    | Some items \<Rightarrow> (\<lambda>chat. map_option (\<lambda>(t, m, tok). tok) (latest_by_chat env (map snd items) Map.empty chat))))"

definition cached_or_recovered :: "wx_env \<Rightarrow> wx_world \<Rightarrow> string \<Rightarrow> string \<Rightarrow> disk \<Rightarrow> (gateway_error + string) \<times> disk" where
  "cached_or_recovered env w i chat_id d =
    (let tokens = load_context_tokens env w i d;
         cached = trim (or_else [] (Option.bind (oget tokens chat_id) as_str)) in
     if cached \<noteq> [] then (Inr cached, d)
     else (case recover_context_tokens_from_inbox env w i d of
         Inl e \<Rightarrow> (Inl e, d)
       | Inr recovered \<Rightarrow>
           let latest = trim (or_else [] (recovered chat_id)) in
           if latest = [] then (Inr cached, d)
           else (case save_context_tokens env w i (oput chat_id (JStr latest) tokens) d of
               (Inl e, d1) \<Rightarrow> (Inl e, d1) | (Inr u, d1) \<Rightarrow> (Inr latest, d1))))"

definition load_or_recover_context_token ::
  "wx_env \<Rightarrow> wx_world \<Rightarrow> string \<Rightarrow> string \<Rightarrow> wx_adapter \<Rightarrow> (gateway_error + string) \<times> wx_adapter" where
  "load_or_recover_context_token env w i chat_id = with_context_token_lock env w i (\<lambda>s.
     case cached_or_recovered env w i chat_id (wxa_files s) of (res, d1) \<Rightarrow> (res, s\<lparr>wxa_files := d1\<rparr>))"

end
