(* ===== verification/Weixin_Adapter.thy ===== *)
theory Weixin_Adapter
  imports Weixin_Inbox
begin

text \<open>
  The calls of \<^verbatim>\<open>src/adapters/weixin.rs\<close> to the provider and the adapter interface of \<^verbatim>\<open>WeixinAdapter\<close>: polling,
  QR codes, media uploads, sending, and the normalisation of an update. Replies, fresh identifiers and keys are
  inputs; the requests a send makes are recorded in the order in which they are made.
\<close>

section \<open>Requests\<close>

datatype wx_reply = NoReply string | Reply nat string
datatype wx_request = ApiPost string json | CdnPost string string

definition platform_unavailable :: "string \<Rightarrow> gateway_error" where
  "platform_unavailable message = gateway_error_new 502 ''PLATFORM_UNAVAILABLE'' message"

definition decode_json_response :: "wx_env \<Rightarrow> string \<Rightarrow> nat \<Rightarrow> string \<Rightarrow> gateway_error + json" where
  "decode_json_response env prefx status raw =
    (if \<not> is_success status then Inl (platform_unavailable (prefx @ '' with HTTP '' @ wxe_status_text env status @ '': '' @ raw))
     else if trim raw = [] then Inr (JObj [])
     else ok_or (platform_unavailable (prefx @ '' returned invalid JSON'')) (from_str (wxe_gate env) raw))"

definition request_json :: "wx_env \<Rightarrow> string \<Rightarrow> string \<Rightarrow> wx_adapter \<Rightarrow> wx_reply \<Rightarrow> gateway_error + json" where
  "request_json env verb endpoint s reply =
    (let prefx = ''Weixin '' @ verb @ '' '' @ endpoint @ '' failed'' in
     case reply of
       NoReply err \<Rightarrow> Inl (weixin_error s (prefx @ '': '' @ err))
     | Reply status raw \<Rightarrow> decode_json_response env prefx status raw)"

definition weixin_get_json where "weixin_get_json env = request_json env ''GET''"
definition weixin_post_json where "weixin_post_json env = request_json env ''POST''"

definition ep_get_updates :: string where "ep_get_updates = ''ilink/bot/getupdates''"
definition ep_get_upload_url :: string where "ep_get_upload_url = ''ilink/bot/getuploadurl''"
definition ep_send_message :: string where "ep_send_message = ''ilink/bot/sendmessage''"
definition ep_get_bot_qr :: string where "ep_get_bot_qr = ''ilink/bot/get_bot_qrcode''"
definition ep_get_qr_status :: string where "ep_get_qr_status = ''ilink/bot/get_qrcode_status''"

section \<open>QR codes\<close>

record qr_challenge =
  qr_code :: string
  qr_img_content :: string
  qr_bot_type :: string

definition request_qr_challenge :: "wx_env \<Rightarrow> wx_adapter \<Rightarrow> wx_reply \<Rightarrow> string \<Rightarrow> gateway_error + qr_challenge" where
  "request_qr_challenge env s reply bot_type =
    (let bot_type = (if trim bot_type = [] then ''3'' else trim bot_type) in
     rbind (weixin_get_json env (ep_get_bot_qr @ ''?bot_type='' @ wxe_url_encode env bot_type) s reply) (\<lambda>payload.
     let code = trim (or_else [] (get_str payload ''qrcode'')) in
     if code = [] then Inl (weixin_error s ''Weixin QR response did not include qrcode'')
     else Inr \<lparr>qr_code = code, qr_img_content = trim (or_else [] (get_str payload ''qrcode_img_content'')), qr_bot_type = bot_type\<rparr>))"

definition poll_qr_status :: "wx_env \<Rightarrow> wx_adapter \<Rightarrow> wx_reply \<Rightarrow> string \<Rightarrow> gateway_error + json" where
  "poll_qr_status env s reply code = weixin_get_json env (ep_get_qr_status @ ''?qrcode='' @ wxe_url_encode env code) s reply"

section \<open>Polling\<close>

record weixin_poll_batch =
  pb_updates :: "json list"
  pb_next_cursor :: string

definition poll_not_configured :: "(string \<times> json) list" where
  "poll_not_configured = [(''status'', JStr ''waiting_for_credentials''), (''connected'', JBool False),
     (''last_poll_outcome'', JStr ''waiting_for_credentials'')]"

definition poll_started :: "string \<Rightarrow> (string \<times> json) list" where
  "poll_started at = [(''status'', JStr ''polling''), (''connected'', JBool True), (''last_error'', JStr []),
     (''last_poll_outcome'', JStr ''polling''), (''last_poll_at'', JStr at), (''last_getupdates_error'', JStr []),
     (''last_getupdates_message_ids'', JArr []), (''last_getupdates_private_message_ids'', JArr [])]"

definition poll_idle :: "string \<Rightarrow> string \<Rightarrow> (string \<times> json) list" where
  "poll_idle at buf = [(''status'', JStr ''polling_idle''), (''connected'', JBool True), (''last_error'', JStr []),
     (''last_poll_outcome'', JStr ''idle_timeout''), (''last_poll_at'', JStr at), (''last_getupdates_at'', JStr at),
     (''last_getupdates_buf'', JStr buf), (''last_getupdates_error'', JStr []), (''last_getupdates_count'', JInt 0),
     (''last_private_text_message_count'', JInt 0), (''last_getupdates_message_ids'', JArr []),
     (''last_getupdates_private_message_ids'', JArr [])]"

definition poll_failed :: "string \<Rightarrow> string \<Rightarrow> string \<Rightarrow> (string \<times> json) list" where
  "poll_failed at status err = [(''status'', JStr status), (''connected'', JBool False), (''last_error'', JStr err),
     (''last_poll_outcome'', JStr ''error''), (''last_poll_at'', JStr at), (''last_getupdates_at'', JStr at),
     (''last_getupdates_error'', JStr err), (''last_getupdates_count'', JInt 0), (''last_private_text_message_count'', JInt 0),
     (''last_getupdates_message_ids'', JArr []), (''last_getupdates_private_message_ids'', JArr [])]"

definition known_ids :: "json list \<Rightarrow> json" where
  "known_ids messages = JArr (map JStr (filter (\<lambda>i. i \<noteq> []) (map extract_weixin_message_id messages)))"

definition is_private :: "json \<Rightarrow> bool" where
  "is_private item \<longleftrightarrow> trim (or_else [] (get_str item ''room_id'')) = []"

definition poll_answered :: "string \<Rightarrow> string \<Rightarrow> json list \<Rightarrow> (string \<times> json) list" where
  "poll_answered at next_sync messages =
    (let private = filter is_private messages in
     [(''status'', JStr ''polling_idle''), (''connected'', JBool True), (''last_error'', JStr []),
      (''last_poll_outcome'', JStr (if messages = [] then ''empty'' else ''messages'')), (''last_getupdates_at'', JStr at),
      (''last_getupdates_buf'', JStr next_sync), (''last_getupdates_count'', JInt (int (length messages))),
      (''last_private_text_message_count'', JInt (int (length private))), (''last_getupdates_message_ids'', known_ids messages),
      (''last_getupdates_private_message_ids'', known_ids private), (''last_getupdates_error'', JStr [])]
     @ (if private = [] then [] else [(''last_private_text_message_at'', JStr at)]))"

definition poll_updates ::
  "wx_env \<Rightarrow> wx_world \<Rightarrow> weixin_config \<Rightarrow> wx_reply \<Rightarrow> wx_adapter \<Rightarrow> (gateway_error + weixin_poll_batch) \<times> wx_adapter" where
  "poll_updates env w config reply s =
    (let s1 = refresh_account_from_disk env w config 1 (refresh_account_from_disk env w config 0 s); a = wxa_account s1 in
     if \<not> account_configured a
     then (Inr \<lparr>pb_updates = [], pb_next_cursor = []\<rparr>, update_transport env w poll_not_configured s1)
     else
       let s2 = update_transport env w (poll_started (wx_now env w)) s1;
           sync_buf = load_sync_buf env w (acct_id a) (wxa_files s2);
           s3 = ww_between w 2 s2 in
       (case weixin_post_json env ep_get_updates s3 reply of
           Inl e \<Rightarrow>
             let error_text = redact_sensitive_text [acct_id a, acct_token a] (err_message e);
                 status = poll_status_for_error env error_text in
             if status = ''idle_timeout''
             then (Inr \<lparr>pb_updates = [], pb_next_cursor = sync_buf\<rparr>, update_transport env w (poll_idle (wx_now env w) sync_buf) s3)
             else (Inl e, update_transport env w (poll_failed (wx_now env w) status error_text) s3)
         | Inr response \<Rightarrow>
             let next_sync = or_else sync_buf (get_str response ''get_updates_buf'');
                 messages = filter is_object (or_else [] (Option.bind (jget response ''msgs'') as_array)) in
             (Inr \<lparr>pb_updates = messages, pb_next_cursor = next_sync\<rparr>,
              update_transport env w (poll_answered (wx_now env w) next_sync messages) s3)))"

section \<open>Inbound messages\<close>

definition keep_context_token ::
  "wx_env \<Rightarrow> wx_world \<Rightarrow> weixin_config \<Rightarrow> string \<Rightarrow> string \<Rightarrow> wx_adapter \<Rightarrow> (gateway_error + unit) \<times> wx_adapter" where
  "keep_context_token env w config chat_id token s =
    (let s1 = refresh_account_from_disk env w config 0 s; a = wxa_account s1 in
     if token = [] then (Inr (), s)
     else if acct_id a = [] then (Inr (), s1)
     else with_context_token_lock env w (acct_id a) (\<lambda>s2.
       if acct_id (wxa_account s2) \<noteq> acct_id a \<or> acct_token (wxa_account s2) \<noteq> acct_token a
       then (Inl (account_changed ''during inbound processing''), s2)
       else (case save_context_token_unlocked env w (acct_id a) chat_id token (wxa_files s2) of
           (Inl e, d1) \<Rightarrow> (Inl e, s2\<lparr>wxa_files := d1\<rparr>)
         | (Inr u, d1) \<Rightarrow> (Inr (), update_transport env w [(''last_context_token_at'', JStr (wx_now env w))]
             (s2\<lparr>wxa_files := d1\<rparr>)))) (ww_between w 1 s1))"

definition weixin_normalize_inbound ::
  "wx_env \<Rightarrow> wx_world \<Rightarrow> weixin_config \<Rightarrow> json \<Rightarrow> wx_adapter \<Rightarrow> (gateway_error + inbound_message) \<times> wx_adapter" where
  "weixin_normalize_inbound env w config payload s =
    (let field = (\<lambda>k. trim (or_else [] (get_str payload k)));
         sender_id = field ''from_user_id''; room_id = field ''room_id'';
         chat_id = (if room_id = [] then sender_id else room_id);
         content = extract_text_from_item_list (Option.bind (jget payload ''item_list'') as_array);
         message_id = extract_weixin_message_id payload in
     if room_id \<noteq> [] then (Inl (validation ''Weixin group chats are not supported yet''), s)
     else if sender_id = [] then (Inl (validation ''Weixin payload must include from_user_id''), s)
     else if content = [] then (Inl (validation ''Weixin payload does not contain a text message''), s)
     else
       let s1 = update_transport env w [(''connected'', JBool True), (''last_inbound_at'', JStr (wx_now env w)),
             (''last_inbound_message_id'', JStr message_id), (''last_inbound_chat_id'', JStr chat_id),
             (''last_private_text_message_at'', JStr (wx_now env w))] s in
       (case keep_context_token env w config chat_id (field ''context_token'') s1 of
           (Inl e, s2) \<Rightarrow> (Inl e, s2)
         | (Inr u, s2) \<Rightarrow> (Inr \<lparr>in_platform = ''weixin'', in_chat_id = chat_id, in_user_id = sender_id, in_text = content,
             in_message_id = message_id, in_chat_type = ''p2p'', in_route_key = field ''route_key'', in_session_id = [],
             in_mentions = [], in_attachments = [], in_metadata = [], in_timestamp = wx_now env w, in_raw_payload = payload\<rparr>, s2)))"

text \<open>What every gateway client of an adapter relies on.\<close>

interpretation weixin: platform_adapter "\<lambda>payload. fst (weixin_normalize_inbound env w config payload s)" for env w config s
  by unfold_locales
    (auto simp: weixin_normalize_inbound_def addressed_def Let_def split: if_splits prod.splits sum.splits)

section \<open>Uploads\<close>

datatype cdn_reply = CdnFailed string | CdnReply nat "string option" string

record upload_inputs =
  up_filekey :: string
  up_aeskey :: string
  up_reply :: wx_reply
  up_cdn :: "nat \<Rightarrow> cdn_reply"

definition hex_digit :: "nat \<Rightarrow> char" where
  "hex_digit n = (if n < 10 then char_of (48 + n) else char_of (87 + n))"

definition hex_lower :: "string \<Rightarrow> string" where
  "hex_lower bytes = concat (map (\<lambda>b. [hex_digit (of_char b div 16), hex_digit (of_char b mod 16)]) bytes)"

text \<open>The attempts still to make, and the text of the last failure. The number of posts is returned with the result.\<close>

fun cdn_attempts :: "wx_env \<Rightarrow> string \<Rightarrow> (nat \<Rightarrow> cdn_reply) \<Rightarrow> nat list \<Rightarrow> nat \<Rightarrow> string \<Rightarrow> (string + string) \<times> nat" where
  "cdn_attempts env label replies [] made err = (Inl err, made)"
| "cdn_attempts env label replies (k # rest) made err = (case replies k of
      CdnFailed e \<Rightarrow> cdn_attempts env label replies rest (Suc made) (label @ '': CDN request failed: '' @ e)
    | CdnReply status header body \<Rightarrow>
        if is_success status
        then let param = trim (or_else [] header) in
          if param = [] then cdn_attempts env label replies rest (Suc made) ''CDN upload response missing x-encrypted-param header''
          else (Inr param, Suc made)
        else let err = label @ '': CDN HTTP '' @ wxe_status_text env status @ '': '' @ body in
          if 400 \<le> status \<and> status < 500 then (Inl err, Suc made)
          else cdn_attempts env label replies rest (Suc made) err)"

definition cdn_upload_max_retries :: nat where "cdn_upload_max_retries = 3"

definition cdn_upload_url :: "wx_env \<Rightarrow> weixin_config \<Rightarrow> json \<Rightarrow> string \<Rightarrow> string option" where
  "cdn_upload_url env config response filekey =
    (let full = trim (or_else [] (get_str response ''upload_full_url'')); param = trim (or_else [] (get_str response ''upload_param'')) in
     if full \<noteq> [] then Some full
     else if param = [] then None
     else Some (trim_end_matches CHR ''/'' (wx_cdn_base_url config) @ ''/upload?encrypted_query_param='' @ wxe_url_encode env param
       @ ''&filekey='' @ wxe_url_encode env filekey))"

text \<open>\<open>aes\<close> is AES-128 in ECB mode with PKCS 7 padding. The result comes with the requests that were made.\<close>

definition upload_binary_to_cdn ::
  "wx_env \<Rightarrow> (string \<Rightarrow> string \<Rightarrow> string) \<Rightarrow> weixin_config \<Rightarrow> wx_adapter \<Rightarrow> upload_inputs \<Rightarrow> string \<Rightarrow> json \<Rightarrow> string \<Rightarrow>
   (gateway_error + string) \<times> wx_request list" where
  "upload_binary_to_cdn env aes config s up plaintext response label =
    (case cdn_upload_url env config response (up_filekey up) of
        None \<Rightarrow> (Inl (weixin_error s (label @ '': CDN upload URL missing'')), [])
      | Some url \<Rightarrow> (case cdn_attempts env label (up_cdn up) [1..<Suc cdn_upload_max_retries] 0 [] of
            (outcome, made) \<Rightarrow>
              (case outcome of Inl err \<Rightarrow> Inl (weixin_error s err) | Inr param \<Rightarrow> Inr param,
               replicate made (CdnPost url (aes (up_aeskey up) plaintext)))))"

definition upload_request :: "wx_env \<Rightarrow> upload_inputs \<Rightarrow> int \<Rightarrow> string \<Rightarrow> string \<Rightarrow> json" where
  "upload_request env up media_type to_user_id bytes = jobj
     [(''filekey'', JStr (up_filekey up)), (''media_type'', JInt media_type), (''to_user_id'', JStr to_user_id),
      (''rawsize'', JInt (int (length bytes))), (''rawfilemd5'', JStr (wxe_md5 env bytes)),
      (''filesize'', JInt (int (aes_ecb_padded_size (length bytes)))), (''no_need_thumb'', JBool True),
      (''aeskey'', JStr (hex_lower (up_aeskey up)))]"

text \<open>The part that \<^verbatim>\<open>upload_image\<close> and \<^verbatim>\<open>upload_media\<close> share: the file, the upload address, the upload.\<close>

definition upload_bytes ::
  "wx_env \<Rightarrow> (string \<Rightarrow> string \<Rightarrow> string) \<Rightarrow> wx_files \<Rightarrow> weixin_config \<Rightarrow> wx_adapter \<Rightarrow> upload_inputs \<Rightarrow> string \<Rightarrow> int \<Rightarrow>
   native_weixin_attachment \<Rightarrow> string \<Rightarrow> (gateway_error + string \<times> string) \<times> wx_request list" where
  "upload_bytes env aes fs config s up noun media_type attachment to_user_id =
    (case wf_content fs (na_path attachment) of
        None \<Rightarrow> (Inl (weixin_error s (''Could not read Weixin '' @ noun @ '' artifact '' @ na_path attachment @ '': '' @ wxe_os_text env)), [])
      | Some bytes \<Rightarrow>
          if bytes = [] then (Inl (weixin_error s (''Weixin '' @ noun @ '' artifact is empty: '' @ na_path attachment)), [])
          else
            let post = ApiPost ep_get_upload_url (upload_request env up media_type to_user_id bytes) in
            (case weixin_post_json env ep_get_upload_url s (up_reply up) of
                Inl e \<Rightarrow> (Inl e, [post])
              | Inr response \<Rightarrow> (case upload_binary_to_cdn env aes config s up bytes response (''weixin-'' @ noun @ ''-orig'') of
                    (res, posts) \<Rightarrow> (rbind res (\<lambda>param. Inr (param, bytes)), post # posts))))"

definition upload_image where
  "upload_image env aes fs config s up attachment to_user_id =
    (case upload_bytes env aes fs config s up ''image'' 1 attachment to_user_id of
      (res, posts) \<Rightarrow> (rbind res (\<lambda>(param, bytes). Inr \<lparr>ui_media_id = up_filekey up, ui_download_param = param,
        ui_aeskey_hex = hex_lower (up_aeskey up), ui_ciphertext_size = aes_ecb_padded_size (length bytes)\<rparr>), posts))"

definition upload_media where
  "upload_media env aes fs config s up media_type attachment to_user_id =
    (case upload_bytes env aes fs config s up ''media'' media_type attachment to_user_id of
      (res, posts) \<Rightarrow> (rbind res (\<lambda>(param, bytes). Inr \<lparr>um_media_id = up_filekey up, um_download_param = param,
        um_aeskey_hex = hex_lower (up_aeskey up), um_plaintext_size = length bytes,
        um_ciphertext_size = aes_ecb_padded_size (length bytes)\<rparr>), posts))"

text \<open>One attachment: its media id, its message item, and whether it is sent as a plain file.\<close>

definition upload_attachment ::
  "wx_env \<Rightarrow> (string \<Rightarrow> string \<Rightarrow> string) \<Rightarrow> wx_files \<Rightarrow> weixin_config \<Rightarrow> wx_adapter \<Rightarrow> upload_inputs \<Rightarrow>
   native_weixin_attachment \<Rightarrow> string \<Rightarrow> (gateway_error + string \<times> json \<times> bool) \<times> wx_request list" where
  "upload_attachment env aes fs config s up attachment to_user_id =
    (if na_delivery_kind attachment = ''image''
     then (case upload_image env aes fs config s up attachment to_user_id of
         (res, posts) \<Rightarrow> (rbind res (\<lambda>u. Inr (ui_media_id u, build_native_image_message_item env u, False)), posts))
     else (case upload_media env aes fs config s up (if na_delivery_kind attachment = ''video'' then 2 else 3) attachment to_user_id of
         (res, posts) \<Rightarrow> (rbind res (\<lambda>u.
           if na_delivery_kind attachment = ''video'' then Inr (um_media_id u, build_native_video_message_item env u, False)
           else Inr (um_media_id u, build_native_file_message_item env u (na_file_name attachment), True)), posts)))"

end
