(* ===== verification/Weixin_Facts.thy ===== *)
theory Weixin_Facts
  imports Weixin_Adapter
begin

text \<open>
  What the operations of \<open>Weixin_Inbox\<close> and \<open>Weixin_Adapter\<close> do to one item of the inbox. The locale
  \<open>inbox_item_invariant\<close> carries a statement about an item through every sequence of operations; its
  interpretations are the tombstone of a finished update, the identity of a stored one and a running lease.
\<close>

section \<open>One item of the inbox file\<close>

definition inbox_entry :: "wx_env \<Rightarrow> string \<Rightarrow> string \<Rightarrow> disk \<Rightarrow> json option" where
  "inbox_entry env i k d =
    Option.bind (Option.bind (d (inbox_file env i)) (from_str (wxe_gate env))) (\<lambda>v.
    Option.bind (Option.bind (jget v ''items'') as_object) (\<lambda>items. oget items k))"

definition entry_has :: "wx_env \<Rightarrow> string \<Rightarrow> string \<Rightarrow> (json \<Rightarrow> bool) \<Rightarrow> wx_adapter \<Rightarrow> bool" where
  "entry_has env i k holds s \<longleftrightarrow> (\<exists>item. inbox_entry env i k (wxa_files s) = Some item \<and> holds item)"

text \<open>Values that fit below \<open>n\<close> levels of a document that can be read back.\<close>

definition fits_below :: "wx_env \<Rightarrow> nat \<Rightarrow> json \<Rightarrow> bool" where
  "fits_below env n v \<longleftrightarrow> jwf (f64_text (wxe_gate env)) v \<and> jdepth v \<le> n"

lemma fits_read_back:
  "serde_ok (wxe_gate env) \<Longrightarrow> fits_below env 127 v \<Longrightarrow> from_str (wxe_gate env) (to_vec_pretty (wxe_gate env) v) = Some v"
  by (simp add: serde_ok_def fits_below_def)

lemma read_fits: "serde_ok (wxe_gate env) \<Longrightarrow> from_str (wxe_gate env) raw = Some v \<Longrightarrow> fits_below env 127 v"
  by (simp add: serde_ok_def fits_below_def)

lemma fits_oget:
  assumes "fits_below env (Suc n) (JObj m)" "oget m k = Some v"
  shows "fits_below env n v"
proof -
  have "v \<in> snd ` set m" using assms(2) by (force simp: oget_def dest: map_of_SomeD)
  with assms(1) have "jdepth v \<le> n" unfolding fits_below_def jdepth_obj_le by auto
  with assms jwf_oget show ?thesis by (auto simp: fits_below_def simp del: jwf.simps)
qed

lemma fits_oput: "fits_below env (Suc n) (JObj m) \<Longrightarrow> fits_below env n v \<Longrightarrow> fits_below env (Suc n) (JObj (oput k v m))"
  unfolding fits_below_def by (intro conjI jwf_oput jdepth_oput) (auto simp: less_Suc_eq_le)

lemma fits_oputs:
  "fits_below env (Suc n) (JObj m) \<Longrightarrow> list_all (fits_below env n) (map snd kvs) \<Longrightarrow> fits_below env (Suc n) (JObj (oputs kvs m))"
  by (induction kvs m rule: oputs.induct) (auto intro!: fits_oput)

lemma fits_empty [simp]: "0 < n \<Longrightarrow> fits_below env n (JObj [])"
  by (simp add: fits_below_def owf_def)

lemma fits_scalars [simp]: "fits_below env n JNull" "fits_below env n (JBool b)" "fits_below env n (JStr t)"
  "fits_below env n (jstr_opt x)" "0 \<le> j \<Longrightarrow> j \<le> int u64_max \<Longrightarrow> fits_below env n (JInt j)"
  by (auto simp: fits_below_def jstr_opt_def i64_min_def split: option.splits)

lemma fits_mono: "fits_below env n v \<Longrightarrow> n \<le> m \<Longrightarrow> fits_below env m v"
  by (simp add: fits_below_def)

section \<open>Loading and saving\<close>

lemma load_inbox_fits: "serde_ok (wxe_gate env) \<Longrightarrow> load_inbox env w i d = Inr inbox \<Longrightarrow> fits_below env 127 (JObj inbox)"
proof (cases "\<not> ww_stat w (inbox_file env i) \<or> d (inbox_file env i) = None")
  case True
  moreover have "fits_below env (Suc 126) (JObj (oputs [(''version'', JInt 1), (''items'', JObj []), (''updated_at'', JStr t)] []))" for t
    by (rule fits_oputs) (auto simp: u64_max_def)
  moreover assume "load_inbox env w i d = Inr inbox"
  ultimately show ?thesis by (auto simp: load_inbox_def Let_def)
next
  case False
  assume "serde_ok (wxe_gate env)" "load_inbox env w i d = Inr inbox"
  with False show ?thesis by (auto simp: load_inbox_def Let_def dest: read_fits)
qed

text \<open>What a load shows is what the file holds, as long as the file can be examined.\<close>

lemma load_inbox_entry:
  assumes "load_inbox env w i d = Inr inbox" "ww_stat w (inbox_file env i)" "inbox_items inbox = Some items"
  shows "inbox_entry env i k d = oget items k"
proof (cases "d (inbox_file env i)")
  case None
  with assms show ?thesis by (auto simp: load_inbox_def Let_def inbox_entry_def inbox_items_def)
next
  case (Some raw)
  with assms have "from_str (wxe_gate env) raw = Some (JObj inbox)"
    by (auto simp: load_inbox_def Let_def read_text_def split: if_splits)
  with Some assms(3) show ?thesis by (auto simp: inbox_entry_def inbox_items_def split: option.splits)
qed

lemma items_fit:
  assumes "fits_below env 127 (JObj inbox)" "inbox_items inbox = Some items"
  shows "fits_below env 126 (JObj items)"
proof (cases "oget inbox ''items''")
  case None
  with assms(2) show ?thesis by (simp add: inbox_items_def)
next
  case (Some v)
  with assms(2) have "v = JObj items" by (simp add: inbox_items_def)
  with fits_oget [of env 126 inbox "''items''" v] Some assms(1) show ?thesis by simp
qed

lemma put_items_fit:
  "fits_below env 127 (JObj inbox) \<Longrightarrow> fits_below env 126 (JObj items) \<Longrightarrow> fits_below env 127 (JObj (put_items env w items inbox))"
  using fits_oput [of env 126 _ _ ] unfolding put_items_def by simp

lemma save_inbox_entry:
  assumes "serde_ok (wxe_gate env)" "save_inbox env w i inbox d = (Inr u, d')" "fits_below env 127 (JObj inbox)"
    and "oget inbox ''items'' = Some (JObj items)" "inbox_file env j = inbox_file env i"
  shows "inbox_entry env j k d' = oget items k"
  using assms fits_read_back [of env "JObj inbox"] by (auto simp: save_inbox_def replace_file_def inbox_entry_def split: if_splits)

lemma save_inbox_other:
  "save_inbox env w j inbox d = (res, d') \<Longrightarrow> inbox_file env j \<noteq> inbox_file env i \<or> (\<exists>e. res = Inl e) \<Longrightarrow>
   inbox_entry env i k d' = inbox_entry env i k d"
  by (auto simp: save_inbox_def replace_file_def inbox_entry_def split: if_splits)

section \<open>Other files\<close>

lemma suffix_neq: "rev a \<noteq> take (length a) (rev b @ rev y) \<Longrightarrow> x @ a \<noteq> y @ b"
  by (metis append_take_drop_id length_rev rev_append append_eq_conv_conj)

lemma inbox_not_other [simp]:
  "inbox_file env i \<noteq> transport_state_file env j" "inbox_file env i \<noteq> context_file env j"
  "inbox_file env i \<noteq> processed_file env j" "inbox_file env i \<noteq> sync_file env j"
  "inbox_file env i \<noteq> safe_slug env j @ ''.context_tokens.lock''"
  "sync_file env i \<noteq> inbox_file env j" "sync_file env i \<noteq> transport_state_file env j"
  by (auto simp: inbox_file_def transport_state_file_def context_file_def processed_file_def sync_file_def
      dest!: arg_cong [where f = rev])

lemma inbox_entry_upd [simp]: "f \<noteq> inbox_file env i \<Longrightarrow> inbox_entry env i k (d(f := v)) = inbox_entry env i k d"
  by (simp add: inbox_entry_def)

lemma update_transport_entry [simp]:
  "inbox_entry env i k (wxa_files (update_transport env w ups s)) = inbox_entry env i k (wxa_files s)"
  by (auto simp: update_transport_def Let_def save_weixin_transport_state_def write_file_def inbox_not_other [symmetric]
      simp del: inbox_not_other(6,7) split: option.splits)

lemma update_transport_account [simp]: "wxa_account (update_transport env w ups s) = wxa_account s"
  by (simp add: update_transport_def Let_def)

lemma update_transport_has [simp]: "entry_has env i k holds (update_transport env w ups s) = entry_has env i k holds s"
  by (simp add: entry_has_def)

section \<open>Items that the operations write\<close>

lemma fits_item: "fits_below env 125 (JObj m) \<Longrightarrow> list_all (fits_below env 124) (map snd kvs) \<Longrightarrow> fits_below env 125 (JObj (oputs kvs m))"
  using fits_oputs [of env 124] by simp

lemma fits_object: "fits_below env 125 item \<Longrightarrow> fits_below env 125 (JObj (or_else [] (as_object item)))"
  by (cases item) simp_all

lemma claimed_item_fits: "fits_below env 125 item \<Longrightarrow> fits_below env 125 (claimed_inbox_item env w owner token expires item)"
  unfolding claimed_inbox_item_def by (intro fits_item fits_object) simp_all

lemma finished_item_fits: "fits_below env 125 item \<Longrightarrow> fits_below env 125 (finished_inbox_item env w ok rt err item)"
  unfolding finished_inbox_item_def by (intro fits_item fits_object) simp_all

lemma new_item_fits: "fits_below env 124 payload \<Longrightarrow> fits_below env 125 (new_inbox_item env w k payload)"
  unfolding new_inbox_item_def jobj_def by (intro fits_item) simp_all

lemma put_item_fits: "fits_below env 126 (JObj items) \<Longrightarrow> fits_below env 125 item \<Longrightarrow> fits_below env 126 (JObj (oput k item items))"
  using fits_oput [of env 125] by simp

lemma store_updates_fits:
  "store_updates env w i us items = Inr items' \<Longrightarrow> fits_below env 126 (JObj items) \<Longrightarrow> list_all (fits_below env 124) us \<Longrightarrow>
   fits_below env 126 (JObj items')"
  by (induction env w i us items rule: store_updates.induct)
    (auto simp: Let_def put_item_fits new_item_fits split: option.splits if_splits)

lemma store_updates_keeps: "store_updates env w i us items = Inr items' \<Longrightarrow> oget items k = Some item \<Longrightarrow> oget items' k = Some item"
proof (induction env w i us items rule: store_updates.induct)
  case (2 env w i p us items)
  show ?case
  proof (cases "oget items (stable_weixin_inbox_id env i p)")
    case None
    with 2(4) have "k \<noteq> stable_weixin_inbox_id env i p" by auto
    with None 2 show ?thesis by (simp add: Let_def)
  next
    case (Some old)
    with 2 show ?thesis by (simp add: Let_def split: if_splits)
  qed
qed simp

text \<open>Every update of a stored batch has an item with its fingerprint.\<close>

lemma store_updates_stores:
  "store_updates env w i us items = Inr items' \<Longrightarrow> u \<in> set us \<Longrightarrow>
   \<exists>item. oget items' (stable_weixin_inbox_id env i u) = Some item
     \<and> get_str item ''payload_fingerprint'' = Some (weixin_payload_fingerprint env u)"
proof (induction env w i us items rule: store_updates.induct)
  case (2 env w i p us items)
  show ?case
  proof (cases "u \<in> set us")
    case True
    with 2 show ?thesis by (auto simp: Let_def split: option.splits if_splits)
  next
    case False
    with 2(4) have u: "u = p" by simp
    show ?thesis
    proof (cases "oget items (stable_weixin_inbox_id env i p)")
      case None
      with 2(3) u show ?thesis
        by (auto simp: Let_def new_inbox_item_def jget_jobj dest!: store_updates_keeps
            [where k = "stable_weixin_inbox_id env i p" and item = "new_inbox_item env w (stable_weixin_inbox_id env i p) p"])
    next
      case (Some item)
      with 2(3) u show ?thesis by (auto simp: Let_def split: if_splits dest: store_updates_keeps)
    qed
  qed
qed simp

section \<open>Sequences of operations\<close>

datatype wx_op =
    WxPoll wx_world wx_reply
  | WxPersist wx_world "json list"
  | WxCommit wx_world string
  | WxClaim wx_world string nat string
  | WxFinish wx_world string string bool bool "string option"
  | WxProcessed wx_world json
  | WxInbound wx_world json
  | WxToken wx_world string string

text \<open>The new state, and for a granted claim the account and the answer.\<close>

fun wx_step :: "wx_env \<Rightarrow> weixin_config \<Rightarrow> wx_op \<Rightarrow> wx_adapter \<Rightarrow> (string \<times> json) option \<times> wx_adapter" where
  "wx_step env config (WxPoll w reply) s = (None, snd (poll_updates env w config reply s))"
| "wx_step env config (WxPersist w updates) s = (None, snd (persist_inbound_batch env w config updates s))"
| "wx_step env config (WxCommit w cursor) s = (None, snd (commit_poll_cursor env w config cursor s))"
| "wx_step env config (WxClaim w owner lease token) s = (case claim_inbound env w config owner lease token s of
      (Inr (Some answer), s1) \<Rightarrow> (Some (acct_id (wxa_account s1), answer), s1) | (_, s1) \<Rightarrow> (None, s1))"
| "wx_step env config (WxFinish w k token ok retryable err) s = (None, snd (finish_inbound env w config k token ok retryable err s))"
| "wx_step env config (WxProcessed w payload) s = (None, snd (mark_update_processed env w config payload s))"
| "wx_step env config (WxInbound w payload) s = (None, snd (weixin_normalize_inbound env w config payload s))"
| "wx_step env config (WxToken w j chat) s = (None, snd (load_or_recover_context_token env w j chat s))"

fun wx_run :: "wx_env \<Rightarrow> weixin_config \<Rightarrow> wx_op list \<Rightarrow> wx_adapter \<Rightarrow> (string \<times> json) list \<times> wx_adapter" where
  "wx_run env config [] s = ([], s)"
| "wx_run env config (op # ops) s = (case wx_step env config op s of
      (g, s1) \<Rightarrow> (case wx_run env config ops s1 of (gs, s2) \<Rightarrow> (case g of None \<Rightarrow> gs | Some x \<Rightarrow> x # gs, s2)))"

fun wx_op_world :: "wx_op \<Rightarrow> wx_world" where
  "wx_op_world (WxPoll w r) = w" | "wx_op_world (WxPersist w us) = w" | "wx_op_world (WxCommit w c) = w"
| "wx_op_world (WxClaim w ow l t) = w" | "wx_op_world (WxFinish w k t b rt err) = w" | "wx_op_world (WxProcessed w p) = w"
| "wx_op_world (WxInbound w p) = w" | "wx_op_world (WxToken w j c) = w"

text \<open>
  The updates of a batch leave room for the levels above them, the inbox file can be examined, and what others do in
  the gaps keeps the statement.
\<close>

fun wx_op_fits :: "wx_env \<Rightarrow> wx_op \<Rightarrow> bool" where
  "wx_op_fits env (WxPersist w us) = list_all (fits_below env 124) us"
| "wx_op_fits env op = True"

definition undisturbed :: "(wx_adapter \<Rightarrow> bool) \<Rightarrow> wx_world \<Rightarrow> bool" where
  "undisturbed P w \<longleftrightarrow> (\<forall>f. ww_stat w f) \<and> (\<forall>g s. P s \<longrightarrow> P (ww_between w g s))"

lemma refresh_keeps:
  assumes "undisturbed P w" "P s" "\<And>s a t. P (s\<lparr>wxa_account := a, wxa_transport := t\<rparr>) = P s"
  shows "P (refresh_account_from_disk env w config g s)"
  using assms by (auto simp: refresh_account_from_disk_def undisturbed_def Let_def split: option.splits)

lemma entry_has_files [simp]: "entry_has env i k holds (s\<lparr>wxa_account := a, wxa_transport := t\<rparr>) = entry_has env i k holds s"
  by (simp add: entry_has_def)

lemma entry_has_other_file:
  "f \<noteq> inbox_file env i \<Longrightarrow> entry_has env i k holds (s\<lparr>wxa_files := (wxa_files s)(f := v)\<rparr>) = entry_has env i k holds s"
  by (simp add: entry_has_def)

lemma entry_has_same: "wxa_files s' (inbox_file env i) = wxa_files s (inbox_file env i) \<Longrightarrow> entry_has env i k holds s' = entry_has env i k holds s"
  by (simp add: entry_has_def inbox_entry_def)

lemma write_file_other: "write_file env w f v d = (res, d') \<Longrightarrow> g \<noteq> f \<Longrightarrow> d' g = d g"
  by (auto simp: write_file_def split: if_splits option.splits)

lemma replace_file_other: "replace_file env w f v d = (res, d') \<Longrightarrow> g \<noteq> f \<Longrightarrow> d' g = d g"
  by (auto simp: replace_file_def split: if_splits)

section \<open>A statement about one item\<close>

locale inbox_item_invariant =
  fixes env :: wx_env and config :: weixin_config and i :: string and k :: string
    and holds :: "json \<Rightarrow> bool" and permits :: "wx_op \<Rightarrow> bool"
  assumes claimed: "permits (WxClaim w owner lease token) \<Longrightarrow> holds item \<Longrightarrow> inbox_claimable env (ww_now w) item \<Longrightarrow>
      holds (claimed_inbox_item env w owner token expires item)"
    and finished: "permits (WxFinish w k token ok retryable err) \<Longrightarrow> holds item \<Longrightarrow> get_str item ''status'' = Some ''processing'' \<Longrightarrow>
      get_str item ''claim_token'' = Some token \<Longrightarrow> holds (finished_inbox_item env w ok retryable err item)"
begin

abbreviation kept :: "wx_adapter \<Rightarrow> bool" where "kept \<equiv> entry_has env i k holds"

lemma refreshed: "undisturbed kept w \<Longrightarrow> kept s \<Longrightarrow> kept (refresh_account_from_disk env w config g s)"
  by (rule refresh_keeps) simp_all

lemma gap: "undisturbed kept w \<Longrightarrow> kept s \<Longrightarrow> kept (ww_between w g s)"
  by (simp add: undisturbed_def)

text \<open>Replacing the inbox of any account by one whose items continue the old ones.\<close>

lemma saved:
  assumes serde: "serde_ok (wxe_gate env)" and "kept s" "ww_stat w (inbox_file env j)" "load_inbox env w j (wxa_files s) = Inr inbox" "inbox_items inbox = Some items"
    and "oget inbox' ''items'' = Some (JObj items')" "fits_below env 127 (JObj inbox')"
    and "\<And>item. oget items k = Some item \<Longrightarrow> holds item \<Longrightarrow> \<exists>item'. oget items' k = Some item' \<and> holds item'"
    and "save_inbox env w j inbox' (wxa_files s) = (res, d')"
  shows "kept (s\<lparr>wxa_files := d'\<rparr>)"
proof (cases "inbox_file env j = inbox_file env i \<and> (\<exists>u. res = Inr u)")
  case True
  then obtain u where u: "res = Inr u" by blast
  have "inbox_entry env i k (wxa_files s) = oget items k"
    using load_inbox_entry [OF assms(4,3,5)] True by (simp add: inbox_entry_def)
  moreover have "inbox_entry env i k d' = oget items' k"
    using save_inbox_entry [OF serde _ assms(7,6), where j = i] assms(9) u True by simp
  ultimately show ?thesis using assms(2,8) by (auto simp: entry_has_def)
next
  case False
  then show ?thesis using save_inbox_other [OF assms(9), of i k] assms(2) by (cases res) (auto simp: entry_has_def)
qed

lemma stored:
  assumes serde: "serde_ok (wxe_gate env)" and a: "kept s" "undisturbed kept w" "list_all (fits_below env 124) us"
  shows "kept (snd (store_batch env w j us s))"
proof (cases "rbind (load_inbox env w j (wxa_files s)) (\<lambda>inbox. rbind (ok_or (weixin_error s ''Weixin inbox items are invalid'')
      (inbox_items inbox)) (\<lambda>items. rbind (store_updates env w j (filter is_object us) items) (\<lambda>items.
      Inr (oput ''version'' (JInt 1) (put_items env w items inbox)))))")
  case (Inr inbox')
  from Inr obtain inbox items items' where l: "load_inbox env w j (wxa_files s) = Inr inbox" "inbox_items inbox = Some items"
      "store_updates env w j (filter is_object us) items = Inr items'" "inbox' = oput ''version'' (JInt 1) (put_items env w items' inbox)"
    by auto
  note f = load_inbox_fits [OF serde l(1)]
  from a(3) have "list_all (fits_below env 124) (filter is_object us)" by (simp add: list_all_iff)
  from store_updates_fits [OF l(3) items_fit [OF f l(2)] this]
  have "fits_below env 127 (JObj inbox')" unfolding l(4)
    using fits_oput [of env 126 "put_items env w items' inbox" "JInt 1"] put_items_fit [OF f] by (simp add: u64_max_def)
  then show ?thesis
    using saved [OF serde a(1) _ l(1,2), of inbox' items'] a(2) store_updates_keeps [OF l(3), of k] Inr
    by (auto simp: store_batch_def l(4) put_items_def undisturbed_def split: prod.splits)
qed (use a in \<open>simp add: store_batch_def\<close>)

lemma claim_kept:
  assumes "kept s" "undisturbed kept w" "permits (WxClaim w owner lease token)"
    and "claim_first env w j owner lease token s = (r, s')" and serde: "serde_ok (wxe_gate env)"
  shows "kept s' \<and> (\<forall>answer. r = Inr (Some answer) \<longrightarrow> inbox_file env j = inbox_file env i \<longrightarrow> get_str answer ''inbox_id'' = Some k \<longrightarrow>
    (\<exists>item. holds item \<and> inbox_claimable env (ww_now w) item)) \<and> wxa_account s' = wxa_account s"
proof (cases "\<exists>inbox items ik item expires. load_inbox env w j (wxa_files s) = Inr inbox \<and> inbox_items inbox = Some items
    \<and> find (\<lambda>(k, item). inbox_claimable env (ww_now w) item) items = Some (ik, item)
    \<and> delivery_claim_expires_at (wxe_gate env) (ww_now w) lease = Inr expires")
  case True
  then obtain inbox items ik item expires where l: "load_inbox env w j (wxa_files s) = Inr inbox" "inbox_items inbox = Some items"
    "find (\<lambda>(k, item). inbox_claimable env (ww_now w) item) items = Some (ik, item)"
    "delivery_claim_expires_at (wxe_gate env) (ww_now w) lease = Inr expires" by blast
  let ?new = "claimed_inbox_item env w owner token expires item"
  let ?inbox = "put_items env w (oput ik ?new items) inbox"
  note f = load_inbox_fits [OF serde l(1)]
  note fi = items_fit [OF f l(2)]
  from find_Some_in [OF l(3)] have it: "(ik, item) \<in> set items" "inbox_claimable env (ww_now w) item" by auto
  from fi have "distinct (map fst items)" by (simp add: fits_below_def owf_def)
  with it(1) have og: "oget items ik = Some item" by (simp add: oget_def)
  have fit: "fits_below env 127 (JObj ?inbox)"
    using fits_oget [of env 125 items ik item] og fi by (intro put_items_fit [OF f] put_item_fits claimed_item_fits) simp_all
  obtain res d' where sv: "save_inbox env w j ?inbox (wxa_files s) = (res, d')" by fastforce
  have keep: "kept (s\<lparr>wxa_files := d'\<rparr>)"
  proof (rule saved [OF serde assms(1) _ l(1,2) _ fit _ sv])
    show "ww_stat w (inbox_file env j)" using assms(2) by (simp add: undisturbed_def)
    show "oget ?inbox ''items'' = Some (JObj (oput ik ?new items))" by (simp add: put_items_def)
    fix item0 assume "oget items k = Some item0" "holds item0"
    then show "\<exists>item'. oget (oput ik ?new items) k = Some item' \<and> holds item'"
      using og claimed [OF assms(3), of item] it(2) by (cases "k = ik") auto
  qed
  moreover have "\<exists>item. holds item \<and> inbox_claimable env (ww_now w) item" if "inbox_file env j = inbox_file env i" "ik = k"
  proof -
    have "inbox_entry env i k (wxa_files s) = oget items k"
      using load_inbox_entry [OF l(1) _ l(2), of k] assms(2) that(1) by (simp add: inbox_entry_def undisturbed_def)
    with assms(1) og that(2) it(2) show ?thesis by (auto simp: entry_has_def)
  qed
  ultimately show ?thesis using assms(4) l sv
    by (auto simp: claim_first_def Let_def claim_answer_def jget_jobj split: sum.splits)
next
  case False
  with assms(1,4) show ?thesis
    by (auto simp: claim_first_def Let_def rbind_eq_Inl split: sum.splits option.splits prod.splits)
qed

lemma finish_kept:
  assumes "kept s" "undisturbed kept w" "permits (WxFinish w ik token ok retryable err)"
    and serde: "serde_ok (wxe_gate env)"
  shows "kept (snd (finish_claim env w j ik token ok retryable err s))"
proof (cases "\<exists>inbox items item. load_inbox env w j (wxa_files s) = Inr inbox \<and> oget inbox ''items'' = Some (JObj items)
    \<and> oget items ik = Some item \<and> get_str item ''status'' = Some ''processing'' \<and> get_str item ''claim_token'' = Some token")
  case True
  then obtain inbox items item where l: "load_inbox env w j (wxa_files s) = Inr inbox" "oget inbox ''items'' = Some (JObj items)"
    "oget items ik = Some item" "get_str item ''status'' = Some ''processing''" "get_str item ''claim_token'' = Some token" by blast
  let ?new = "finished_inbox_item env w ok retryable err item"
  let ?inbox = "put_items env w (oput ik ?new items) inbox"
  have ii: "inbox_items inbox = Some items" using l(2) by (simp add: inbox_items_def)
  note f = load_inbox_fits [OF serde l(1)]
  have fit: "fits_below env 127 (JObj ?inbox)"
    using fits_oget [of env 125 items ik item] l(3) items_fit [OF f ii]
    by (intro put_items_fit [OF f] put_item_fits finished_item_fits) simp_all
  obtain res d' where sv: "save_inbox env w j ?inbox (wxa_files s) = (res, d')" by fastforce
  have "kept (s\<lparr>wxa_files := d'\<rparr>)"
  proof (rule saved [OF serde assms(1) _ l(1) ii _ fit _ sv])
    show "ww_stat w (inbox_file env j)" using assms(2) by (simp add: undisturbed_def)
    show "oget ?inbox ''items'' = Some (JObj (oput ik ?new items))" by (simp add: put_items_def)
    fix item0 assume "oget items k = Some item0" "holds item0"
    then show "\<exists>item'. oget (oput ik ?new items) k = Some item' \<and> holds item'"
      using l(3-5) finished [of w token ok retryable err item] assms(3) by (cases "k = ik") auto
  qed
  then show ?thesis using l sv by (simp add: finish_claim_def)
next
  case False
  with assms(1) show ?thesis
    by (auto simp: finish_claim_def bind_eq_Some_conv split: sum.splits option.splits if_splits)
qed

end

context inbox_item_invariant begin

lemma poll_kept: "kept s \<Longrightarrow> undisturbed kept w \<Longrightarrow> kept (snd (poll_updates env w config reply s))"
  by (auto simp: poll_updates_def Let_def intro!: refreshed gap split: sum.splits)

lemma persist_kept:
  "serde_ok (wxe_gate env) \<Longrightarrow> kept s \<Longrightarrow> undisturbed kept w \<Longrightarrow> list_all (fits_below env 124) us \<Longrightarrow> kept (snd (persist_inbound_batch env w config us s))"
  by (auto simp: persist_inbound_batch_def Let_def intro!: refreshed gap stored)

lemma kept_same: "kept s \<Longrightarrow> d (inbox_file env i) = wxa_files s (inbox_file env i) \<Longrightarrow> kept (s\<lparr>wxa_files := d\<rparr>)"
  by (simp add: entry_has_def inbox_entry_def)

lemma commit_kept:
  assumes "kept s" "undisturbed kept w"
  shows "kept (snd (commit_poll_cursor env w config cursor s))"
proof -
  let ?s1 = "refresh_account_from_disk env w config 0 s"
  let ?s2 = "ww_between w 1 ?s1"
  obtain res d1 where sv: "save_sync_buf env w (acct_id (wxa_account ?s1)) cursor (wxa_files ?s2) = (res, d1)" by fastforce
  have k: "kept ?s1" "kept ?s2" using assms by (auto intro: refreshed gap)
  moreover have "kept (?s2\<lparr>wxa_files := d1\<rparr>)"
    using replace_file_other [OF sv [unfolded save_sync_buf_def], of "inbox_file env i"] by (intro kept_same [OF k(2)]) simp
  ultimately show ?thesis using sv by (simp add: commit_poll_cursor_def Let_def)
qed

lemma processed_kept:
  assumes "kept s" "undisturbed kept w"
  shows "kept (snd (mark_update_processed env w config payload s))"
proof -
  let ?s1 = "refresh_account_from_disk env w config 0 s"
  let ?s2 = "ww_between w 1 ?s1"
  let ?i = "acct_id (wxa_account ?s1)"
  obtain res d1 where sv: "save_processed_messages env w ?i (remember_message (extract_weixin_message_id payload)
      (load_processed_messages env w ?i (wxa_files ?s2))) (wxa_files ?s2) = (res, d1)" by fastforce
  have k: "kept ?s1" "kept ?s2" using assms by (auto intro: refreshed gap)
  moreover have "kept (?s2\<lparr>wxa_files := d1\<rparr>)"
    using write_file_other [OF sv [unfolded save_processed_messages_def], of "inbox_file env i"] by (intro kept_same [OF k(2)]) simp
  ultimately show ?thesis using sv by (simp add: mark_update_processed_def Let_def)
qed

lemma locked_kept:
  "kept s \<Longrightarrow> (\<And>s. kept s \<Longrightarrow> kept (snd (operation s))) \<Longrightarrow> kept (snd (with_context_token_lock env w j operation s))"
  by (auto simp: with_context_token_lock_def with_state_lock_def Let_def entry_has_other_file not_sym [OF inbox_not_other(5)])

lemma token_kept: "kept s \<Longrightarrow> kept (snd (load_or_recover_context_token env w j chat s))"
proof -
  have same: "d' (inbox_file env i) = d (inbox_file env i)" if "cached_or_recovered env w j chat d = (res, d')" for d res d'
    using that by (auto simp: cached_or_recovered_def save_context_tokens_def Let_def
        dest: replace_file_other [where g = "inbox_file env i"] split: if_splits sum.splits prod.splits)
  show "kept s \<Longrightarrow> kept (snd (load_or_recover_context_token env w j chat s))"
    unfolding load_or_recover_context_token_def
    by (erule locked_kept) (auto split: prod.splits dest!: same simp: entry_has_def inbox_entry_def)
qed

lemma keep_token_kept:
  assumes "kept s" "undisturbed kept w"
  shows "kept (snd (keep_context_token env w config chat token s))"
proof -
  let ?a = "wxa_account (refresh_account_from_disk env w config 0 s)"
  have op: "kept (snd (if acct_id (wxa_account s2) \<noteq> acct_id ?a \<or> acct_token (wxa_account s2) \<noteq> acct_token ?a
       then (Inl (account_changed ''during inbound processing''), s2)
       else (case save_context_token_unlocked env w (acct_id ?a) chat token (wxa_files s2) of
           (Inl e, d1) \<Rightarrow> (Inl e, s2\<lparr>wxa_files := d1\<rparr>)
         | (Inr u, d1) \<Rightarrow> (Inr (), update_transport env w [(''last_context_token_at'', JStr (wx_now env w))]
             (s2\<lparr>wxa_files := d1\<rparr>)))))" if "kept s2" for s2
  proof -
    obtain res d1 where sv: "save_context_token_unlocked env w (acct_id ?a) chat token (wxa_files s2) = (res, d1)" by fastforce
    have "kept (s2\<lparr>wxa_files := d1\<rparr>)"
      using replace_file_other [OF sv [unfolded save_context_token_unlocked_def save_context_tokens_def], of "inbox_file env i"]
      by (intro kept_same [OF that]) simp
    then show ?thesis using sv that by (cases res) simp_all
  qed
  have k: "kept (refresh_account_from_disk env w config 0 s)" using assms by (intro refreshed)
  from locked_kept [OF gap [OF assms(2) this] op] k assms(1) show ?thesis unfolding keep_context_token_def Let_def by simp
qed

lemma inbound_kept: "kept s \<Longrightarrow> undisturbed kept w \<Longrightarrow> kept (snd (weixin_normalize_inbound env w config payload s))"
  using keep_token_kept [of "update_transport env w ups s" w for ups]
  by (auto simp: weixin_normalize_inbound_def Let_def split: prod.splits sum.splits) (metis snd_conv update_transport_has)+

lemma step_kept:
  assumes "kept s" "permits op" "wx_op_fits env op" "undisturbed kept (wx_op_world op)" "wx_step env config op s = (g, s')"
    and serde: "serde_ok (wxe_gate env)"
  shows "kept s' \<and> (\<forall>j answer. g = Some (j, answer) \<longrightarrow> inbox_file env j = inbox_file env i \<longrightarrow> get_str answer ''inbox_id'' = Some k \<longrightarrow>
    (\<exists>w owner lease token item. op = WxClaim w owner lease token \<and> holds item \<and> inbox_claimable env (ww_now w) item))"
proof (cases op)
  case (WxClaim w owner lease token)
  let ?s1 = "refresh_account_from_disk env w config 0 s"
  let ?s2 = "ww_between w 1 ?s1"
  obtain r x where c: "claim_inbound env w config owner lease token s = (r, x)" by fastforce
  have u: "undisturbed kept w" "permits (WxClaim w owner lease token)" using assms WxClaim by auto
  have k: "kept ?s1" "kept ?s2" using assms(1) u(1) by (auto intro: refreshed gap)
  have x: "s' = x" "g = (case r of Inr (Some answer) \<Rightarrow> Some (acct_id (wxa_account x), answer) | _ \<Rightarrow> None)"
    using assms(5) WxClaim c by (auto split: sum.splits option.splits)
  show ?thesis
  proof (cases "trim (acct_id (wxa_account ?s1)) = [] \<or> \<not> account_is_current (wxa_account ?s1) ?s2")
    case True
    with c k x show ?thesis by (auto simp: claim_inbound_def Let_def split: if_splits)
  next
    case False
    then have cf: "claim_first env w (acct_id (wxa_account ?s1)) owner lease token ?s2 = (r, x)"
      and same: "acct_id (wxa_account ?s2) = acct_id (wxa_account ?s1)"
      using c by (auto simp: claim_inbound_def Let_def account_is_current_def)
    from claim_kept [OF k(2) u cf serde] x same WxClaim show ?thesis by (auto split: sum.splits option.splits)
  qed
next
  case (WxFinish w ik token ok rt err)
  then have u: "undisturbed kept w" "permits (WxFinish w ik token ok rt err)" using assms by auto
  have "kept (ww_between w 1 (refresh_account_from_disk env w config 0 s))" using assms(1) u(1) by (intro refreshed gap)
  with finish_kept [OF this u serde] have "kept (snd (finish_inbound env w config ik token ok rt err s))"
    by (simp add: finish_inbound_def Let_def)
  with assms(5) WxFinish show ?thesis by auto
qed (use assms poll_kept persist_kept commit_kept processed_kept inbound_kept token_kept in auto)

lemma run_kept:
  assumes "kept s" "list_all permits ops" "list_all (wx_op_fits env) ops" "list_all (\<lambda>op. undisturbed kept (wx_op_world op)) ops"
    and "wx_run env config ops s = (gs, s')" and serde: "serde_ok (wxe_gate env)"
  shows "kept s' \<and> (\<forall>j answer. (j, answer) \<in> set gs \<longrightarrow> inbox_file env j = inbox_file env i \<longrightarrow> get_str answer ''inbox_id'' = Some k \<longrightarrow>
    (\<exists>w owner lease token item. WxClaim w owner lease token \<in> set ops \<and> holds item \<and> inbox_claimable env (ww_now w) item))"
  using assms(1-5)
proof (induction ops arbitrary: s gs)
  case (Cons op ops)
  obtain g s1 where st: "wx_step env config op s = (g, s1)" by fastforce
  obtain gs1 where r: "wx_run env config ops s1 = (gs1, s')" "gs = (case g of None \<Rightarrow> gs1 | Some x \<Rightarrow> x # gs1)"
    using Cons.prems(5) st by (auto split: prod.splits)
  have s1: "kept s1 \<and> (\<forall>j answer. g = Some (j, answer) \<longrightarrow> inbox_file env j = inbox_file env i \<longrightarrow>
      get_str answer ''inbox_id'' = Some k \<longrightarrow>
      (\<exists>w owner lease token item. op = WxClaim w owner lease token \<and> holds item \<and> inbox_claimable env (ww_now w) item))"
    using Cons.prems by (intro step_kept [OF _ _ _ _ st serde]) auto
  from Cons.IH [OF conjunct1 [OF s1] _ _ _ r(1)] Cons.prems s1 r(2) show ?case by (fastforce split: option.splits)
qed simp

end

section \<open>Tombstones, identities and leases\<close>

definition settled_update :: "json \<Rightarrow> bool" where
  "settled_update item \<longleftrightarrow> get_str item ''status'' \<in> {Some ''succeeded'', Some ''terminal_failed''}"

definition recorded_as :: "string \<Rightarrow> json \<Rightarrow> bool" where
  "recorded_as fp item \<longleftrightarrow> get_str item ''payload_fingerprint'' = Some fp"

definition leased_to :: "wx_env \<Rightarrow> string \<Rightarrow> instant \<Rightarrow> json \<Rightarrow> bool" where
  "leased_to env token expiry item \<longleftrightarrow> get_str item ''status'' = Some ''processing'' \<and> get_str item ''claim_token'' = Some token
     \<and> Option.bind (get_str item ''claim_expires_at'') (parse_rfc3339 (wxe_gate env)) = Some expiry"

text \<open>Claims before the lease ends, and completions by others.\<close>

fun before_expiry :: "string \<Rightarrow> string \<Rightarrow> instant \<Rightarrow> wx_op \<Rightarrow> bool" where
  "before_expiry k token expiry (WxClaim w owner lease t) = (ww_now w < expiry)"
| "before_expiry k token expiry (WxFinish w k' t ok retryable err) = (k' \<noteq> k \<or> t \<noteq> token)"
| "before_expiry k token expiry op = True"

lemma settled_not_claimable: "settled_update item \<Longrightarrow> \<not> inbox_claimable env now item"
  by (auto simp: settled_update_def inbox_claimable_def Let_def simp del: get_str_Some)

lemma leased_not_claimable: "leased_to env token expiry item \<Longrightarrow> now < expiry \<Longrightarrow> \<not> inbox_claimable env now item"
  by (auto simp: leased_to_def inbox_claimable_def weixin_inbox_claim_is_unexpired_def Let_def simp del: get_str_Some)

lemma claimed_item_get:
  "jget (claimed_inbox_item env w owner token expires item) x =
    (case map_of [(''updated_at'', JStr (wx_now env w)), (''claim_expires_at'', JStr expires), (''claim_token'', JStr token),
        (''owner'', JStr owner), (''attempts'', JInt (int (saturating_add (or_else 0 (get_u64 item ''attempts'')) 1))),
        (''status'', JStr ''processing'')] x of
      Some v \<Rightarrow> Some v | None \<Rightarrow> jget item x)"
  by (cases item) (auto simp: claimed_inbox_item_def)

lemma finished_item_get:
  "x \<in> {''payload_fingerprint'', ''payload''} \<Longrightarrow> jget (finished_inbox_item env w ok retryable err item) x = jget item x"
  by (cases item) (auto simp: finished_inbox_item_def)

interpretation tombstone: inbox_item_invariant env config i k settled_update "\<lambda>op. True" for env config i k
proof unfold_locales
  fix w :: wx_world and owner lease token item expires
  assume "settled_update item" "inbox_claimable env (ww_now w) item"
  then show "settled_update (claimed_inbox_item env w owner token expires item)" using settled_not_claimable by blast
qed (auto simp: settled_update_def)

interpretation identity: inbox_item_invariant env config i k "recorded_as fp" "\<lambda>op. True" for env config i k fp
  by unfold_locales (auto simp: recorded_as_def claimed_item_get finished_item_get)

interpretation lease: inbox_item_invariant env config i k "leased_to env token expiry" "before_expiry k token expiry" for env config i k token expiry
proof unfold_locales
  fix w owner lease t item expires
  assume "before_expiry k token expiry (WxClaim w owner lease t)" "leased_to env token expiry item" "inbox_claimable env (ww_now w) item"
  then show "leased_to env token expiry (claimed_inbox_item env w owner t expires item)" using leased_not_claimable by auto
qed (auto simp: leased_to_def)

section \<open>What a successful operation establishes\<close>

lemma expiry_read_back:
  assumes "chrono_ok (wxe_gate env)" "lease \<le> 1000000" "now + int (max lease 1) * nanos \<le> max_utc (wxe_gate env)"
  shows "\<exists>expires. delivery_claim_expires_at (wxe_gate env) now lease = Inr expires
    \<and> parse_rfc3339 (wxe_gate env) expires = Some (now + int (max lease 1) * nanos)"
proof -
  have "int (max lease 1) \<le> i64_max div 1000" "int (max lease 1) \<le> i64_max" using assms(2) by (auto simp: i64_max_def)
  with assms show ?thesis by (auto simp: delivery_claim_expires_at_def chrono_ok_def Let_def not_less)
qed

lemma claim_leases:
  assumes "claim_inbound env w config owner lease token s = (Inr (Some answer), s')" "get_str answer ''inbox_id'' = Some k"
    and "serde_ok (wxe_gate env)" "chrono_ok (wxe_gate env)" "lease \<le> 1000000"
    and "ww_now w + int (max lease 1) * nanos \<le> max_utc (wxe_gate env)" "\<forall>f. ww_stat w f"
  shows "entry_has env (acct_id (wxa_account s')) k (leased_to env token (ww_now w + int (max lease 1) * nanos)) s'
    \<and> get_str answer ''claim_token'' = Some token"
proof -
  let ?s1 = "refresh_account_from_disk env w config 0 s"
  let ?s2 = "ww_between w 1 ?s1"
  let ?j = "acct_id (wxa_account ?s1)"
  from assms(1) have cf: "claim_first env w ?j owner lease token ?s2 = (Inr (Some answer), s')"
    and cur: "acct_id (wxa_account ?s2) = ?j"
    by (auto simp: claim_inbound_def account_is_current_def Let_def split: if_splits)
  obtain expires where ex: "delivery_claim_expires_at (wxe_gate env) (ww_now w) lease = Inr expires"
      "parse_rfc3339 (wxe_gate env) expires = Some (ww_now w + int (max lease 1) * nanos)"
    using expiry_read_back [OF assms(4-6)] by blast
  from cf ex(1) obtain inbox items ik item d1 where l: "load_inbox env w ?j (wxa_files ?s2) = Inr inbox" "inbox_items inbox = Some items"
      "find (\<lambda>(k, item). inbox_claimable env (ww_now w) item) items = Some (ik, item)"
      "save_inbox env w ?j (put_items env w (oput ik (claimed_inbox_item env w owner token expires item) items) inbox) (wxa_files ?s2) = (Inr (), d1)"
      "answer = claim_answer ik token (claimed_inbox_item env w owner token expires item)" "s' = ?s2\<lparr>wxa_files := d1\<rparr>"
    by (auto simp: claim_first_def Let_def rbind_eq_Inl split: sum.splits option.splits prod.splits)
  from l(5) assms(2) have k: "ik = k" "get_str answer ''claim_token'' = Some token" by (auto simp: claim_answer_def jget_jobj)
  note f = load_inbox_fits [OF assms(3) l(1)]
  note fi = items_fit [OF f l(2)]
  have "oget items ik = Some item" using find_Some_in [OF l(3)] fi by (auto simp: fits_below_def owf_def oget_def)
  then have "fits_below env 127 (JObj (put_items env w (oput ik (claimed_inbox_item env w owner token expires item) items) inbox))"
    using fits_oget [of env 125 items ik item] fi by (intro put_items_fit [OF f] put_item_fits claimed_item_fits) simp_all
  from save_inbox_entry [OF assms(3) l(4) this, where j = ?j and k = k] k(1)
  have "inbox_entry env ?j k d1 = Some (claimed_inbox_item env w owner token expires item)" by (simp add: put_items_def)
  moreover have "leased_to env token (ww_now w + int (max lease 1) * nanos) (claimed_inbox_item env w owner token expires item)"
    using ex(2) by (simp add: leased_to_def claimed_item_get get_str_def)
  ultimately show ?thesis using k(2) cur l(6) by (simp add: entry_has_def)
qed

lemma weixin_finish_settles:
  assumes "finish_inbound env w config k token True retryable err s = (Inr (), s')" "serde_ok (wxe_gate env)"
  shows "entry_has env (acct_id (wxa_account s')) k settled_update s'"
proof -
  let ?s1 = "refresh_account_from_disk env w config 0 s"
  let ?s2 = "ww_between w 1 ?s1"
  let ?j = "acct_id (wxa_account ?s1)"
  from assms(1) have fc: "finish_claim env w ?j k token True retryable err ?s2 = (Inr (), s')" and cur: "acct_id (wxa_account ?s2) = ?j"
    by (auto simp: finish_inbound_def account_is_current_def Let_def split: if_splits)
  then obtain inbox items item d1 where l: "load_inbox env w ?j (wxa_files ?s2) = Inr inbox" "oget inbox ''items'' = Some (JObj items)"
      "oget items k = Some item" "s' = ?s2\<lparr>wxa_files := d1\<rparr>"
      "save_inbox env w ?j (put_items env w (oput k (finished_inbox_item env w True retryable err item) items) inbox) (wxa_files ?s2) = (Inr (), d1)"
    by (auto simp: finish_claim_def bind_eq_Some_conv split: sum.splits option.splits prod.splits if_splits)
  note f = load_inbox_fits [OF assms(2) l(1)]
  have "fits_below env 127 (JObj (put_items env w (oput k (finished_inbox_item env w True retryable err item) items) inbox))"
    using fits_oget [of env 125 items k item] l(2,3) items_fit [OF f, of items]
    by (intro put_items_fit [OF f] put_item_fits finished_item_fits) (simp_all add: inbox_items_def)
  from save_inbox_entry [OF assms(2) l(5) this, where j = ?j and k = k]
  have "inbox_entry env ?j k d1 = Some (finished_inbox_item env w True retryable err item)" by (simp add: put_items_def)
  moreover have "settled_update (finished_inbox_item env w True retryable err item)"
    by (simp add: settled_update_def finished_inbox_item_def)
  ultimately show ?thesis using cur l(4) by (simp add: entry_has_def)
qed

text \<open>The batch is in the inbox of this account.\<close>

definition batch_stored :: "wx_env \<Rightarrow> string \<Rightarrow> json list \<Rightarrow> wx_adapter \<Rightarrow> bool" where
  "batch_stored env i updates s \<longleftrightarrow> list_all (\<lambda>u. entry_has env i (stable_weixin_inbox_id env i u)
     (recorded_as (weixin_payload_fingerprint env u)) s) (filter is_object updates)"

lemma persist_stores:
  assumes "persist_inbound_batch env w config updates s = (Inr (), s')" "serde_ok (wxe_gate env)" "list_all (fits_below env 124) updates"
  shows "batch_stored env (acct_id (wxa_account s')) updates s'"
proof -
  let ?s1 = "refresh_account_from_disk env w config 0 s"
  let ?s2 = "ww_between w 1 ?s1"
  let ?j = "acct_id (wxa_account ?s1)"
  from assms(1) have sb: "store_batch env w ?j updates ?s2 = (Inr (), s')" and cur: "acct_id (wxa_account ?s2) = ?j"
    by (auto simp: persist_inbound_batch_def account_is_current_def Let_def split: if_splits)
  then obtain inbox items items' d1 where l: "load_inbox env w ?j (wxa_files ?s2) = Inr inbox" "inbox_items inbox = Some items"
      "store_updates env w ?j (filter is_object updates) items = Inr items'" "s' = ?s2\<lparr>wxa_files := d1\<rparr>"
      "save_inbox env w ?j (oput ''version'' (JInt 1) (put_items env w items' inbox)) (wxa_files ?s2) = (Inr (), d1)"
    by (auto simp: store_batch_def split: sum.splits prod.splits)
  note f = load_inbox_fits [OF assms(2) l(1)]
  from assms(3) have "list_all (fits_below env 124) (filter is_object updates)" by (simp add: list_all_iff)
  from store_updates_fits [OF l(3) items_fit [OF f l(2)] this]
  have "fits_below env 127 (JObj (oput ''version'' (JInt 1) (put_items env w items' inbox)))"
    using fits_oput [of env 126 "put_items env w items' inbox" "JInt 1"] put_items_fit [OF f] by (simp add: u64_max_def)
  from save_inbox_entry [OF assms(2) l(5) this, where j = ?j] have "inbox_entry env ?j k d1 = oget items' k" for k
    by (simp add: put_items_def)
  with store_updates_stores [OF l(3)] cur l(4) show ?thesis
    by (auto simp: batch_stored_def list_all_iff entry_has_def recorded_as_def)
qed

end
