(* ===== verification/Weixin_Chunks.thy ===== *)
theory Weixin_Chunks
  imports Weixin_Text
begin

text \<open>
  What \<open>split_text_for_weixin\<close> keeps of a text: no chunk is too long and no visible character is lost, added or
  moved. A Rust string is valid UTF-8, which \<open>utf8_text\<close> states as far as it matters here.
\<close>

definition utf8_len :: "char \<Rightarrow> nat" where
  "utf8_len b = (if b < CHR 0x80 then 1 else if b < CHR 0xE0 then 2 else if b < CHR 0xF0 then 3 else 4)"

definition utf8_char :: "string \<Rightarrow> bool" where
  "utf8_char c \<longleftrightarrow> c \<noteq> [] \<and> \<not> is_cont_byte (hd c) \<and> list_all is_cont_byte (tl c) \<and> length c = utf8_len (hd c)"

definition utf8_text :: "string \<Rightarrow> bool" where
  "utf8_text s \<longleftrightarrow> list_all utf8_char (chars s)"

text \<open>The visible characters.\<close>

definition ink :: "string \<Rightarrow> string list" where
  "ink s = filter (\<lambda>c. c \<notin> set whitespace_seqs) (chars s)"

section \<open>Characters of concatenations\<close>

lemma dropWhile_hd: "dropWhile P xs = [] \<or> \<not> P (hd (dropWhile P xs))"
  by (induction xs) auto

lemma chars_append: "b = [] \<or> \<not> is_cont_byte (hd b) \<Longrightarrow> chars (a @ b) = chars a @ chars b"
proof (induction a rule: chars.induct)
  case (2 x xs)
  then have "takeWhile is_cont_byte (xs @ b) = takeWhile is_cont_byte xs"
    "dropWhile is_cont_byte (xs @ b) = dropWhile is_cont_byte xs @ b"
    by (induction xs) (cases b; auto)+
  with 2 show ?case by simp
qed simp

lemma chars_single: "utf8_char c \<Longrightarrow> chars c = [c]"
proof -
  assume u: "utf8_char c"
  then obtain b bs where c: "c = b # bs" by (cases c) (auto simp: utf8_char_def)
  with u have "takeWhile is_cont_byte bs = bs" "dropWhile is_cont_byte bs = []"
    by (simp_all add: utf8_char_def list_all_iff takeWhile_eq_all_conv)
  then show "chars c = [c]" by (simp add: c del: dropWhile_eq_Nil_conv)
qed

lemma utf8_hd: "utf8_text s \<Longrightarrow> s = [] \<or> \<not> is_cont_byte (hd s)"
  by (cases s) (auto simp: utf8_text_def utf8_char_def)

lemma utf8_append: "utf8_text a \<Longrightarrow> utf8_text b \<Longrightarrow> utf8_text (a @ b) \<and> chars (a @ b) = chars a @ chars b"
  using chars_append [of b a] utf8_hd [of b] by (auto simp: utf8_text_def)

lemma utf8_concat: "list_all utf8_char cs \<Longrightarrow> utf8_text (concat cs) \<and> chars (concat cs) = cs"
proof (induction cs)
  case (Cons c cs)
  then have "utf8_text c" by (simp add: utf8_text_def chars_single)
  with Cons utf8_append [of c "concat cs"] show ?case by (simp add: chars_single)
qed (simp add: utf8_text_def)

text \<open>A valid text that begins with a character goes on with the next one.\<close>

lemma utf8_strip:
  assumes "utf8_text (c @ t)" "utf8_char c"
  shows "utf8_text t \<and> chars (c @ t) = c # chars t"
proof -
  obtain b bs where c: "c = b # bs" using assms(2) by (cases c) (auto simp: utf8_char_def)
  with assms(2) have all: "list_all is_cont_byte bs" and len: "length (b # bs) = utf8_len b" by (auto simp: utf8_char_def)
  from all have tw: "takeWhile is_cont_byte (bs @ t) = bs @ takeWhile is_cont_byte t"
    and dw: "dropWhile is_cont_byte (bs @ t) = dropWhile is_cont_byte t"
    by (auto simp: list_all_iff)
  have ch: "chars (c @ t) = (b # bs @ takeWhile is_cont_byte t) # chars (dropWhile is_cont_byte t)" by (simp add: c tw dw)
  with assms(1) have "utf8_char (b # bs @ takeWhile is_cont_byte t)" by (simp add: utf8_text_def)
  then have "length (b # bs @ takeWhile is_cont_byte t) = utf8_len b" unfolding utf8_char_def by simp
  then have "length (takeWhile is_cont_byte t) = 0" using len unfolding length_Cons length_append by linarith
  then have "takeWhile is_cont_byte t = []" by simp
  moreover from this have "dropWhile is_cont_byte t = t" by (metis append_Nil takeWhile_dropWhile_id)
  ultimately have "chars (c @ t) = c # chars t" using ch by (simp add: c)
  with assms(1) show ?thesis by (simp add: utf8_text_def)
qed

lemma utf8_strips: "utf8_text (concat cs @ t) \<Longrightarrow> list_all utf8_char cs \<Longrightarrow> utf8_text t \<and> chars (concat cs @ t) = cs @ chars t"
proof (induction cs)
  case (Cons c cs)
  with utf8_strip [of c "concat cs @ t"] show ?case by simp
qed simp

lemma utf8_prefix:
  assumes "utf8_text (t @ concat cs)" "list_all utf8_char cs"
  shows "utf8_text t \<and> chars (t @ concat cs) = chars t @ cs"
proof -
  have "concat cs = [] \<or> \<not> is_cont_byte (hd (concat cs))" using utf8_concat [OF assms(2)] utf8_hd by blast
  from chars_append [OF this, of t] assms show ?thesis using utf8_concat [OF assms(2)] by (simp add: utf8_text_def)
qed

lemma chars_count_length: "utf8_text s \<Longrightarrow> chars_count s = length (chars s)"
proof (induction s rule: chars.induct)
  case (2 b bs)
  have "bs = takeWhile is_cont_byte bs @ dropWhile is_cont_byte bs" by simp
  then have "chars_count bs = chars_count (dropWhile is_cont_byte bs)"
    by (metis (no_types, lifting) append_Nil chars_count_def filter_False filter_append set_takeWhileD)
  with 2 show ?case by (simp add: utf8_text_def utf8_char_def chars_count_def)
qed (simp add: chars_count_def)

section \<open>Trimming\<close>

lemma whitespace_utf8: "w \<in> set whitespace_seqs \<Longrightarrow> utf8_char w"
proof -
  have "list_all utf8_char whitespace_seqs"
    by (simp add: whitespace_seqs_def utf8_char_def utf8_len_def is_cont_byte_def less_eq_char_def less_char_def)
  then show "w \<in> set whitespace_seqs \<Longrightarrow> utf8_char w" by (simp add: list_all_iff)
qed

lemma strip_ws_seqs: "\<exists>vs. set vs \<subseteq> set ws \<and> s = concat vs @ strip_ws ws s"
proof (induction ws s rule: strip_ws.induct)
  case (1 ws s)
  show ?case
  proof (cases "strip_any ws s")
    case (Some r)
    obtain v where v: "v \<in> set ws" "s = v @ r" using strip_any_Some [OF Some] by auto
    show ?thesis
    proof (cases "length r < length s")
      case True
      with 1 [OF Some True] obtain vs where "set vs \<subseteq> set ws" "r = concat vs @ strip_ws ws r" by auto
      then have "set (v # vs) \<subseteq> set ws \<and> s = concat (v # vs) @ strip_ws ws s"
        using Some True v(1) by (subst strip_ws.simps) (simp add: v(2))
      then show ?thesis by blast
    qed (use Some in \<open>auto simp: strip_ws.simps intro: exI [of _ "[]"]\<close>)
  qed (auto simp: strip_ws.simps intro: exI [of _ "[]"])
qed

lemma trim_start_seqs: "\<exists>vs. set vs \<subseteq> set whitespace_seqs \<and> s = concat vs @ trim_start s"
  unfolding trim_start_def by (rule strip_ws_seqs)

lemma trim_end_seqs: "\<exists>vs. set vs \<subseteq> set whitespace_seqs \<and> s = trim_end s @ concat vs"
proof -
  obtain vs where vs: "set vs \<subseteq> rev ` set whitespace_seqs" "rev s = concat vs @ rev (trim_end s)"
    using strip_ws_seqs [of "map rev whitespace_seqs" "rev s"] by (auto simp: trim_end_def)
  then have "s = trim_end s @ concat (rev (map rev vs))"
    by (metis rev_append rev_concat rev_map rev_rev_ident)
  moreover have "set (rev (map rev vs)) \<subseteq> set whitespace_seqs" using vs(1) by auto
  ultimately show ?thesis by blast
qed

lemma seqs_utf8: "set vs \<subseteq> set whitespace_seqs \<Longrightarrow> list_all utf8_char vs"
  using whitespace_utf8 by (auto simp: list_all_iff)

lemma seqs_no_ink: "set vs \<subseteq> set whitespace_seqs \<Longrightarrow> filter (\<lambda>c. c \<notin> set whitespace_seqs) vs = []"
  by (auto simp: filter_empty_conv)

lemma trim_end_utf8: "utf8_text s \<Longrightarrow> utf8_text (trim_end s) \<and> ink (trim_end s) = ink s \<and> chars_count (trim_end s) \<le> chars_count s"
proof -
  assume u: "utf8_text s"
  obtain vs where vs: "set vs \<subseteq> set whitespace_seqs" "s = trim_end s @ concat vs" using trim_end_seqs by blast
  have "utf8_text (trim_end s @ concat vs)" using u vs(2) by metis
  from utf8_prefix [OF this seqs_utf8 [OF vs(1)]] vs(2)
  have "utf8_text (trim_end s)" "chars s = chars (trim_end s) @ vs" by auto
  with u show ?thesis by (simp add: ink_def seqs_no_ink [OF vs(1)] chars_count_length)
qed

lemma trim_start_utf8: "utf8_text s \<Longrightarrow> utf8_text (trim_start s) \<and> ink (trim_start s) = ink s"
proof -
  assume u: "utf8_text s"
  obtain vs where vs: "set vs \<subseteq> set whitespace_seqs" "s = concat vs @ trim_start s" using trim_start_seqs by blast
  have "utf8_text (concat vs @ trim_start s)" using u vs(2) by metis
  from utf8_strips [OF this seqs_utf8 [OF vs(1)]] vs(2)
  have "utf8_text (trim_start s)" "chars s = vs @ chars (trim_start s)" by auto
  then show ?thesis by (simp add: ink_def seqs_no_ink [OF vs(1)])
qed

lemma trim_utf8: "utf8_text s \<Longrightarrow> utf8_text (trim s) \<and> ink (trim s) = ink s"
  using trim_start_utf8 [of s] trim_end_utf8 [of "trim_start s"] by (simp add: trim_def)

lemma blank_ink: "utf8_text s \<Longrightarrow> trim s = [] \<Longrightarrow> ink s = []"
  using trim_utf8 [of s] by (simp add: ink_def)

section \<open>Lines\<close>

lemma split_inclusive_cases:
  "s \<noteq> [] \<Longrightarrow> sep \<notin> set s \<and> split_inclusive sep s = [s]
   \<or> (\<exists>x rest. sep \<notin> set x \<and> s = x @ sep # rest \<and> split_inclusive sep s = (x @ [sep]) # split_inclusive sep rest)"
proof (induction s)
  case (Cons c cs)
  show ?case
  proof (cases "c = sep")
    case True
    then have "sep \<notin> set [] \<and> c # cs = [] @ sep # cs \<and> split_inclusive sep (c # cs) = ([] @ [sep]) # split_inclusive sep cs" by simp
    then show ?thesis by blast
  next
    case ne: False
    show ?thesis
    proof (cases "cs = []")
      case False
      from Cons.IH [OF this] show ?thesis
      proof (elim disjE exE conjE)
        fix x rest assume "sep \<notin> set x" "cs = x @ sep # rest" "split_inclusive sep cs = (x @ [sep]) # split_inclusive sep rest"
        with ne have "sep \<notin> set (c # x) \<and> c # cs = (c # x) @ sep # rest
          \<and> split_inclusive sep (c # cs) = ((c # x) @ [sep]) # split_inclusive sep rest" by simp
        then show ?thesis by blast
      qed (use ne in simp)
    qed (use ne in simp)
  qed
qed simp

lemma newline_utf8: "utf8_char [CHR 0x0A]"
  by (simp add: utf8_char_def utf8_len_def is_cont_byte_def less_eq_char_def less_char_def)

lemma split_inclusive_utf8:
  "utf8_text s \<Longrightarrow> list_all utf8_text (split_inclusive CHR 0x0A s) \<and> concat (map chars (split_inclusive CHR 0x0A s)) = chars s"
proof (induction "length s" arbitrary: s rule: less_induct)
  case less
  show ?case
  proof (cases "s = []")
    case False
    from split_inclusive_cases [OF this, of "CHR 0x0A"] show ?thesis
    proof (elim disjE exE conjE)
      fix x rest assume s: "s = x @ CHR 0x0A # rest"
        and sp: "split_inclusive CHR 0x0A s = (x @ [CHR 0x0A]) # split_inclusive CHR 0x0A rest"
      have "\<not> is_cont_byte (CHR 0x0A)" using newline_utf8 by (simp add: utf8_char_def)
      then have ch: "chars s = chars x @ chars ([CHR 0x0A] @ rest)" using chars_append [of "CHR 0x0A # rest" x] s by simp
      with less.prems have ux: "utf8_text x" and ur: "utf8_text ([CHR 0x0A] @ rest)" by (auto simp: utf8_text_def)
      from utf8_strip [OF ur newline_utf8] have r: "utf8_text rest" "chars ([CHR 0x0A] @ rest) = [CHR 0x0A] # chars rest" by auto
      have nl: "utf8_text [CHR 0x0A]" "chars [CHR 0x0A] = [[CHR 0x0A]]"
        using newline_utf8 chars_single [OF newline_utf8] by (simp_all add: utf8_text_def)
      from utf8_append [OF ux nl(1)] have "utf8_text (x @ [CHR 0x0A])" "chars (x @ [CHR 0x0A]) = chars x @ [[CHR 0x0A]]"
        using nl(2) by auto
      with less.hyps [of rest] r ch s sp show ?thesis by simp
    qed (use less.prems in simp)
  qed simp
qed

section \<open>Chunks\<close>

definition fit :: "nat \<Rightarrow> string list \<Rightarrow> bool" where
  "fit n chunks \<longleftrightarrow> list_all (\<lambda>c. chars_count c \<le> n) chunks"

lemma break_line_keeps:
  assumes "break_line n chunks seg cs = (chunks', seg')" "utf8_text seg" "list_all utf8_char cs" "0 < n"
    and "fit n chunks" "chars_count seg \<le> n"
  shows "utf8_text seg' \<and> fit n chunks' \<and> chars_count seg' \<le> n
    \<and> concat (map ink chunks') @ ink seg' = concat (map ink chunks) @ ink seg @ filter (\<lambda>c. c \<notin> set whitespace_seqs) cs"
  using assms
proof (induction n chunks seg cs rule: break_line.induct)
  case (2 n chunks seg c cs)
  have c: "utf8_text c" "chars c = [c]" "chars_count c = 1"
    using 2(5) chars_single [of c] by (auto simp: utf8_text_def chars_count_length)
  show ?case
  proof (cases "chars_count seg \<ge> n")
    case True
    with 2 trim_end_utf8 [of seg] c show ?thesis by (auto simp: fit_def ink_def)
  next
    case False
    with 2 utf8_append [of seg c] c show ?thesis by (auto simp: ink_def chars_count_length)
  qed
qed simp

lemma split_lines_keeps:
  assumes "split_lines n chunks cur ls = (chunks', cur')" "utf8_text cur" "list_all utf8_text ls" "0 < n"
    and "fit n chunks" "chars_count cur \<le> n"
  shows "utf8_text cur' \<and> fit n chunks' \<and> chars_count cur' \<le> n
    \<and> concat (map ink chunks') @ ink cur' = concat (map ink chunks) @ ink cur @ concat (map ink ls)"
  using assms
proof (induction n chunks cur ls rule: split_lines.induct)
  case (2 n chunks cur l ls)
  show ?case
  proof (cases "chars_count cur + chars_count l \<le> n")
    case True
    with 2 utf8_append [of cur l] show ?thesis by (auto simp: ink_def chars_count_length)
  next
    case False
    let ?chunks = "if trim cur = [] then chunks else chunks @ [trim_end cur]"
    obtain c1 seg where b: "break_line n ?chunks [] (chars l) = (c1, seg)" by fastforce
    have pre: "fit n ?chunks" "concat (map ink ?chunks) = concat (map ink chunks) @ ink cur"
      using 2(4,7,8) trim_end_utf8 [of cur] blank_ink [of cur] by (auto simp: fit_def)
    from break_line_keeps [OF b _ _ 2(6) pre(1)] 2(5) pre(2)
    have "utf8_text seg \<and> fit n c1 \<and> chars_count seg \<le> n
      \<and> concat (map ink c1) @ ink seg = concat (map ink chunks) @ ink cur @ ink l"
      by (auto simp: utf8_text_def chars_count_def ink_def)
    with 2(2) [OF False b [symmetric]] 2(3,5,6) False b show ?thesis by auto
  qed
qed simp

lemma concat_ink_lines: "concat (map ink ls) = filter (\<lambda>c. c \<notin> set whitespace_seqs) (concat (map chars ls))"
  by (induction ls) (simp_all add: ink_def)

lemma split_text_keeps:
  assumes "utf8_text value" "0 < n"
  shows "fit n (split_text_for_weixin value n) \<and> concat (map ink (split_text_for_weixin value n)) = ink value"
proof -
  let ?c = "trim value"
  note t = trim_utf8 [OF assms(1)]
  obtain chunks cur where sl: "split_lines n [] [] (split_inclusive CHR 0x0A ?c) = (chunks, cur)" by fastforce
  note lines = split_inclusive_utf8 [OF conjunct1 [OF t]]
  have "utf8_text cur \<and> fit n chunks \<and> chars_count cur \<le> n \<and> concat (map ink chunks) @ ink cur = ink ?c"
    using split_lines_keeps [OF sl _ _ assms(2)] lines by (simp add: utf8_text_def fit_def chars_count_def concat_ink_lines ink_def)
  moreover from this have "fit n (if trim cur = [] then chunks else chunks @ [trim_end cur])"
    "concat (map ink (if trim cur = [] then chunks else chunks @ [trim_end cur])) = ink ?c"
    using trim_end_utf8 [of cur] blank_ink [of cur] by (auto simp: fit_def)
  moreover have "fit n [concat (take n (chars ?c))] \<and> ink (concat (take n (chars ?c))) = []" if "ink ?c = []"
  proof -
    have "list_all utf8_char (take n (chars ?c))" using t by (auto simp: utf8_text_def list_all_iff dest: in_set_takeD)
    from utf8_concat [OF this] that show ?thesis
      by (auto simp: fit_def chars_count_length ink_def filter_empty_conv dest: in_set_takeD)
  qed
  ultimately show ?thesis
    using t sl by (cases "?c = []") (auto simp: split_text_for_weixin_def Let_def fit_def ink_def)
qed

end
