(* ===== verification/Weixin_Send.thy ===== *)
theory Weixin_Send
  imports Weixin_Adapter
begin

text \<open>
  Sending through \<^verbatim>\<open>WeixinAdapter\<close> (\<^verbatim>\<open>send_outbound\<close>, \<^verbatim>\<open>prepare_outbound\<close>, \<^verbatim>\<open>send_prepared_outbound\<close> of
  \<^verbatim>\<open>src/adapters/weixin.rs\<close>). A message is planned as a list of units (a caption, attachments, or chunks of text);
  attachments are uploaded first, then the units are sent in order, each with the client id by which the provider
  recognises a repetition. Other tasks run while a request is under way.
\<close>

record send_state =
  sn_adapter :: wx_adapter
  sn_requests :: "wx_request list"

text \<open>The inputs of a send: fresh identifiers, the uploads by attachment, the replies by message.\<close>

record send_inputs =
  si_fresh_batch :: string
  si_fresh_client :: "nat \<Rightarrow> string"
  si_uploads :: "nat \<Rightarrow> upload_inputs"
  si_replies :: "nat \<Rightarrow> wx_reply"

definition waiting :: "wx_world \<Rightarrow> send_state \<Rightarrow> wx_request list \<Rightarrow> send_state" where
  "waiting w s posts = s\<lparr>sn_adapter := ww_between w (length (sn_requests s) + 2) (sn_adapter s), sn_requests := sn_requests s @ posts\<rparr>"

definition on_adapter :: "(wx_adapter \<Rightarrow> wx_adapter) \<Rightarrow> send_state \<Rightarrow> send_state" where
  "on_adapter f s = s\<lparr>sn_adapter := f (sn_adapter s)\<rparr>"

section \<open>The plan of a send\<close>

record send_plan =
  sp_native :: "native_weixin_attachment list"
  sp_caption :: string
  sp_chunks :: "string list"
  sp_units :: nat
  sp_kind :: string
  sp_attachment_count :: nat
  sp_item_key :: "string option"
  sp_client_id :: "string option"
  sp_batch_id :: string
  sp_items :: "json list"

definition prepared_item :: "outbound_message \<Rightarrow> json option" where
  "prepared_item m = Option.bind (oget (out_metadata m) ''provider_media_state'') (\<lambda>state. jget state ''message_item'')"

definition prepared_field :: "outbound_message \<Rightarrow> string \<Rightarrow> json option" where
  "prepared_field m k = Option.bind (oget (out_metadata m) ''provider_media_state'') (\<lambda>state. jget state k)"

definition send_attachments :: "wx_env \<Rightarrow> wx_files \<Rightarrow> outbound_message \<Rightarrow> gateway_error + native_weixin_attachment list" where
  "send_attachments env fs m =
    (if \<not> should_send_native_attachment_reply m then Inr []
     else if prepared_item m \<noteq> None
     then Inr [\<lparr>na_delivery_kind = or_else ''file'' (Option.bind (prepared_field m ''delivery_kind'') as_str), na_path = [], na_file_name = []\<rparr>]
     else resolve_native_media_attachments env fs m)"

definition delivered_attachment_kind :: "native_weixin_attachment list \<Rightarrow> string" where
  "delivered_attachment_kind native = (case native of
      [] \<Rightarrow> []
    | a # as \<Rightarrow>
        if list_all (\<lambda>b. na_delivery_kind b = ''image'') native then ''image''
        else if list_all (\<lambda>b. na_delivery_kind b = na_delivery_kind a) native then na_delivery_kind a
        else ''mixed'')"

definition metadata_trim :: "outbound_message \<Rightarrow> string \<Rightarrow> string option" where
  "metadata_trim m k = nonempty_trim (Option.bind (oget (out_metadata m) k) as_str)"

definition caption_count :: "send_plan \<Rightarrow> nat" where
  "caption_count p = (if sp_caption p = [] then 0 else 1)"

definition plan_send :: "wx_env \<Rightarrow> string \<Rightarrow> outbound_message \<Rightarrow> native_weixin_attachment list \<Rightarrow> send_plan" where
  "plan_send env fresh_batch m native =
    (let caption = trim (out_text m);
         chunks = (if native \<noteq> [] then [] else split_text_for_weixin (out_text m) max_text_chunk_length);
         offset = (if caption = [] then 0 else 1);
         item_key = metadata_trim m ''delivery_item_key'';
         batch_id = (case item_key of
             Some key \<Rightarrow> stable_weixin_delivery_id env ''wxbatch'' key 0 | None \<Rightarrow> ''wxbatch_'' @ fresh_batch);
         kinds = (if native \<noteq> [] then (if caption = [] then [] else [''text'']) @ map na_delivery_kind native
                  else replicate (length chunks) ''text'');
         items = planned_delivery_items batch_id kinds
     in \<lparr>sp_native = native, sp_caption = caption, sp_chunks = chunks,
          sp_units = (if native \<noteq> [] then length native + offset else length chunks),
          sp_kind = delivered_attachment_kind native,
          sp_attachment_count = (if native \<noteq> [] then length native else length (out_attachments m)),
          sp_item_key = item_key, sp_client_id = metadata_trim m ''provider_client_id'', sp_batch_id = batch_id,
          sp_items = (if native \<noteq> [] then attach_delivery_item_references offset (out_attachments m) items else items)\<rparr>)"

definition content_kind :: "send_plan \<Rightarrow> string" where
  "content_kind p = (if sp_native p \<noteq> [] then ''text+'' @ sp_kind p else ''text'')"

section \<open>Uploading and sending\<close>

text \<open>A failure carries the index of the delivery item it belongs to.\<close>

fun upload_all ::
  "wx_env \<Rightarrow> wx_world \<Rightarrow> (string \<Rightarrow> string \<Rightarrow> string) \<Rightarrow> wx_files \<Rightarrow> weixin_config \<Rightarrow> send_inputs \<Rightarrow> outbound_message \<Rightarrow>
   nat \<Rightarrow> native_weixin_attachment list \<Rightarrow> send_state \<Rightarrow> ((gateway_error \<times> nat) + (json \<times> bool) list) \<times> send_state" where
  "upload_all env w aes fs config si m index [] s = (Inr [], s)"
| "upload_all env w aes fs config si m index (a # rest) s =
    (case (if index = 0 \<and> prepared_item m \<noteq> None
           then (Inr (the (prepared_item m), or_else False (Option.bind (prepared_field m ''used_file_fallback'') as_bool)), s)
           else (case upload_attachment env aes fs config (sn_adapter s) (si_uploads si index) a (out_chat_id m) of
               (res, posts) \<Rightarrow> (rbind res (\<lambda>(media, item, fallback). Inr (item, fallback)), waiting w s posts))) of
        (Inl e, s1) \<Rightarrow> (Inl (e, index), s1)
      | (Inr item, s1) \<Rightarrow> (case upload_all env w aes fs config si m (Suc index) rest s1 of
            (Inl e, s2) \<Rightarrow> (Inl e, s2) | (Inr items, s2) \<Rightarrow> (Inr (item # items), s2)))"

record send_receipt =
  rc_client_id :: string
  rc_message_id :: "string option"

definition send_message_items ::
  "wx_env \<Rightarrow> wx_world \<Rightarrow> weixin_account \<Rightarrow> string \<Rightarrow> string \<Rightarrow> string \<Rightarrow> wx_reply \<Rightarrow> json list \<Rightarrow> string option \<Rightarrow> send_state \<Rightarrow>
   (gateway_error + send_receipt) \<times> send_state" where
  "send_message_items env w a chat_id context_token fresh reply items client_id s =
    (let payload = build_send_message_payload_items fresh chat_id items (Some context_token) client_id;
         s1 = waiting w s [ApiPost ep_send_message payload] in
     (rbind (weixin_post_json env ep_send_message (sn_adapter s1) reply) (\<lambda>response.
        rbind (validate_send_message_response response [acct_id a, acct_token a, context_token]) (\<lambda>u.
        Inr \<lparr>rc_client_id = or_else [] (Option.bind (jpointer [''msg'', ''client_id''] payload) as_str),
          rc_message_id = weixin_provider_message_id response\<rparr>)), s1))"

text \<open>What is sent and with which client id, in order.\<close>

definition send_units :: "wx_env \<Rightarrow> send_plan \<Rightarrow> (json \<times> bool) list \<Rightarrow> (json \<times> string option) list" where
  "send_units env p uploaded =
    (let keyed = (\<lambda>k. map_option (\<lambda>key. stable_weixin_delivery_id env ''wxmsg'' key k) (sp_item_key p)) in
     if sp_native p = [] then map (\<lambda>(k, chunk). (build_text_message_item chunk, keyed k)) (enumerate 0 (sp_chunks p))
     else (if sp_caption p = [] then [] else [(build_text_message_item (sp_caption p), keyed 0)])
       @ map (\<lambda>(k, item, fallback). (item, or_opt (sp_client_id p) (keyed (k + 1)))) (enumerate 0 uploaded))"

record send_progress =
  pr_items :: "json list"
  pr_client :: string
  pr_message :: "string option"

fun send_all ::
  "wx_env \<Rightarrow> wx_world \<Rightarrow> weixin_account \<Rightarrow> string \<Rightarrow> string \<Rightarrow> send_inputs \<Rightarrow> string \<Rightarrow> nat \<Rightarrow> (json \<times> string option) list \<Rightarrow>
   send_progress \<Rightarrow> send_state \<Rightarrow> (gateway_error \<times> nat) option \<times> send_progress \<times> send_state" where
  "send_all env w a chat_id token si batch_id index [] pr s = (None, pr, s)"
| "send_all env w a chat_id token si batch_id index ((item, client_id) # rest) pr s =
    (case send_message_items env w a chat_id token (si_fresh_client si index) (si_replies si index) [item] client_id s of
        (Inl e, s1) \<Rightarrow> (Some (e, index), pr, s1)
      | (Inr receipt, s1) \<Rightarrow>
          let pr1 = \<lparr>pr_items = mark_delivery_item index ''sent'' (rc_message_id receipt) False None (pr_items pr),
                pr_client = rc_client_id receipt, pr_message = rc_message_id receipt\<rparr> in
          send_all env w a chat_id token si batch_id (Suc index) rest pr1
            (on_adapter (update_delivery_batch env w batch_id ''sending'' (pr_items pr1)) s1))"

section \<open>The transport status of a send\<close>

definition resolution_failed :: "wx_env \<Rightarrow> wx_world \<Rightarrow> string \<Rightarrow> outbound_message \<Rightarrow> string \<Rightarrow> (string \<times> json) list" where
  "resolution_failed env w fresh_batch m err =
    (let batch_id = ''wxbatch_'' @ fresh_batch;
         items = attach_delivery_item_references 0 (out_attachments m)
           (planned_delivery_items batch_id (map attachment_delivery_kind_from_value (out_attachments m)));
         items = foldl (\<lambda>xs index. mark_delivery_item index ''failed'' None False (Some err) xs) items [0..<length items] in
     [(''status'', JStr ''send_failed''), (''connected'', JBool True), (''last_error'', JStr err), (''last_send_at'', JStr (wx_now env w)),
      (''last_send_status'', JStr ''failed''), (''last_send_error'', JStr err), (''last_send_retryable'', JBool False),
      (''last_send_provider_message_id'', JStr []), (''last_send_context_token_used'', JBool True),
      (''last_send_attachment_count'', JInt (int (length (out_attachments m)))),
      (''last_send_content_kind'', JStr ''attachment_resolution_failed''), (''last_delivery_batch_id'', JStr batch_id),
      (''last_delivery_batch'', delivery_batch_snapshot env (ww_now w) batch_id ''failed'' items)])"

definition send_started :: "wx_env \<Rightarrow> wx_world \<Rightarrow> send_plan \<Rightarrow> outbound_message \<Rightarrow> (string \<times> json) list" where
  "send_started env w p m =
    [(''status'', JStr ''sending''), (''connected'', JBool True), (''last_error'', JStr []), (''last_send_at'', JStr (wx_now env w)),
     (''last_send_chunk_count'', JInt (int (sp_units p))), (''last_inbound_chat_id'', JStr (out_chat_id m)),
     (''last_send_status'', JStr ''sending''), (''last_send_error'', JStr []), (''last_send_retryable'', JBool False),
     (''last_send_provider_message_id'', JStr []), (''last_send_context_token_used'', JBool True),
     (''last_send_attachment_count'', JInt (int (sp_attachment_count p))), (''last_send_content_kind'', JStr (content_kind p)),
     (''last_delivery_batch_id'', JStr (sp_batch_id p)),
     (''last_delivery_batch'', delivery_batch_snapshot env (ww_now w) (sp_batch_id p) ''sending'' (sp_items p))]"

definition send_failed :: "wx_env \<Rightarrow> wx_world \<Rightarrow> send_plan \<Rightarrow> string option \<Rightarrow> string \<Rightarrow> (string \<times> json) list" where
  "send_failed env w p message_id err =
    [(''status'', JStr ''send_failed''), (''connected'', JBool True), (''last_send_at'', JStr (wx_now env w)), (''last_error'', JStr err),
     (''last_send_status'', JStr ''failed''), (''last_send_error'', JStr err), (''last_send_retryable'', JBool True),
     (''last_send_provider_message_id'', JStr (or_else [] message_id)), (''last_send_context_token_used'', JBool True),
     (''last_send_attachment_count'', JInt (int (sp_attachment_count p))), (''last_send_content_kind'', JStr (content_kind p))]"

definition send_succeeded :: "wx_env \<Rightarrow> wx_world \<Rightarrow> send_plan \<Rightarrow> string option \<Rightarrow> (string \<times> json) list" where
  "send_succeeded env w p message_id =
    [(''status'', JStr ''polling_idle''), (''connected'', JBool True), (''last_send_at'', JStr (wx_now env w)), (''last_error'', JStr []),
     (''last_send_status'', JStr ''sent''), (''last_send_error'', JStr []), (''last_send_retryable'', JBool False),
     (''last_send_provider_message_id'', JStr (or_else [] message_id)), (''last_send_context_token_used'', JBool True),
     (''last_send_attachment_count'', JInt (int (sp_attachment_count p))), (''last_send_content_kind'', JStr (content_kind p))]"

definition send_response :: "wx_env \<Rightarrow> wx_world \<Rightarrow> send_plan \<Rightarrow> (json \<times> bool) list \<Rightarrow> outbound_message \<Rightarrow> send_progress \<Rightarrow> json" where
  "send_response env w p uploaded m pr = jobj
    [(''platform'', JStr ''weixin''), (''chat_id'', JStr (out_chat_id m)), (''text'', JStr (out_text m)),
     (''timestamp'', JStr (out_timestamp m)), (''delivery'', JStr ''weixin''), (''sent'', JBool True),
     (''message_id'', jstr_opt (pr_message pr)), (''provider_message_id'', jstr_opt (pr_message pr)),
     (''provider_client_id'', JStr (pr_client pr)),
     (''attachments'', JArr (if sp_native p \<noteq> [] then take (sp_attachment_count p) (out_attachments m) else out_attachments m)),
     (''metadata'', jobj [(''context_token_used'', JBool True), (''chunk_count'', JInt (int (sp_units p))),
        (''attachment_count'', JInt (int (sp_attachment_count p))),
        (''native_image_reply'', JBool (sp_native p \<noteq> [] \<and> sp_kind p = ''image'')),
        (''native_attachment_count'', JInt (int (length (sp_native p)))), (''native_attachment_kind'', JStr (sp_kind p)),
        (''native_attachment_fallback'', JBool (list_ex snd uploaded)),
        (''delivery_batch'', delivery_batch_snapshot env (ww_now w) (sp_batch_id p) ''sent'' (pr_items pr))])]"

section \<open>Sending\<close>

definition not_configured :: gateway_error where
  "not_configured = validation ''Weixin adapter is not configured. Open Weixin setup first.''"

definition no_context_token :: "string \<Rightarrow> gateway_error" where
  "no_context_token chat_id = validation (''No Weixin context_token cached for chat_id='' @ chat_id @ ''. Send a DM from WeChat first.'')"

text \<open>The account and the context token of the chat, which both ways of sending need first.\<close>

definition send_context ::
  "wx_env \<Rightarrow> wx_world \<Rightarrow> weixin_config \<Rightarrow> string \<Rightarrow> wx_adapter \<Rightarrow> (gateway_error + weixin_account \<times> string) \<times> wx_adapter" where
  "send_context env w config chat_id s =
    (let s1 = refresh_account_from_disk env w config 1 (refresh_account_from_disk env w config 0 s); a = wxa_account s1 in
     if \<not> account_configured a then (Inl not_configured, s1)
     else (case load_or_recover_context_token env w (acct_id a) chat_id s1 of
         (Inl e, s2) \<Rightarrow> (Inl e, s2)
       | (Inr token, s2) \<Rightarrow> if token = [] then (Inl (no_context_token chat_id), s2) else (Inr (a, token), s2)))"

text \<open>The transmission of a plan: uploads, then the units; a failure is noted in the items and in the status.\<close>

definition transmit ::
  "wx_env \<Rightarrow> wx_world \<Rightarrow> (string \<Rightarrow> string \<Rightarrow> string) \<Rightarrow> wx_files \<Rightarrow> weixin_config \<Rightarrow> send_inputs \<Rightarrow> outbound_message \<Rightarrow>
   weixin_account \<Rightarrow> string \<Rightarrow> send_plan \<Rightarrow> send_state \<Rightarrow> (gateway_error + json) \<times> send_state" where
  "transmit env w aes fs config si m a token p s =
    (let pr0 = \<lparr>pr_items = sp_items p, pr_client = [], pr_message = None\<rparr>;
         failure = (\<lambda>e index pr s1.
           let err = redact_sensitive_text [acct_id a, acct_token a, token] (err_message e);
               items = mark_remaining_delivery_items_pending_retry (index + 1)
                 (mark_delivery_item index ''failed'' None True (Some err) (pr_items pr)) in
           (Inl e, on_adapter (update_transport env w (send_failed env w p (pr_message pr) err))
             (on_adapter (update_delivery_batch env w (sp_batch_id p) ''pending_retry'' items) s1))) in
     case upload_all env w aes fs config si m 0 (sp_native p) s of
       (Inl (e, index), s1) \<Rightarrow> failure e (caption_count p + index) pr0 s1
     | (Inr uploaded, s1) \<Rightarrow>
         (case send_all env w a (out_chat_id m) token si (sp_batch_id p) 0 (send_units env p uploaded) pr0 s1 of
             (Some (e, index), pr, s2) \<Rightarrow> failure e index pr s2
           | (None, pr, s2) \<Rightarrow>
               (Inr (send_response env w p uploaded m pr),
                on_adapter (update_transport env w (send_succeeded env w p (pr_message pr)))
                  (on_adapter (update_delivery_batch env w (sp_batch_id p) ''sent'' (pr_items pr)) s2))))"

definition weixin_send_outbound ::
  "wx_env \<Rightarrow> wx_world \<Rightarrow> (string \<Rightarrow> string \<Rightarrow> string) \<Rightarrow> wx_files \<Rightarrow> weixin_config \<Rightarrow> send_inputs \<Rightarrow> outbound_message \<Rightarrow>
   send_state \<Rightarrow> (gateway_error + json) \<times> send_state" where
  "weixin_send_outbound env w aes fs config si m s =
    (case send_context env w config (out_chat_id m) (sn_adapter s) of
        (Inl e, x) \<Rightarrow> (Inl e, s\<lparr>sn_adapter := x\<rparr>)
      | (Inr (a, token), x) \<Rightarrow>
          let s1 = s\<lparr>sn_adapter := x\<rparr> in
          (case send_attachments env fs m of
              Inl e \<Rightarrow> (Inl e, on_adapter (update_transport env w (resolution_failed env w (si_fresh_batch si) m
                (redact_sensitive_text [acct_id a, acct_token a, token] (err_message e)))) s1)
            | Inr native \<Rightarrow>
                let p = plan_send env (si_fresh_batch si) m native in
                if native = [] \<and> sp_chunks p = [] then (Inl (validation ''Outbound Weixin message is empty''), s1)
                else transmit env w aes fs config si m a token p (on_adapter (update_transport env w (send_started env w p m)) s1)))"

definition weixin_prepare_outbound ::
  "wx_env \<Rightarrow> wx_world \<Rightarrow> (string \<Rightarrow> string \<Rightarrow> string) \<Rightarrow> wx_files \<Rightarrow> weixin_config \<Rightarrow> send_inputs \<Rightarrow> outbound_message \<Rightarrow>
   send_state \<Rightarrow> (gateway_error + prepared_outbound option) \<times> send_state" where
  "weixin_prepare_outbound env w aes fs config si m s =
    (if \<not> should_send_native_attachment_reply m \<or> length (out_attachments m) \<noteq> 1 then (Inr None, s)
     else (case send_context env w config (out_chat_id m) (sn_adapter s) of
         (Inl e, x) \<Rightarrow> (Inl e, s\<lparr>sn_adapter := x\<rparr>)
       | (Inr (a, token), x) \<Rightarrow>
           let s1 = s\<lparr>sn_adapter := x\<rparr> in
           (case native_media_attachment_from_value env fs (hd (out_attachments m)) of
               Inl e \<Rightarrow> (Inl e, s1)
             | Inr attachment \<Rightarrow>
                 (case upload_attachment env aes fs config x (si_uploads si 0) attachment (out_chat_id m) of
                     (res, posts) \<Rightarrow> (rbind res (\<lambda>(media, item, fallback).
                       let key = or_else [] (Option.bind (oget (out_metadata m) ''delivery_item_key'') as_str);
                           stage = (if na_delivery_kind attachment = ''file'' then ''fallback'' else ''native'') in
                       Inr (Some \<lparr>provider_media_id = media,
                         provider_client_id = Some (stable_weixin_delivery_id env ''wxmsg'' (key @ ''|'' @ stage) 1),
                         prepared_state = jobj [(''message_item'', item), (''delivery_kind'', JStr (na_delivery_kind attachment)),
                           (''used_file_fallback'', JBool fallback)]\<rparr>)), waiting w s1 posts)))))"

definition weixin_send_prepared ::
  "wx_env \<Rightarrow> wx_world \<Rightarrow> (string \<Rightarrow> string \<Rightarrow> string) \<Rightarrow> wx_files \<Rightarrow> weixin_config \<Rightarrow> send_inputs \<Rightarrow> outbound_message \<Rightarrow>
   prepared_outbound option \<Rightarrow> send_state \<Rightarrow> (gateway_error + json) \<times> send_state" where
  "weixin_send_prepared env w aes fs config si m prepared s = (case prepared of
      None \<Rightarrow> weixin_send_outbound env w aes fs config si m s
    | Some p \<Rightarrow>
        let metadata = oput ''provider_media_state'' (prepared_state p) (out_metadata m);
            metadata = (case provider_client_id p of None \<Rightarrow> metadata | Some i \<Rightarrow> oput ''provider_client_id'' (JStr i) metadata) in
        (case weixin_send_outbound env w aes fs config si (m\<lparr>out_metadata := metadata\<rparr>) s of
            (Inl e, s1) \<Rightarrow> (Inl e, s1)
          | (Inr response, s1) \<Rightarrow> (Inr (case as_object response of
                None \<Rightarrow> response | Some object \<Rightarrow> JObj (oput ''provider_media_id'' (JStr (provider_media_id p)) object)), s1)))"

definition saturating_mul :: "nat \<Rightarrow> nat \<Rightarrow> nat" where
  "saturating_mul a b = min u64_max (a * b)"

definition weixin_claim_lease_seconds :: "weixin_config \<Rightarrow> nat" where
  "weixin_claim_lease_seconds config =
     saturating_add (saturating_mul (saturating_mul (wx_timeout_seconds config) (cdn_upload_max_retries + 2)) 2) 30"

definition weixin_profile :: json where
  "weixin_profile = jobj [(''adapter_name'', JStr ''weixin''), (''surface_family'', JStr ''weixin''), (''transport_mode'', JStr ''polling''),
     (''supports_mentions'', JBool False), (''supports_attachments'', JBool True), (''supports_replies'', JBool True),
     (''supports_updates'', JBool False), (''supports_live_receive'', JBool True)]"

end
