(* ===== verification/Weixin_Runtime.thy ===== *)
theory Weixin_Runtime
  imports Weixin_Send Gateway_Service
begin

text \<open>
  The Weixin loop of \<^verbatim>\<open>src/runtime.rs\<close>: drain the inbox through the gateway service, poll, store the batch, commit
  the cursor, drain again. One iteration of the endless loop is a function of what it meets.
\<close>

record runtime_state =
  rs_service :: service_state
  rs_weixin :: wx_adapter
  rs_backoff :: nat

text \<open>
  What the \<open>k\<close>-th message of a drain meets: the worlds of the claim, of the normalisation and of the completion, the
  world of the service, and what delivering the reply through the adapter does to it.
\<close>

record drain_inputs =
  di_claim :: "nat \<Rightarrow> wx_world"
  di_token :: "nat \<Rightarrow> string"
  di_normalize :: "nat \<Rightarrow> wx_world"
  di_service :: "nat \<Rightarrow> service_world"
  di_deliver :: "nat \<Rightarrow> wx_adapter \<Rightarrow> wx_adapter"
  di_finish :: "nat \<Rightarrow> wx_world"

datatype drain_end = Drained | ClaimFailed | ClaimUnusable | NotPersisted | Deferred | BoundReached | ProcessPanicked

definition error_text :: "gateway_error \<Rightarrow> string" where
  "error_text e = err_code e @ '': '' @ err_message e"

definition retryable_failure :: "gateway_error \<Rightarrow> bool" where
  "retryable_failure e \<longleftrightarrow> is_server_error (err_status e) \<or> err_status e \<in> {408, 429}"

text \<open>\<^verbatim>\<open>gateway.handle_inbound("weixin", payload)\<close>: the adapter normalises the update, the service does the rest.\<close>

definition handle_update ::
  "wx_env \<Rightarrow> weixin_config \<Rightarrow> service \<Rightarrow> wx_world \<Rightarrow> service_world \<Rightarrow> (wx_adapter \<Rightarrow> wx_adapter) \<Rightarrow> json \<Rightarrow> runtime_state \<Rightarrow>
   (gate_error + json) \<times> runtime_state" where
  "handle_update env config sv w wo delivers payload s =
    (case weixin_normalize_inbound env w config payload (rs_weixin s) of
        (normalized, x) \<Rightarrow> (case handle_inbound (sv\<lparr>se_normalize := (\<lambda>a v. normalized)\<rparr>) wo ''weixin'' payload (rs_service s) of
            (res, t) \<Rightarrow> (res, s\<lparr>rs_service := t, rs_weixin := (case normalized of Inl e \<Rightarrow> x | Inr m \<Rightarrow> delivers x)\<rparr>)))"

fun drain_loop ::
  "wx_env \<Rightarrow> weixin_config \<Rightarrow> service \<Rightarrow> drain_inputs \<Rightarrow> string \<Rightarrow> nat list \<Rightarrow> runtime_state \<Rightarrow> drain_end \<times> runtime_state" where
  "drain_loop env config sv di owner [] s = (BoundReached, s)"
| "drain_loop env config sv di owner (k # ks) s =
    (case claim_inbound env (di_claim di k) config owner (15 * 60) (di_token di k) (rs_weixin s) of
        (Inl (WxPanicked p), x) \<Rightarrow> (ProcessPanicked, s\<lparr>rs_weixin := x\<rparr>)
      | (Inl (WxFailed e), x) \<Rightarrow> (ClaimFailed, s\<lparr>rs_weixin := x\<rparr>)
      | (Inr None, x) \<Rightarrow> (Drained, s\<lparr>rs_weixin := x\<rparr>)
      | (Inr (Some claim), x) \<Rightarrow> (case (get_str claim ''inbox_id'', get_str claim ''claim_token'') of
            (Some inbox_id, Some token) \<Rightarrow>
              (case handle_update env config sv (di_normalize di k) (di_service di k) (di_deliver di k) (jindex claim ''payload'')
                  (s\<lparr>rs_weixin := x\<rparr>) of
                (Inl (Refused e), s1) \<Rightarrow>
                  let retryable = retryable_failure e;
                      s2 = s1\<lparr>rs_weixin := snd (finish_inbound env (di_finish di k) config inbox_id token False retryable
                        (Some (error_text e)) (rs_weixin s1))\<rparr> in
                  if retryable then (Deferred, s2) else drain_loop env config sv di owner ks s2
              | (Inl Panicked, s1) \<Rightarrow> (ProcessPanicked, s1)
              | (Inr response, s1) \<Rightarrow>
                  (case finish_inbound env (di_finish di k) config inbox_id token True False None (rs_weixin s1) of
                    (Inl e, y) \<Rightarrow> (NotPersisted, s1\<lparr>rs_weixin := y\<rparr>)
                  | (Inr u, y) \<Rightarrow> drain_loop env config sv di owner ks (s1\<lparr>rs_weixin := y\<rparr>)))
          | _ \<Rightarrow> (ClaimUnusable, s\<lparr>rs_weixin := x\<rparr>)))"

definition drain_weixin_inbox ::
  "wx_env \<Rightarrow> weixin_config \<Rightarrow> service \<Rightarrow> drain_inputs \<Rightarrow> string \<Rightarrow> runtime_state \<Rightarrow> drain_end \<times> runtime_state" where
  "drain_weixin_inbox env config sv di owner s = drain_loop env config sv di owner [0..<100] s"

text \<open>What one iteration meets: the worlds of its calls, the reply to the poll and the two drains.\<close>

record round_inputs =
  ri_configured :: wx_world
  ri_before :: drain_inputs
  ri_poll :: wx_world
  ri_reply :: wx_reply
  ri_persist :: wx_world
  ri_commit :: wx_world
  ri_after :: drain_inputs

text \<open>The batch is stored first; only then is the cursor committed.\<close>

definition commit_batch ::
  "wx_env \<Rightarrow> weixin_config \<Rightarrow> wx_world \<Rightarrow> wx_world \<Rightarrow> weixin_poll_batch \<Rightarrow> wx_adapter \<Rightarrow> (gateway_error + unit) \<times> wx_adapter" where
  "commit_batch env config w1 w2 batch s = (case persist_inbound_batch env w1 config (pb_updates batch) s of
      (Inl e, s1) \<Rightarrow> (Inl e, s1)
    | (Inr u, s1) \<Rightarrow> commit_poll_cursor env w2 config (pb_next_cursor batch) s1)"

text \<open>The result is the time to sleep, in seconds; a panic in a drain ends the thread.\<close>

definition backed_off :: "runtime_state \<Rightarrow> nat option \<times> runtime_state" where
  "backed_off s = (Some (min (rs_backoff s) 30), s\<lparr>rs_backoff := min (rs_backoff s * 2) 30\<rparr>)"

definition weixin_round ::
  "wx_env \<Rightarrow> weixin_config \<Rightarrow> service \<Rightarrow> round_inputs \<Rightarrow> string \<Rightarrow> runtime_state \<Rightarrow> nat option \<times> runtime_state" where
  "weixin_round env config sv ri owner s =
    (let x = refresh_account_from_disk env (ri_configured ri) config 0 (rs_weixin s); s1 = s\<lparr>rs_weixin := x\<rparr> in
     if \<not> account_configured (wxa_account x) then (Some 5, s1)
     else (case drain_weixin_inbox env config sv (ri_before ri) owner s1 of
         (ProcessPanicked, s2) \<Rightarrow> (None, s2)
       | (_, s2) \<Rightarrow> (case poll_updates env (ri_poll ri) config (ri_reply ri) (rs_weixin s2) of
           (Inl e, x) \<Rightarrow> backed_off (s2\<lparr>rs_weixin := x\<rparr>)
         | (Inr batch, x) \<Rightarrow> (case commit_batch env config (ri_persist ri) (ri_commit ri) batch x of
             (Inl e, y) \<Rightarrow> backed_off (s2\<lparr>rs_weixin := y\<rparr>)
           | (Inr u, y) \<Rightarrow>
               (case drain_weixin_inbox env config sv (ri_after ri) owner (s2\<lparr>rs_weixin := y, rs_backoff := 1\<rparr>) of
                   (ProcessPanicked, s3) \<Rightarrow> (None, s3) | (_, s3) \<Rightarrow> (Some 0, s3))))))"

end
