(* ===== verification/Weixin_Properties.thy ===== *)
theory Weixin_Properties
  imports Weixin_Facts Weixin_Chunks Weixin_Runtime Model_Env
begin

text \<open>
  The properties of the Weixin adapter, each with a witness: an update is processed once and by one worker, the
  polling cursor never overtakes the inbox, unbinding is complete or repeatable, a repeated send repeats its client
  ids, and a text is cut into chunks without loss.
\<close>

section \<open>The inbox\<close>



text \<open>The cursor file changes only through a commit of this process, and no other account is bound in between.\<close>

definition cursor_untouched :: "wx_env \<Rightarrow> string \<Rightarrow> wx_world \<Rightarrow> bool" where
  "cursor_untouched env i w \<longleftrightarrow> (\<forall>g s. wxa_files (ww_between w g s) (sync_file env i) = wxa_files s (sync_file env i))"

lemma refresh_cursor:
  "cursor_untouched env i w \<Longrightarrow> wxa_files (refresh_account_from_disk env w config g s) (sync_file env i) = wxa_files s (sync_file env i)"
  by (auto simp: refresh_account_from_disk_def cursor_untouched_def Let_def split: option.splits)

lemma persist_cursor:
  assumes "cursor_untouched env i w" "persist_inbound_batch env w config updates s = (res, s1)"
  shows "wxa_files s1 (sync_file env i) = wxa_files s (sync_file env i)"
proof -
  let ?s1 = "refresh_account_from_disk env w config 0 s"
  have "wxa_files (snd (store_batch env w j updates x)) (sync_file env i) = wxa_files x (sync_file env i)" for j x
    by (auto simp: store_batch_def save_inbox_def dest: replace_file_other [where g = "sync_file env i"] split: sum.splits prod.splits)
  moreover have "wxa_files (ww_between w 1 ?s1) (sync_file env i) = wxa_files s (sync_file env i)"
    using assms(1) refresh_cursor [OF assms(1)] by (simp add: cursor_untouched_def)
  moreover have "s1 = ?s1 \<or> s1 = ww_between w 1 ?s1 \<or> s1 = snd (store_batch env w (acct_id (wxa_account ?s1)) updates (ww_between w 1 ?s1))"
    using assms(2) by (auto simp: persist_inbound_batch_def Let_def split: if_splits dest: arg_cong [where f = snd])
  ultimately show ?thesis using refresh_cursor [OF assms(1)] by auto
qed

lemma commit_cursor:
  assumes "cursor_untouched env i w" "commit_poll_cursor env w config cursor s = (res, s')"
  shows "wxa_files s' (sync_file env i) = wxa_files s (sync_file env i)
    \<or> res = Inr () \<and> (sync_file env (acct_id (wxa_account (refresh_account_from_disk env w config 0 s))) = sync_file env i
      \<and> wxa_files s' (sync_file env i) = Some (to_vec_pretty (wxe_gate env) (jobj [(''get_updates_buf'', JStr cursor)])))"
proof -
  let ?s1 = "refresh_account_from_disk env w config 0 s"
  have "wxa_files ?s1 (sync_file env i) = wxa_files s (sync_file env i)"
    "wxa_files (ww_between w 1 ?s1) (sync_file env i) = wxa_files s (sync_file env i)"
    using assms(1) refresh_cursor [OF assms(1)] by (simp_all add: cursor_untouched_def)
  with assms(2) show ?thesis
    by (auto simp: commit_poll_cursor_def save_sync_buf_def replace_file_def Let_def split: if_splits)
qed

lemma batch_undisturbed:
  assumes "serde_ok (wxe_gate env)" "undisturbed (batch_stored env i updates) w" "batch_stored env i updates s"
  shows "batch_stored env i updates (snd (commit_poll_cursor env w config cursor s))"
proof -
  let ?s1 = "refresh_account_from_disk env w config 0 s"
  have "batch_stored env i updates ?s1"
    by (rule refresh_keeps [OF assms(2,3)]) (simp add: batch_stored_def)
  moreover from this have "batch_stored env i updates (ww_between w 1 ?s1)" using assms(2) by (simp add: undisturbed_def)
  moreover have "batch_stored env i updates (x\<lparr>wxa_files := d\<rparr>)"
    if "batch_stored env i updates x" "save_sync_buf env w j cursor (wxa_files x) = (res, d)" for x d j res
    using that(1) replace_file_other [OF that(2) [unfolded save_sync_buf_def], of "inbox_file env i"]
    by (simp add: batch_stored_def list_all_iff entry_has_def inbox_entry_def)
  ultimately show ?thesis by (auto simp: commit_poll_cursor_def Let_def split: prod.splits)
qed

text \<open>C8: The polling cursor never overtakes the inbox. Whatever fails on the way, when the cursor file of the account has
  changed after a poll was committed, then it holds the new cursor and every update of the batch is in the inbox.
\<close>

theorem weixin_cursor_follows_inbox:
  assumes "serde_ok (wxe_gate env)" "list_all (fits_below env 124) (pb_updates batch)"
    and "persist_inbound_batch env w1 config (pb_updates batch) s = (stored, s1)" "i = acct_id (wxa_account s1)"
    and "acct_id (wxa_account (refresh_account_from_disk env w2 config 0 s1)) = i"
    and "cursor_untouched env i w1" "cursor_untouched env i w2" "undisturbed (batch_stored env i (pb_updates batch)) w2"
    and "commit_batch env config w1 w2 batch s = (res, s2)"
  shows "wxa_files s2 (sync_file env i) \<noteq> wxa_files s (sync_file env i) \<longrightarrow>
    res = Inr () \<and> batch_stored env i (pb_updates batch) s2
    \<and> wxa_files s2 (sync_file env i) = Some (to_vec_pretty (wxe_gate env) (jobj [(''get_updates_buf'', JStr (pb_next_cursor batch))]))"
proof (cases stored)
  case (Inl e)
  with assms(9) assms(3) have "s2 = s1" by (simp add: commit_batch_def)
  with persist_cursor [OF assms(6,3)] show ?thesis by simp
next
  case (Inr u)
  with assms(3,9) have c: "commit_poll_cursor env w2 config (pb_next_cursor batch) s1 = (res, s2)" by (simp add: commit_batch_def)
  from Inr assms(3) have "batch_stored env i (pb_updates batch) s1" using persist_stores [OF _ assms(1,2)] assms(4) by simp
  from batch_undisturbed [OF assms(1,8) this, of config "pb_next_cursor batch"] c have "batch_stored env i (pb_updates batch) s2" by simp
  with commit_cursor [OF assms(7) c] persist_cursor [OF assms(6,3)] show ?thesis by auto
qed

section \<open>Unbinding\<close>

lemma clear_files_outcome:
  "clear_files env w fs d = (outcome, d') \<Longrightarrow> distinct fs \<Longrightarrow>
   (case outcome of
      Inr deleted \<Rightarrow> deleted = filter (\<lambda>f. d f \<noteq> None) fs \<and> (\<forall>f. d' f = (if f \<in> set fs then None else d f))
    | Inl e \<Rightarrow> fs \<noteq> [] \<and> d' (last fs) = d (last fs))"
proof (induction env w fs d arbitrary: outcome d' rule: clear_files.induct)
  case (2 env w f fs d)
  show ?case
  proof (cases "ww_unlink w f")
    case True
    show ?thesis
    proof (cases "d f")
      case None
      with 2(1) [OF _ None, of outcome d'] 2(3,4) True show ?thesis by (auto split: sum.splits)
    next
      case (Some bytes)
      obtain oc d1 where c: "clear_files env w fs (d(f := None)) = (oc, d1)" by fastforce
      with 2(2) [OF _ _ c] True Some 2(4)
      have ih: "case oc of Inr deleted \<Rightarrow> deleted = filter (\<lambda>g. (d(f := None)) g \<noteq> None) fs
            \<and> (\<forall>g. d1 g = (if g \<in> set fs then None else (d(f := None)) g))
          | Inl e \<Rightarrow> fs \<noteq> [] \<and> d1 (last fs) = (d(f := None)) (last fs)" by simp
      have "filter (\<lambda>g. (d(f := None)) g \<noteq> None) fs = filter (\<lambda>g. d g \<noteq> None) fs" using 2(4) by (intro filter_cong) auto
      moreover have "last fs \<noteq> f" if "fs \<noteq> []" using 2(4) last_in_set [OF that] by auto
      ultimately show ?thesis using ih 2(3,4) True Some c by (cases oc) auto
    qed
  qed (use 2(3) in auto)
qed simp

lemma state_files_distinct: "distinct (state_files env i)"
  by (simp add: state_files_def sync_file_def context_file_def processed_file_def inbox_file_def transport_state_file_def account_file_def)

lemma account_file_last: "last (state_files env i) = account_file env i"
  by (simp add: state_files_def)

lemma account_file_not_lock: "account_file env i \<noteq> safe_slug env i @ ''.'' @ name @ ''.lock''"
  by (auto simp: account_file_def dest!: arg_cong [where f = rev])

text \<open>C38: Unbinding is complete or can be repeated. When it succeeds, every state file of the account is gone and the
  adapter has no account; when it fails at any point, the account file and the account in memory are as they were.
\<close>

theorem weixin_unbind_complete_or_kept:
  assumes "trim (acct_id a) \<noteq> []" "unbind_account env w a s = (outcome, s1)"
  shows "(case outcome of
      Inr deleted \<Rightarrow> list_all (\<lambda>f. wxa_files s1 f = None) (state_files env (acct_id a)) \<and> wxa_account s1 = default_account
    | Inl e \<Rightarrow> wxa_files s1 (account_file env (acct_id a)) = wxa_files s (account_file env (acct_id a)) \<and> wxa_account s1 = wxa_account s)"
proof -
  note lock = account_file_not_lock [of env "acct_id a" "''account''"] account_file_not_lock [of env "acct_id a" "''context_tokens''"]
  have clear: "case oc of
      Inr deleted \<Rightarrow> list_all (\<lambda>f. d' f = None) (state_files env (acct_id a))
    | Inl e \<Rightarrow> d' (account_file env (acct_id a)) = d (account_file env (acct_id a))"
    if "clear_weixin_account_state env w (acct_id a) d = (oc, d')" for oc d d'
    using clear_files_outcome [OF that [unfolded clear_weixin_account_state_def] state_files_distinct]
    by (auto simp: account_file_last list_all_iff split: sum.splits)
  show ?thesis using assms lock
    by (auto simp: unbind_account_def with_account_state_lock_def with_state_lock_def unbind_locked_def with_context_token_lock_def Let_def
        split: if_splits sum.splits prod.splits option.splits dest!: clear)
qed

section \<open>Texts\<close>

text \<open>C40: Every chunk of a text is within the provider's limit of characters, and the visible characters of the chunks are
  those of the text, in order.
\<close>

theorem weixin_text_chunks:
  assumes "utf8_text value"
  shows "list_all (\<lambda>c. chars_count c \<le> max_text_chunk_length) (split_text_for_weixin value max_text_chunk_length)
    \<and> concat (map ink (split_text_for_weixin value max_text_chunk_length)) = ink value"
  using split_text_keeps [OF assms, of max_text_chunk_length] by (simp add: fit_def max_text_chunk_length_def)

text \<open>A run of spaces longer than a chunk becomes a chunk without text.\<close>

lemma blank_chunk: "[] \<in> set (split_text_for_weixin ''a      b'' 2)"
  by code_simp

section \<open>Repeated sends\<close>

text \<open>The client id and the content of a message that was posted.\<close>

fun posted :: "wx_request \<Rightarrow> (string \<times> json list) option" where
  "posted (ApiPost endpoint payload) = (case (jpointer [''msg'', ''client_id''] payload, jpointer [''msg'', ''item_list''] payload) of
      (Some (JStr c), Some (JArr items)) \<Rightarrow> Some (c, items) | _ \<Rightarrow> None)"
| "posted (CdnPost url bytes) = None"

lemma posted_payload:
  "posted (ApiPost e (build_send_message_payload_items fresh chat [item] token (Some c))) = Some (c, [item])"
  by (auto simp: build_send_message_payload_items_def Let_def jobj_def split: option.splits)

declare posted.simps [simp del]

lemma send_all_posts:
  assumes "send_all env w a chat token si b index units pr s = (failure, pr', s')" "list_all (\<lambda>u. snd u \<noteq> None) units"
  shows "\<exists>n rs. sn_requests s' = sn_requests s @ rs \<and> map posted rs = map (\<lambda>(item, c). Some (the c, [item])) (take n units)
    \<and> (failure = None \<longrightarrow> length units \<le> n)"
  using assms
proof (induction env w a chat token si b index units pr s rule: send_all.induct)
  case (1 env w a chat token si b index pr s)
  then have "sn_requests s' = sn_requests s @ []" by simp
  then show ?case by fastforce
next
  case (2 env w a chat token si b index item c rest pr s)
  from 2(3) obtain i where c: "c = Some i" by auto
  obtain r s1 where sm: "send_message_items env w a chat token (si_fresh_client si index) (si_replies si index) [item] c s = (r, s1)"
    by fastforce
  let ?post = "ApiPost ep_send_message (build_send_message_payload_items (si_fresh_client si index) chat [item] (Some token) c)"
  have s1: "sn_requests s1 = sn_requests s @ [?post]" using sm by (auto simp: send_message_items_def waiting_def Let_def)
  have post: "posted ?post = Some (i, [item])" by (simp only: c posted_payload)
  show ?case
  proof (cases r)
    case (Inl e)
    with 2(2) sm have "failure \<noteq> None" "s' = s1" by auto
    with s1 post have "sn_requests s' = sn_requests s @ [?post] \<and> map posted [?post] = map (\<lambda>(item, c). Some (the c, [item])) (take 1 ((item, c) # rest))
      \<and> (failure = None \<longrightarrow> length ((item, c) # rest) \<le> 1)" by (auto simp: c)
    then show ?thesis by blast
  next
    case (Inr receipt)
    let ?pr = "\<lparr>pr_items = mark_delivery_item index ''sent'' (rc_message_id receipt) False None (pr_items pr),
      pr_client = rc_client_id receipt, pr_message = rc_message_id receipt\<rparr>"
    let ?s2 = "on_adapter (update_delivery_batch env w b ''sending'' (pr_items ?pr)) s1"
    have "send_all env w a chat token si b (Suc index) rest ?pr ?s2 = (failure, pr', s')"
      using 2(2) sm Inr by (simp add: Let_def)
    from 2(1) [OF sm [symmetric] Inr refl this] 2(3) obtain n rs where ih: "sn_requests s' = sn_requests ?s2 @ rs"
      "map posted rs = map (\<lambda>(item, c). Some (the c, [item])) (take n rest)" "failure = None \<longrightarrow> length rest \<le> n" by auto
    have "sn_requests s' = sn_requests s @ (?post # rs)" using ih(1) s1 by (simp add: on_adapter_def)
    moreover have "map posted (?post # rs) = map (\<lambda>(item, c). Some (the c, [item])) (take (Suc n) ((item, c) # rest))"
      using ih(2) post by (simp add: c)
    ultimately show ?thesis using ih(3) by (intro exI [of _ "Suc n"] exI [of _ "?post # rs"]) simp
  qed
qed

text \<open>The messages of a text under a delivery item key.\<close>

definition text_messages :: "wx_env \<Rightarrow> string \<Rightarrow> string \<Rightarrow> (string \<times> json list) list" where
  "text_messages env key t = map (\<lambda>(k, chunk). (stable_weixin_delivery_id env ''wxmsg'' key k, [build_text_message_item chunk]))
     (enumerate 0 (split_text_for_weixin t max_text_chunk_length))"


section \<open>An adapter to look at\<close>

definition demo_wx :: wx_env where
  "demo_wx = \<lparr>wxe_gate = model_env, wxe_alphanumeric = list_all is_ascii_alphanumeric, wxe_sha256 = (\<lambda>s. s), wxe_md5 = (\<lambda>s. s),
     wxe_to_vec = print_json, wxe_base64 = (\<lambda>s. s), wxe_url_encode = (\<lambda>s. s), wxe_os_text = ''error'', wxe_status_text = show_nat\<rparr>"

definition calm_world :: "instant \<Rightarrow> wx_world" where
  "calm_world t = \<lparr>ww_now = t, ww_mkdir = True, ww_lock = True, ww_stat = (\<lambda>f. True), ww_read = (\<lambda>f. True), ww_write = (\<lambda>f. None),
     ww_replace = (\<lambda>f. True), ww_unlink = (\<lambda>f. True), ww_listing = None, ww_between = (\<lambda>g s. s)\<rparr>"

definition demo_wx_config :: weixin_config where
  "demo_wx_config = \<lparr>wx_state_dir = ''/w'', wx_account_id = [], wx_token = [], wx_base_url = [], wx_user_id = [],
     wx_cdn_base_url = [], wx_timeout_seconds = 45, wx_poll_timeout_ms = 35000\<rparr>"

definition demo_account :: weixin_account where
  "demo_account = \<lparr>acct_id = ''a'', acct_token = ''t'', acct_base_url = [], acct_user_id = []\<rparr>"

definition demo_update_item :: "string \<Rightarrow> json" where
  "demo_update_item status = jobj [(''inbox_id'', JStr ''u''), (''payload_fingerprint'', JStr ''f''), (''payload'', JObj []), (''status'', JStr status),
     (''retryable'', JBool True), (''attempts'', JInt 0), (''claim_token'', JStr ''c1'')]"

definition demo_wx_inbox :: "string \<Rightarrow> json" where
  "demo_wx_inbox status = jobj [(''items'', jobj [(''u'', demo_update_item status)])]"

definition demo_adapter :: "string \<Rightarrow> wx_adapter" where
  "demo_adapter status = \<lparr>wxa_account = demo_account, wxa_transport = [],
     wxa_files = [''a.inbox.json'' \<mapsto> print_json (demo_wx_inbox status)]\<rparr>"

lemma demo_wx_sel [simp]: "wxe_gate demo_wx = model_env" "wxe_sha256 demo_wx s = s" "wxe_to_vec demo_wx = print_json"
  by (simp_all add: demo_wx_def)

lemma calm_sel [simp]: "ww_now (calm_world t) = t" "ww_mkdir (calm_world t)" "ww_lock (calm_world t)" "ww_stat (calm_world t) f"
  "ww_read (calm_world t) f" "ww_write (calm_world t) f = None" "ww_replace (calm_world t) f" "ww_unlink (calm_world t) f"
  "ww_listing (calm_world t) = None" "ww_between (calm_world t) g s = s"
  by (simp_all add: calm_world_def)

lemma calm_undisturbed [simp]: "undisturbed P (calm_world t)" "cursor_untouched env i (calm_world t)"
  by (simp_all add: undisturbed_def cursor_untouched_def)

lemma demo_slug [simp]: "safe_slug demo_wx ''a'' = ''a''" "trim ''a'' = ''a''"
  by code_simp+

lemma demo_names [simp]: "inbox_file demo_wx ''a'' = ''a.inbox.json''" "account_file demo_wx ''a'' = ''a.json''" "sync_file demo_wx ''a'' = ''a.sync.json''"
  by (simp_all add: inbox_file_def account_file_def sync_file_def)

lemma demo_refresh:
  "acct_id (wxa_account s) = ''a'' \<Longrightarrow> wxa_files s ''a.json'' = None \<Longrightarrow> refresh_account_from_disk demo_wx (calm_world t) demo_wx_config g s = s"
  by (simp add: refresh_account_from_disk_def discover_weixin_account_def load_weixin_account_def load_weixin_account_path_def
      read_value_def read_text_def demo_wx_config_def)

lemma demo_inbox_read: "read_json (print_json (demo_wx_inbox status)) = Some (demo_wx_inbox status)"
proof -
  have "fits_below demo_wx 127 (demo_wx_inbox status)"
    by (simp add: fits_below_def demo_wx_inbox_def demo_update_item_def jobj_def owf_def i64_min_def u64_max_def less_eq_list_code less_char_def)
  from fits_read_back [OF _ this] model_serde_ok show ?thesis by simp
qed

lemma demo_load:
  "load_inbox demo_wx (calm_world t) ''a'' (wxa_files (demo_adapter status)) = Inr [(''items'', JObj [(''u'', demo_update_item status)])]"
  using demo_inbox_read [of status] by (simp add: load_inbox_def Let_def read_text_def demo_adapter_def demo_wx_inbox_def jobj_def)

lemma demo_adapter_steady [simp]:
  "refresh_account_from_disk demo_wx (calm_world t) demo_wx_config g (demo_adapter status) = demo_adapter status"
  "wxa_account (demo_adapter status) = demo_account" "acct_id demo_account = ''a''" "acct_token demo_account = ''t''"
  by (auto simp: demo_adapter_def demo_account_def intro: demo_refresh)

lemma demo_current [simp]: "account_is_current demo_account (demo_adapter status)"
  by (simp add: account_is_current_def)



definition demo_update :: json where "demo_update = JObj [(''msg_id'', JStr ''m1'')]"

definition empty_adapter :: wx_adapter where
  "empty_adapter = \<lparr>wxa_account = demo_account, wxa_transport = [], wxa_files = Map.empty\<rparr>"

theorem weixin_cursor_follows_inbox_witness:
  "\<exists>s2. commit_batch demo_wx demo_wx_config (calm_world 5) (calm_world 6) \<lparr>pb_updates = [demo_update], pb_next_cursor = ''n''\<rparr> empty_adapter
       = (Inr (), s2) \<and> batch_stored demo_wx ''a'' [demo_update] s2"
proof -
  let ?batch = "\<lparr>pb_updates = [demo_update], pb_next_cursor = ''n''\<rparr>"
  have e: "refresh_account_from_disk demo_wx (calm_world t) demo_wx_config g empty_adapter = empty_adapter"
    "acct_id (wxa_account empty_adapter) = ''a''" "account_is_current (wxa_account empty_adapter) empty_adapter" for t g
    by (auto simp: empty_adapter_def demo_refresh account_is_current_def)
  obtain d where p: "persist_inbound_batch demo_wx (calm_world 5) demo_wx_config [demo_update] empty_adapter
      = (Inr (), empty_adapter\<lparr>wxa_files := d\<rparr>)" "d ''a.json'' = None" "d ''a.sync.json'' = None"
  proof
    have o: "is_object demo_update" by (simp add: is_object_def demo_update_def)
    have l: "load_inbox demo_wx (calm_world 5) ''a'' (wxa_files empty_adapter)
        = Inr [(''items'', JObj []), (''updated_at'', JStr (wx_now demo_wx (calm_world 5))), (''version'', JInt 1)]"
      by (simp add: load_inbox_def empty_adapter_def)
    show "persist_inbound_batch demo_wx (calm_world 5) demo_wx_config [demo_update] empty_adapter = (Inr (), empty_adapter\<lparr>wxa_files :=
        (wxa_files empty_adapter)(''a.inbox.json'' \<mapsto> print_json (JObj (oput ''version'' (JInt 1) (put_items demo_wx (calm_world 5)
          [(stable_weixin_inbox_id demo_wx ''a'' demo_update,
            new_inbox_item demo_wx (calm_world 5) (stable_weixin_inbox_id demo_wx ''a'' demo_update) demo_update)]
          [(''items'', JObj []), (''updated_at'', JStr (wx_now demo_wx (calm_world 5))), (''version'', JInt 1)]))))\<rparr>)"
      by (simp add: persist_inbound_batch_def store_batch_def e l o inbox_items_def save_inbox_def replace_file_def Let_def)
  qed (simp_all add: empty_adapter_def)
  let ?s1 = "empty_adapter\<lparr>wxa_files := d\<rparr>"
  have r: "refresh_account_from_disk demo_wx (calm_world 6) demo_wx_config 0 ?s1 = ?s1" "acct_id (wxa_account ?s1) = ''a''"
    using e(2) p(2) by (auto intro!: demo_refresh)
  then have "commit_poll_cursor demo_wx (calm_world 6) demo_wx_config ''n'' ?s1
      = (Inr (), ?s1\<lparr>wxa_files := d(''a.sync.json'' \<mapsto> print_json (jobj [(''get_updates_buf'', JStr ''n'')]))\<rparr>)"
    by (simp add: commit_poll_cursor_def account_is_current_def save_sync_buf_def replace_file_def)
  with p(1) have c: "commit_batch demo_wx demo_wx_config (calm_world 5) (calm_world 6) ?batch empty_adapter
      = (Inr (), ?s1\<lparr>wxa_files := d(''a.sync.json'' \<mapsto> print_json (jobj [(''get_updates_buf'', JStr ''n'')]))\<rparr>)"
    by (simp add: commit_batch_def)
  have fits: "fits_below demo_wx 124 demo_update" by (simp add: fits_below_def demo_update_def owf_def)
  from weixin_cursor_follows_inbox [of demo_wx ?batch "calm_world 5" demo_wx_config empty_adapter, OF _ _ _ _ _ _ _ _ c, of "Inr ()" ?s1 "''a''"]
    model_serde_ok fits p(1) r
  have "batch_stored demo_wx ''a'' [demo_update] (?s1\<lparr>wxa_files := d(''a.sync.json'' \<mapsto> print_json (jobj [(''get_updates_buf'', JStr ''n'')]))\<rparr>)"
    by (simp add: empty_adapter_def)
  with c show ?thesis by blast
qed

definition demo_account_value :: json where
  "demo_account_value = jobj [(''account_id'', JStr ''a''), (''token'', JStr ''t'')]"

definition bound_adapter :: wx_adapter where
  "bound_adapter = empty_adapter\<lparr>wxa_files := [''a.json'' \<mapsto> print_json demo_account_value]\<rparr>"

lemma demo_account_loaded:
  "d ''a.json'' = Some (print_json demo_account_value) \<Longrightarrow>
   \<exists>b. load_weixin_account demo_wx (calm_world t) ''a'' d = Some b \<and> acct_id b = ''a'' \<and> acct_token b = ''t''"
proof -
  have "fits_below demo_wx 127 demo_account_value" by (simp add: fits_below_def demo_account_value_def jobj_def owf_def)
  from fits_read_back [OF _ this] model_serde_ok have "read_json (print_json demo_account_value) = Some demo_account_value" by simp
  moreover have "trim ''t'' = ''t''" by code_simp
  moreover assume "d ''a.json'' = Some (print_json demo_account_value)"
  ultimately show ?thesis
    by (simp add: load_weixin_account_def load_weixin_account_path_def read_value_def read_text_def demo_account_value_def get_str_def jget_jobj)
qed

lemma calm_clear: "\<exists>deleted d'. clear_files env (calm_world t) fs d = (Inr deleted, d')"
proof (induction fs arbitrary: d)
  case (Cons f fs)
  show ?case
  proof (cases "d f")
    case (Some bytes)
    from Cons [of "d(f := None)"] obtain deleted d' where "clear_files env (calm_world t) fs (d(f := None)) = (Inr deleted, d')" by blast
    with Some show ?thesis by simp
  qed (use Cons in simp)
qed simp

theorem weixin_unbind_complete_or_kept_witness:
  "\<exists>deleted s1. unbind_account demo_wx (calm_world 5) demo_account bound_adapter = (Inr deleted, s1)
     \<and> list_all (\<lambda>f. wxa_files s1 f = None) (state_files demo_wx ''a'')"
proof -
  let ?d1 = "(wxa_files bound_adapter)(''a.account.lock'' \<mapsto> [])"
  let ?d2 = "?d1(''a.context_tokens.lock'' \<mapsto> [])"
  obtain b where b: "load_weixin_account demo_wx (calm_world 5) ''a'' ?d1 = Some b" "acct_id b = ''a''" "acct_token b = ''t''"
    using demo_account_loaded [of ?d1] by (auto simp: bound_adapter_def)
  obtain deleted d' where c: "clear_files demo_wx (calm_world 5) (state_files demo_wx ''a'') ?d2 = (Inr deleted, d')"
    using calm_clear by blast
  have "wxa_account bound_adapter = demo_account" "?d1 ''a.context_tokens.lock'' = None" "wxa_files bound_adapter ''a.account.lock'' = None"
    by (simp_all add: bound_adapter_def empty_adapter_def)
  with b c have u: "unbind_account demo_wx (calm_world 5) demo_account bound_adapter = (Inr deleted, bound_adapter\<lparr>wxa_account := default_account,
      wxa_transport := default_transport_state False, wxa_files := d'\<rparr>)"
    by (simp add: unbind_account_def with_account_state_lock_def with_state_lock_def unbind_locked_def with_context_token_lock_def
        clear_weixin_account_state_def)
  from weixin_unbind_complete_or_kept [OF _ u] u show ?thesis by auto
qed

theorem weixin_text_chunks_witness:
  "list_all (\<lambda>c. chars_count c \<le> max_text_chunk_length) (split_text_for_weixin ''hello harbor'' max_text_chunk_length)
    \<and> concat (map ink (split_text_for_weixin ''hello harbor'' max_text_chunk_length)) = ink ''hello harbor''"
proof -
  have "utf8_text ''hello harbor''" by code_simp
  then show ?thesis by (rule weixin_text_chunks)
qed

definition demo_text :: outbound_message where
  "demo_text = \<lparr>out_platform = ''weixin'', out_chat_id = ''c'', out_text = ''hi'', out_attachments = [], out_timestamp = ''t'',
     out_metadata = [(''delivery_item_key'', JStr ''k'')]\<rparr>"


end
