(* ===== verification/Spec2Isabelle.thy ===== *)
theory Spec2Isabelle
  imports Store_Properties Device_Properties Fleet_Properties WhatsApp_Properties Config_Properties Gateway_Properties Media_Properties Service_Properties Weixin_Properties
begin

text \<open>
  HarborGate, the message gateway between chat platforms and HarborBeacon (Rust, \<^verbatim>\<open>src/src/\<close>).

  The program. A platform adapter (\<^verbatim>\<open>adapters/\<close>) turns a platform's message into an inbound message. The
  gateway service (\<^verbatim>\<open>gateway.rs\<close>) submits it as a turn to HarborBeacon (\<^verbatim>\<open>harborbeacon.rs\<close>), directly or
  through the signed cloud relay (\<^verbatim>\<open>cloud_relay.rs\<close>) of the Navi device that serves the phone
  (\<^verbatim>\<open>navi_fleet.rs\<close>), and delivers the reply through the adapter. A delivery is a plan of items in a file
  shared by all processes (\<^verbatim>\<open>store.rs\<close>): every item is claimed under a lease with a token, sent, and completed;
  attachments are downloaded into a cache first. Notifications of HarborBeacon or of a device use the same
  deliveries. Device sessions (\<^verbatim>\<open>device_session.rs\<close>), HarborOS administrators (\<^verbatim>\<open>harboros_auth.rs\<close>) and the
  configuration (\<^verbatim>\<open>config.rs\<close>) stand beside this.

  How it is modelled. Results are sums (\<open>Inl\<close> the error), \<open>rbind\<close> is the question mark operator. A directory is a
  map from file names to bytes; an operation takes the directory and returns the new one, and a record of
  Booleans (\<open>io\<close>, \<open>fleet_io\<close>, ...) says which system calls succeed, so every I/O error is a branch. Clocks,
  identifiers, answers of other hosts and what other processes do to the shared files in between are
  arguments. Rust's strings are lists of bytes; \<open>i64\<close> and \<open>u64\<close> are integers with their range written out; the
  constant-time comparison works on 8-bit words. Code that is not part of the repository (\<^verbatim>\<open>serde_json\<close>'s
  text format, \<^verbatim>\<open>chrono\<close>'s text format, SHA-256, HMAC, base64, URL parsing) is a field of an environment
  record; what is relied on are the predicates \<open>serde_ok\<close>, \<open>chrono_ok\<close> and their like, and the witnesses
  instantiate them with the executable functions of \<open>Model_Env\<close>.

  The theories.

  \<^item> \<open>Gate_Prelude\<close>, \<open>Json_Value\<close>, \<open>Std_Text\<close>, \<open>Gate_Error\<close>, \<open>Messages\<close>: results, byte strings, JSON values
  (\<open>ordered_map\<close> is the contract of JSON objects), \<^verbatim>\<open>error.rs\<close> and \<^verbatim>\<open>models.rs\<close>.
  \<^item> \<open>Durable_State\<close>: lock, load, change, replace. The locale \<open>durable_write\<close> and its extension \<open>durable_state\<close>
  give once what every such store needs (a failed operation leaves the old state, a successful one stores the
  new state); they are interpreted for the shared files, the sessions, the device sessions and the route directory.
  \<^item> \<open>File_Store\<close>, \<open>Session_Store\<close>, \<open>Delivery_Ledger\<close>: \<^verbatim>\<open>FileSessionStore\<close> of \<^verbatim>\<open>store.rs\<close>.
  \<open>Delivery_Safety\<close> has the step relation \<open>item_step\<close> and the locale \<open>fenced_lease\<close>, interpreted for items and
  for materializations; \<open>Delivery_Wellformed\<close> the type invariant and the refinement of the ledger by the disk;
  \<open>Store_Properties\<close> the properties.
  \<^item> \<open>Device_Session\<close>, \<open>Device_Properties\<close>: \<^verbatim>\<open>device_session.rs\<close>.
  \<^item> \<open>Cloud_Relay\<close>, \<open>Navi_Fleet\<close>, \<open>Fleet_Properties\<close>: \<^verbatim>\<open>cloud_relay.rs\<close> and \<^verbatim>\<open>navi_fleet.rs\<close>.
  \<^item> \<open>WhatsApp_Adapter\<close>, \<open>WhatsApp_Inbox\<close>, \<open>WhatsApp_Properties\<close>: \<^verbatim>\<open>adapters/mod.rs\<close>, \<^verbatim>\<open>webhook.rs\<close> and
  \<^verbatim>\<open>whatsapp.rs\<close>. \<open>platform_adapter\<close> is the contract of an adapter; \<open>entry_invariant\<close> carries a statement about
  one inbox file through any sequence of operations.
  \<^item> \<open>Harboros_Auth\<close>, \<open>App_Config\<close>, \<open>Config_Properties\<close>: \<^verbatim>\<open>harboros_auth.rs\<close> and \<^verbatim>\<open>config.rs\<close>.
  \<^item> \<open>Beacon_Client\<close>, \<open>Media_Cache\<close>, \<open>Media_Download\<close>, \<open>Media_Facts\<close>, \<open>Media_Properties\<close>: \<^verbatim>\<open>harborbeacon.rs\<close>
  and the attachment cache of \<^verbatim>\<open>gateway.rs\<close>.
  \<^item> \<open>Gateway_Content\<close>, \<open>Gateway_Delivery\<close>: what \<^verbatim>\<open>gateway.rs\<close> computes on messages, and its delivery engine as a
  state-passing program whose trace lists what was sent. \<open>Gateway_Engine\<close> has the locale \<open>engine_relation\<close> (a
  relation on states that every elementary step keeps is kept by a whole delivery) and its interpretations;
  \<open>Gateway_Properties\<close> the properties.
  \<^item> \<open>Gateway_Service\<close>, \<open>Service_Facts\<close>, \<open>Service_Properties\<close>: \<^verbatim>\<open>GatewayService\<close> itself.
  \<^item> \<open>Weixin_Text\<close>, \<open>Weixin_State\<close>, \<open>Weixin_Inbox\<close>, \<open>Weixin_Adapter\<close>, \<open>Weixin_Send\<close>: \<^verbatim>\<open>adapters/weixin.rs\<close>, its texts and
  message items, its account files, its durable inbox, its calls to the provider and its sending;
  \<open>Weixin_Runtime\<close>: the Weixin loop of \<^verbatim>\<open>runtime.rs\<close>, which drives the adapter and the service.
  \<open>Weixin_Chunks\<close> has the facts about the chunks of a text, \<open>Weixin_Facts\<close> the locale \<open>inbox_item_invariant\<close> (a
  statement about one inbox item that claims and completions keep is kept by every run of operations) with its
  interpretations for tombstones, identities and leases; \<open>Weixin_Properties\<close> the properties. What other threads and
  processes do between the critical sections of an operation is the field \<open>ww_between\<close> of its world.

  What is shown. Store: a delivered item stays delivered, a lease is exclusive until it expires, a stale token
  changes nothing, the operations on disk refine those on the ledger. Deliveries: an accepted delivery is
  recorded, a repeated one sends nothing, a delivered item is never sent again, no WhatsApp message is sent that
  the selected device did not allow. Media: a remote file is exactly the device's, a batch is complete or removed,
  start-up removes no file that is still needed. Device sessions: codes work once, revocation is final. Fleet: a
  selection needs the owner's proof, a relayed result belongs to the pinned device, retries are transparent. Inbox:
  a settled message is not processed again, a claim is exclusive, no message starves. Weixin: the same for its inbox,
  except for starvation, the polling cursor never overtakes the inbox, unbinding is complete or repeatable, a repeated
  send repeats its client ids, and a text is cut without loss. The rest is in the text above each theorem.

  Bounds. Loops over data are structural. A loop that polls or downloads takes the list of what its rounds meet,
  and the end of the list is its deadline; 2731 exchanges of at least 48 KiB are enough for the largest media file
  (128 MiB, \<open>remote_media_complete\<close>), and retries end by the attempt limits that the code has.

  Updates of a Weixin batch nest at most 124 levels, so that the inbox file around them can be read back (serde\_json
  reads 127). A drain of the inbox is bounded by 100 messages, as in the code.

  Not modelled. The platform protocol of Feishu with its websocket loop, the Feishu mail sender, the HTTP routes and the
  set-up pages, the command line and the spawning of tasks: glue to external services, HTML and process start-up. The
  HTTP headers of the Weixin calls are left out; AES and the hashes are parameters. After a panic nothing is modelled.
  The gateway reaches an adapter through \<open>se_normalize\<close> and the sender of its world, which are arguments.
\<close>

end
